(* ===== verification/Prelude.thy ===== *)
theory Prelude
  imports Main "HOL-Library.Word" "HOL-Library.Sublist"
begin

section \<open>Prelude: collections, machine integers, generic lemmas\<close>

text \<open>
  What every component shares: the collection of frame rules that the
  component proofs use, the wrap-around of Go's signed integers and the saturating subtraction of its
  clock readings, and a few facts on lists that the standard library lacks.

  Go's \<^verbatim>\<open>int32\<close>, \<^verbatim>\<open>int64\<close>, \<^verbatim>\<open>int\<close> and \<^verbatim>\<open>time.Duration\<close> are modelled as \<^typ>\<open>int\<close>
  with the wrap-around written out at every operation that can leave the range.
\<close>

named_theorems frame
  \<open>what an operation leaves unchanged: one equation per operation and untouched field\<close>

subsection \<open>Signed integers of a fixed width\<close>

definition wrap32 :: "int \<Rightarrow> int" where
  "wrap32 x = (x + 2 ^ 31) mod 2 ^ 32 - 2 ^ 31"

definition wrap64 :: "int \<Rightarrow> int" where
  "wrap64 x = (x + 2 ^ 63) mod 2 ^ 64 - 2 ^ 63"

definition int32_range :: "int \<Rightarrow> bool" where
  "int32_range x \<longleftrightarrow> - (2 ^ 31) \<le> x \<and> x < 2 ^ 31"

definition int64_range :: "int \<Rightarrow> bool" where
  "int64_range x \<longleftrightarrow> - (2 ^ 63) \<le> x \<and> x < 2 ^ 63"

text \<open>\<^verbatim>\<open>time.Time.Sub\<close> saturates instead of wrapping.\<close>

definition sat64 :: "int \<Rightarrow> int" where
  "sat64 x = max (- (2 ^ 63)) (min (2 ^ 63 - 1) x)"

lemma wrap32_range: "int32_range (wrap32 x)"
  using pos_mod_bound [of "2 ^ 32 :: int" "x + 2 ^ 31"] pos_mod_sign [of "2 ^ 32 :: int" "x + 2 ^ 31"]
  by (simp add: int32_range_def wrap32_def)

lemma wrap64_range: "int64_range (wrap64 x)"
  using pos_mod_bound [of "2 ^ 64 :: int" "x + 2 ^ 63"] pos_mod_sign [of "2 ^ 64 :: int" "x + 2 ^ 63"]
  by (simp add: int64_range_def wrap64_def)

lemma sat64_range: "int64_range (sat64 x)"
  by (simp add: int64_range_def sat64_def)

lemma wrap32_id: "int32_range x \<Longrightarrow> wrap32 x = x"
  by (simp add: int32_range_def wrap32_def)

lemma wrap64_id: "int64_range x \<Longrightarrow> wrap64 x = x"
  by (simp add: int64_range_def wrap64_def)

text \<open>The two functions are the two's complement readings of the words they name.\<close>

lemma wrap32_sint: "wrap32 x = sint (word_of_int x :: 32 word)"
  by (simp add: wrap32_def sint_sbintrunc' signed_take_bit_eq_take_bit_shift take_bit_eq_mod)

lemma wrap64_sint: "wrap64 x = sint (word_of_int x :: 64 word)"
  by (simp add: wrap64_def sint_sbintrunc' signed_take_bit_eq_take_bit_shift take_bit_eq_mod)

subsection \<open>Lists\<close>

lemma find_append:
  "List.find P (xs @ ys) = (case List.find P xs of None \<Rightarrow> List.find P ys | Some x \<Rightarrow> Some x)"
  by (induction xs) auto

lemma prefix_rev_suffix: "prefix p (rev s) \<longleftrightarrow> suffix (rev p) s"
  by (simp add: suffix_to_prefix)

lemma map_snoc_filter_neq_Nil: "filter P xs \<noteq> [] \<longleftrightarrow> (\<exists>x\<in>set xs. P x)"
  by (auto simp: filter_empty_conv)

end
