(* ===== verification/Go_Strings.thy ===== *)
theory Go_Strings
  imports Prelude
begin

section \<open>The string functions of Go's standard library\<close>

text \<open>
  Go strings are byte sequences, so \<^typ>\<open>string\<close> (a list of eight-bit characters) is their
  model and \<^term>\<open>length\<close> is Go's \<^verbatim>\<open>len\<close>. One definition per function of \<^verbatim>\<open>strings\<close>, \<^verbatim>\<open>strconv\<close>
  and \<^verbatim>\<open>fmt\<close> that the operator calls. \<^verbatim>\<open>TrimSpace\<close> is exact on all of Unicode: the white space
  runes are listed by their UTF-8 encodings. \<^verbatim>\<open>ToLower\<close> is used by the operator only to look for
  ASCII needles, and is exact for that use: besides the ASCII letters it maps the two runes
  outside ASCII whose lower case is an ASCII letter (U+0130 and U+212A) and leaves the others,
  whose lower case is outside ASCII too.
\<close>

subsection \<open>Prefixes, searching, splitting\<close>

definition strings_HasPrefix :: "string \<Rightarrow> string \<Rightarrow> bool" where
  "strings_HasPrefix s p \<longleftrightarrow> take (length p) s = p"

definition strings_TrimPrefix :: "string \<Rightarrow> string \<Rightarrow> string" where
  "strings_TrimPrefix s p = (if strings_HasPrefix s p then drop (length p) s else s)"

fun strings_Contains :: "string \<Rightarrow> string \<Rightarrow> bool" where
  "strings_Contains [] sub = (sub = [])"
| "strings_Contains (c # s) sub = (strings_HasPrefix (c # s) sub \<or> strings_Contains s sub)"

text \<open>\<^verbatim>\<open>strings.LastIndex\<close> for a one-byte separator: -1 when it does not occur.\<close>

fun strings_LastIndex :: "string \<Rightarrow> char \<Rightarrow> int" where
  "strings_LastIndex [] c = -1"
| "strings_LastIndex (x # s) c =
     (let i = strings_LastIndex s c in if 0 \<le> i then i + 1 else if x = c then 0 else -1)"

text \<open>\<^verbatim>\<open>strings.SplitN(s, sep, 2)\<close> for a one-byte separator.\<close>

definition strings_SplitN2 :: "string \<Rightarrow> char \<Rightarrow> string list" where
  "strings_SplitN2 s c =
     (if c \<in> set s then [takeWhile (\<lambda>x. x \<noteq> c) s, tl (dropWhile (\<lambda>x. x \<noteq> c) s)] else [s])"

fun strings_Join :: "string list \<Rightarrow> string \<Rightarrow> string" where
  "strings_Join [] sep = []"
| "strings_Join [x] sep = x"
| "strings_Join (x # y # xs) sep = x @ sep @ strings_Join (y # xs) sep"

text \<open>\<^verbatim>\<open>strings.TrimRight(s, "/")\<close>.\<close>

definition strings_TrimRight :: "string \<Rightarrow> char \<Rightarrow> string" where
  "strings_TrimRight s c = rev (dropWhile (\<lambda>x. x = c) (rev s))"

subsection \<open>White space\<close>

definition unicode_spaces :: "string list" where
  "unicode_spaces =
     [[CHR 0x09], [CHR 0x0A], [CHR 0x0B], [CHR 0x0C], [CHR 0x0D], [CHR 0x20],
      [CHR 0xC2, CHR 0x85], [CHR 0xC2, CHR 0xA0], [CHR 0xE1, CHR 0x9A, CHR 0x80],
      [CHR 0xE2, CHR 0x80, CHR 0x80], [CHR 0xE2, CHR 0x80, CHR 0x81], [CHR 0xE2, CHR 0x80, CHR 0x82],
      [CHR 0xE2, CHR 0x80, CHR 0x83], [CHR 0xE2, CHR 0x80, CHR 0x84], [CHR 0xE2, CHR 0x80, CHR 0x85],
      [CHR 0xE2, CHR 0x80, CHR 0x86], [CHR 0xE2, CHR 0x80, CHR 0x87], [CHR 0xE2, CHR 0x80, CHR 0x88],
      [CHR 0xE2, CHR 0x80, CHR 0x89], [CHR 0xE2, CHR 0x80, CHR 0x8A], [CHR 0xE2, CHR 0x80, CHR 0xA8],
      [CHR 0xE2, CHR 0x80, CHR 0xA9], [CHR 0xE2, CHR 0x80, CHR 0xAF], [CHR 0xE2, CHR 0x81, CHR 0x9F],
      [CHR 0xE3, CHR 0x80, CHR 0x80]]"

text \<open>Drop the first of the given (nonempty) byte sequences that starts the string, repeatedly.\<close>

function strip_all :: "string list \<Rightarrow> string \<Rightarrow> string" where
  "strip_all ps s =
     (case List.find (\<lambda>p. p \<noteq> [] \<and> strings_HasPrefix s p) ps of
        None \<Rightarrow> s
      | Some p \<Rightarrow> strip_all ps (drop (length p) s))"
  by pat_completeness auto
termination
proof (relation "measure (\<lambda>(ps, s). length s)", goal_cases)
  case 1
  show ?case by simp
next
  case (2 ps s p)
  then have "p \<noteq> []" and "take (length p) s = p"
    by (auto simp: find_Some_iff strings_HasPrefix_def)
  then have "s \<noteq> []" and "0 < length p" by auto
  then show ?case by simp
qed

declare strip_all.simps [simp del]

definition strings_TrimSpace :: "string \<Rightarrow> string" where
  "strings_TrimSpace s =
     rev (strip_all (map rev unicode_spaces) (rev (strip_all unicode_spaces s)))"

subsection \<open>Lower case\<close>

definition lower_byte :: "char \<Rightarrow> char" where
  "lower_byte c =
     (let n = of_char c :: nat in if 65 \<le> n \<and> n \<le> 90 then char_of (n + 32) else c)"

fun strings_ToLower :: "string \<Rightarrow> string" where
  "strings_ToLower (a # b # c # s) =
     (if a = CHR 0xC4 \<and> b = CHR 0xB0 then CHR ''i'' # strings_ToLower (c # s)
      else if a = CHR 0xE2 \<and> b = CHR 0x84 \<and> c = CHR 0xAA then CHR ''k'' # strings_ToLower s
      else lower_byte a # strings_ToLower (b # c # s))"
| "strings_ToLower [a, b] =
     (if a = CHR 0xC4 \<and> b = CHR 0xB0 then [CHR ''i''] else [lower_byte a, lower_byte b])"
| "strings_ToLower [a] = [lower_byte a]"
| "strings_ToLower [] = []"

subsection \<open>Formatting\<close>

fun nat_dec :: "nat \<Rightarrow> string" where
  "nat_dec n = (if n < 10 then [char_of (48 + n)] else nat_dec (n div 10) @ [char_of (48 + n mod 10)])"

declare nat_dec.simps [simp del]

text \<open>The verb \<^verbatim>\<open>%d\<close>.\<close>

definition fmt_d :: "int \<Rightarrow> string" where
  "fmt_d i = (if i < 0 then ''-'' @ nat_dec (nat (- i)) else nat_dec (nat i))"

text \<open>The verb \<^verbatim>\<open>%v\<close> of a \<^verbatim>\<open>[]string\<close>.\<close>

definition fmt_v_strings :: "string list \<Rightarrow> string" where
  "fmt_v_strings xs = ''['' @ strings_Join xs '' '' @ '']''"

definition hex_digit :: "nat \<Rightarrow> char" where
  "hex_digit n = (if n < 10 then char_of (48 + n) else char_of (87 + n))"

text \<open>
  The verb \<^verbatim>\<open>%q\<close> on strings of printable runes and ASCII control characters (bytes outside
  ASCII are taken to belong to printable runes, which \<^verbatim>\<open>strconv.Quote\<close> keeps).
\<close>

definition quote_byte :: "char \<Rightarrow> string" where
  "quote_byte c =
     (let n = of_char c :: nat in
      if n = 34 then [CHR 0x5C, CHR 0x22]
      else if n = 92 then [CHR 0x5C, CHR 0x5C]
      else if n = 7 then CHR 0x5C # ''a''
      else if n = 8 then CHR 0x5C # ''b''
      else if n = 12 then CHR 0x5C # ''f''
      else if n = 10 then CHR 0x5C # ''n''
      else if n = 13 then CHR 0x5C # ''r''
      else if n = 9 then CHR 0x5C # ''t''
      else if n = 11 then CHR 0x5C # ''v''
      else if n < 32 \<or> n = 127 then CHR 0x5C # ''x'' @ [hex_digit (n div 16), hex_digit (n mod 16)]
      else [c])"

definition fmt_q :: "string \<Rightarrow> string" where
  "fmt_q s = [CHR 0x22] @ concat (map quote_byte s) @ [CHR 0x22]"

subsection \<open>Facts on searching\<close>

lemma HasPrefix_prefix: "strings_HasPrefix s p \<longleftrightarrow> prefix p s"
  unfolding strings_HasPrefix_def
  by (metis append_eq_conv_conj prefix_def take_is_prefix)

lemma HasPrefix_append [simp]: "strings_HasPrefix (p @ s) p"
  by (simp add: strings_HasPrefix_def)

lemma TrimPrefix_append [simp]: "strings_TrimPrefix (p @ s) p = s"
  by (simp add: strings_TrimPrefix_def)

lemma HasPrefix_split: "strings_HasPrefix s p \<Longrightarrow> s = p @ strings_TrimPrefix s p"
  unfolding strings_TrimPrefix_def strings_HasPrefix_def
  by (metis append_take_drop_id)

lemma Contains_sublist: "strings_Contains s sub \<longleftrightarrow> sublist sub s"
  by (induction s) (auto simp: HasPrefix_prefix sublist_Cons_right)

lemma Contains_single: "strings_Contains s [c] \<longleftrightarrow> c \<in> set s"
  by (induction s) (auto simp: HasPrefix_prefix)

lemma LastIndex_ge: "-1 \<le> strings_LastIndex s c"
  by (induction s) (auto simp: Let_def)

lemma LastIndex_less: "strings_LastIndex s c < int (length s)"
  by (induction s) (auto simp: Let_def)

lemma LastIndex_notin: "strings_LastIndex s c = -1 \<longleftrightarrow> c \<notin> set s"
proof (induction s)
  case (Cons x s)
  then show ?case using LastIndex_ge [of s c] by (auto simp: Let_def)
qed simp

lemma LastIndex_append_notin:
  "c \<notin> set t \<Longrightarrow> strings_LastIndex (s @ c # t) c = int (length s)"
proof (induction s)
  case Nil
  then show ?case using LastIndex_notin [of t c] by (simp add: Let_def)
qed (simp add: Let_def)

text \<open>The last index splits the string at the last separator.\<close>

lemma LastIndex_split:
  assumes "0 \<le> strings_LastIndex s c"
  shows "s = take (nat (strings_LastIndex s c)) s @ c # drop (nat (strings_LastIndex s c) + 1) s
         \<and> c \<notin> set (drop (nat (strings_LastIndex s c) + 1) s)"
  using assms
proof (induction s)
  case (Cons x s)
  show ?case
  proof (cases "0 \<le> strings_LastIndex s c")
    case True
    then have "nat (strings_LastIndex s c + 1) = Suc (nat (strings_LastIndex s c))" by simp
    with True Cons.IH [OF True] show ?thesis by (simp add: Let_def)
  next
    case False
    then have "c \<notin> set s" using LastIndex_ge [of s c] LastIndex_notin [of s c] by linarith
    with False Cons.prems show ?thesis by (auto simp: Let_def split: if_splits)
  qed
qed simp

text \<open>An explicit tag: the last colon comes after the last slash and is not the last byte.\<close>

definition explicit_tag :: "string \<Rightarrow> string \<Rightarrow> string \<Rightarrow> bool" where
  "explicit_tag s repo tag \<longleftrightarrow>
     s = repo @ CHR '':'' # tag \<and> tag \<noteq> [] \<and> CHR '':'' \<notin> set tag \<and> CHR ''/'' \<notin> set tag"

lemma LastIndex_explicit_tag:
  assumes "explicit_tag s repo tag"
  shows "strings_LastIndex s (CHR '':'') = int (length repo)"
    and "strings_LastIndex s (CHR ''/'') < int (length repo)"
    and "length repo + 1 < length s"
proof -
  have s: "s = repo @ CHR '':'' # tag" "tag \<noteq> []" "CHR '':'' \<notin> set tag" "CHR ''/'' \<notin> set tag"
    using assms by (auto simp: explicit_tag_def)
  show "strings_LastIndex s (CHR '':'') = int (length repo)"
    using LastIndex_append_notin [OF s(3), of repo] s(1) by simp
  have "strings_LastIndex (CHR '':'' # tag) (CHR ''/'') = -1"
    using s(4) by (simp only: LastIndex_notin) simp
  moreover have "strings_LastIndex (r @ t) c < int (length r)"
    if "strings_LastIndex t c = -1" for r t and c :: char
    using that by (induction r) (auto simp: Let_def)
  ultimately show "strings_LastIndex s (CHR ''/'') < int (length repo)" using s(1) by blast
  show "length repo + 1 < length s" using s(1,2) by simp
qed

lemma explicit_tag_exists:
  assumes "\<not> strings_LastIndex s (CHR '':'') \<le> strings_LastIndex s (CHR ''/'')"
    and "strings_LastIndex s (CHR '':'') \<noteq> int (length s) - 1"
  obtains repo tag where "explicit_tag s repo tag"
proof -
  let ?c = "strings_LastIndex s (CHR '':'')" and ?s = "strings_LastIndex s (CHR ''/'')"
  define repo where "repo = take (nat ?c) s"
  define tag where "tag = drop (nat ?c + 1) s"
  have "0 \<le> ?c" using assms(1) LastIndex_ge [of s "CHR ''/''"] by linarith
  from LastIndex_split [OF this] have split: "s = repo @ CHR '':'' # tag" "CHR '':'' \<notin> set tag"
    by (simp_all add: repo_def tag_def)
  have len: "?c = int (length repo)"
    using LastIndex_append_notin [OF split(2), of repo] split(1) by simp
  have "CHR ''/'' \<notin> set tag"
  proof
    assume "CHR ''/'' \<in> set tag"
    then obtain a b where ab: "tag = a @ CHR ''/'' # b" "CHR ''/'' \<notin> set b"
      by (metis split_list_last)
    with split(1) have "s = (repo @ CHR '':'' # a) @ CHR ''/'' # b" by simp
    with LastIndex_append_notin [OF ab(2), of "repo @ CHR '':'' # a"]
    have "?s = int (length (repo @ CHR '':'' # a))" by simp
    with len assms(1) show False by simp
  qed
  moreover have "tag \<noteq> []" using assms(2) len split(1) by auto
  ultimately show thesis using that split by (simp add: explicit_tag_def)
qed

lemma SplitN2_two: "strings_SplitN2 (k @ c # v) c = [k, v]" if "c \<notin> set k"
proof -
  have "takeWhile (\<lambda>x. x \<noteq> c) (k @ c # v) = k" and "dropWhile (\<lambda>x. x \<noteq> c) (k @ c # v) = c # v"
    using that by (auto simp: takeWhile_append dropWhile_append)
  then show ?thesis by (simp add: strings_SplitN2_def)
qed

lemma Join_length:
  "xs \<noteq> [] \<Longrightarrow> length (strings_Join xs sep) = sum_list (map length xs) + (length xs - 1) * length sep"
  by (induction xs sep rule: strings_Join.induct) auto

subsection \<open>Facts on white space\<close>

lemma strip_all_suffix: "suffix (strip_all ps s) s"
proof (induction ps s rule: strip_all.induct)
  case (1 ps s)
  show ?case
  proof (cases "List.find (\<lambda>p. p \<noteq> [] \<and> strings_HasPrefix s p) ps")
    case None
    then show ?thesis by (subst strip_all.simps) simp
  next
    case (Some p)
    with 1 have "suffix (strip_all ps (drop (length p) s)) (drop (length p) s)" by simp
    then have "suffix (strip_all ps (drop (length p) s)) s"
      using suffix_drop suffix_order.trans by blast
    with Some show ?thesis by (subst strip_all.simps) simp
  qed
qed

lemma strip_all_none:
  "List.find (\<lambda>p. p \<noteq> [] \<and> strings_HasPrefix (strip_all ps s) p) ps = None"
proof (induction ps s rule: strip_all.induct)
  case (1 ps s)
  show ?case
    using 1 by (cases "List.find (\<lambda>p. p \<noteq> [] \<and> strings_HasPrefix s p) ps")
      (simp_all add: strip_all.simps [of ps s])
qed

lemma strip_all_fixed:
  "List.find (\<lambda>p. p \<noteq> [] \<and> strings_HasPrefix s p) ps = None \<Longrightarrow> strip_all ps s = s"
  by (simp add: strip_all.simps)

lemma strip_all_prefix_closed:
  assumes "List.find (\<lambda>p. p \<noteq> [] \<and> strings_HasPrefix s p) ps = None" and "prefix t s"
  shows "List.find (\<lambda>p. p \<noteq> [] \<and> strings_HasPrefix t p) ps = None"
  using assms by (auto simp: find_None_iff HasPrefix_prefix)

lemma TrimSpace_length: "length (strings_TrimSpace s) \<le> length s"
proof -
  let ?l = "strip_all unicode_spaces s"
  have "length (strip_all (map rev unicode_spaces) (rev ?l)) \<le> length (rev ?l)"
    by (rule suffix_length_le) (rule strip_all_suffix)
  moreover have "length ?l \<le> length s" by (rule suffix_length_le) (rule strip_all_suffix)
  ultimately show ?thesis by (simp add: strings_TrimSpace_def)
qed

lemma TrimSpace_Nil [simp]: "strings_TrimSpace [] = []"
  using TrimSpace_length [of "[]"] by simp

theorem TrimSpace_idem: "strings_TrimSpace (strings_TrimSpace s) = strings_TrimSpace s"
proof -
  let ?R = "map rev unicode_spaces"
  let ?l = "strip_all unicode_spaces s"
  let ?t = "strip_all ?R (rev ?l)"
  have "prefix (rev ?t) ?l"
    using strip_all_suffix [of ?R "rev ?l"] by (simp add: suffix_to_prefix)
  then have "List.find (\<lambda>p. p \<noteq> [] \<and> strings_HasPrefix (rev ?t) p) unicode_spaces = None"
    by (rule strip_all_prefix_closed [OF strip_all_none])
  then have "strip_all unicode_spaces (rev ?t) = rev ?t" by (rule strip_all_fixed)
  moreover have "strip_all ?R ?t = ?t" by (rule strip_all_fixed) (rule strip_all_none)
  ultimately show ?thesis by (simp add: strings_TrimSpace_def)
qed

end
