(* ===== verification/Go_Json.thy ===== *)
theory Go_Json
  imports Go_Strings
begin

section \<open>JSON documents: \<^verbatim>\<open>encoding/json\<close>\<close>

text \<open>
  Documents as a datatype and \<^verbatim>\<open>json.Marshal\<close> on it, with the library's escaping of strings
  (quotes, backslash, control characters, the HTML characters and the two Unicode line
  separators; other bytes of valid UTF-8 text are copied).
\<close>

datatype json =
    JStr string
  | JBool bool
  | JInt int
  | JArr "json list"
  | JObj "(string \<times> json) list"

definition u00 :: "nat \<Rightarrow> string" where
  "u00 n = CHR 0x5C # ''u00'' @ [hex_digit (n div 16), hex_digit (n mod 16)]"

definition json_byte :: "char \<Rightarrow> string" where
  "json_byte c =
     (let n = of_char c :: nat in
      if n = 34 then [CHR 0x5C, CHR 0x22]
      else if n = 92 then [CHR 0x5C, CHR 0x5C]
      else if n = 8 then CHR 0x5C # ''b''
      else if n = 12 then CHR 0x5C # ''f''
      else if n = 10 then CHR 0x5C # ''n''
      else if n = 13 then CHR 0x5C # ''r''
      else if n = 9 then CHR 0x5C # ''t''
      else if n < 32 \<or> n = 60 \<or> n = 62 \<or> n = 38 then u00 n
      else [c])"

fun json_chars :: "string \<Rightarrow> string" where
  "json_chars (a # b # c # s) =
     (if a = CHR 0xE2 \<and> b = CHR 0x80 \<and> c = CHR 0xA8 then CHR 0x5C # ''u2028'' @ json_chars s
      else if a = CHR 0xE2 \<and> b = CHR 0x80 \<and> c = CHR 0xA9 then CHR 0x5C # ''u2029'' @ json_chars s
      else json_byte a @ json_chars (b # c # s))"
| "json_chars [a, b] = json_byte a @ json_byte b"
| "json_chars [a] = json_byte a"
| "json_chars [] = []"

definition json_string :: "string \<Rightarrow> string" where
  "json_string s = [CHR 0x22] @ json_chars s @ [CHR 0x22]"

fun json_Marshal :: "json \<Rightarrow> string" where
  "json_Marshal (JStr s) = json_string s"
| "json_Marshal (JBool b) = (if b then ''true'' else ''false'')"
| "json_Marshal (JInt i) = fmt_d i"
| "json_Marshal (JArr xs) = ''['' @ strings_Join (map json_Marshal xs) '','' @ '']''"
| "json_Marshal (JObj kvs) =
     CHR 0x7B # strings_Join (map (\<lambda>(k, v). json_string k @ '':'' @ json_Marshal v) kvs) '','' @ [CHR 0x7D]"

text \<open>A field tagged \<^verbatim>\<open>omitempty\<close> is left out when its value is empty.\<close>

definition omitempty :: "bool \<Rightarrow> string \<Rightarrow> json \<Rightarrow> (string \<times> json) list" where
  "omitempty is_zero k v = (if is_zero then [] else [(k, v)])"

end
