(* ===== verification/Sha256.thy ===== *)
theory Sha256
  imports Go_Strings
begin

section \<open>SHA-256: \<^verbatim>\<open>crypto/sha256\<close>\<close>

text \<open>
  The hash function of FIPS 180-4 on byte strings, over 32-bit words with their wrap-around
  addition: padding to blocks of 64 bytes, the message schedule, 64 rounds per block.
\<close>

unbundle bit_operations_syntax

type_synonym w32 = "32 word"

text \<open>
  The constants as FIPS 180-4 defines them: the first 32 bits of the fractional parts of the cube
  roots of the first 64 primes, and of the square roots of the first eight. A root with 32 binary
  digits after the point is found bit by bit; the conversion to a word drops its integer part.
\<close>

fun root_bits :: "nat \<Rightarrow> nat \<Rightarrow> nat \<Rightarrow> nat \<Rightarrow> nat" where
  "root_bits k x 0 r = r"
| "root_bits k x (Suc b) r = root_bits k x b (if (r + 2 ^ b) ^ k \<le> x then r + 2 ^ b else r)"

definition sha_primes :: "nat list" where
  "sha_primes =
     [2, 3, 5, 7, 11, 13, 17, 19, 23, 29, 31, 37, 41, 43, 47, 53,
      59, 61, 67, 71, 73, 79, 83, 89, 97, 101, 103, 107, 109, 113, 127, 131,
      137, 139, 149, 151, 157, 163, 167, 173, 179, 181, 191, 193, 197, 199, 211, 223,
      227, 229, 233, 239, 241, 251, 257, 263, 269, 271, 277, 281, 283, 293, 307, 311]"

lemma length_sha_primes [simp]: "length sha_primes = 64"
  by (simp add: sha_primes_def)

definition sha_K :: "w32 list" where
  "sha_K = map (\<lambda>p. of_nat (root_bits 3 (p * 2 ^ 96) 35 0)) sha_primes"

definition sha_H0 :: "w32 list" where
  "sha_H0 = map (\<lambda>p. of_nat (root_bits 2 (p * 2 ^ 64) 35 0)) (take 8 sha_primes)"

definition be_bytes :: "nat \<Rightarrow> nat \<Rightarrow> nat list" where
  "be_bytes k n = map (\<lambda>i. n div 256 ^ (k - 1 - i) mod 256) [0..<k]"

definition sha_pad :: "nat list \<Rightarrow> nat list" where
  "sha_pad bs = (let n = length bs in
     bs @ [128] @ replicate ((119 - n mod 64) mod 64) 0 @ be_bytes 8 (8 * n))"

fun be_words :: "nat list \<Rightarrow> w32 list" where
  "be_words (a # b # c # d # r) = of_nat (((a * 256 + b) * 256 + c) * 256 + d) # be_words r"
| "be_words _ = []"

definition sha_s0 :: "w32 \<Rightarrow> w32" where
  "sha_s0 x = word_rotr 7 x XOR word_rotr 18 x XOR drop_bit 3 x"
definition sha_s1 :: "w32 \<Rightarrow> w32" where
  "sha_s1 x = word_rotr 17 x XOR word_rotr 19 x XOR drop_bit 10 x"
definition sha_S0 :: "w32 \<Rightarrow> w32" where
  "sha_S0 x = word_rotr 2 x XOR word_rotr 13 x XOR word_rotr 22 x"
definition sha_S1 :: "w32 \<Rightarrow> w32" where
  "sha_S1 x = word_rotr 6 x XOR word_rotr 11 x XOR word_rotr 25 x"

text \<open>The schedule, most recent word first.\<close>

fun sha_schedule :: "nat \<Rightarrow> w32 list \<Rightarrow> w32 list" where
  "sha_schedule 0 ws = ws"
| "sha_schedule (Suc n) ws =
     sha_schedule n ((sha_s1 (ws ! 1) + ws ! 6 + sha_s0 (ws ! 14) + ws ! 15) # ws)"

fun sha_round :: "w32 list \<Rightarrow> w32 \<times> w32 \<Rightarrow> w32 list" where
  "sha_round [a, b, c, d, e, f, g, h] (k, w) =
     (let t1 = h + sha_S1 e + ((e AND f) XOR (NOT e AND g)) + k + w;
          t2 = sha_S0 a + ((a AND b) XOR (a AND c) XOR (b AND c))
      in [t1 + t2, a, b, c, d + t1, e, f, g])"
| "sha_round s _ = s"

definition sha_block :: "w32 list \<Rightarrow> w32 list \<Rightarrow> w32 list" where
  "sha_block H ws = map2 (+) H (foldl sha_round H (zip sha_K (rev (sha_schedule 48 (rev ws)))))"

function sha_blocks :: "w32 list \<Rightarrow> w32 list \<Rightarrow> w32 list" where
  "sha_blocks H ws = (if ws = [] then H else sha_blocks (sha_block H (take 16 ws)) (drop 16 ws))"
  by pat_completeness auto
termination
  by (relation "measure (\<lambda>(H, ws). length ws)") auto

declare sha_blocks.simps [simp del]

definition sha256_Sum256 :: "string \<Rightarrow> nat list" where
  "sha256_Sum256 s =
     concat (map (\<lambda>w. be_bytes 4 (unat w)) (sha_blocks sha_H0 (be_words (sha_pad (map of_char s)))))"

text \<open>The verb \<^verbatim>\<open>%x\<close> of a byte slice.\<close>

definition fmt_x :: "nat list \<Rightarrow> string" where
  "fmt_x bs = concat (map (\<lambda>b. [hex_digit (b div 16), hex_digit (b mod 16)]) bs)"

lemma length_be_bytes [simp]: "length (be_bytes k n) = k"
  by (simp add: be_bytes_def)

lemma length_fmt_x: "length (fmt_x bs) = 2 * length bs"
  by (induction bs) (simp_all add: fmt_x_def)

lemma length_sha_round: "length (sha_round s kw) = length s"
  by (cases "(s, kw)" rule: sha_round.cases) (simp_all add: Let_def)

lemma length_foldl_round: "length (foldl sha_round s kws) = length s"
  by (induction kws arbitrary: s) (simp_all add: length_sha_round)

lemma length_sha_blocks: "length (sha_blocks H ws) = length H"
proof (induction H ws rule: sha_blocks.induct)
  case (1 H ws)
  then show ?case
    by (cases "ws = []") (simp_all add: sha_blocks.simps [of H] sha_block_def length_foldl_round)
qed

lemma length_Sum256: "length (sha256_Sum256 s) = 32"
proof -
  have "length (concat (map (\<lambda>w. be_bytes 4 (unat w)) ws)) = 4 * length ws" for ws :: "w32 list"
    by (induction ws) simp_all
  then show ?thesis by (simp add: sha256_Sum256_def length_sha_blocks sha_H0_def)
qed

end
