(* ===== verification/Go_Errors.thy ===== *)
theory Go_Errors
  imports Go_Strings
begin

section \<open>Error values\<close>

text \<open>
  Go errors are interface values. The model has one constructor per kind of error the operator
  builds or receives, with what the code can observe of it: its text (\<^verbatim>\<open>err.Error()\<close>), the error it
  wraps, and the fields of the structured errors. \<^verbatim>\<open>DeployErr\<close> is \<^verbatim>\<open>zarf.DeployError\<close> of
  \<^verbatim>\<open>pkg/zarf/interface.go\<close>; a gRPC status error carries its code and the deploy details attached
  to it; an API error carries the reason that \<^verbatim>\<open>apierrors.IsNotFound\<close> and
  \<^verbatim>\<open>apierrors.IsConflict\<close> test.
\<close>

datatype code =
    codes_OK | codes_Canceled | codes_Unknown | codes_InvalidArgument | codes_DeadlineExceeded
  | codes_NotFound | codes_AlreadyExists | codes_PermissionDenied | codes_ResourceExhausted
  | codes_FailedPrecondition | codes_Aborted | codes_OutOfRange | codes_Unimplemented
  | codes_Internal | codes_Unavailable | codes_DataLoss | codes_Unauthenticated

datatype api_reason = ApiNotFound | ApiConflict | ApiOtherReason

text \<open>The message \<^verbatim>\<open>DeployErrorDetail\<close> of the sidecar protocol.\<close>

record deploy_error_detail =
  det_FailedComponent :: string
  det_FailedChart :: string
  det_ErrorMessage :: string
  det_DeployLogs :: "string list"

datatype goerr =
    ErrorString string
  | WrapError string goerr
  | StatusError code string "deploy_error_detail list"
  | ApiError api_reason string
  | DeployErr (de_Err: "goerr option") (de_FailedComponent: string) (de_FailedChart: string)
      (de_DeployLogs: "string list")
  | ImageErr (ie_component: string) (ie_ref: string) goerr
  | ReleaseNotFound

text \<open>The text of an error; \<^verbatim>\<open>DeployError.Error\<close> is empty when nothing is wrapped.\<close>

fun err_Error :: "goerr \<Rightarrow> string" where
  "err_Error (ErrorString s) = s"
| "err_Error (WrapError s e) = s"
| "err_Error (StatusError c s ds) = s"
| "err_Error (ApiError r s) = s"
| "err_Error (DeployErr None fc fch logs) = ''''"
| "err_Error (DeployErr (Some e) fc fch logs) = err_Error e"
| "err_Error (ImageErr c ref e) = ''missing target image '' @ ref @ '': '' @ err_Error e"
| "err_Error ReleaseNotFound = ''release: not found''"

text \<open>\<^verbatim>\<open>Unwrap\<close>, and \<^verbatim>\<open>errors.As(err, &deployErr)\<close>: the first deploy error of the chain.\<close>

fun errors_AsDeployError :: "goerr \<Rightarrow> goerr option" where
  "errors_AsDeployError (WrapError s e) = errors_AsDeployError e"
| "errors_AsDeployError (DeployErr e fc fch logs) = Some (DeployErr e fc fch logs)"
| "errors_AsDeployError (ImageErr c ref e) = errors_AsDeployError e"
| "errors_AsDeployError _ = None"

fun errors_AsImageError :: "goerr \<Rightarrow> goerr option" where
  "errors_AsImageError (WrapError s e) = errors_AsImageError e"
| "errors_AsImageError (DeployErr (Some e) fc fch logs) = errors_AsImageError e"
| "errors_AsImageError (ImageErr c ref e) = Some (ImageErr c ref e)"
| "errors_AsImageError _ = None"

text \<open>\<^verbatim>\<open>fmt.Errorf\<close> with the verb \<^verbatim>\<open>%w\<close> in last place.\<close>

definition fmt_wrap :: "string \<Rightarrow> goerr \<Rightarrow> goerr" where
  "fmt_wrap prefix_text e = WrapError (prefix_text @ '': '' @ err_Error e) e"

definition is_DeployErr :: "goerr \<Rightarrow> bool" where
  "is_DeployErr e \<longleftrightarrow> (case e of DeployErr _ _ _ _ \<Rightarrow> True | _ \<Rightarrow> False)"

lemma AsDeployError_is: "errors_AsDeployError e = Some d \<Longrightarrow> is_DeployErr d"
  by (induction e) (auto simp: is_DeployErr_def)

lemma AsDeployError_wrap [simp]: "errors_AsDeployError (fmt_wrap p e) = errors_AsDeployError e"
  by (simp add: fmt_wrap_def)

end
