(* ===== verification/Zarf_Interface.thy ===== *)
theory Zarf_Interface
  imports Go_Errors
begin

section \<open>The contract between the controller and Zarf: \<^verbatim>\<open>pkg/zarf/interface.go\<close>\<close>

text \<open>
  The data that crosses the interface \<^verbatim>\<open>zarf.Client\<close>: options, results and the methods of
  \<^verbatim>\<open>DeployError\<close>. Field names carry a short prefix of their struct, because record fields share
  one name space. Byte slices are strings; the empty string is the nil slice.
\<close>

record ZarfInitOptions =
  zi_RegistryAddress :: string
  zi_RegistryNodePort :: int
  zi_RegistrySecret :: string
  zi_RegistryPushUsername :: string
  zi_RegistryPushPassword :: string
  zi_RegistryPullUsername :: string
  zi_RegistryPullPassword :: string

record DeployOptions =
  do_Source :: string
  do_Components :: "string list"
  do_SetVariables :: "string \<rightharpoonup> string"
  do_AdoptExistingResources :: bool
  do_Timeout :: int
  do_Retries :: int
  do_NamespaceOverride :: string
  do_Shasum :: string
  do_SkipSignatureValidation :: bool
  do_Architecture :: string
  do_OCIConcurrency :: int
  do_PublicKeyPath :: string
  do_LogLevel :: string
  do_LogFormat :: string
  do_NoColor :: bool
  do_PlainHTTP :: bool
  do_InsecureSkipTLSVerify :: bool
  do_SkipVersionCheck :: bool
  do_YoloMode :: bool
  do_RegistryCredentialJSON :: string
  do_HelmDebugEnabled :: bool
  do_Kubeconfig :: string
  do_InitOptions :: "ZarfInitOptions option"

record InstalledChart =
  ic_Namespace :: string
  ic_ChartName :: string
  ic_Status :: string

record DeployedComponent =
  dc_Name :: string
  dc_Status :: string
  dc_InstalledCharts :: "InstalledChart list"
  dc_ObservedGeneration :: int

record DeployResult =
  dr_PackageName :: string
  dr_Version :: string
  dr_Generation :: int
  dr_DeployedComponents :: "DeployedComponent list"
  dr_DeployLogs :: "string list"

record PackageInfo =
  pi_Name :: string
  pi_Version :: string
  pi_Generation :: int
  pi_CLIVersion :: string
  pi_DeployedComponents :: "DeployedComponent list"
  pi_NamespaceOverride :: string

record RemoveOptions =
  ro_PackageName :: string
  ro_Components :: "string list"
  ro_Timeout :: int
  ro_NamespaceOverride :: string
  ro_SkipVersionCheck :: bool
  ro_Kubeconfig :: string

record GetDeployedPackageOptions =
  gd_PackageName :: string
  gd_Kubeconfig :: string

record PackageMetadata =
  pm_Name :: string
  pm_Version :: string
  pm_Description :: string
  pm_Components :: "string list"
  pm_Architecture :: string

definition ComponentStatusSucceeded :: string where "ComponentStatusSucceeded = ''Succeeded''"
definition ComponentStatusFailed :: string where "ComponentStatusFailed = ''Failed''"
definition ComponentStatusDeploying :: string where "ComponentStatusDeploying = ''Deploying''"
definition ComponentStatusRemoving :: string where "ComponentStatusRemoving = ''Removing''"
definition ChartStatusSucceeded :: string where "ChartStatusSucceeded = ''Succeeded''"
definition ChartStatusFailed :: string where "ChartStatusFailed = ''Failed''"

lemmas status_strings =
  ComponentStatusSucceeded_def ComponentStatusFailed_def ComponentStatusDeploying_def
  ComponentStatusRemoving_def ChartStatusSucceeded_def ChartStatusFailed_def

text \<open>
  \<^verbatim>\<open>DeployError.IsHelmOperationInProgress\<close>: the wrapped error's text names another operation
  in progress, in any letter case.
\<close>

fun IsHelmOperationInProgress :: "goerr \<Rightarrow> bool" where
  "IsHelmOperationInProgress (DeployErr (Some e) fc fch logs) =
     (let msg = strings_ToLower (err_Error e) in
      strings_Contains msg ''another operation'' \<and> strings_Contains msg ''in progress'')"
| "IsHelmOperationInProgress _ = False"

end
