(* ===== verification/Api_Types.thy ===== *)
theory Api_Types
  imports Go_Json Sha256 Zarf_Interface
begin

section \<open>The ZarfPackage resource: \<^verbatim>\<open>api/v1alpha1/zarfpackage_types.go\<close>\<close>

text \<open>
  Spec and status of the custom resource, field by field, and the hash of the deployment-affecting
  fields. The enumerations \<^verbatim>\<open>SyncPolicy\<close> and \<^verbatim>\<open>ZarfPackagePhase\<close> are datatypes with a constructor
  for the unset value, as the CRD schema admits no other strings; the upgrade strategy stays a
  string, because the webhook rejects unknown ones. Times are nanoseconds; a nil slice and an empty
  one are both the empty list. Of the object metadata the model keeps what the controller reads or
  writes. A condition leaves out \<^verbatim>\<open>LastTransitionTime\<close>, which the operator neither sets nor reads.
\<close>

record DependsOnReference =
  dep_Name :: string
  dep_Namespace :: string

record RegistryInfoOptions =
  rg_Address :: string
  rg_NodePort :: int
  rg_CredentialsSecretRef :: string

record InitOptions =
  io_RegistryInfo :: "RegistryInfoOptions option"

definition UpgradeStrategySemVer :: string where "UpgradeStrategySemVer = ''SemVer''"

record UpgradePolicy =
  up_Enabled :: bool
  up_Strategy :: string
  up_Interval :: string
  up_SemverConstraint :: string

datatype SyncPolicy = SyncPolicyUnset | SyncPolicyIgnore | SyncPolicyDetect | SyncPolicyRemediate

datatype ZarfPackagePhase =
    PhaseUnset | PhasePending | PhaseDeploying | PhaseDeployed | PhaseFailed | PhaseRemoving

record ZarfPackageSpec =
  sp_Source :: string
  sp_DependsOn :: "DependsOnReference list"
  sp_AdoptExistingResources :: bool
  sp_Components :: "string list"
  sp_Namespace :: string
  sp_Retries :: int
  sp_MaxRetries :: int
  sp_Set :: "string list"
  sp_Shasum :: string
  sp_SkipSignatureValidation :: bool
  sp_Timeout :: string
  sp_Architecture :: string
  sp_Features :: "string list"
  sp_InsecureSkipTLSVerify :: bool
  sp_Key :: string
  sp_LogFormat :: string
  sp_LogLevel :: string
  sp_HelmDebugEnabled :: bool
  sp_NoColor :: bool
  sp_OciConcurrency :: int
  sp_PlainHTTP :: bool
  sp_RegistryCredentialSecretRef :: string
  sp_ClusterSecretRef :: string
  sp_Tmpdir :: string
  sp_ZarfCache :: string
  sp_SyncPolicy :: SyncPolicy
  sp_Yolo :: bool
  sp_Suspend :: bool
  sp_InitOptions :: "InitOptions option"
  sp_UpgradePolicy :: "UpgradePolicy option"

record InstalledChartStatus =
  ics_Namespace :: string
  ics_ChartName :: string
  ics_Status :: string

record ComponentStatus =
  cs_Name :: string
  cs_Status :: string
  cs_InstalledCharts :: "InstalledChartStatus list"
  cs_ObservedGeneration :: int

datatype ConditionStatus = ConditionTrue | ConditionFalse | ConditionUnknown

record Condition =
  cond_Type :: string
  cond_Status :: ConditionStatus
  cond_Reason :: string
  cond_Message :: string
  cond_ObservedGeneration :: int

record DriftInfo =
  drift_Detected :: bool
  drift_LastCheckTime :: int
  drift_MissingReleases :: "string list"
  drift_Message :: string

record ZarfPackageStatus =
  st_Phase :: ZarfPackagePhase
  st_Conditions :: "Condition list"
  st_DeployedVersion :: string
  st_DeployedGeneration :: int
  st_ComponentStatuses :: "ComponentStatus list"
  st_LastReconcileTime :: int
  st_ObservedGeneration :: int
  st_Source :: string
  st_PackageName :: string
  st_DriftInfo :: "DriftInfo option"
  st_DeployedSpecHash :: string
  st_LastAttemptedRevision :: string
  st_LastAttemptError :: string
  st_FailureCount :: int
  st_LastFailureTime :: "int option"
  st_AvailableVersion :: string
  st_AvailableSource :: string
  st_LastUpgradeCheckTime :: "int option"

record ZarfPackage =
  zp_Name :: string
  zp_Namespace :: string
  zp_Generation :: int
  zp_DeletionTimestamp :: "int option"
  zp_Finalizers :: "string list"
  zp_Annotations :: "string \<rightharpoonup> string"
  zp_Spec :: ZarfPackageSpec
  zp_Status :: ZarfPackageStatus

text \<open>The status of an object that no controller has seen yet: Go's zero value.\<close>

definition zero_status :: ZarfPackageStatus where
  "zero_status =
     \<lparr>st_Phase = PhaseUnset, st_Conditions = [], st_DeployedVersion = [], st_DeployedGeneration = 0,
      st_ComponentStatuses = [], st_LastReconcileTime = 0, st_ObservedGeneration = 0, st_Source = [],
      st_PackageName = [], st_DriftInfo = None, st_DeployedSpecHash = [], st_LastAttemptedRevision = [],
      st_LastAttemptError = [], st_FailureCount = 0, st_LastFailureTime = None, st_AvailableVersion = [],
      st_AvailableSource = [], st_LastUpgradeCheckTime = None\<rparr>"

subsection \<open>Condition types and reasons\<close>

abbreviation ConditionTypeReady :: string where "ConditionTypeReady \<equiv> ''Ready''"
abbreviation ConditionTypeProgressing :: string where "ConditionTypeProgressing \<equiv> ''Progressing''"
abbreviation ConditionTypeDriftDetected :: string where "ConditionTypeDriftDetected \<equiv> ''DriftDetected''"
abbreviation ConditionTypeSuspended :: string where "ConditionTypeSuspended \<equiv> ''Suspended''"
abbreviation ConditionTypeStalled :: string where "ConditionTypeStalled \<equiv> ''Stalled''"
abbreviation ConditionTypeDependenciesMet :: string where "ConditionTypeDependenciesMet \<equiv> ''DependenciesMet''"
abbreviation ConditionTypeUpgradeAvailable :: string where "ConditionTypeUpgradeAvailable \<equiv> ''UpgradeAvailable''"
abbreviation ReasonDependenciesNotMet :: string where "ReasonDependenciesNotMet \<equiv> ''DependenciesNotMet''"
abbreviation ReasonDependenciesMet :: string where "ReasonDependenciesMet \<equiv> ''DependenciesMet''"

text \<open>The string of a phase, as the verb \<^verbatim>\<open>%s\<close> prints it.\<close>

fun phase_string :: "ZarfPackagePhase \<Rightarrow> string" where
  "phase_string PhaseUnset = ''''"
| "phase_string PhasePending = ''Pending''"
| "phase_string PhaseDeploying = ''Deploying''"
| "phase_string PhaseDeployed = ''Deployed''"
| "phase_string PhaseFailed = ''Failed''"
| "phase_string PhaseRemoving = ''Removing''"

subsection \<open>The deployment hash\<close>

record deploymentAffectingSpec =
  das_Source :: string
  das_Components :: "string list"
  das_Namespace :: string
  das_Set :: "string list"
  das_Shasum :: string
  das_Features :: "string list"
  das_Architecture :: string
  das_AdoptExistingResources :: bool
  das_ClusterSecretRef :: string
  das_InitOptions :: "InitOptions option"

definition deployment_affecting :: "ZarfPackageSpec \<Rightarrow> deploymentAffectingSpec" where
  "deployment_affecting s =
     \<lparr>das_Source = sp_Source s, das_Components = sp_Components s, das_Namespace = sp_Namespace s,
      das_Set = sp_Set s, das_Shasum = sp_Shasum s, das_Features = sp_Features s,
      das_Architecture = sp_Architecture s,
      das_AdoptExistingResources = sp_AdoptExistingResources s,
      das_ClusterSecretRef = sp_ClusterSecretRef s, das_InitOptions = sp_InitOptions s\<rparr>"

text \<open>The JSON forms that the struct tags of the source prescribe.\<close>

definition RegistryInfoOptions_json :: "RegistryInfoOptions \<Rightarrow> json" where
  "RegistryInfoOptions_json r = JObj
     (omitempty (rg_Address r = []) ''address'' (JStr (rg_Address r)) @
      omitempty (rg_NodePort r = 0) ''nodePort'' (JInt (rg_NodePort r)) @
      omitempty (rg_CredentialsSecretRef r = []) ''credentialsSecretRef''
        (JStr (rg_CredentialsSecretRef r)))"

definition InitOptions_json :: "InitOptions \<Rightarrow> json" where
  "InitOptions_json i = JObj
     (case io_RegistryInfo i of None \<Rightarrow> [] | Some r \<Rightarrow> [(''registryInfo'', RegistryInfoOptions_json r)])"

definition das_json :: "deploymentAffectingSpec \<Rightarrow> json" where
  "das_json d = JObj
     ([(''source'', JStr (das_Source d))] @
      omitempty (das_Components d = []) ''components'' (JArr (map JStr (das_Components d))) @
      omitempty (das_Namespace d = []) ''namespace'' (JStr (das_Namespace d)) @
      omitempty (das_Set d = []) ''set'' (JArr (map JStr (das_Set d))) @
      omitempty (das_Shasum d = []) ''shasum'' (JStr (das_Shasum d)) @
      omitempty (das_Features d = []) ''features'' (JArr (map JStr (das_Features d))) @
      omitempty (das_Architecture d = []) ''architecture'' (JStr (das_Architecture d)) @
      omitempty (\<not> das_AdoptExistingResources d) ''adoptExistingResources''
        (JBool (das_AdoptExistingResources d)) @
      omitempty (das_ClusterSecretRef d = []) ''clusterSecretRef'' (JStr (das_ClusterSecretRef d)) @
      (case das_InitOptions d of None \<Rightarrow> [] | Some i \<Rightarrow> [(''initOptions'', InitOptions_json i)]))"

definition DeploymentHash :: "ZarfPackageSpec \<Rightarrow> string" where
  "DeploymentHash s =
     ''sha256:'' @ fmt_x (take 8 (sha256_Sum256 (json_Marshal (das_json (deployment_affecting s)))))"

lemma DeploymentHash_length: "length (DeploymentHash s) = 23"
  by (simp add: DeploymentHash_def length_fmt_x length_Sum256)

lemma DeploymentHash_nonempty [simp]: "DeploymentHash s \<noteq> []"
  by (simp add: DeploymentHash_def)

text \<open>Only the deployment-affecting fields reach the hash.\<close>

lemma DeploymentHash_cong:
  "deployment_affecting s = deployment_affecting t \<Longrightarrow> DeploymentHash s = DeploymentHash t"
  by (simp add: DeploymentHash_def)

end
