(* ===== verification/Go_Duration.thy ===== *)
theory Go_Duration
  imports Go_Strings
begin

section \<open>Durations: \<^verbatim>\<open>time.ParseDuration\<close>\<close>

text \<open>
  The parser of Go's standard library for duration strings such as \<^verbatim>\<open>15m\<close> or \<^verbatim>\<open>1h30m\<close>, with
  the overflow checks of the original: every intermediate value is compared with \<open>2\<^sup>6\<^sup>3\<close> in
  the order the library does it. A duration is an \<^typ>\<open>int\<close> number of nanoseconds; \<^const>\<open>None\<close>
  stands for the error result (the operator only asks whether there was one). The contribution of
  the digits after a decimal point is the exact product rounded down; the library computes it in
  float64, which agrees whenever the quotient of the unit by the power of ten is representable.
\<close>

definition nanosecond :: int where "nanosecond = 1"
definition second :: int where "second = 1000000000"
definition minute :: int where "minute = 60000000000"
definition hour :: int where "hour = 3600000000000"

lemmas duration_units = nanosecond_def second_def minute_def hour_def

definition is_digit :: "char \<Rightarrow> bool" where
  "is_digit c \<longleftrightarrow> 48 \<le> (of_char c :: nat) \<and> (of_char c :: nat) \<le> 57"

definition digit_val :: "char \<Rightarrow> nat" where
  "digit_val c = of_char c - 48"

text \<open>\<^verbatim>\<open>leadingInt\<close>: \<^const>\<open>None\<close> on overflow.\<close>

fun leadingInt :: "nat \<Rightarrow> string \<Rightarrow> (nat \<times> string) option" where
  "leadingInt x [] = Some (x, [])"
| "leadingInt x (c # s) =
     (if \<not> is_digit c then Some (x, c # s)
      else if 2 ^ 63 div 10 < x then None
      else let y = x * 10 + digit_val c in
           if 2 ^ 63 < y then None else leadingInt y s)"

text \<open>\<^verbatim>\<open>leadingFraction\<close>: the digits, the power of ten they are over, the rest.\<close>

fun leadingFraction :: "nat \<Rightarrow> nat \<Rightarrow> bool \<Rightarrow> string \<Rightarrow> nat \<times> nat \<times> string" where
  "leadingFraction x scale ovf [] = (x, scale, [])"
| "leadingFraction x scale ovf (c # s) =
     (if \<not> is_digit c then (x, scale, c # s)
      else if ovf then leadingFraction x scale True s
      else if (2 ^ 63 - 1) div 10 < x then leadingFraction x scale True s
      else let y = x * 10 + digit_val c in
           if 2 ^ 63 < y then leadingFraction x scale True s
           else leadingFraction y (scale * 10) False s)"

definition unitMap :: "string \<Rightarrow> nat option" where
  "unitMap u =
     (if u = ''ns'' then Some 1
      else if u = ''us'' \<or> u = [CHR 0xC2, CHR 0xB5, CHR ''s''] \<or> u = [CHR 0xCE, CHR 0xBC, CHR ''s'']
      then Some 1000
      else if u = ''ms'' then Some 1000000
      else if u = ''s'' then Some 1000000000
      else if u = ''m'' then Some 60000000000
      else if u = ''h'' then Some 3600000000000
      else None)"

definition is_unit_char :: "char \<Rightarrow> bool" where
  "is_unit_char c \<longleftrightarrow> \<not> (c = CHR ''.'' \<or> is_digit c)"

lemma leadingInt_length: "leadingInt x s = Some (v, r) \<Longrightarrow> length r \<le> length s"
  by (induction x s rule: leadingInt.induct) (auto simp: Let_def split: if_splits)

lemma leadingFraction_length: "leadingFraction x sc ov s = (f, sc', r) \<Longrightarrow> length r \<le> length s"
  by (induction x sc ov s rule: leadingFraction.induct) (auto simp: Let_def split: if_splits)

text \<open>One round of the loop: a number, its unit and what is left.\<close>

definition duration_term :: "string \<Rightarrow> (nat \<times> string) option" where
  "duration_term s =
     (case s of
        [] \<Rightarrow> None
      | c # _ \<Rightarrow>
        if \<not> (c = CHR ''.'' \<or> is_digit c) then None
        else
          (case leadingInt 0 s of
             None \<Rightarrow> None
           | Some (v, s1) \<Rightarrow>
             let pre = length s1 \<noteq> length s;
                 (f, scale, s2, post) =
                   (case s1 of
                      d # t \<Rightarrow>
                        if d = CHR ''.''
                        then (let (f, sc, t') = leadingFraction 0 1 False t in (f, sc, t', length t' \<noteq> length t))
                        else (0, 1, s1, False)
                    | [] \<Rightarrow> (0, 1, s1, False));
                 u = takeWhile is_unit_char s2;
                 rest = dropWhile is_unit_char s2
             in if \<not> pre \<and> \<not> post then None
                else if u = [] then None
                else (case unitMap u of
                        None \<Rightarrow> None
                      | Some unit \<Rightarrow>
                        if 2 ^ 63 div unit < v then None
                        else let w = v * unit + (if 0 < f then f * unit div scale else 0) in
                             if 2 ^ 63 < w then None else Some (w, rest))))"

lemma duration_term_shorter: "duration_term s = Some (w, rest) \<Longrightarrow> length rest < length s"
proof -
  assume *: "duration_term s = Some (w, rest)"
  then obtain v s1 where li: "leadingInt 0 s = Some (v, s1)"
    by (auto simp: duration_term_def split: list.splits if_splits option.splits)
  define fsp where "fsp = (case s1 of
                      d # t \<Rightarrow>
                        if d = CHR ''.''
                        then (let (f, sc, t') = leadingFraction 0 1 False t in (f, sc, t', length t' \<noteq> length t))
                        else (0, 1, s1, False)
                    | [] \<Rightarrow> (0, 1, s1, False))"
  obtain f scale s2 post where fsp: "fsp = (f, scale, s2, post)" by (metis prod_cases4)
  have "length s2 \<le> length s1"
    using fsp by (auto simp: fsp_def Let_def split: list.splits if_splits prod.splits
        dest!: leadingFraction_length)
  moreover have "length s1 \<le> length s" using li by (rule leadingInt_length)
  moreover have "takeWhile is_unit_char s2 \<noteq> [] \<and> rest = dropWhile is_unit_char s2"
    using * li fsp [unfolded fsp_def]
    by (auto simp: duration_term_def Let_def split: list.splits if_splits option.splits prod.splits)
  moreover have "length (takeWhile is_unit_char s2) + length (dropWhile is_unit_char s2) = length s2"
    by (metis length_append takeWhile_dropWhile_id)
  ultimately show ?thesis by (cases "takeWhile is_unit_char s2") auto
qed

function duration_terms :: "nat \<Rightarrow> string \<Rightarrow> nat option" where
  "duration_terms d s =
     (if s = [] then Some d
      else (case duration_term s of
              None \<Rightarrow> None
            | Some (w, rest) \<Rightarrow> if 2 ^ 63 < d + w then None else duration_terms (d + w) rest))"
  by pat_completeness auto
termination
  by (relation "measure (\<lambda>(d, s). length s)") (auto dest: duration_term_shorter)

declare duration_terms.simps [simp del]

definition time_ParseDuration :: "string \<Rightarrow> int option" where
  "time_ParseDuration s =
     (let neg = (case s of c # _ \<Rightarrow> c = CHR ''-'' | [] \<Rightarrow> False);
          s' = (case s of c # t \<Rightarrow> if c = CHR ''-'' \<or> c = CHR ''+'' then t else s | [] \<Rightarrow> s)
      in if s' = ''0'' then Some 0
         else if s' = [] then None
         else (case duration_terms 0 s' of
                 None \<Rightarrow> None
               | Some d \<Rightarrow> if neg then Some (- int d)
                          else if 2 ^ 63 - 1 < d then None
                          else Some (int d)))"

subsection \<open>Bounds and round trip\<close>

lemma duration_terms_bound: "duration_terms d s = Some r \<Longrightarrow> d \<le> 2 ^ 63 \<Longrightarrow> r \<le> 2 ^ 63"
proof (induction d s rule: duration_terms.induct)
  case (1 d s)
  show ?case
  proof (cases "s = []")
    case True
    with 1 show ?thesis by (simp add: duration_terms.simps)
  next
    case False
    with "1.prems"(1) obtain w rest where "duration_term s = Some (w, rest)" and "\<not> 2 ^ 63 < d + w"
      and "duration_terms (d + w) rest = Some r"
      by (auto simp: duration_terms.simps [of d s] split: option.splits if_splits)
    with False "1.IH" show ?thesis by (simp add: not_less)
  qed
qed

text \<open>A parsed duration is an int64, so the multiplication of units never wraps.\<close>

lemma ParseDuration_range: "time_ParseDuration s = Some d \<Longrightarrow> int64_range d"
  using duration_terms_bound [of 0]
  by (force simp: time_ParseDuration_def int64_range_def Let_def split: if_splits option.splits)

lemma digit_char: "n < 10 \<Longrightarrow> is_digit (char_of (48 + n)) \<and> digit_val (char_of (48 + n)) = n"
  by (simp add: is_digit_def digit_val_def)

lemma leadingInt_append:
  "leadingInt x (s @ t) = (case leadingInt x s of
       None \<Rightarrow> None | Some (v, []) \<Rightarrow> leadingInt v t | Some (v, r) \<Rightarrow> Some (v, r @ t))"
  by (induction x s rule: leadingInt.induct) (auto simp: Let_def split: list.splits option.splits)

lemma leadingInt_nat_dec: "n \<le> 2 ^ 63 \<Longrightarrow> leadingInt 0 (nat_dec n) = Some (n, [])"
proof (induction n rule: nat_dec.induct)
  case (1 n)
  show ?case
  proof (cases "n < 10")
    case True
    then show ?thesis
      by (simp add: nat_dec.simps [of n] digit_char del: char_of_nat)
  next
    case False
    have div: "n div 10 \<le> 2 ^ 63 div 10" using "1.prems" by (rule div_le_mono)
    with False "1.IH" have IH: "leadingInt 0 (nat_dec (n div 10)) = Some (n div 10, [])" by simp
    have "n div 10 * 10 + n mod 10 = n" by simp
    with False IH div "1.prems" show ?thesis
      by (simp add: nat_dec.simps [of n] leadingInt_append digit_char Let_def)
  qed
qed

lemma nat_dec_nonempty: "nat_dec n \<noteq> []"
  by (subst nat_dec.simps) simp

lemma nat_dec_digits: "c \<in> set (nat_dec n) \<Longrightarrow> is_digit c"
proof (induction n rule: nat_dec.induct)
  case (1 n)
  have *: "is_digit (char_of (48 + n mod 10))" by (simp add: digit_char)
  show ?case
  proof (cases "n < 10")
    case True
    with 1 show ?thesis by (simp add: nat_dec.simps [of n] digit_char)
  next
    case False
    with 1 * show ?thesis by (auto simp: nat_dec.simps [of n])
  qed
qed

lemma leadingInt_stop: "u \<noteq> [] \<Longrightarrow> \<not> is_digit (hd u) \<Longrightarrow> leadingInt v u = Some (v, u)"
  by (cases u) auto

text \<open>A whole number followed by a unit parses to their product, while that is an int64.\<close>

lemma ParseDuration_number_unit:
  assumes unit: "unitMap u = Some k" and bound: "n * k \<le> 2 ^ 63 - 1"
    and u: "u \<noteq> []" "list_all is_unit_char u"
  shows "time_ParseDuration (nat_dec n @ u) = Some (int (n * k))"
proof -
  let ?s = "nat_dec n @ u"
  have k: "0 < k" using unit by (auto simp: unitMap_def split: if_splits)
  then have "n \<le> n * k" by simp
  with bound have n: "n \<le> 2 ^ 63" by linarith
  obtain d ds where d: "nat_dec n = d # ds" using nat_dec_nonempty [of n] by (cases "nat_dec n") auto
  have digit: "is_digit d" using nat_dec_digits [of d n] d by simp
  then have sign: "d \<noteq> CHR ''-''" "d \<noteq> CHR ''+''" by (auto simp: is_digit_def)
  obtain a us where a: "u = a # us" using u(1) by (cases u) auto
  with u(2) have hd: "\<not> is_digit (hd u)" "a \<noteq> CHR ''.''" by (auto simp: is_unit_char_def)
  have li: "leadingInt 0 ?s = Some (n, u)"
    using n leadingInt_nat_dec [of n] leadingInt_stop [OF u(1) hd(1)] by (simp add: leadingInt_append)
  have unitpart: "takeWhile is_unit_char u = u" "dropWhile is_unit_char u = []"
    using u(2) by (simp_all add: takeWhile_eq_all_conv dropWhile_eq_Nil_conv list_all_iff)
  have "n \<le> 2 ^ 63 div k" using k bound by (simp add: less_eq_div_iff_mult_less_eq)
  then have "duration_term ?s = Some (n * k, [])"
    using li digit hd(2) unitpart unit bound a d
    by (simp add: duration_term_def Let_def not_less)
  then have "duration_terms 0 ?s = Some (n * k)"
    using d bound by (simp add: duration_terms.simps [of 0 "d # _"] duration_terms.simps [of _ "[]"])
  moreover have "?s \<noteq> ''0''"
    using d a nat_dec_nonempty [of n] by (cases ds) auto
  ultimately show ?thesis
    using d u(1) sign bound by (simp add: time_ParseDuration_def Let_def not_less)
qed

lemma nat_dec_15: "nat_dec 15 = ''15''"
  by code_simp

lemma ParseDuration_15m: "time_ParseDuration ''15m'' = Some (15 * minute)"
proof -
  have "time_ParseDuration (nat_dec 15 @ ''m'') = Some (int (15 * 60000000000))"
    by (rule ParseDuration_number_unit) (simp_all add: unitMap_def is_unit_char_def is_digit_def)
  then show ?thesis by (simp add: minute_def nat_dec_15)
qed

end
