(* ===== verification/Environment.thy ===== *)
theory Environment
  imports Api_Types Go_Duration "HOL-Library.Product_Lexorder"
begin

section \<open>What the operator calls: libraries and services\<close>

text \<open>
  Code outside the repository is a parameter of the model. The record \<open>lib\<close> collects pure library
  functions (conditions and finalizers of the Kubernetes machinery, gRPC status codes, SemVer,
  image references, kubeconfig files, JSON decoding of Secret payloads); \<open>env\<close> adds the
  services whose answers may change from call to call: the API server, the Zarf client, the
  registry, Helm, the clock and the random source. Every call to a service is logged as an \<open>action\<close>
  and a service's answer is a function of the actions before it, so an environment may answer the
  same question differently each time. What the operator relies on is stated as locales below; each
  has an interpretation by functions that follow the libraries' documentation, which the closed
  instances of the theorems use.
\<close>

record Secret =
  sec_Namespace :: string
  sec_Name :: string
  sec_Data :: "string \<rightharpoonup> string"

text \<open>The observable fields of \<^verbatim>\<open>semver.Version\<close> and of a parsed image reference.\<close>

record semver_Version =
  ver_Major :: nat
  ver_Minor :: nat
  ver_Patch :: nat
  ver_Prerelease :: string
  ver_Metadata :: string
  ver_Original :: string

datatype name_Reference = TagReference (ref_Context: string) (ref_TagStr: string) | DigestReference string

record argoClusterConfig =
  argo_Insecure :: bool
  argo_CAData :: string
  argo_CertData :: string
  argo_KeyData :: string
  argo_BearerToken :: string

record zarfRegistryInfo =
  zr_Address :: string
  zr_NodePort :: int
  zr_Secret :: string
  zr_PushUsername :: string
  zr_PushPassword :: string
  zr_PullUsername :: string
  zr_PullPassword :: string

text \<open>A kubeconfig as \<^verbatim>\<open>clientcmdapi.Config\<close>, the parts the operator fills in.\<close>

record api_Cluster =
  clu_Server :: string
  clu_CertificateAuthorityData :: string
  clu_InsecureSkipTLSVerify :: bool

record api_AuthInfo =
  ai_ClientCertificateData :: string
  ai_ClientKeyData :: string
  ai_Token :: string

text \<open>A parsed repository (\<^verbatim>\<open>name.Repository\<close>) and the credentials of \<^verbatim>\<open>authn\<close>.\<close>

record name_Repository =
  repo_String :: string
  repo_RegistryStr :: string

record AuthConfig =
  auth_Username :: string
  auth_Password :: string
  auth_Auth :: string
  auth_IdentityToken :: string
  auth_RegistryToken :: string

record dockerConfig =
  docker_Auths :: "string \<rightharpoonup> AuthConfig"
  docker_CredentialStore :: string
  docker_CredentialHelpers :: "(string \<times> string) list"

record api_Config =
  cfg_Clusters :: "string \<rightharpoonup> api_Cluster"
  cfg_AuthInfos :: "string \<rightharpoonup> api_AuthInfo"
  cfg_Contexts :: "string \<rightharpoonup> string \<times> string"
  cfg_CurrentContext :: string

record lib =
  status_Code :: "goerr \<Rightarrow> code"
  apierrors_IsNotFound :: "goerr \<Rightarrow> bool"
  apierrors_IsConflict :: "goerr \<Rightarrow> bool"
  apimeta_SetStatusCondition :: "Condition list \<Rightarrow> Condition \<Rightarrow> Condition list"
  apimeta_FindStatusCondition :: "Condition list \<Rightarrow> string \<Rightarrow> Condition option"
  semantic_DeepEqual :: "ZarfPackageStatus \<Rightarrow> ZarfPackageStatus \<Rightarrow> bool"
  controllerutil_ContainsFinalizer :: "string list \<Rightarrow> string \<Rightarrow> bool"
  controllerutil_AddFinalizer :: "string list \<Rightarrow> string \<Rightarrow> string list"
  controllerutil_RemoveFinalizer :: "string list \<Rightarrow> string \<Rightarrow> string list"
  semver_NewVersion :: "string \<Rightarrow> goerr + semver_Version"
  semver_StrictNewVersion :: "string \<Rightarrow> goerr + semver_Version"
  semver_GreaterThan :: "semver_Version \<Rightarrow> semver_Version \<Rightarrow> bool"
  semver_String :: "semver_Version \<Rightarrow> string"
  semver_NewConstraint :: "string \<Rightarrow> goerr + (semver_Version \<Rightarrow> bool)"
  name_ParseReference :: "string \<Rightarrow> goerr + name_Reference"
  name_NewRepository :: "string \<Rightarrow> bool \<Rightarrow> goerr + name_Repository"
  name_DefaultRegistry :: string
  authn_DefaultAuthKey :: string
  json_Unmarshal_docker :: "string \<Rightarrow> goerr + dockerConfig"
  clientcmd_Load :: "string \<Rightarrow> goerr + nat"
  clientcmd_Write :: "api_Config \<Rightarrow> goerr + string"
  json_Unmarshal_argo :: "string \<Rightarrow> goerr + argoClusterConfig"
  json_Unmarshal_state :: "string \<Rightarrow> goerr + zarfRegistryInfo"

subsection \<open>Actions\<close>

datatype event_type = EventTypeNormal | EventTypeWarning

datatype helm_status =
    StatusUnknown | StatusDeployed | StatusUninstalled | StatusSuperseded | StatusFailed
  | StatusUninstalling | StatusPendingInstall | StatusPendingUpgrade | StatusPendingRollback

fun helm_status_string :: "helm_status \<Rightarrow> string" where
  "helm_status_string StatusUnknown = ''unknown''"
| "helm_status_string StatusDeployed = ''deployed''"
| "helm_status_string StatusUninstalled = ''uninstalled''"
| "helm_status_string StatusSuperseded = ''superseded''"
| "helm_status_string StatusFailed = ''failed''"
| "helm_status_string StatusUninstalling = ''uninstalling''"
| "helm_status_string StatusPendingInstall = ''pending-install''"
| "helm_status_string StatusPendingUpgrade = ''pending-upgrade''"
| "helm_status_string StatusPendingRollback = ''pending-rollback''"

record ociTagResolveOptions =
  tr_PlainHTTP :: bool
  tr_InsecureSkipTLSVerify :: bool
  tr_RegistryCredentialJSON :: string

datatype metric =
    MPhase string string ZarfPackagePhase bool
  | MDeployDuration string
  | MFailure string
  | MDriftDetected
  | MSuspended string string bool

datatype action =
    AEvent event_type string string
  | AMetric metric
  | AGetPackage string string
  | AGetSecret string string
  | APatchStatus ZarfPackage ZarfPackage
  | APatch ZarfPackage ZarfPackage
  | ADeploy DeployOptions int
  | ARemove RemoveOptions int
  | AGetDeployed GetDeployedPackageOptions
  | AListTags string ociTagResolveOptions
  | AHelmExists string string
  | AHelmStatus string string
  | AHelmFix string string helm_status
  | AHelmInit string
  | AHelmHistory string string
  | AHelmUninstall string string
  | AHelmRollback string string

type_synonym trace = "action list"

text \<open>A release found by Helm's history action: its status, if the release has an info block.\<close>

type_synonym helm_release = "helm_status option"

record env =
  libs :: lib
  env_now :: "trace \<Rightarrow> int"
  env_Int63n :: "trace \<Rightarrow> int \<Rightarrow> int"
  env_ctxErr :: "trace \<Rightarrow> goerr option"
  env_GetPackage :: "trace \<Rightarrow> string \<Rightarrow> string \<Rightarrow> goerr + ZarfPackage"
  env_GetSecret :: "trace \<Rightarrow> string \<Rightarrow> string \<Rightarrow> goerr + Secret"
  env_PatchStatus :: "trace \<Rightarrow> ZarfPackage \<Rightarrow> ZarfPackage \<Rightarrow> goerr + ZarfPackage"
  env_Patch :: "trace \<Rightarrow> ZarfPackage \<Rightarrow> ZarfPackage \<Rightarrow> goerr + ZarfPackage"
  env_Deploy :: "trace \<Rightarrow> DeployOptions \<Rightarrow> int \<Rightarrow> DeployResult option \<times> goerr option"
  env_Remove :: "trace \<Rightarrow> RemoveOptions \<Rightarrow> int \<Rightarrow> goerr option"
  env_GetDeployedPackage :: "trace \<Rightarrow> GetDeployedPackageOptions \<Rightarrow> PackageInfo option \<times> goerr option"
  env_remoteList :: "trace \<Rightarrow> name_Repository \<Rightarrow> AuthConfig option \<Rightarrow> bool \<Rightarrow> goerr + string list"
  env_helmInit :: "trace \<Rightarrow> string \<Rightarrow> goerr option"
  env_helmHistory :: "trace \<Rightarrow> string \<Rightarrow> string \<Rightarrow> goerr + helm_release list"
  env_helmUninstall :: "trace \<Rightarrow> string \<Rightarrow> string \<Rightarrow> goerr option"
  env_helmRollback :: "trace \<Rightarrow> string \<Rightarrow> string \<Rightarrow> goerr option"

subsection \<open>Conditions\<close>

text \<open>
  \<^verbatim>\<open>apimeta.FindStatusCondition\<close> returns the first condition of the type;
  \<^verbatim>\<open>apimeta.SetStatusCondition\<close> sets every field of the condition of its type, or adds it, and
  touches no other type.
\<close>

locale condition_api =
  fixes setC :: "Condition list \<Rightarrow> Condition \<Rightarrow> Condition list"
    and findC :: "Condition list \<Rightarrow> string \<Rightarrow> Condition option"
  assumes find_first: "findC cs t = List.find (\<lambda>c. cond_Type c = t) cs"
    and find_set_same: "findC (setC cs c) (cond_Type c) = Some c"
    and find_set_other: "t \<noteq> cond_Type c \<Longrightarrow> findC (setC cs c) t = findC cs t"
begin

lemma find_set: "findC (setC cs c) t = (if t = cond_Type c then Some c else findC cs t)"
  by (simp add: find_set_same find_set_other)

lemma first_set:
  "List.find (\<lambda>c. cond_Type c = t) (setC cs c) =
     (if t = cond_Type c then Some c else List.find (\<lambda>c. cond_Type c = t) cs)"
  using find_set [of cs c t] by (simp add: find_first)

end

fun ref_SetStatusCondition :: "Condition list \<Rightarrow> Condition \<Rightarrow> Condition list" where
  "ref_SetStatusCondition [] c = [c]"
| "ref_SetStatusCondition (x # cs) c =
     (if cond_Type x = cond_Type c then c # cs else x # ref_SetStatusCondition cs c)"

definition ref_FindStatusCondition :: "Condition list \<Rightarrow> string \<Rightarrow> Condition option" where
  "ref_FindStatusCondition cs t = List.find (\<lambda>c. cond_Type c = t) cs"

lemma ref_find_set:
  "List.find (\<lambda>c. cond_Type c = t) (ref_SetStatusCondition cs c) =
     (if t = cond_Type c then Some c else List.find (\<lambda>c. cond_Type c = t) cs)"
  by (induction cs) auto

interpretation ref_cond: condition_api ref_SetStatusCondition ref_FindStatusCondition
  by unfold_locales (auto simp: ref_FindStatusCondition_def ref_find_set)

subsection \<open>Finalizers\<close>

locale finalizer_api =
  fixes containsF :: "string list \<Rightarrow> string \<Rightarrow> bool"
    and addF :: "string list \<Rightarrow> string \<Rightarrow> string list"
    and removeF :: "string list \<Rightarrow> string \<Rightarrow> string list"
  assumes contains_iff: "containsF fs f \<longleftrightarrow> f \<in> set fs"
    and add_set: "set (addF fs f) = insert f (set fs)"
    and remove_set: "set (removeF fs f) = set fs - {f}"
begin

lemma contains_add: "containsF (addF fs f) g \<longleftrightarrow> g = f \<or> containsF fs g"
  by (auto simp: contains_iff add_set)

lemma contains_remove: "containsF (removeF fs f) g \<longleftrightarrow> g \<noteq> f \<and> containsF fs g"
  by (auto simp: contains_iff remove_set)

end

definition ref_ContainsFinalizer :: "string list \<Rightarrow> string \<Rightarrow> bool" where
  "ref_ContainsFinalizer fs f \<longleftrightarrow> f \<in> set fs"

definition ref_AddFinalizer :: "string list \<Rightarrow> string \<Rightarrow> string list" where
  "ref_AddFinalizer fs f = (if f \<in> set fs then fs else fs @ [f])"

definition ref_RemoveFinalizer :: "string list \<Rightarrow> string \<Rightarrow> string list" where
  "ref_RemoveFinalizer fs f = filter (\<lambda>g. g \<noteq> f) fs"

interpretation ref_fin: finalizer_api ref_ContainsFinalizer ref_AddFinalizer ref_RemoveFinalizer
  by unfold_locales
    (auto simp: ref_ContainsFinalizer_def ref_AddFinalizer_def ref_RemoveFinalizer_def)

subsection \<open>Version precedence\<close>

text \<open>
  \<^verbatim>\<open>GreaterThan\<close> is the strict part of SemVer precedence, a total preorder on versions: two
  versions that differ in build metadata only have the same precedence.
\<close>

locale semver_order =
  fixes gt :: "semver_Version \<Rightarrow> semver_Version \<Rightarrow> bool"
  assumes gt_irrefl: "\<not> gt v v"
    and gt_trans: "gt u v \<Longrightarrow> gt v w \<Longrightarrow> gt u w"
    and gt_weak: "gt u w \<Longrightarrow> gt u v \<or> gt v w"
begin

lemma gt_asym: "gt u v \<Longrightarrow> \<not> gt v u"
  using gt_irrefl gt_trans by blast

lemma not_gt_trans: "\<not> gt v u \<Longrightarrow> \<not> gt w v \<Longrightarrow> \<not> gt w u"
  using gt_weak by blast

lemma gt_not_gt: "gt u v \<Longrightarrow> \<not> gt w v \<Longrightarrow> gt u w"
  using gt_weak by blast

lemma not_gt_gt: "\<not> gt v u \<Longrightarrow> gt v w \<Longrightarrow> gt u w"
  using gt_weak by blast

end

text \<open>
  The precedence of release versions (major, minor and patch numbers compared in this order, a
  prerelease before its release). Prereleases of one triple are all equal here; the closed
  instances compare no two of them.
\<close>

definition ver_rank :: "semver_Version \<Rightarrow> nat \<times> nat \<times> nat \<times> nat" where
  "ver_rank v = (ver_Major v, ver_Minor v, ver_Patch v, if ver_Prerelease v = [] then 1 else 0)"

definition ref_GreaterThan :: "semver_Version \<Rightarrow> semver_Version \<Rightarrow> bool" where
  "ref_GreaterThan u v \<longleftrightarrow> ver_rank v < ver_rank u"

interpretation ref_semver: semver_order ref_GreaterThan
proof unfold_locales
  show "\<not> ref_GreaterThan v v" for v
    by (simp add: ref_GreaterThan_def)
  show "ref_GreaterThan u v \<Longrightarrow> ref_GreaterThan v w \<Longrightarrow> ref_GreaterThan u w" for u v w
    unfolding ref_GreaterThan_def by (rule less_trans)
  show "ref_GreaterThan u w \<Longrightarrow> ref_GreaterThan u v \<or> ref_GreaterThan v w" for u v w
    unfolding ref_GreaterThan_def by (meson le_less_trans not_le)
qed

end
