(* ===== verification/Reference_Env.thy ===== *)
theory Reference_Env
  imports Environment
begin

section \<open>A reference environment\<close>

text \<open>
  Concrete libraries and services that follow the documentation of the real ones on the inputs they
  support. The closed instances of the theorems run the model in this environment, with single
  answers replaced; the locales of the development are interpreted on it.
\<close>

subsection \<open>Libraries\<close>

fun ref_status_Code :: "goerr \<Rightarrow> code" where
  "ref_status_Code (StatusError c _ _) = c"
| "ref_status_Code (WrapError _ e) = ref_status_Code e"
| "ref_status_Code (DeployErr (Some e) _ _ _) = ref_status_Code e"
| "ref_status_Code _ = codes_Unknown"

definition ref_IsNotFound :: "goerr \<Rightarrow> bool" where
  "ref_IsNotFound e = (case e of ApiError ApiNotFound _ \<Rightarrow> True | _ \<Rightarrow> False)"

definition ref_IsConflict :: "goerr \<Rightarrow> bool" where
  "ref_IsConflict e = (case e of ApiError ApiConflict _ \<Rightarrow> True | _ \<Rightarrow> False)"

text \<open>Versions of three numbers, with an optional leading v and an optional prerelease.\<close>

fun ref_number :: "string \<Rightarrow> nat \<Rightarrow> nat option" where
  "ref_number [] n = Some n"
| "ref_number (c # cs) n = (if is_digit c then ref_number cs (10 * n + digit_val c) else None)"

definition ref_NewVersion :: "string \<Rightarrow> goerr + semver_Version" where
  "ref_NewVersion s =
     (let bare = strings_TrimPrefix s ''v'';
          bad = Inl (ErrorString ''Invalid Semantic Version'');
          build = (\<lambda>core pre. case strings_SplitN2 core (CHR ''.'') of
             [a, rest] \<Rightarrow>
               (case strings_SplitN2 rest (CHR ''.'') of
                  [b, c] \<Rightarrow>
                    (case (ref_number a 0, ref_number b 0, ref_number c 0) of
                       (Some x, Some y, Some z) \<Rightarrow>
                         Inr \<lparr>ver_Major = x, ver_Minor = y, ver_Patch = z, ver_Prerelease = pre,
                              ver_Metadata = [], ver_Original = s\<rparr>
                     | _ \<Rightarrow> bad)
                | _ \<Rightarrow> bad)
           | _ \<Rightarrow> bad)
      in case strings_SplitN2 bare (CHR ''-'') of
           [core, pre] \<Rightarrow> build core pre
         | _ \<Rightarrow> build bare [])"

definition ref_ParseReference :: "string \<Rightarrow> goerr + name_Reference" where
  "ref_ParseReference s =
     (let i = strings_LastIndex s (CHR '':'') in
      if i < 0 then Inl (ErrorString ''could not parse reference'')
      else Inr (TagReference (take (nat i) s) (drop (nat i + 1) s)))"

definition ref_unsupported :: goerr where
  "ref_unsupported = ErrorString ''unsupported''"

definition ref_lib :: lib where
  "ref_lib =
     \<lparr>status_Code = ref_status_Code, apierrors_IsNotFound = ref_IsNotFound,
      apierrors_IsConflict = ref_IsConflict, apimeta_SetStatusCondition = ref_SetStatusCondition,
      apimeta_FindStatusCondition = ref_FindStatusCondition, semantic_DeepEqual = (=),
      controllerutil_ContainsFinalizer = ref_ContainsFinalizer,
      controllerutil_AddFinalizer = ref_AddFinalizer,
      controllerutil_RemoveFinalizer = ref_RemoveFinalizer,
      semver_NewVersion = ref_NewVersion, semver_StrictNewVersion = ref_NewVersion,
      semver_GreaterThan = ref_GreaterThan, semver_String = ver_Original,
      semver_NewConstraint = (\<lambda>_. Inl ref_unsupported), name_ParseReference = ref_ParseReference,
      name_NewRepository = (\<lambda>s _. Inr \<lparr>repo_String = s, repo_RegistryStr = s\<rparr>),
      name_DefaultRegistry = ''index.docker.io'', authn_DefaultAuthKey = ''https://index.docker.io/v1/'',
      json_Unmarshal_docker = (\<lambda>_. Inl ref_unsupported), clientcmd_Load = (\<lambda>_. Inl ref_unsupported),
      clientcmd_Write = (\<lambda>_. Inl ref_unsupported), json_Unmarshal_argo = (\<lambda>_. Inl ref_unsupported),
      json_Unmarshal_state = (\<lambda>_. Inl ref_unsupported)\<rparr>"

subsection \<open>Services\<close>

text \<open>The status the API server holds after the patches of a trace.\<close>

fun last_status :: "ZarfPackageStatus \<Rightarrow> trace \<Rightarrow> ZarfPackageStatus" where
  "last_status s [] = s"
| "last_status s (APatchStatus base obj # tr) = last_status (zp_Status obj) tr"
| "last_status s (a # tr) = last_status s tr"

text \<open>
  An API server that holds one object, whose status starts out empty; no Secrets, a Zarf client whose
  deployments fail, an empty registry, a Helm without releases.
\<close>

definition ref_env :: "ZarfPackage \<Rightarrow> env" where
  "ref_env p =
     \<lparr>libs = ref_lib, env_now = (\<lambda>tr. 1000 + int (length tr)), env_Int63n = (\<lambda>_ n. n - 1),
      env_ctxErr = (\<lambda>_. None),
      env_GetPackage = (\<lambda>tr ns name.
        if ns = zp_Namespace p \<and> name = zp_Name p then Inr (p\<lparr>zp_Status := last_status zero_status tr\<rparr>)
        else Inl (ApiError ApiNotFound ''not found'')),
      env_GetSecret = (\<lambda>_ _ _. Inl (ApiError ApiNotFound ''not found'')),
      env_PatchStatus = (\<lambda>_ _ obj. Inr obj),
      env_Patch = (\<lambda>tr _ obj. Inr (obj\<lparr>zp_Status := last_status zero_status tr\<rparr>)),
      env_Deploy = (\<lambda>_ _ _. (None, Some (StatusError codes_Internal ''deployment failed'' []))),
      env_Remove = (\<lambda>_ _ _. None),
      env_GetDeployedPackage = (\<lambda>_ _. (None, Some (StatusError codes_NotFound ''not found'' []))),
      env_remoteList = (\<lambda>_ _ _ _. Inr []), env_helmInit = (\<lambda>_ _. None),
      env_helmHistory = (\<lambda>_ _ _. Inl ReleaseNotFound), env_helmUninstall = (\<lambda>_ _ _. None),
      env_helmRollback = (\<lambda>_ _ _. None)\<rparr>"

text \<open>A spec with nothing but a source, and a package of it that the controller owns.\<close>

definition ref_spec :: ZarfPackageSpec where
  "ref_spec =
     \<lparr>sp_Source = ''oci://r/p:1.0.0'', sp_DependsOn = [], sp_AdoptExistingResources = False,
      sp_Components = [], sp_Namespace = [], sp_Retries = 0, sp_MaxRetries = 0, sp_Set = [], sp_Shasum = [],
      sp_SkipSignatureValidation = False, sp_Timeout = [], sp_Architecture = [], sp_Features = [],
      sp_InsecureSkipTLSVerify = False, sp_Key = [], sp_LogFormat = [], sp_LogLevel = [],
      sp_HelmDebugEnabled = False, sp_NoColor = False, sp_OciConcurrency = 0, sp_PlainHTTP = False,
      sp_RegistryCredentialSecretRef = [], sp_ClusterSecretRef = [], sp_Tmpdir = [], sp_ZarfCache = [],
      sp_SyncPolicy = SyncPolicyIgnore, sp_Yolo = False, sp_Suspend = False, sp_InitOptions = None,
      sp_UpgradePolicy = None\<rparr>"

definition ref_pkg :: ZarfPackage where
  "ref_pkg =
     \<lparr>zp_Name = ''app'', zp_Namespace = ''ns'', zp_Generation = 1, zp_DeletionTimestamp = None,
      zp_Finalizers = [''zarfpackage.zarf.dev/finalizer''], zp_Annotations = Map.empty,
      zp_Spec = ref_spec, zp_Status = zero_status\<rparr>"

lemmas ref_defs = ref_env_def ref_lib_def ref_pkg_def ref_spec_def

lemma ref_env_simps [simp]:
  "libs (ref_env p) = ref_lib"
  "apimeta_SetStatusCondition ref_lib = ref_SetStatusCondition"
  "apimeta_FindStatusCondition ref_lib = ref_FindStatusCondition"
  "controllerutil_ContainsFinalizer ref_lib = ref_ContainsFinalizer"
  "controllerutil_AddFinalizer ref_lib = ref_AddFinalizer"
  "controllerutil_RemoveFinalizer ref_lib = ref_RemoveFinalizer"
  "semver_GreaterThan ref_lib = ref_GreaterThan"
  by (simp_all add: ref_defs)

end
