(* ===== verification/Status_Ops.thy ===== *)
theory Status_Ops
  imports Reference_Env
begin

section \<open>Controller state and status bookkeeping\<close>

text \<open>
  The reconciler's configuration, the state one reconcile threads through its calls (the object in
  memory, the original it is compared with, the actions so far), and the helpers of
  \<^verbatim>\<open>internal/controller/zarfpackage_controller.go\<close> that read or write the status: conditions, failure
  counting and backoff, component statuses, messages. Functions of the source that only touch the
  object are functions on \<^typ>\<open>ZarfPackage\<close>; those that also record events or read the clock work on
  \<open>rstate\<close>. Logging and tracing spans are left out: they have no effect on anything modelled.
\<close>

record reconciler =
  r_RequeueInterval :: int
  r_MaxConcurrentReconciles :: int
  r_recorder :: bool
  r_ZarfClient :: bool
  r_OCITagResolver :: "(trace \<Rightarrow> string \<Rightarrow> ociTagResolveOptions \<Rightarrow> goerr + string list) option"
  r_helmReleaseExistsFn :: "(trace \<Rightarrow> string \<Rightarrow> string \<Rightarrow> bool \<times> goerr option) option"
  r_helmReleaseStatusFn :: "(trace \<Rightarrow> string \<Rightarrow> string \<Rightarrow> helm_status \<times> goerr option) option"
  r_fixStuckHelmReleaseFn :: "(trace \<Rightarrow> string \<Rightarrow> string \<Rightarrow> helm_status \<Rightarrow> goerr option) option"

record rstate =
  rs_pkg :: ZarfPackage
  rs_original :: ZarfPackage
  rs_trace :: trace

record Result =
  res_Requeue :: bool
  res_RequeueAfter :: int

type_synonym outcome = "Result \<times> goerr option"

definition Result_zero :: Result where "Result_zero = \<lparr>res_Requeue = False, res_RequeueAfter = 0\<rparr>"
definition Result_requeue :: Result where "Result_requeue = \<lparr>res_Requeue = True, res_RequeueAfter = 0\<rparr>"
definition Result_after :: "int \<Rightarrow> Result" where
  "Result_after d = \<lparr>res_Requeue = False, res_RequeueAfter = d\<rparr>"

lemmas Result_defs = Result_zero_def Result_requeue_def Result_after_def

abbreviation rs_status :: "rstate \<Rightarrow> ZarfPackageStatus" where
  "rs_status st \<equiv> zp_Status (rs_pkg st)"

abbreviation rs_spec :: "rstate \<Rightarrow> ZarfPackageSpec" where
  "rs_spec st \<equiv> zp_Spec (rs_pkg st)"

subsection \<open>Constants\<close>

definition ZarfPackageFinalizer :: string where "ZarfPackageFinalizer = ''zarfpackage.zarf.dev/finalizer''"
definition AnnotationRedeploy :: string where "AnnotationRedeploy = ''zarf.dev/redeploy''"
definition backoffBaseInterval :: int where "backoffBaseInterval = 10 * second"
definition backoffMaxInterval :: int where "backoffMaxInterval = 5 * minute"
definition backoffMultiplier :: int where "backoffMultiplier = 2"
definition backoffMaxJitter :: int where "backoffMaxJitter = 5 * second"
definition dependencyRequeue :: int where "dependencyRequeue = 10 * second"
definition sidecarBusyRequeue :: int where "sidecarBusyRequeue = 10 * second"
definition upgradeCheckFailureRequeue :: int where "upgradeCheckFailureRequeue = minute"

lemmas backoff_consts = backoffBaseInterval_def backoffMaxInterval_def backoffMultiplier_def
  backoffMaxJitter_def duration_units

abbreviation ReasonDeploying :: string where "ReasonDeploying \<equiv> ''Deploying''"
abbreviation ReasonDeployed :: string where "ReasonDeployed \<equiv> ''Deployed''"
abbreviation ReasonDeployFailed :: string where "ReasonDeployFailed \<equiv> ''DeployFailed''"
abbreviation ReasonRemoving :: string where "ReasonRemoving \<equiv> ''Removing''"
abbreviation ReasonRemoveFailed :: string where "ReasonRemoveFailed \<equiv> ''RemoveFailed''"
abbreviation ReasonReconciling :: string where "ReasonReconciling \<equiv> ''Reconciling''"
abbreviation ReasonDriftDetected :: string where "ReasonDriftDetected \<equiv> ''DriftDetected''"
abbreviation ReasonDriftResolved :: string where "ReasonDriftResolved \<equiv> ''DriftResolved''"
abbreviation ReasonSidecarUnavailable :: string where "ReasonSidecarUnavailable \<equiv> ''SidecarUnavailable''"
abbreviation ReasonMaxRetriesExceeded :: string where "ReasonMaxRetriesExceeded \<equiv> ''MaxRetriesExceeded''"
abbreviation ReasonRedeployRequested :: string where "ReasonRedeployRequested \<equiv> ''RedeployRequested''"
abbreviation ReasonSecretNotFound :: string where "ReasonSecretNotFound \<equiv> ''SecretNotFound''"
abbreviation ReasonInvalidClusterSecret :: string where "ReasonInvalidClusterSecret \<equiv> ''InvalidClusterSecret''"
abbreviation ReasonInvalidInitSecret :: string where "ReasonInvalidInitSecret \<equiv> ''InvalidInitSecret''"
abbreviation ReasonHelmDebugLogs :: string where "ReasonHelmDebugLogs \<equiv> ''HelmDebugLogs''"
abbreviation ReasonStalled :: string where "ReasonStalled \<equiv> ''Stalled''"
abbreviation ReasonUpgradeAvailable :: string where "ReasonUpgradeAvailable \<equiv> ''UpgradeAvailable''"
abbreviation ReasonUpgradeNotAvailable :: string where "ReasonUpgradeNotAvailable \<equiv> ''UpgradeNotAvailable''"
abbreviation ReasonUpgradeCheckFailed :: string where "ReasonUpgradeCheckFailed \<equiv> ''UpgradeCheckFailed''"
abbreviation ReasonUpgradeDeployed :: string where "ReasonUpgradeDeployed \<equiv> ''UpgradeDeployed''"

subsection \<open>Threading the state\<close>

definition emit :: "action \<Rightarrow> rstate \<Rightarrow> rstate" where
  "emit a st = st\<lparr>rs_trace := rs_trace st @ [a]\<rparr>"

text \<open>\<^verbatim>\<open>if r.recorder != nil { r.recorder.Event(...) }\<close>\<close>

definition event :: "reconciler \<Rightarrow> event_type \<Rightarrow> string \<Rightarrow> string \<Rightarrow> rstate \<Rightarrow> rstate" where
  "event r ty reason msg st = (if r_recorder r then emit (AEvent ty reason msg) st else st)"

definition on_pkg :: "(ZarfPackage \<Rightarrow> ZarfPackage) \<Rightarrow> rstate \<Rightarrow> rstate" where
  "on_pkg f st = st\<lparr>rs_pkg := f (rs_pkg st)\<rparr>"

definition on_status :: "(ZarfPackageStatus \<Rightarrow> ZarfPackageStatus) \<Rightarrow> ZarfPackage \<Rightarrow> ZarfPackage" where
  "on_status f p = p\<lparr>zp_Status := f (zp_Status p)\<rparr>"

definition now :: "env \<Rightarrow> rstate \<Rightarrow> int" where
  "now E st = env_now E (rs_trace st)"

subsection \<open>Conditions and phases\<close>

definition setCondition ::
  "lib \<Rightarrow> ZarfPackage \<Rightarrow> string \<Rightarrow> ConditionStatus \<Rightarrow> string \<Rightarrow> string \<Rightarrow> ZarfPackage" where
  "setCondition L p condType s reason message =
     on_status (\<lambda>st. st\<lparr>st_Conditions := apimeta_SetStatusCondition L (st_Conditions st)
       \<lparr>cond_Type = condType, cond_Status = s, cond_Reason = reason, cond_Message = message,
        cond_ObservedGeneration = zp_Generation p\<rparr>\<rparr>) p"

definition setPhase :: "ZarfPackagePhase \<Rightarrow> ZarfPackage \<Rightarrow> ZarfPackage" where
  "setPhase ph p = on_status (\<lambda>st. st\<lparr>st_Phase := ph\<rparr>) p"

abbreviation set_cond ::
  "env \<Rightarrow> string \<Rightarrow> ConditionStatus \<Rightarrow> string \<Rightarrow> string \<Rightarrow> rstate \<Rightarrow> rstate" where
  "set_cond E t s reason msg \<equiv> on_pkg (\<lambda>p. setCondition (libs E) p t s reason msg)"

subsection \<open>Failures and backoff\<close>

definition resetFailures :: "ZarfPackage \<Rightarrow> ZarfPackage" where
  "resetFailures p = on_status (\<lambda>st. st\<lparr>st_FailureCount := 0, st_LastFailureTime := None\<rparr>) p"

definition recordFailure :: "env \<Rightarrow> rstate \<Rightarrow> rstate" where
  "recordFailure E st = on_pkg (on_status (\<lambda>s. s\<lparr>st_FailureCount := wrap32 (st_FailureCount s + 1),
     st_LastFailureTime := Some (now E st)\<rparr>)) st"

definition maxRetriesExceeded :: "ZarfPackage \<Rightarrow> bool" where
  "maxRetriesExceeded p \<longleftrightarrow>
     0 < sp_MaxRetries (zp_Spec p) \<and> sp_MaxRetries (zp_Spec p) \<le> st_FailureCount (zp_Status p)"

text \<open>
  The code multiplies in float64, where a power of two times the base is exact (and positive
  infinity beyond the range, which the cap absorbs); the integer product is the same number.
  \<open>jitter\<close> is what \<^verbatim>\<open>rand.Int63n(backoffMaxJitter)\<close> returned.
\<close>

definition calculateBackoff :: "int \<Rightarrow> int \<Rightarrow> int" where
  "calculateBackoff jitter failureCount =
     (if failureCount \<le> 0 then backoffBaseInterval
      else let backoff = backoffBaseInterval * backoffMultiplier ^ nat failureCount;
               capped = (if backoffMaxInterval < backoff then backoffMaxInterval else backoff)
           in wrap64 (capped + jitter))"

text \<open>The backoff result after a failure, as every failing path returns it.\<close>

definition backoff_result :: "env \<Rightarrow> rstate \<Rightarrow> Result" where
  "backoff_result E st =
     Result_after (calculateBackoff (env_Int63n E (rs_trace st) backoffMaxJitter)
       (st_FailureCount (rs_status st)))"

definition markMaxRetriesExceeded :: "env \<Rightarrow> reconciler \<Rightarrow> string \<Rightarrow> rstate \<Rightarrow> rstate" where
  "markMaxRetriesExceeded E r what st0 =
     (let st1 = on_pkg (setPhase PhaseFailed) st0;
          st2 = set_cond E ConditionTypeReady ConditionFalse ReasonMaxRetriesExceeded
                  (''Max retries ('' @ fmt_d (sp_MaxRetries (rs_spec st1)) @ '') exceeded while '' @ what) st1;
          st3 = event r EventTypeWarning ReasonMaxRetriesExceeded
                  (''Operation failed after '' @ fmt_d (st_FailureCount (rs_status st2)) @ '' attempts'') st2
      in set_cond E ConditionTypeStalled ConditionTrue ReasonStalled
           (''Controller stopped retrying after '' @ fmt_d (st_FailureCount (rs_status st3)) @ '' failures'') st3)"

definition isMaxRetriesTerminal :: "lib \<Rightarrow> ZarfPackage \<Rightarrow> bool" where
  "isMaxRetriesTerminal L p \<longleftrightarrow>
     st_Phase (zp_Status p) = PhaseFailed \<and>
     (case apimeta_FindStatusCondition L (st_Conditions (zp_Status p)) ConditionTypeReady of
        None \<Rightarrow> False
      | Some ready \<Rightarrow> cond_Status ready = ConditionFalse \<and> cond_Reason ready = ReasonMaxRetriesExceeded)"

definition shouldPreserveFailedReadyCondition :: "lib \<Rightarrow> ZarfPackage \<Rightarrow> bool" where
  "shouldPreserveFailedReadyCondition L p \<longleftrightarrow>
     st_Phase (zp_Status p) = PhaseFailed \<and>
     strings_TrimSpace (st_LastAttemptError (zp_Status p)) \<noteq> [] \<and>
     (case apimeta_FindStatusCondition L (st_Conditions (zp_Status p)) ConditionTypeReady of
        None \<Rightarrow> False
      | Some ready \<Rightarrow> cond_Status ready = ConditionFalse \<and>
          (cond_Reason ready = ReasonDeployFailed \<or> cond_Reason ready = ReasonMaxRetriesExceeded))"

definition isUserRecoverableError :: "lib \<Rightarrow> goerr \<Rightarrow> bool" where
  "isUserRecoverableError L e \<longleftrightarrow>
     status_Code L e \<in> {codes_InvalidArgument, codes_NotFound, codes_PermissionDenied, codes_Unauthenticated}"

definition recordFailureMetric :: "string \<Rightarrow> rstate \<Rightarrow> rstate" where
  "recordFailureMetric reason = emit (AMetric (MFailure reason))"

definition recordResourceMetrics :: "rstate \<Rightarrow> rstate" where
  "recordResourceMetrics st =
     fold (\<lambda>ph. emit (AMetric (MPhase (zp_Namespace (rs_pkg st)) (zp_Name (rs_pkg st)) ph
             (st_Phase (rs_status st) = ph))))
       [PhasePending, PhaseDeploying, PhaseDeployed, PhaseFailed, PhaseRemoving] st"

definition setSuspendedMetric :: "bool \<Rightarrow> rstate \<Rightarrow> rstate" where
  "setSuspendedMetric b st =
     emit (AMetric (MSuspended (zp_Namespace (rs_pkg st)) (zp_Name (rs_pkg st)) b)) st"

subsection \<open>Component statuses\<close>

definition hasFailedDeployedComponent :: "PackageInfo option \<Rightarrow> bool" where
  "hasFailedDeployedComponent deployedPkg =
     (case deployedPkg of
        None \<Rightarrow> False
      | Some p \<Rightarrow> list_ex (\<lambda>cmp. dc_Status cmp = ComponentStatusFailed \<or>
          list_ex (\<lambda>chart. ic_Status chart = ChartStatusFailed) (dc_InstalledCharts cmp))
          (pi_DeployedComponents p))"

definition hasFailedStatusComponent :: "ComponentStatus list \<Rightarrow> bool" where
  "hasFailedStatusComponent comps =
     list_ex (\<lambda>cmp. cs_Status cmp = ComponentStatusFailed \<or>
       list_ex (\<lambda>chart. ics_Status chart = ChartStatusFailed) (cs_InstalledCharts cmp)) comps"

definition convertComponentStatuses :: "DeployedComponent list \<Rightarrow> ComponentStatus list" where
  "convertComponentStatuses comps =
     map (\<lambda>c. \<lparr>cs_Name = dc_Name c, cs_Status = dc_Status c,
                cs_InstalledCharts = map (\<lambda>ch. \<lparr>ics_Namespace = ic_Namespace ch,
                  ics_ChartName = ic_ChartName ch, ics_Status = ic_Status ch\<rparr>) (dc_InstalledCharts c),
                cs_ObservedGeneration = dc_ObservedGeneration c\<rparr>) comps"

definition canPreserveCurrentDeployment :: "ZarfPackage \<Rightarrow> bool" where
  "canPreserveCurrentDeployment p =
     (if st_Phase (zp_Status p) \<noteq> PhaseDeployed then False
      else if strings_TrimSpace (st_LastAttemptError (zp_Status p)) \<noteq> [] then False
      else if hasFailedStatusComponent (st_ComponentStatuses (zp_Status p)) then False
      else (case List.find (\<lambda>c. cond_Type c = ConditionTypeReady) (st_Conditions (zp_Status p)) of
              Some cond \<Rightarrow> cond_Status cond = ConditionTrue
            | None \<Rightarrow> False))"

definition syncStatusFromDeployed :: "PackageInfo option \<Rightarrow> ZarfPackage \<Rightarrow> ZarfPackage" where
  "syncStatusFromDeployed deployedPkg p =
     (case deployedPkg of
        None \<Rightarrow> p
      | Some d \<Rightarrow> on_status (\<lambda>st. st\<lparr>st_PackageName := pi_Name d, st_DeployedVersion := pi_Version d,
          st_DeployedGeneration := pi_Generation d,
          st_ComponentStatuses := convertComponentStatuses (pi_DeployedComponents d)\<rparr>) p)"

definition firstFailedChartName :: "DeployedComponent \<Rightarrow> string" where
  "firstFailedChartName cmp =
     (case List.find (\<lambda>chart. ic_Status chart = ChartStatusFailed) (dc_InstalledCharts cmp) of
        Some chart \<Rightarrow> ic_ChartName chart
      | None \<Rightarrow> [])"

fun failedComponentError :: "DeployedComponent list \<Rightarrow> goerr option" where
  "failedComponentError [] = None"
| "failedComponentError (cmp # comps) =
     (if dc_Status cmp = ComponentStatusFailed
      then Some (DeployErr
             (Some (ErrorString (''deploy result reported failed component '' @ fmt_q (dc_Name cmp))))
             (dc_Name cmp) (firstFailedChartName cmp) [])
      else if firstFailedChartName cmp \<noteq> []
      then Some (DeployErr
             (Some (ErrorString (''deploy result reported failed chart '' @
               fmt_q (firstFailedChartName cmp) @ '' in component '' @ fmt_q (dc_Name cmp))))
             (dc_Name cmp) (firstFailedChartName cmp) [])
      else failedComponentError comps)"

definition failedDeployResultError :: "DeployResult option \<Rightarrow> goerr option" where
  "failedDeployResultError result =
     (case result of
        None \<Rightarrow> Some (ErrorString ''deploy completed without a result'')
      | Some res \<Rightarrow> failedComponentError (dr_DeployedComponents res))"

text \<open>\<^verbatim>\<open>mergeFailedChartEvidence\<close>: mark the first chart of the name, or append the reported one.\<close>

fun markChart :: "InstalledChartStatus list \<Rightarrow> string \<Rightarrow> InstalledChartStatus list option" where
  "markChart [] chartName = None"
| "markChart (c # cs) chartName =
     (if ics_ChartName c = chartName then Some (c\<lparr>ics_Status := ChartStatusFailed\<rparr> # cs)
      else map_option (\<lambda>cs'. c # cs') (markChart cs chartName))"

definition mergeFailedChartEvidence ::
  "InstalledChartStatus list \<Rightarrow> InstalledChartStatus list \<Rightarrow> InstalledChartStatus list" where
  "mergeFailedChartEvidence existing reported =
     (if existing = [] then reported
      else foldl (\<lambda>merged failedChart.
             if strings_TrimSpace (ics_ChartName failedChart) = [] then merged
             else (case markChart merged (ics_ChartName failedChart) of
                     Some merged' \<Rightarrow> merged'
                   | None \<Rightarrow> merged @ [failedChart])) existing reported)"

text \<open>Replace the first component of the failed one's name, or append it.\<close>

fun replaceComponent :: "ComponentStatus \<Rightarrow> ComponentStatus list \<Rightarrow> ComponentStatus list" where
  "replaceComponent failed [] = [failed]"
| "replaceComponent failed (c # cs) =
     (if cs_Name c = cs_Name failed
      then failed\<lparr>cs_InstalledCharts :=
             mergeFailedChartEvidence (cs_InstalledCharts c) (cs_InstalledCharts failed)\<rparr> # cs
      else c # replaceComponent failed cs)"

definition markFailedComponentStatus :: "goerr option \<Rightarrow> ZarfPackage \<Rightarrow> ZarfPackage" where
  "markFailedComponentStatus deployErr p =
     (case deployErr of
        None \<Rightarrow> p
      | Some d \<Rightarrow>
        if strings_TrimSpace (de_FailedComponent d) = [] then p
        else let failed = \<lparr>cs_Name = de_FailedComponent d, cs_Status = ComponentStatusFailed,
                    cs_InstalledCharts =
                      (if strings_TrimSpace (de_FailedChart d) \<noteq> []
                       then [\<lparr>ics_Namespace = sp_Namespace (zp_Spec p), ics_ChartName = de_FailedChart d,
                              ics_Status = ChartStatusFailed\<rparr>] else []),
                    cs_ObservedGeneration = zp_Generation p\<rparr>
             in on_status (\<lambda>st. st\<lparr>st_ComponentStatuses :=
                  replaceComponent failed (st_ComponentStatuses st)\<rparr>) p)"

subsection \<open>Messages\<close>

definition truncateMessage :: "string \<Rightarrow> int \<Rightarrow> string" where
  "truncateMessage msg mx =
     (if mx \<le> 3 \<or> int (length msg) \<le> mx then msg else take (nat (mx - 3)) msg @ ''...'')"

text \<open>The loop over the log lines, last first: the lines kept so far (oldest first) and the length.\<close>

fun keepLines :: "string list \<Rightarrow> int \<Rightarrow> string list \<Rightarrow> int \<Rightarrow> string list" where
  "keepLines [] maxBytes kept used = kept"
| "keepLines (l # ls) maxBytes kept used =
     (let line = strings_TrimSpace l in
      if line = [] then keepLines ls maxBytes kept used
      else let separatorLen = (if kept = [] then 1 else 3);
               candidate = used + separatorLen + int (length line)
           in if maxBytes < candidate then kept
              else keepLines ls maxBytes (line # kept) candidate)"

definition formatLogSummary :: "string list \<Rightarrow> int \<Rightarrow> string" where
  "formatLogSummary lines maxBytes =
     (if lines = [] \<or> maxBytes \<le> 0 then ''''
      else let kept = keepLines (rev lines) maxBytes [] (int (length ''Last deploy logs:'')) in
           if kept = [] then truncateMessage (last lines) maxBytes
           else ''Last deploy logs:'' @ '' '' @ strings_Join kept '' | '')"

definition emptyIfBlank :: "string \<Rightarrow> string \<Rightarrow> string" where
  "emptyIfBlank v fallback = (if strings_TrimSpace v = [] then fallback else v)"

definition parseSetVariables :: "string list \<Rightarrow> (string \<rightharpoonup> string)" where
  "parseSetVariables xs = foldl (\<lambda>m s.
     (case strings_SplitN2 s (CHR ''='') of [k, v] \<Rightarrow> m(k \<mapsto> v) | _ \<Rightarrow> m)) Map.empty xs"

subsection \<open>What an operation emits and what it leaves alone\<close>

text \<open>
  The kinds of actions, the relation that a run only appends actions of some kinds to the trace, and
  the relation that a run changes nothing of the object but its status.
\<close>

datatype action_kind =
    KEvent | KMetric | KGetPackage | KGetSecret | KPatchStatus | KPatch | KDeploy | KRemove
  | KGetDeployed | KListTags | KHelm

fun kind :: "action \<Rightarrow> action_kind" where
  "kind (AEvent _ _ _) = KEvent"
| "kind (AMetric _) = KMetric"
| "kind (AGetPackage _ _) = KGetPackage"
| "kind (AGetSecret _ _) = KGetSecret"
| "kind (APatchStatus _ _) = KPatchStatus"
| "kind (APatch _ _) = KPatch"
| "kind (ADeploy _ _) = KDeploy"
| "kind (ARemove _ _) = KRemove"
| "kind (AGetDeployed _) = KGetDeployed"
| "kind (AListTags _ _) = KListTags"
| "kind (AHelmExists _ _) = KHelm"
| "kind (AHelmStatus _ _) = KHelm"
| "kind (AHelmFix _ _ _) = KHelm"
| "kind (AHelmInit _) = KHelm"
| "kind (AHelmHistory _ _) = KHelm"
| "kind (AHelmUninstall _ _) = KHelm"
| "kind (AHelmRollback _ _) = KHelm"

definition emits :: "action_kind set \<Rightarrow> rstate \<Rightarrow> rstate \<Rightarrow> bool" where
  "emits K st st' \<longleftrightarrow> (\<exists>as. rs_trace st' = rs_trace st @ as \<and> kind ` set as \<subseteq> K)"

definition status_only :: "rstate \<Rightarrow> rstate \<Rightarrow> bool" where
  "status_only st st' \<longleftrightarrow>
     rs_pkg st' = (rs_pkg st)\<lparr>zp_Status := rs_status st'\<rparr> \<and> rs_original st' = rs_original st"

text \<open>Both at once, the frame of every operation that patches nothing.\<close>

definition runs :: "action_kind set \<Rightarrow> rstate \<Rightarrow> rstate \<Rightarrow> bool" where
  "runs K st st' \<longleftrightarrow> emits K st st' \<and> status_only st st'"

lemma emits_refl [simp]: "emits K st st"
  by (simp add: emits_def)

lemma emits_trans: "emits K st st' \<Longrightarrow> emits K st' st'' \<Longrightarrow> emits K st st''"
  unfolding emits_def by (metis (no_types, lifting) append.assoc image_Un le_sup_iff set_append)

lemma emits_mono: "emits K st st' \<Longrightarrow> K \<subseteq> K' \<Longrightarrow> emits K' st st'"
  unfolding emits_def by blast

lemma status_only_refl [simp]: "status_only st st"
  by (simp add: status_only_def)

lemma status_only_trans: "status_only st st' \<Longrightarrow> status_only st' st'' \<Longrightarrow> status_only st st''"
  unfolding status_only_def by (metis ZarfPackage.update_convs(8) ZarfPackage.surjective)

lemma status_only_iff:
  "status_only st st' \<longleftrightarrow>
     zp_Name (rs_pkg st') = zp_Name (rs_pkg st) \<and> zp_Namespace (rs_pkg st') = zp_Namespace (rs_pkg st) \<and>
     zp_Generation (rs_pkg st') = zp_Generation (rs_pkg st) \<and>
     zp_DeletionTimestamp (rs_pkg st') = zp_DeletionTimestamp (rs_pkg st) \<and>
     zp_Finalizers (rs_pkg st') = zp_Finalizers (rs_pkg st) \<and>
     zp_Annotations (rs_pkg st') = zp_Annotations (rs_pkg st) \<and>
     rs_spec st' = rs_spec st \<and> rs_original st' = rs_original st"
  by (cases "rs_pkg st"; cases "rs_pkg st'") (auto simp: status_only_def)

lemma runs_refl [simp]: "runs K st st"
  by (simp add: runs_def)

lemma runs_trans: "runs K st st' \<Longrightarrow> runs K st' st'' \<Longrightarrow> runs K st st''"
  unfolding runs_def using emits_trans status_only_trans by blast

lemma runs_mono: "runs K st st' \<Longrightarrow> K \<subseteq> K' \<Longrightarrow> runs K' st st'"
  unfolding runs_def using emits_mono by blast

lemma runs_spec: "runs K st st' \<Longrightarrow> rs_spec st' = rs_spec st"
  by (simp add: runs_def status_only_iff)

lemma runs_emit: "kind a \<in> K \<Longrightarrow> runs K st st' \<Longrightarrow> runs K st (emit a st')"
  by (auto simp: runs_def emits_def status_only_def emit_def)

lemma runs_event: "KEvent \<in> K \<Longrightarrow> runs K st st' \<Longrightarrow> runs K st (event r ty reason msg st')"
  by (simp add: event_def runs_emit)

lemma runs_on_status: "runs K st st' \<Longrightarrow> runs K st (on_pkg (on_status f) st')"
  by (auto simp: runs_def emits_def status_only_iff on_pkg_def on_status_def)

lemma runs_on_status_pkg: "runs K st st' \<Longrightarrow> runs K st (on_pkg (\<lambda>p. on_status (f p) p) st')"
  by (auto simp: runs_def emits_def status_only_iff on_pkg_def on_status_def)

lemma runs_setPhase: "runs K st st' \<Longrightarrow> runs K st (on_pkg (setPhase ph) st')"
  unfolding setPhase_def [abs_def] by (rule runs_on_status)

lemma runs_set_cond: "runs K st st' \<Longrightarrow> runs K st (set_cond E t s reason msg st')"
  unfolding setCondition_def by (rule runs_on_status_pkg)

lemma runs_resetFailures: "runs K st st' \<Longrightarrow> runs K st (on_pkg resetFailures st')"
  unfolding resetFailures_def [abs_def] by (rule runs_on_status)

lemma runs_recordFailure: "runs K st st' \<Longrightarrow> runs K st (recordFailure E st')"
  unfolding recordFailure_def by (rule runs_on_status)

lemma runs_recordFailureMetric: "KMetric \<in> K \<Longrightarrow> runs K st st' \<Longrightarrow> runs K st (recordFailureMetric m st')"
  unfolding recordFailureMetric_def by (rule runs_emit) auto

lemma runs_setSuspendedMetric: "KMetric \<in> K \<Longrightarrow> runs K st st' \<Longrightarrow> runs K st (setSuspendedMetric b st')"
  unfolding setSuspendedMetric_def by (rule runs_emit) auto

lemma runs_recordResourceMetrics: "KMetric \<in> K \<Longrightarrow> runs K st st' \<Longrightarrow> runs K st (recordResourceMetrics st')"
  unfolding recordResourceMetrics_def by (auto intro!: runs_emit)

lemma runs_markMaxRetriesExceeded:
  "KEvent \<in> K \<Longrightarrow> runs K st st' \<Longrightarrow> runs K st (markMaxRetriesExceeded E r what st')"
  unfolding markMaxRetriesExceeded_def Let_def by (intro runs_set_cond runs_event runs_setPhase)

lemma runs_markFailed: "runs K st st' \<Longrightarrow> runs K st (on_pkg (markFailedComponentStatus d) st')"
  by (auto simp: runs_def emits_def status_only_iff on_pkg_def on_status_def markFailedComponentStatus_def
      Let_def split: option.splits)

lemma runs_sync: "runs K st st' \<Longrightarrow> runs K st (on_pkg (syncStatusFromDeployed d) st')"
  by (auto simp: runs_def emits_def status_only_iff on_pkg_def on_status_def syncStatusFromDeployed_def
      split: option.splits)

lemmas runs_intros = runs_refl runs_emit runs_event runs_on_status runs_on_status_pkg runs_setPhase
  runs_set_cond runs_resetFailures runs_recordFailure runs_recordFailureMetric runs_setSuspendedMetric
  runs_recordResourceMetrics runs_markMaxRetriesExceeded runs_markFailed runs_sync

subsection \<open>The view of a status\<close>

text \<open>
  What users and dependents read of a status: its phase, and whether it is Ready and Stalled. Every
  operation of the controller has a simple effect on this view, whatever else it writes.
\<close>

type_synonym status_view = "ZarfPackagePhase \<times> ConditionStatus option \<times> ConditionStatus option"

definition cstat :: "lib \<Rightarrow> ZarfPackageStatus \<Rightarrow> string \<Rightarrow> ConditionStatus option" where
  "cstat L s t = map_option cond_Status (apimeta_FindStatusCondition L (st_Conditions s) t)"

definition view :: "lib \<Rightarrow> ZarfPackageStatus \<Rightarrow> status_view" where
  "view L s = (st_Phase s, cstat L s ConditionTypeReady, cstat L s ConditionTypeStalled)"

definition vw :: "env \<Rightarrow> rstate \<Rightarrow> status_view" where
  "vw E st = view (libs E) (rs_status st)"

text \<open>
  A view is consistent when Deployed means Ready, Ready means Deployed (or a removal just begun), and
  Stalled means Failed (or a removal).
\<close>

fun consistent :: "status_view \<Rightarrow> bool" where
  "consistent (ph, ready, stalled) \<longleftrightarrow>
     (ph = PhaseDeployed \<longrightarrow> ready = Some ConditionTrue) \<and>
     (ready = Some ConditionTrue \<longrightarrow> ph = PhaseDeployed \<or> ph = PhaseRemoving) \<and>
     (stalled = Some ConditionTrue \<longrightarrow> ph = PhaseFailed \<or> ph = PhaseRemoving)"

lemma vw_emit [simp]: "vw E (emit a st) = vw E st"
  by (simp add: vw_def emit_def)

lemma vw_event [simp]: "vw E (event r ty reason msg st) = vw E st"
  by (simp add: event_def)

lemma vw_on_status:
  "(\<And>s. st_Phase (f s) = st_Phase s) \<Longrightarrow> (\<And>s. st_Conditions (f s) = st_Conditions s) \<Longrightarrow>
   vw E (on_pkg (on_status f) st) = vw E st"
  by (simp add: vw_def view_def cstat_def on_pkg_def on_status_def)

lemma vw_on_status_pkg:
  "(\<And>p s. st_Phase (f p s) = st_Phase s) \<Longrightarrow> (\<And>p s. st_Conditions (f p s) = st_Conditions s) \<Longrightarrow>
   vw E (on_pkg (\<lambda>p. on_status (f p) p) st) = vw E st"
  by (simp add: vw_def view_def cstat_def on_pkg_def on_status_def)

lemma vw_setPhase [simp]: "vw E (on_pkg (setPhase ph) st) = (ph, snd (vw E st))"
  by (simp add: vw_def view_def cstat_def on_pkg_def on_status_def setPhase_def)

lemma vw_resetFailures [simp]: "vw E (on_pkg resetFailures st) = vw E st"
  by (simp add: vw_def view_def cstat_def on_pkg_def on_status_def resetFailures_def)

lemma vw_recordFailure [simp]: "vw E (recordFailure E' st) = vw E st"
  unfolding recordFailure_def by (rule vw_on_status) simp_all

lemma vw_recordFailureMetric [simp]: "vw E (recordFailureMetric m st) = vw E st"
  by (simp add: recordFailureMetric_def)

lemma vw_setSuspendedMetric [simp]: "vw E (setSuspendedMetric b st) = vw E st"
  by (simp add: setSuspendedMetric_def)

lemma vw_recordResourceMetrics [simp]: "vw E (recordResourceMetrics st) = vw E st"
  by (simp add: recordResourceMetrics_def)

lemma vw_markFailed [simp]: "vw E (on_pkg (markFailedComponentStatus d) st) = vw E st"
  by (auto simp: vw_def view_def cstat_def on_pkg_def on_status_def markFailedComponentStatus_def Let_def
      split: option.splits)

lemma vw_sync [simp]: "vw E (on_pkg (syncStatusFromDeployed d) st) = vw E st"
  by (auto simp: vw_def view_def cstat_def on_pkg_def on_status_def syncStatusFromDeployed_def
      split: option.splits)

lemma vw_phase: "vw E st = (ph, rd, sl) \<Longrightarrow> st_Phase (rs_status st) = ph"
  by (simp add: vw_def view_def)

text \<open>An environment whose condition functions behave as documented.\<close>

locale cond_env =
  fixes E :: env
  assumes conditions:
    "condition_api (apimeta_SetStatusCondition (libs E)) (apimeta_FindStatusCondition (libs E))"
begin

sublocale condition_api "apimeta_SetStatusCondition (libs E)" "apimeta_FindStatusCondition (libs E)"
  by (rule conditions)

lemma cstat_set:
  "cstat (libs E) (zp_Status (setCondition (libs E) p t v reason msg)) t' =
     (if t' = t then Some v else cstat (libs E) (zp_Status p) t')"
  by (simp add: cstat_def setCondition_def on_status_def find_set)

lemma phase_set [simp]:
  "st_Phase (zp_Status (setCondition (libs E) p t v reason msg)) = st_Phase (zp_Status p)"
  by (simp add: setCondition_def on_status_def)

lemma vw_set_Ready [simp]:
  "vw E (set_cond E ConditionTypeReady v reason msg st) = (fst (vw E st), Some v, snd (snd (vw E st)))"
  by (simp add: vw_def view_def on_pkg_def cstat_set)

lemma vw_set_Stalled [simp]:
  "vw E (set_cond E ConditionTypeStalled v reason msg st) = (fst (vw E st), fst (snd (vw E st)), Some v)"
  by (simp add: vw_def view_def on_pkg_def cstat_set)

lemma vw_set_other [simp]:
  "t \<noteq> ConditionTypeReady \<Longrightarrow> t \<noteq> ConditionTypeStalled \<Longrightarrow> vw E (set_cond E t v reason msg st) = vw E st"
  by (simp add: vw_def view_def on_pkg_def cstat_set)

lemma vw_markMaxRetriesExceeded [simp]:
  "vw E (markMaxRetriesExceeded E r what st) = (PhaseFailed, Some ConditionFalse, Some ConditionTrue)"
  by (simp add: markMaxRetriesExceeded_def Let_def)

end

interpretation ref_conditions: cond_env "ref_env p" for p
  by (rule cond_env.intro) (simp add: ref_cond.condition_api_axioms)

end
