(* ===== verification/Secrets.thy ===== *)
theory Secrets
  imports Status_Ops
begin

section \<open>Secrets: \<^verbatim>\<open>kubeconfig.go\<close>, \<^verbatim>\<open>zarf_state.go\<close> and their use by the controller\<close>

text \<open>
  The two accepted shapes of a cluster Secret, the zarf-state Secret, and the three resolvers of the
  controller. A resolver either returns what it found or marks the object failed and returns a
  backoff result; a nil kubeconfig is the empty string.
\<close>

subsection \<open>Cluster Secrets\<close>

definition secret_key :: "Secret \<Rightarrow> string" where
  "secret_key s = sec_Namespace s @ ''/'' @ sec_Name s"

definition argoHasCredentials :: "argoClusterConfig \<Rightarrow> bool" where
  "argoHasCredentials a \<longleftrightarrow>
     argo_BearerToken a \<noteq> [] \<or> argo_CAData a \<noteq> [] \<or> argo_CertData a \<noteq> [] \<or> argo_KeyData a \<noteq> []"

text \<open>The kubeconfig built from an Argo-style Secret, before it is written out.\<close>

definition argoKubeconfig :: "Secret \<Rightarrow> argoClusterConfig \<Rightarrow> string \<Rightarrow> api_Config" where
  "argoKubeconfig secret argo server =
     (let clusterName0 = (case sec_Data secret ''name'' of Some n \<Rightarrow> n | None \<Rightarrow> []);
          clusterName = (if clusterName0 = [] then sec_Name secret else clusterName0);
          userName = clusterName @ ''-user'';
          contextName = clusterName
      in \<lparr>cfg_Clusters = [clusterName \<mapsto> \<lparr>clu_Server = server,
            clu_CertificateAuthorityData = argo_CAData argo,
            clu_InsecureSkipTLSVerify = argo_Insecure argo\<rparr>],
          cfg_AuthInfos = [userName \<mapsto> \<lparr>ai_ClientCertificateData = argo_CertData argo,
            ai_ClientKeyData = argo_KeyData argo, ai_Token = argo_BearerToken argo\<rparr>],
          cfg_Contexts = [contextName \<mapsto> (clusterName, userName)],
          cfg_CurrentContext = contextName\<rparr>)"

definition buildKubeconfigFromArgo :: "lib \<Rightarrow> Secret \<Rightarrow> argoClusterConfig \<Rightarrow> goerr + string" where
  "buildKubeconfigFromArgo L secret argo =
     (let server = (case sec_Data secret ''server'' of Some s \<Rightarrow> s | None \<Rightarrow> []) in
      if server = []
      then Inl (ErrorString (''secret '' @ secret_key secret @
             '' uses Argo-style cluster config but is missing the '' @ fmt_q ''server'' @ '' key''))
      else (case clientcmd_Write L (argoKubeconfig secret argo server) of
              Inl e \<Rightarrow> Inl (fmt_wrap ''failed to marshal synthesized kubeconfig'' e)
            | Inr out \<Rightarrow> Inr out))"

definition normalizeKubeconfigSecret :: "lib \<Rightarrow> Secret \<Rightarrow> goerr + string" where
  "normalizeKubeconfigSecret L secret =
     (let missing = Inl (ErrorString (''secret '' @ secret_key secret @ '' missing required '' @
            fmt_q ''config'' @ '' data key''));
          invalid = Inl (ErrorString (''secret '' @ secret_key secret @ '' '' @ fmt_q ''config'' @
            '' key is neither a kubeconfig YAML nor an Argo-style cluster config''))
      in case sec_Data secret ''config'' of
           None \<Rightarrow> missing
         | Some raw \<Rightarrow>
           if raw = [] then missing
           else if (case clientcmd_Load L raw of Inl _ \<Rightarrow> False | Inr nclusters \<Rightarrow> 0 < nclusters) then Inr raw
           else (case json_Unmarshal_argo L raw of
                   Inl _ \<Rightarrow> invalid
                 | Inr argo \<Rightarrow>
                   if argoHasCredentials argo then buildKubeconfigFromArgo L secret argo else invalid))"

subsection \<open>The zarf-state Secret\<close>

definition parseZarfStateSecret :: "lib \<Rightarrow> Secret \<Rightarrow> goerr + zarfRegistryInfo" where
  "parseZarfStateSecret L s =
     (case sec_Data s ''state'' of
        None \<Rightarrow> Inl (ErrorString (''secret '' @ fmt_q (sec_Name s) @ '' is missing required data key '' @
          fmt_q ''state'' @ '' (expected a zarf-state shaped Secret)''))
      | Some raw \<Rightarrow>
        (case json_Unmarshal_state L raw of
           Inl e \<Rightarrow> Inl (fmt_wrap (''secret '' @ fmt_q (sec_Name s) @ '' data.state is not valid JSON'') e)
         | Inr state \<Rightarrow> Inr state))"

subsection \<open>The resolvers of the controller\<close>

definition get_secret :: "env \<Rightarrow> string \<Rightarrow> rstate \<Rightarrow> (goerr + Secret) \<times> rstate" where
  "get_secret E name st =
     (let ns = zp_Namespace (rs_pkg st) in
      (env_GetSecret E (rs_trace st) ns name, emit (AGetSecret ns name) st))"

text \<open>
  What every resolver does on failure: phase, Ready condition, event, failure count, metric, backoff.
\<close>

definition secret_failure ::
  "env \<Rightarrow> reconciler \<Rightarrow> string \<Rightarrow> string \<Rightarrow> string \<Rightarrow> rstate \<Rightarrow> Result \<times> rstate" where
  "secret_failure E r reason condMsg eventMsg st0 =
     (let st1 = on_pkg (setPhase PhaseFailed) st0;
          st2 = set_cond E ConditionTypeReady ConditionFalse reason condMsg st1;
          st3 = event r EventTypeWarning reason eventMsg st2;
          st4 = recordFailure E st3;
          st5 = recordFailureMetric reason st4
      in (backoff_result E st5, st5))"

definition getRegistryCredentialJSON :: "env \<Rightarrow> rstate \<Rightarrow> (goerr + string) \<times> rstate" where
  "getRegistryCredentialJSON E st =
     (let ref = sp_RegistryCredentialSecretRef (rs_spec st) in
      if ref = [] then (Inr [], st)
      else (case get_secret E ref st of
              (Inl e, st') \<Rightarrow> (Inl e, st')
            | (Inr secret, st') \<Rightarrow>
              (case sec_Data secret ''.dockerconfigjson'' of
                 None \<Rightarrow> (Inl (ErrorString (''secret '' @ fmt_q ref @ '' missing .dockerconfigjson key'')), st')
               | Some dockerCfg \<Rightarrow> (Inr dockerCfg, st'))))"

definition resolveRegistryCredentials ::
  "env \<Rightarrow> reconciler \<Rightarrow> DeployOptions \<Rightarrow> rstate \<Rightarrow> (Result + DeployOptions) \<times> rstate" where
  "resolveRegistryCredentials E r opts st =
     (case getRegistryCredentialJSON E st of
        (Inr dockerCfg, st') \<Rightarrow>
          if dockerCfg = [] then (Inr opts, st')
          else (Inr (opts\<lparr>do_RegistryCredentialJSON := dockerCfg\<rparr>), st')
      | (Inl e, st') \<Rightarrow>
          let ref = sp_RegistryCredentialSecretRef (rs_spec st') in
          (case secret_failure E r ReasonSecretNotFound
                  (''Registry credential secret '' @ fmt_q ref @ '' not found: '' @ err_Error e)
                  (''Secret '' @ fmt_q ref @ '' not found'') st' of
             (res, st'') \<Rightarrow> (Inl res, st'')))"

definition resolveClusterKubeconfig :: "env \<Rightarrow> reconciler \<Rightarrow> rstate \<Rightarrow> (Result + string) \<times> rstate" where
  "resolveClusterKubeconfig E r st =
     (let ref = sp_ClusterSecretRef (rs_spec st) in
      if ref = [] then (Inr [], st)
      else (case get_secret E ref st of
              (Inl e, st') \<Rightarrow>
                (case secret_failure E r ReasonSecretNotFound
                        (''Cluster credential secret '' @ fmt_q ref @ '' not found: '' @ err_Error e)
                        (''Secret '' @ fmt_q ref @ '' not found'') st' of
                   (res, st'') \<Rightarrow> (Inl res, st''))
            | (Inr secret, st') \<Rightarrow>
                (case normalizeKubeconfigSecret (libs E) secret of
                   Inl e \<Rightarrow>
                     (case secret_failure E r ReasonInvalidClusterSecret
                             (''Cluster credential secret '' @ fmt_q ref @ '' is invalid: '' @ err_Error e)
                             (''Secret '' @ fmt_q ref @ '' invalid: '' @ err_Error e) st' of
                        (res, st'') \<Rightarrow> (Inl res, st''))
                 | Inr kubeconfig \<Rightarrow> (Inr kubeconfig, st'))))"

text \<open>Secret values are the baseline; the address and node port of the resource win when set.\<close>

definition overlayRegistryInfo :: "RegistryInfoOptions \<Rightarrow> zarfRegistryInfo \<Rightarrow> ZarfInitOptions" where
  "overlayRegistryInfo reg state =
     \<lparr>zi_RegistryAddress = (if rg_Address reg = [] then zr_Address state else rg_Address reg),
      zi_RegistryNodePort = (if rg_NodePort reg = 0 then zr_NodePort state else rg_NodePort reg),
      zi_RegistrySecret = zr_Secret state,
      zi_RegistryPushUsername = zr_PushUsername state, zi_RegistryPushPassword = zr_PushPassword state,
      zi_RegistryPullUsername = zr_PullUsername state, zi_RegistryPullPassword = zr_PullPassword state\<rparr>"

definition resolveInitOptions ::
  "env \<Rightarrow> reconciler \<Rightarrow> rstate \<Rightarrow> (Result + ZarfInitOptions option) \<times> rstate" where
  "resolveInitOptions E r st =
     (case sp_InitOptions (rs_spec st) of
        None \<Rightarrow> (Inr None, st)
      | Some spec \<Rightarrow>
        (case io_RegistryInfo spec of
           None \<Rightarrow> (Inr None, st)
         | Some reg \<Rightarrow>
           if rg_CredentialsSecretRef reg = []
           then (Inr (Some \<lparr>zi_RegistryAddress = rg_Address reg, zi_RegistryNodePort = rg_NodePort reg,
                   zi_RegistrySecret = [], zi_RegistryPushUsername = [], zi_RegistryPushPassword = [],
                   zi_RegistryPullUsername = [], zi_RegistryPullPassword = []\<rparr>), st)
           else let ref = rg_CredentialsSecretRef reg in
             (case get_secret E ref st of
                (Inl e, st') \<Rightarrow>
                  (case secret_failure E r ReasonSecretNotFound
                          (''Init credentials secret '' @ fmt_q ref @ '' not found: '' @ err_Error e)
                          (''Secret '' @ fmt_q ref @ '' not found'') st' of
                     (res, st'') \<Rightarrow> (Inl res, st''))
              | (Inr secret, st') \<Rightarrow>
                  (case parseZarfStateSecret (libs E) secret of
                     Inl e \<Rightarrow>
                       (case secret_failure E r ReasonInvalidInitSecret
                               (''Init credentials secret '' @ fmt_q ref @ '' invalid: '' @ err_Error e)
                               (''Secret '' @ fmt_q ref @ '' invalid: '' @ err_Error e) st' of
                          (res, st'') \<Rightarrow> (Inl res, st''))
                   | Inr state \<Rightarrow> (Inr (Some (overlayRegistryInfo reg state)), st')))))"

subsection \<open>Frames and views\<close>

text \<open>
  A resolver only reads Secrets, records events and metrics, and writes the status; when it succeeds
  it leaves the object alone, when it fails the object is Failed and not Ready.
\<close>

abbreviation secret_kinds :: "action_kind set" where
  "secret_kinds \<equiv> {KGetSecret, KEvent, KMetric}"

lemma get_secret_run:
  "get_secret E ref st = (res, st') \<Longrightarrow>
     runs {KGetSecret} st st' \<and> rs_pkg st' = rs_pkg st \<and> vw E st' = vw E st"
  by (auto simp: get_secret_def Let_def intro!: runs_intros) (simp add: emit_def)

lemma secret_failure_run:
  "secret_failure E r reason c ev st = (res, st') \<Longrightarrow> runs secret_kinds st st'"
  by (auto simp: secret_failure_def Let_def intro!: runs_intros)

lemma getRegistryCredentialJSON_run:
  "getRegistryCredentialJSON E st = (res, st') \<Longrightarrow>
     runs {KGetSecret} st st' \<and> rs_pkg st' = rs_pkg st \<and> vw E st' = vw E st"
  by (auto simp: getRegistryCredentialJSON_def Let_def split: if_splits prod.splits sum.splits option.splits
      dest: get_secret_run)

text \<open>A failed resolver has counted a failure and asks for a retry after a backoff.\<close>

definition resolver_failed :: "env \<Rightarrow> rstate \<Rightarrow> Result \<Rightarrow> rstate \<Rightarrow> bool" where
  "resolver_failed E st res st' \<longleftrightarrow>
     st_Phase (rs_status st') = PhaseFailed \<and>
     st_FailureCount (rs_status st') = wrap32 (st_FailureCount (rs_status st) + 1) \<and>
     (\<exists>jitter. res = Result_after (calculateBackoff jitter (st_FailureCount (rs_status st'))))"

lemma secret_failure_failed:
  "secret_failure E r reason c ev st = (res, st') \<Longrightarrow> resolver_failed E st res st'"
  by (auto simp: secret_failure_def Let_def resolver_failed_def backoff_result_def recordFailure_def
      recordFailureMetric_def emit_def event_def on_pkg_def on_status_def setPhase_def setCondition_def)

context cond_env
begin

lemma vw_secret_failure:
  "secret_failure E r reason c ev st = (res, st') \<Longrightarrow>
     vw E st' = (PhaseFailed, Some ConditionFalse, snd (snd (vw E st)))"
  by (auto simp: secret_failure_def Let_def)

lemma ready_secret_failure:
  assumes "secret_failure E r reason c ev st = (res, st')"
  shows "apimeta_FindStatusCondition (libs E) (st_Conditions (rs_status st')) ConditionTypeReady =
    Some \<lparr>cond_Type = ConditionTypeReady, cond_Status = ConditionFalse, cond_Reason = reason,
          cond_Message = c, cond_ObservedGeneration = zp_Generation (rs_pkg st)\<rparr>"
  using assms
  by (auto simp: secret_failure_def Let_def recordFailure_def recordFailureMetric_def emit_def event_def
      on_pkg_def on_status_def setPhase_def setCondition_def find_set)

end

definition secret_reasons :: "string set" where
  "secret_reasons = {ReasonSecretNotFound, ReasonInvalidClusterSecret, ReasonInvalidInitSecret}"

text \<open>
  The outcome all three resolvers share: untouched object and status, or a counted failure whose
  Ready condition names the Secret problem.
\<close>

definition resolver_outcome :: "env \<Rightarrow> rstate \<Rightarrow> (Result + 'a) \<times> rstate \<Rightarrow> bool" where
  "resolver_outcome E st out \<longleftrightarrow>
     (case out of
        (Inr _, st') \<Rightarrow> runs secret_kinds st st' \<and> rs_pkg st' = rs_pkg st
      | (Inl res, st') \<Rightarrow> \<exists>st0 r reason c ev. runs {KGetSecret} st st0 \<and> rs_pkg st0 = rs_pkg st \<and>
          reason \<in> secret_reasons \<and> secret_failure E r reason c ev st0 = (res, st'))"

lemma resolver_outcome_ok:
  "runs {KGetSecret} st st' \<Longrightarrow> rs_pkg st' = rs_pkg st \<Longrightarrow> resolver_outcome E st (Inr x, st')"
  by (auto simp: resolver_outcome_def intro: runs_mono)

lemma resolver_outcome_fail:
  "secret_failure E r reason c ev st0 = (res, st') \<Longrightarrow> runs {KGetSecret} st st0 \<Longrightarrow>
   rs_pkg st0 = rs_pkg st \<Longrightarrow> reason \<in> secret_reasons \<Longrightarrow> resolver_outcome E st (Inl res, st')"
  by (fastforce simp: resolver_outcome_def)

lemmas resolver_outcome_intros = resolver_outcome_ok resolver_outcome_fail

lemma resolveRegistryCredentials_outcome: "resolver_outcome E st (resolveRegistryCredentials E r opts st)"
proof -
  obtain res st1 where g: "getRegistryCredentialJSON E st = (res, st1)" by fastforce
  note run = getRegistryCredentialJSON_run [OF g]
  show ?thesis
  proof (cases res)
    case (Inl e)
    with g run show ?thesis
      by (auto simp: resolveRegistryCredentials_def Let_def secret_reasons_def split: prod.splits
          intro!: resolver_outcome_fail)
  next
    case (Inr d)
    with g run show ?thesis
      by (auto simp: resolveRegistryCredentials_def intro!: resolver_outcome_ok)
  qed
qed

lemma resolveClusterKubeconfig_outcome: "resolver_outcome E st (resolveClusterKubeconfig E r st)"
proof (cases "sp_ClusterSecretRef (rs_spec st) = []")
  case True
  then show ?thesis by (simp add: resolveClusterKubeconfig_def resolver_outcome_ok)
next
  case False
  obtain res st1 where g: "get_secret E (sp_ClusterSecretRef (rs_spec st)) st = (res, st1)" by fastforce
  note run = get_secret_run [OF g]
  show ?thesis
    using False g run
    by (auto simp: resolveClusterKubeconfig_def Let_def secret_reasons_def split: sum.splits prod.splits
        intro!: resolver_outcome_intros)
qed

lemma resolveInitOptions_outcome: "resolver_outcome E st (resolveInitOptions E r st)"
proof (cases "sp_InitOptions (rs_spec st)")
  case None
  then show ?thesis by (simp add: resolveInitOptions_def resolver_outcome_ok)
next
  case (Some spec)
  show ?thesis
  proof (cases "io_RegistryInfo spec")
    case None
    with Some show ?thesis by (simp add: resolveInitOptions_def resolver_outcome_ok)
  next
    case (Some reg)
    obtain res st1 where g: "get_secret E (rg_CredentialsSecretRef reg) st = (res, st1)" by fastforce
    note run = get_secret_run [OF g]
    show ?thesis
      using Some \<open>sp_InitOptions (rs_spec st) = Some spec\<close> g run
      by (auto simp: resolveInitOptions_def Let_def secret_reasons_def split: sum.splits prod.splits
          intro!: resolver_outcome_intros)
  qed
qed

lemma resolver_outcome_runs: "resolver_outcome E st (res, st') \<Longrightarrow> runs secret_kinds st st'"
  unfolding resolver_outcome_def
  by (auto split: sum.splits dest!: secret_failure_run intro: runs_trans runs_mono)

lemma resolver_outcome_Inr: "resolver_outcome E st (Inr x, st') \<Longrightarrow> rs_pkg st' = rs_pkg st"
  by (simp add: resolver_outcome_def)

lemma vw_same_pkg: "rs_pkg st' = rs_pkg st \<Longrightarrow> vw E st' = vw E st"
  by (simp add: vw_def)

lemma resolver_outcome_failed: "resolver_outcome E st (Inl res, st') \<Longrightarrow> resolver_failed E st res st'"
  unfolding resolver_outcome_def by (fastforce dest: secret_failure_failed simp: resolver_failed_def)

context cond_env
begin

lemma vw_resolver_failed:
  "resolver_outcome E st (Inl res, st') \<Longrightarrow> vw E st' = (PhaseFailed, Some ConditionFalse, snd (snd (vw E st)))"
  unfolding resolver_outcome_def by (auto dest!: vw_secret_failure simp: vw_def)

lemma ready_resolver_failed:
  assumes "resolver_outcome E st (Inl res, st')"
  obtains c where "apimeta_FindStatusCondition (libs E) (st_Conditions (rs_status st')) ConditionTypeReady = Some c"
    and "cond_Status c = ConditionFalse" and "cond_Reason c \<in> secret_reasons"
  using assms unfolding resolver_outcome_def by (auto dest!: ready_secret_failure)

end

end
