(* ===== verification/Go_Regexp.thy ===== *)
theory Go_Regexp
  imports Go_Strings
begin

section \<open>Regular expressions: \<^verbatim>\<open>regexp\<close>\<close>

text \<open>
  Anchored patterns over byte classes. A match of \<^verbatim>\<open>^...$\<close> is membership in the pattern's
  language; \<open>re_match\<close> decides it with derivatives, and \<open>re_match_lang\<close> proves the decision right.
\<close>

datatype re =
    RZero
  | ROne
  | RClass "(nat \<times> nat) list"
  | RSeq re re
  | RAlt re re
  | RStar re

definition in_class :: "(nat \<times> nat) list \<Rightarrow> char \<Rightarrow> bool" where
  "in_class rs c \<longleftrightarrow> (\<exists>(lo, hi) \<in> set rs. lo \<le> of_char c \<and> of_char c \<le> (hi :: nat))"

definition rlit :: "char \<Rightarrow> re" where
  "rlit c = RClass [(of_char c, of_char c)]"

definition ropt :: "re \<Rightarrow> re" where
  "ropt r = RAlt r ROne"

definition rplus :: "re \<Rightarrow> re" where
  "rplus r = RSeq r (RStar r)"

subsection \<open>Language\<close>

inductive_set star_lang :: "string set \<Rightarrow> string set" for A where
  star_Nil: "[] \<in> star_lang A"
| star_app: "s \<in> A \<Longrightarrow> t \<in> star_lang A \<Longrightarrow> s @ t \<in> star_lang A"

fun lang :: "re \<Rightarrow> string set" where
  "lang RZero = {}"
| "lang ROne = {[]}"
| "lang (RClass rs) = {[c] | c. in_class rs c}"
| "lang (RSeq r q) = {s @ t | s t. s \<in> lang r \<and> t \<in> lang q}"
| "lang (RAlt r q) = lang r \<union> lang q"
| "lang (RStar r) = star_lang (lang r)"

subsection \<open>Derivatives\<close>

fun nullable :: "re \<Rightarrow> bool" where
  "nullable RZero = False"
| "nullable ROne = True"
| "nullable (RClass rs) = False"
| "nullable (RSeq r q) = (nullable r \<and> nullable q)"
| "nullable (RAlt r q) = (nullable r \<or> nullable q)"
| "nullable (RStar r) = True"

fun mkSeq :: "re \<Rightarrow> re \<Rightarrow> re" where
  "mkSeq RZero q = RZero"
| "mkSeq ROne q = q"
| "mkSeq r q = RSeq r q"

fun mkAlt :: "re \<Rightarrow> re \<Rightarrow> re" where
  "mkAlt RZero q = q"
| "mkAlt r RZero = r"
| "mkAlt r q = RAlt r q"

fun deriv :: "char \<Rightarrow> re \<Rightarrow> re" where
  "deriv c RZero = RZero"
| "deriv c ROne = RZero"
| "deriv c (RClass rs) = (if in_class rs c then ROne else RZero)"
| "deriv c (RSeq r q) =
     (if nullable r then mkAlt (mkSeq (deriv c r) q) (deriv c q) else mkSeq (deriv c r) q)"
| "deriv c (RAlt r q) = mkAlt (deriv c r) (deriv c q)"
| "deriv c (RStar r) = mkSeq (deriv c r) (RStar r)"

fun re_match :: "re \<Rightarrow> string \<Rightarrow> bool" where
  "re_match r [] = nullable r"
| "re_match r (c # s) = re_match (deriv c r) s"

subsection \<open>The matcher decides the language\<close>

lemma nullable_lang: "nullable r \<longleftrightarrow> [] \<in> lang r"
  by (induction r) (auto intro: star_lang.intros)

lemma lang_mkSeq: "lang (mkSeq r q) = lang (RSeq r q)"
  by (cases "(r, q)" rule: mkSeq.cases) auto

lemma lang_mkAlt: "lang (mkAlt r q) = lang (RAlt r q)"
  by (cases "(r, q)" rule: mkAlt.cases) auto

lemma star_Cons:
  assumes "c # s \<in> star_lang A"
  shows "\<exists>u t. s = u @ t \<and> c # u \<in> A \<and> t \<in> star_lang A"
  using assms
proof (induction "c # s" rule: star_lang.induct)
  case (star_app a t)
  then show ?case by (cases a) auto
qed

lemma star_cases_app: "c # u \<in> A \<Longrightarrow> t \<in> star_lang A \<Longrightarrow> c # u @ t \<in> star_lang A"
  using star_lang.star_app [of "c # u" A t] by simp

lemma deriv_lang: "s \<in> lang (deriv c r) \<longleftrightarrow> c # s \<in> lang r"
proof (induction r arbitrary: s)
  case (RSeq r q)
  have "c # s \<in> lang (RSeq r q) \<longleftrightarrow>
      (\<exists>u t. s = u @ t \<and> c # u \<in> lang r \<and> t \<in> lang q) \<or> [] \<in> lang r \<and> c # s \<in> lang q"
    by (auto simp: Cons_eq_append_conv)
  then show ?case using RSeq by (auto simp: lang_mkSeq lang_mkAlt nullable_lang)
next
  case (RStar r)
  then show ?case
    by (auto simp: lang_mkSeq star_cases_app dest!: star_Cons)
qed (auto simp: lang_mkAlt)

lemma re_match_lang: "re_match r s \<longleftrightarrow> s \<in> lang r"
  by (induction s arbitrary: r) (simp_all add: nullable_lang deriv_lang)

subsection \<open>The bytes a match can hold\<close>

fun re_ranges :: "re \<Rightarrow> (nat \<times> nat) list" where
  "re_ranges RZero = []"
| "re_ranges ROne = []"
| "re_ranges (RClass rs) = rs"
| "re_ranges (RSeq r q) = re_ranges r @ re_ranges q"
| "re_ranges (RAlt r q) = re_ranges r @ re_ranges q"
| "re_ranges (RStar r) = re_ranges r"

lemma in_class_append [simp]: "in_class (rs @ qs) c \<longleftrightarrow> in_class rs c \<or> in_class qs c"
  by (auto simp: in_class_def)

lemma lang_bytes: "s \<in> lang r \<Longrightarrow> c \<in> set s \<Longrightarrow> in_class (re_ranges r) c"
proof (induction r arbitrary: s c)
  case (RStar r)
  from RStar.prems(1) have "s \<in> star_lang (lang r)" by simp
  then show ?case using RStar.prems(2)
    by (induction rule: star_lang.induct) (auto dest: RStar.IH)
qed auto

end
