(* ===== verification/Oci_Upgrade.thy ===== *)
theory Oci_Upgrade
  imports Environment Go_Regexp
begin

section \<open>Tag discovery: \<^verbatim>\<open>internal/controller/oci_upgrade.go\<close>\<close>

text \<open>
  Parsing of OCI sources, strict semantic-version tags, the choice of the newest eligible tag, and
  the credential lookup of the tag listing.
\<close>

record ociSourceReference =
  ref_Repository :: string
  ref_Tag :: string

text \<open>\<^verbatim>\<open>parseOCISourceForTagList\<close>.\<close>

definition parseOCISourceForTagList :: "lib \<Rightarrow> string \<Rightarrow> goerr + ociSourceReference" where
  "parseOCISourceForTagList L source =
     (if \<not> strings_HasPrefix source ''oci://'' then Inl (ErrorString ''source must start with oci://'')
      else let trimmed = strings_TrimPrefix source ''oci://'' in
      if strings_Contains trimmed ''@'' then Inl (ErrorString ''source must use a tag, not a digest'')
      else let lastSlash = strings_LastIndex trimmed (CHR ''/'');
               lastColon = strings_LastIndex trimmed (CHR '':'') in
      if lastColon \<le> lastSlash \<or> lastColon = int (length trimmed) - 1
      then Inl (ErrorString ''source must include an explicit tag'')
      else (case name_ParseReference L trimmed of
              Inl e \<Rightarrow> Inl (fmt_wrap ''parse OCI source'' e)
            | Inr (DigestReference _) \<Rightarrow> Inl (ErrorString ''source must use a tag, not a digest'')
            | Inr (TagReference ctx tag) \<Rightarrow> Inr \<lparr>ref_Repository = ctx, ref_Tag = tag\<rparr>))"

subsection \<open>Strict semantic versions\<close>

definition re_number :: re where
  "re_number = RAlt (rlit (CHR ''0'')) (RSeq (RClass [(49, 57)]) (RStar (RClass [(48, 57)])))"

definition re_ident :: re where
  "re_ident = rplus (RClass [(48, 57), (65, 90), (97, 122), (45, 45)])"

text \<open>\<^verbatim>\<open>^v?(0|[1-9][0-9]*)[.](0|[1-9][0-9]*)[.](0|[1-9][0-9]*)(-[0-9A-Za-z-]+([.][0-9A-Za-z-]+)*)?$\<close>\<close>

definition strictSemverTagPattern :: re where
  "strictSemverTagPattern =
     RSeq (ropt (rlit (CHR ''v'')))
     (RSeq re_number (RSeq (rlit (CHR ''.''))
     (RSeq re_number (RSeq (rlit (CHR ''.''))
     (RSeq re_number
       (ropt (RSeq (rlit (CHR ''-'')) (RSeq re_ident (RStar (RSeq (rlit (CHR ''.'')) re_ident))))))))))"

definition strictSemverVersion :: "lib \<Rightarrow> string \<Rightarrow> goerr + semver_Version" where
  "strictSemverVersion L tag =
     (if \<not> re_match strictSemverTagPattern tag
      then Inl (ErrorString ''tag must be a full semantic version'')
      else semver_NewVersion L tag)"

record semverUpgradeCandidate =
  cand_Tag :: string
  cand_Version :: string
  cand_version :: semver_Version

text \<open>The loop of \<^verbatim>\<open>selectLatestSemverUpgrade\<close>: \<^const>\<open>None\<close> is a nil \<^verbatim>\<open>best.version\<close>.\<close>

fun selectLoop ::
  "lib \<Rightarrow> semver_Version \<Rightarrow> (semver_Version \<Rightarrow> bool) option \<Rightarrow> string list \<Rightarrow>
   semverUpgradeCandidate option \<Rightarrow> semverUpgradeCandidate option" where
  "selectLoop L current constraint [] best = best"
| "selectLoop L current constraint (tag # tags) best =
     (case strictSemverVersion L tag of
        Inl _ \<Rightarrow> selectLoop L current constraint tags best
      | Inr version \<Rightarrow>
        if ver_Prerelease version \<noteq> [] then selectLoop L current constraint tags best
        else if \<not> semver_GreaterThan L version current then selectLoop L current constraint tags best
        else if (case constraint of Some chk \<Rightarrow> \<not> chk version | None \<Rightarrow> False)
        then selectLoop L current constraint tags best
        else if (case best of None \<Rightarrow> True | Some b \<Rightarrow> semver_GreaterThan L version (cand_version b))
        then selectLoop L current constraint tags
               (Some \<lparr>cand_Tag = tag, cand_Version = semver_String L version, cand_version = version\<rparr>)
        else selectLoop L current constraint tags best)"

text \<open>\<^verbatim>\<open>selectLatestSemverUpgrade\<close>: an error, or the candidate if there is one.\<close>

definition selectLatestSemverUpgrade ::
  "lib \<Rightarrow> string \<Rightarrow> string list \<Rightarrow> string \<Rightarrow> goerr + semverUpgradeCandidate option" where
  "selectLatestSemverUpgrade L currentTag tags constraintExpr =
     (case strictSemverVersion L currentTag of
        Inl e \<Rightarrow> Inl (fmt_wrap (''parse current semantic version '' @ fmt_q currentTag) e)
      | Inr currentVersion \<Rightarrow>
        if strings_TrimSpace constraintExpr \<noteq> []
        then (case semver_NewConstraint L constraintExpr of
                Inl e \<Rightarrow> Inl (fmt_wrap (''parse semantic version constraint '' @ fmt_q constraintExpr) e)
              | Inr chk \<Rightarrow> Inr (selectLoop L currentVersion (Some chk) tags None))
        else Inr (selectLoop L currentVersion None tags None))"

subsection \<open>Registry credentials\<close>

type_synonym dockerConfigJSONKeychain = "string \<rightharpoonup> AuthConfig"

definition newDockerConfigJSONKeychain :: "lib \<Rightarrow> string \<Rightarrow> goerr + dockerConfigJSONKeychain" where
  "newDockerConfigJSONKeychain L data =
     (case json_Unmarshal_docker L data of
        Inl e \<Rightarrow> Inl (fmt_wrap ''parse registry credential docker config'' e)
      | Inr cfg \<Rightarrow>
        if strings_TrimSpace (docker_CredentialStore cfg) \<noteq> []
           \<or> docker_CredentialHelpers cfg \<noteq> []
        then Inl (ErrorString ''registry credential docker config must use inline auths; credential helpers are not supported'')
        else Inr (docker_Auths cfg))"

definition dockerConfigAuthKeys :: "string \<Rightarrow> string list" where
  "dockerConfigAuthKeys key0 =
     (let key = strings_TrimSpace key0 in
      if key = [] then []
      else let trimmed = strings_TrimRight key (CHR ''/'') in
        [key] @ (if trimmed \<noteq> key then [trimmed] else []) @
        [''https://'' @ trimmed, ''https://'' @ trimmed @ ''/'',
         ''http://'' @ trimmed, ''http://'' @ trimmed @ ''/''])"

definition authConfigEmpty :: "AuthConfig \<Rightarrow> bool" where
  "authConfigEmpty cfg \<longleftrightarrow>
     auth_Username cfg = [] \<and> auth_Password cfg = [] \<and> auth_Auth cfg = [] \<and>
     auth_IdentityToken cfg = [] \<and> auth_RegistryToken cfg = []"

fun authFirst :: "dockerConfigJSONKeychain \<Rightarrow> string list \<Rightarrow> AuthConfig option" where
  "authFirst auths [] = None"
| "authFirst auths (candidate # cs) =
     (case auths candidate of
        None \<Rightarrow> authFirst auths cs
      | Some cfg \<Rightarrow> if authConfigEmpty cfg then authFirst auths cs else Some cfg)"

definition authForKey :: "dockerConfigJSONKeychain \<Rightarrow> string \<Rightarrow> AuthConfig option" where
  "authForKey auths key = authFirst auths (dockerConfigAuthKeys key)"

text \<open>
  \<^verbatim>\<open>Resolve\<close>: the repository's own entry first, then its registry's; the default registry is looked
  up under its legacy key; \<^const>\<open>None\<close> is anonymous access.
\<close>

definition keychain_Resolve ::
  "lib \<Rightarrow> dockerConfigJSONKeychain \<Rightarrow> name_Repository \<Rightarrow> AuthConfig option" where
  "keychain_Resolve L auths target =
     (let canon = (\<lambda>key. if key = name_DefaultRegistry L then authn_DefaultAuthKey L else key) in
      case authForKey auths (canon (repo_String target)) of
        Some cfg \<Rightarrow> Some cfg
      | None \<Rightarrow> authForKey auths (canon (repo_RegistryStr target)))"

text \<open>\<^verbatim>\<open>defaultOCITagResolver.ListTags\<close>.\<close>

definition defaultListTags ::
  "env \<Rightarrow> trace \<Rightarrow> string \<Rightarrow> ociTagResolveOptions \<Rightarrow> goerr + string list" where
  "defaultListTags E tr source opts =
     (case parseOCISourceForTagList (libs E) source of
        Inl e \<Rightarrow> Inl e
      | Inr sourceRef \<Rightarrow>
        (case name_NewRepository (libs E) (ref_Repository sourceRef) (tr_PlainHTTP opts) of
           Inl e \<Rightarrow> Inl (fmt_wrap ''parse OCI repository'' e)
         | Inr repo \<Rightarrow>
           (case (if tr_RegistryCredentialJSON opts \<noteq> []
                  then (case newDockerConfigJSONKeychain (libs E) (tr_RegistryCredentialJSON opts) of
                          Inl e \<Rightarrow> Inl e
                        | Inr k \<Rightarrow> Inr (keychain_Resolve (libs E) k repo))
                  else Inr None) of
              Inl e \<Rightarrow> Inl e
            | Inr auth \<Rightarrow>
              (case env_remoteList E tr repo auth (tr_InsecureSkipTLSVerify opts) of
                 Inl e \<Rightarrow> Inl (fmt_wrap (''list OCI tags for '' @ ref_Repository sourceRef) e)
               | Inr tags \<Rightarrow> Inr tags))))"

subsection \<open>Facts on sources and tags\<close>

text \<open>A source the parser accepts has the scheme, no digest, and a nonempty tag part after the last colon.\<close>

lemma parseOCISource_shape:
  assumes "parseOCISourceForTagList L source = Inr ref"
  obtains repo tag where "source = ''oci://'' @ repo @ '':'' @ tag"
    and "explicit_tag (repo @ '':'' @ tag) repo tag" and "CHR ''@'' \<notin> set (repo @ tag)"
    and "name_ParseReference L (repo @ '':'' @ tag) = Inr (TagReference (ref_Repository ref) (ref_Tag ref))"
proof -
  define t where "t = strings_TrimPrefix source ''oci://''"
  have pre: "strings_HasPrefix source ''oci://''" and at: "\<not> strings_Contains t ''@''"
    and idx: "\<not> strings_LastIndex t (CHR '':'') \<le> strings_LastIndex t (CHR ''/'')"
      "strings_LastIndex t (CHR '':'') \<noteq> int (length t) - 1"
    using assms by (auto simp: parseOCISourceForTagList_def Let_def t_def split: if_splits)
  have parse: "name_ParseReference L t = Inr (TagReference (ref_Repository ref) (ref_Tag ref))"
    using assms by (auto simp: parseOCISourceForTagList_def Let_def t_def
        split: if_splits sum.splits name_Reference.splits)
  from explicit_tag_exists [OF idx] obtain repo tag where tag: "explicit_tag t repo tag" .
  then have t: "t = repo @ '':'' @ tag" by (simp add: explicit_tag_def)
  moreover have "source = ''oci://'' @ t"
    unfolding t_def by (rule HasPrefix_split [OF pre])
  moreover have "CHR ''@'' \<notin> set (repo @ tag)" using at t by (simp add: Contains_single)
  ultimately show thesis using that tag parse by simp
qed

definition semver_tag_byte :: "char \<Rightarrow> bool" where
  "semver_tag_byte c \<longleftrightarrow>
     (let n = of_char c :: nat in 48 \<le> n \<and> n \<le> 57 \<or> 65 \<le> n \<and> n \<le> 90 \<or> 97 \<le> n \<and> n \<le> 122 \<or> n = 45 \<or> n = 46)"

lemma strictSemver_bytes:
  assumes "strictSemverVersion L tag = Inr v" and "c \<in> set tag"
  shows "semver_tag_byte c"
proof -
  have "tag \<in> lang strictSemverTagPattern"
    using assms(1) by (auto simp: strictSemverVersion_def re_match_lang split: if_splits)
  from lang_bytes [OF this assms(2)] show ?thesis
    by (auto simp: strictSemverTagPattern_def re_number_def re_ident_def ropt_def rplus_def rlit_def
        in_class_def semver_tag_byte_def Let_def)
qed

subsection \<open>The selected tag\<close>

definition satisfies :: "(semver_Version \<Rightarrow> bool) option \<Rightarrow> semver_Version \<Rightarrow> bool" where
  "satisfies constraint v \<longleftrightarrow> (case constraint of None \<Rightarrow> True | Some chk \<Rightarrow> chk v)"

definition eligible ::
  "lib \<Rightarrow> semver_Version \<Rightarrow> (semver_Version \<Rightarrow> bool) option \<Rightarrow> string \<Rightarrow> semver_Version \<Rightarrow> bool" where
  "eligible L current constraint tag v \<longleftrightarrow>
     strictSemverVersion L tag = Inr v \<and> ver_Prerelease v = [] \<and>
     semver_GreaterThan L v current \<and> satisfies constraint v"

definition candidate_of :: "lib \<Rightarrow> string \<Rightarrow> semver_Version \<Rightarrow> semverUpgradeCandidate" where
  "candidate_of L tag v = \<lparr>cand_Tag = tag, cand_Version = semver_String L v, cand_version = v\<rparr>"

text \<open>One step of the loop, by whether the tag is eligible.\<close>

lemma selectLoop_skip:
  "(\<And>v. \<not> eligible L cur con tag v) \<Longrightarrow> selectLoop L cur con (tag # tags) best = selectLoop L cur con tags best"
proof (cases "strictSemverVersion L tag")
  case (Inr v)
  assume "\<And>v. \<not> eligible L cur con tag v"
  then have "\<not> eligible L cur con tag v" .
  with Inr show ?thesis by (auto simp: eligible_def satisfies_def split: option.splits)
qed simp

lemma selectLoop_take:
  "eligible L cur con tag v \<Longrightarrow>
   selectLoop L cur con (tag # tags) best = selectLoop L cur con tags
     (if (case best of None \<Rightarrow> True | Some b \<Rightarrow> semver_GreaterThan L v (cand_version b))
      then Some (candidate_of L tag v) else best)"
  by (auto simp: eligible_def satisfies_def candidate_of_def split: option.splits)

lemma eligible_unique: "eligible L cur con tag v \<Longrightarrow> eligible L cur con tag w \<Longrightarrow> v = w"
  by (simp add: eligible_def)

definition best_of ::
  "lib \<Rightarrow> semver_Version \<Rightarrow> (semver_Version \<Rightarrow> bool) option \<Rightarrow> string list \<Rightarrow>
   semverUpgradeCandidate option \<Rightarrow> semverUpgradeCandidate option \<Rightarrow> bool" where
  "best_of L cur con tags best res \<longleftrightarrow>
     (case res of
        None \<Rightarrow> best = None \<and> (\<forall>tag\<in>set tags. \<forall>v. \<not> eligible L cur con tag v)
      | Some c \<Rightarrow>
          (best = Some c \<or> (\<exists>tag\<in>set tags. \<exists>v. eligible L cur con tag v \<and> c = candidate_of L tag v)) \<and>
          (\<forall>b. best = Some b \<longrightarrow> \<not> semver_GreaterThan L (cand_version b) (cand_version c)) \<and>
          (\<forall>tag\<in>set tags. \<forall>v. eligible L cur con tag v \<longrightarrow> \<not> semver_GreaterThan L v (cand_version c)))"

lemma best_of_skip:
  "(\<And>v. \<not> eligible L cur con tag v) \<Longrightarrow> best_of L cur con tags best res \<Longrightarrow>
   best_of L cur con (tag # tags) best res"
  by (auto simp: best_of_def split: option.splits)

lemma best_of_take:
  assumes ord: "semver_order (semver_GreaterThan L)" and el: "eligible L cur con tag v"
    and b: "b' = (if (case best of None \<Rightarrow> True | Some b \<Rightarrow> semver_GreaterThan L v (cand_version b))
                  then Some (candidate_of L tag v) else best)"
    and IH: "best_of L cur con tags b' res"
  shows "best_of L cur con (tag # tags) best res"
proof (cases res)
  case None
  with IH b show ?thesis by (auto simp: best_of_def split: if_splits option.splits)
next
  case (Some c)
  have v: "eligible L cur con tag w \<Longrightarrow> w = v" for w using el eligible_unique by blast
  show ?thesis
  proof (cases "case best of None \<Rightarrow> True | Some b \<Rightarrow> semver_GreaterThan L v (cand_version b)")
    case True
    with IH Some b have "\<not> semver_GreaterThan L v (cand_version c)"
      by (auto simp: best_of_def candidate_of_def)
    note top = this
    have "\<not> semver_GreaterThan L (cand_version b0) (cand_version c)" if "best = Some b0" for b0
    proof -
      from True that have "semver_GreaterThan L v (cand_version b0)" by simp
      then have "semver_GreaterThan L (cand_version c) (cand_version b0)"
        by (rule semver_order.not_gt_gt [OF ord top])
      then show ?thesis by (rule semver_order.gt_asym [OF ord])
    qed
    moreover have "\<exists>t\<in>set (tag # tags). \<exists>w. eligible L cur con t w \<and> c = candidate_of L t w"
      using True IH Some b el by (auto simp: best_of_def)
    moreover have "\<not> semver_GreaterThan L w (cand_version c)"
      if "t \<in> set (tag # tags)" "eligible L cur con t w" for t w
      using IH Some that top v by (auto simp: best_of_def)
    ultimately show ?thesis using Some by (simp add: best_of_def)
  next
    case False
    then obtain b0 where b0: "best = Some b0" "\<not> semver_GreaterThan L v (cand_version b0)"
      by (auto split: option.splits)
    with IH Some b False have "\<not> semver_GreaterThan L v (cand_version c)"
      by (auto simp: best_of_def dest: semver_order.not_gt_trans [OF ord])
    with False IH Some b v show ?thesis by (auto simp: best_of_def)
  qed
qed

lemma selectLoop_best:
  assumes "semver_order (semver_GreaterThan L)"
  shows "best_of L cur con tags best (selectLoop L cur con tags best)"
proof (induction tags arbitrary: best)
  case Nil
  show ?case
    using semver_order.gt_irrefl [OF assms] by (auto simp: best_of_def split: option.splits)
next
  case (Cons tag tags)
  show ?case
  proof (cases "\<exists>v. eligible L cur con tag v")
    case False
    then show ?thesis
      using best_of_skip [OF _ Cons.IH] by (subst selectLoop_skip) auto
  next
    case True
    then obtain v where v: "eligible L cur con tag v" by blast
    show ?thesis
      unfolding selectLoop_take [OF v] by (rule best_of_take [OF assms v refl]) (rule Cons.IH)
  qed
qed

end
