(* ===== verification/Decision.thy ===== *)
theory Decision
  imports Secrets Oci_Upgrade
begin

section \<open>The deployment decision\<close>

text \<open>
  Which source the controller deploys and whether it deploys at all: source selection, pruning of
  stale upgrade status, automatic upgrade discovery, Helm drift, and \<^verbatim>\<open>deploymentDecision\<close>, in the
  order of \<^verbatim>\<open>internal/controller/zarfpackage_controller.go\<close>.
\<close>

subsection \<open>Sources\<close>

definition upgrades_enabled :: "ZarfPackageSpec \<Rightarrow> bool" where
  "upgrades_enabled s = (case sp_UpgradePolicy s of None \<Rightarrow> False | Some p \<Rightarrow> up_Enabled p)"

definition preferredResolvedSemverSource :: "lib \<Rightarrow> string \<Rightarrow> string \<Rightarrow> string option" where
  "preferredResolvedSemverSource L source resolvedSource =
     (case parseOCISourceForTagList L source of
        Inl _ \<Rightarrow> None
      | Inr sourceRef \<Rightarrow>
        (case parseOCISourceForTagList L resolvedSource of
           Inl _ \<Rightarrow> None
         | Inr resolvedRef \<Rightarrow>
           if ref_Repository sourceRef \<noteq> ref_Repository resolvedRef then None
           else (case strictSemverVersion L (ref_Tag sourceRef) of
                   Inl _ \<Rightarrow> None
                 | Inr sourceVersion \<Rightarrow>
                   (case strictSemverVersion L (ref_Tag resolvedRef) of
                      Inl _ \<Rightarrow> None
                    | Inr resolvedVersion \<Rightarrow>
                      if \<not> semver_GreaterThan L resolvedVersion sourceVersion then None
                      else Some (strings_TrimSpace resolvedSource)))))"

definition pendingAvailableSemverSource :: "lib \<Rightarrow> string \<Rightarrow> string \<Rightarrow> string \<Rightarrow> string option" where
  "pendingAvailableSemverSource L currentSource availableSource constraintExpr =
     (case parseOCISourceForTagList L currentSource of
        Inl _ \<Rightarrow> None
      | Inr currentRef \<Rightarrow>
        (case parseOCISourceForTagList L availableSource of
           Inl _ \<Rightarrow> None
         | Inr availableRef \<Rightarrow>
           if ref_Repository currentRef \<noteq> ref_Repository availableRef then None
           else (case strictSemverVersion L (ref_Tag currentRef) of
                   Inl _ \<Rightarrow> None
                 | Inr currentVersion \<Rightarrow>
                   (case strictSemverVersion L (ref_Tag availableRef) of
                      Inl _ \<Rightarrow> None
                    | Inr availableVersion \<Rightarrow>
                      if \<not> semver_GreaterThan L availableVersion currentVersion then None
                      else if strings_TrimSpace constraintExpr \<noteq> [] \<and>
                              (case semver_NewConstraint L constraintExpr of
                                 Inl _ \<Rightarrow> True | Inr chk \<Rightarrow> \<not> chk availableVersion) then None
                      else Some (strings_TrimSpace availableSource)))))"

definition availableSourceViolatesCurrentPolicy :: "lib \<Rightarrow> string \<Rightarrow> string \<Rightarrow> string \<Rightarrow> bool" where
  "availableSourceViolatesCurrentPolicy L currentSource availableSource constraintExpr =
     (if strings_TrimSpace availableSource = [] then False
      else (case parseOCISourceForTagList L currentSource of
        Inl _ \<Rightarrow> True
      | Inr currentRef \<Rightarrow>
        (case parseOCISourceForTagList L availableSource of
           Inl _ \<Rightarrow> True
         | Inr availableRef \<Rightarrow>
           if ref_Repository currentRef \<noteq> ref_Repository availableRef then True
           else (case strictSemverVersion L (ref_Tag currentRef) of
                   Inl _ \<Rightarrow> True
                 | Inr currentVersion \<Rightarrow>
                   (case strictSemverVersion L (ref_Tag availableRef) of
                      Inl _ \<Rightarrow> True
                    | Inr availableVersion \<Rightarrow>
                      if \<not> semver_GreaterThan L availableVersion currentVersion then True
                      else if strings_TrimSpace constraintExpr = [] then False
                      else (case semver_NewConstraint L constraintExpr of
                              Inl _ \<Rightarrow> True
                            | Inr chk \<Rightarrow> \<not> chk availableVersion))))))"

definition currentSemverSource :: "lib \<Rightarrow> ZarfPackage \<Rightarrow> string" where
  "currentSemverSource L p =
     (let source = strings_TrimSpace (sp_Source (zp_Spec p));
          resolvedSource = strings_TrimSpace (st_Source (zp_Status p))
      in case preferredResolvedSemverSource L source resolvedSource of
           Some preferred \<Rightarrow> preferred
         | None \<Rightarrow> source)"

definition deploymentSource :: "lib \<Rightarrow> ZarfPackage \<Rightarrow> string" where
  "deploymentSource L p =
     (let source = strings_TrimSpace (sp_Source (zp_Spec p)) in
      case (case sp_UpgradePolicy (zp_Spec p) of
              Some pol \<Rightarrow> if up_Enabled pol then Some pol else None | None \<Rightarrow> None) of
        None \<Rightarrow>
          if zp_Annotations p AnnotationRedeploy \<noteq> None then source
          else (case preferredResolvedSemverSource L source (strings_TrimSpace (st_Source (zp_Status p))) of
                  Some preferred \<Rightarrow> preferred
                | None \<Rightarrow> source)
      | Some pol \<Rightarrow>
          let currentSource = currentSemverSource L p in
          (case pendingAvailableSemverSource L currentSource (st_AvailableSource (zp_Status p))
                  (up_SemverConstraint pol) of
             Some pendingSource \<Rightarrow> pendingSource
           | None \<Rightarrow> currentSource))"

definition deploymentSpecChanged :: "ZarfPackage \<Rightarrow> bool" where
  "deploymentSpecChanged p =
     (if st_DeployedSpecHash (zp_Status p) = [] then True
      else DeploymentHash (zp_Spec p) \<noteq> st_DeployedSpecHash (zp_Status p))"

definition clearAvailableUpgrade :: "lib \<Rightarrow> string \<Rightarrow> string \<Rightarrow> ZarfPackage \<Rightarrow> ZarfPackage" where
  "clearAvailableUpgrade L reason message p =
     setCondition L (on_status (\<lambda>st. st\<lparr>st_AvailableVersion := [], st_AvailableSource := []\<rparr>) p)
       ConditionTypeUpgradeAvailable ConditionFalse reason message"

definition pruneAutoUpgradeStatus :: "lib \<Rightarrow> ZarfPackage \<Rightarrow> ZarfPackage" where
  "pruneAutoUpgradeStatus L p =
     (case (case sp_UpgradePolicy (zp_Spec p) of
              Some pol \<Rightarrow> if up_Enabled pol then Some pol else None | None \<Rightarrow> None) of
        None \<Rightarrow>
          if strings_TrimSpace (st_AvailableSource (zp_Status p)) = [] \<and>
             strings_TrimSpace (st_AvailableVersion (zp_Status p)) = [] \<and>
             st_LastUpgradeCheckTime (zp_Status p) = None \<and>
             (case apimeta_FindStatusCondition L (st_Conditions (zp_Status p)) ConditionTypeUpgradeAvailable of
                None \<Rightarrow> True | Some c \<Rightarrow> cond_Status c = ConditionFalse)
          then p
          else on_status (\<lambda>st. st\<lparr>st_LastUpgradeCheckTime := None\<rparr>)
                 (clearAvailableUpgrade L ReasonUpgradeNotAvailable ''Automatic package upgrades are disabled'' p)
      | Some pol \<Rightarrow>
          if availableSourceViolatesCurrentPolicy L (currentSemverSource L p)
               (st_AvailableSource (zp_Status p)) (up_SemverConstraint pol)
          then clearAvailableUpgrade L ReasonUpgradeNotAvailable
                 ''Previously discovered package source no longer matches the current upgrade policy'' p
          else p)"

subsection \<open>Intervals\<close>

definition requeueAfter :: "reconciler \<Rightarrow> ZarfPackage \<Rightarrow> int" where
  "requeueAfter r p =
     (case sp_UpgradePolicy (zp_Spec p) of
        None \<Rightarrow> r_RequeueInterval r
      | Some pol \<Rightarrow>
        if \<not> up_Enabled pol then r_RequeueInterval r
        else if strings_TrimSpace (up_Interval pol) = [] then r_RequeueInterval r
        else (case time_ParseDuration (up_Interval pol) of
                None \<Rightarrow> r_RequeueInterval r
              | Some interval \<Rightarrow> if interval \<le> 0 then r_RequeueInterval r else interval))"

definition shouldRefreshFailedPendingUpgrade :: "int \<Rightarrow> ZarfPackage \<Rightarrow> string \<Rightarrow> int \<Rightarrow> bool" where
  "shouldRefreshFailedPendingUpgrade t p pendingSource0 interval =
     (let pendingSource = strings_TrimSpace pendingSource0; s = zp_Status p in
      if pendingSource = [] then False
      else if strings_TrimSpace (st_AvailableSource s) \<noteq> pendingSource then False
      else if strings_TrimSpace (st_LastAttemptedRevision s) \<noteq> pendingSource then False
      else if strings_TrimSpace (st_LastAttemptError s) = [] \<and> st_Phase s \<noteq> PhaseFailed then False
      else (case st_LastUpgradeCheckTime s of
              None \<Rightarrow> True
            | Some t0 \<Rightarrow> interval \<le> sat64 (t - t0)))"

subsection \<open>Upgrade discovery\<close>

record autoUpgradeDecision =
  au_checked :: bool
  au_source :: string
  au_requeueAfter :: int

definition recordUpgradeCheckFailure :: "env \<Rightarrow> reconciler \<Rightarrow> string \<Rightarrow> rstate \<Rightarrow> rstate" where
  "recordUpgradeCheckFailure E r message st =
     event r EventTypeWarning ReasonUpgradeCheckFailed (truncateMessage message 512)
       (set_cond E ConditionTypeUpgradeAvailable ConditionFalse ReasonUpgradeCheckFailed
          (truncateMessage message 512) st)"

definition list_tags ::
  "env \<Rightarrow> reconciler \<Rightarrow> string \<Rightarrow> ociTagResolveOptions \<Rightarrow> rstate \<Rightarrow> (goerr + string list) \<times> rstate" where
  "list_tags E r source opts st =
     ((case r_OCITagResolver r of
         Some resolver \<Rightarrow> resolver (rs_trace st) source opts
       | None \<Rightarrow> defaultListTags E (rs_trace st) source opts),
      emit (AListTags source opts) st)"

text \<open>The registry check of \<^verbatim>\<open>evaluateAutoUpgrade\<close>, once it is due.\<close>

definition checkRegistry ::
  "env \<Rightarrow> reconciler \<Rightarrow> UpgradePolicy \<Rightarrow> string \<Rightarrow> int \<Rightarrow> rstate \<Rightarrow> autoUpgradeDecision \<times> rstate" where
  "checkRegistry E r policy currentSource interval st =
     (let L = libs E;
          failed = (\<lambda>msg s. (\<lparr>au_checked = True, au_source = [], au_requeueAfter = upgradeCheckFailureRequeue\<rparr>,
                             recordUpgradeCheckFailure E r msg s))
      in case parseOCISourceForTagList L currentSource of
        Inl e \<Rightarrow> failed (''current source is not eligible for SemVer upgrades: '' @ err_Error e) st
      | Inr currentRef \<Rightarrow>
        (case getRegistryCredentialJSON E st of
           (Inl e, st1) \<Rightarrow> failed (err_Error e) st1
         | (Inr credentialJSON, st1) \<Rightarrow>
           (case list_tags E r (sp_Source (rs_spec st1))
                   \<lparr>tr_PlainHTTP = sp_PlainHTTP (rs_spec st1),
                    tr_InsecureSkipTLSVerify = sp_InsecureSkipTLSVerify (rs_spec st1),
                    tr_RegistryCredentialJSON = credentialJSON\<rparr> st1 of
              (Inl e, st2) \<Rightarrow> failed (err_Error e) st2
            | (Inr tags, st2) \<Rightarrow>
              (case selectLatestSemverUpgrade L (ref_Tag currentRef) tags (up_SemverConstraint policy) of
                 Inl e \<Rightarrow> failed (err_Error e) st2
               | Inr None \<Rightarrow>
                   (\<lparr>au_checked = True, au_source = [], au_requeueAfter = interval\<rparr>,
                    on_pkg (clearAvailableUpgrade L ReasonUpgradeNotAvailable
                        ''No newer semantic version tag is available'')
                      (on_pkg (on_status (\<lambda>s. s\<lparr>st_LastUpgradeCheckTime := Some (now E st2)\<rparr>)) st2))
               | Inr (Some candidate) \<Rightarrow>
                 (case parseOCISourceForTagList L (sp_Source (rs_spec st2)) of
                    Inl e \<Rightarrow> failed (''source is not eligible for SemVer upgrades: '' @ err_Error e) st2
                  | Inr sourceRef \<Rightarrow>
                    let resolvedSource = ''oci://'' @ ref_Repository sourceRef @ '':'' @ cand_Tag candidate;
                        msg = ''Discovered newer package source '' @ resolvedSource;
                        st3 = on_pkg (on_status (\<lambda>s. s\<lparr>st_LastUpgradeCheckTime := Some (now E st2),
                                st_AvailableVersion := cand_Version candidate,
                                st_AvailableSource := resolvedSource\<rparr>)) st2;
                        st4 = set_cond E ConditionTypeUpgradeAvailable ConditionTrue ReasonUpgradeAvailable msg st3;
                        st5 = event r EventTypeNormal ReasonUpgradeAvailable msg st4
                    in (\<lparr>au_checked = True, au_source = resolvedSource, au_requeueAfter = interval\<rparr>, st5))))))"

definition evaluateAutoUpgrade ::
  "env \<Rightarrow> reconciler \<Rightarrow> rstate \<Rightarrow> autoUpgradeDecision \<times> rstate" where
  "evaluateAutoUpgrade E r st =
     (case (case sp_UpgradePolicy (rs_spec st) of
              Some pol \<Rightarrow> if up_Enabled pol then Some pol else None | None \<Rightarrow> None) of
        None \<Rightarrow> (\<lparr>au_checked = False, au_source = [], au_requeueAfter = 0\<rparr>, st)
      | Some policy \<Rightarrow>
        let L = libs E; p = rs_pkg st; s = zp_Status p;
            interval = requeueAfter r p;
            currentSource = currentSemverSource L p;
            decision = \<lparr>au_checked = True, au_source = [], au_requeueAfter = interval\<rparr>
        in if availableSourceViolatesCurrentPolicy L currentSource (st_AvailableSource s) (up_SemverConstraint policy)
           then (decision, on_pkg (clearAvailableUpgrade L ReasonUpgradeNotAvailable
                  ''Previously discovered package source no longer matches the current upgrade policy'') st)
           else let generationChanged = (st_ObservedGeneration s \<noteq> zp_Generation p);
                    failedPendingDue = shouldRefreshFailedPendingUpgrade (now E st) p (st_AvailableSource s) interval
           in case pendingAvailableSemverSource L currentSource (st_AvailableSource s) (up_SemverConstraint policy) of
                Some pendingSource \<Rightarrow>
                  if \<not> failedPendingDue then (decision\<lparr>au_source := pendingSource\<rparr>, st)
                  else (case st_LastUpgradeCheckTime s of
                          Some t0 \<Rightarrow>
                            if \<not> generationChanged \<and> sat64 (now E st - t0) < interval
                            then (decision\<lparr>au_requeueAfter := wrap64 (interval - sat64 (now E st - t0))\<rparr>, st)
                            else checkRegistry E r policy currentSource interval st
                        | None \<Rightarrow> checkRegistry E r policy currentSource interval st)
              | None \<Rightarrow>
                  (case st_LastUpgradeCheckTime s of
                     Some t0 \<Rightarrow>
                       if \<not> generationChanged \<and> sat64 (now E st - t0) < interval
                       then (decision\<lparr>au_requeueAfter := wrap64 (interval - sat64 (now E st - t0))\<rparr>, st)
                       else checkRegistry E r policy currentSource interval st
                   | None \<Rightarrow> checkRegistry E r policy currentSource interval st))"

subsection \<open>Helm drift\<close>

definition initHelmActionConfig :: "env \<Rightarrow> string \<Rightarrow> rstate \<Rightarrow> goerr option \<times> rstate" where
  "initHelmActionConfig E namespace st =
     (map_option (fmt_wrap ''failed to init helm action config'') (env_helmInit E (rs_trace st) namespace),
      emit (AHelmInit namespace) st)"

definition helmReleaseExists :: "env \<Rightarrow> string \<Rightarrow> string \<Rightarrow> rstate \<Rightarrow> (bool \<times> goerr option) \<times> rstate" where
  "helmReleaseExists E releaseName namespace st0 =
     (case initHelmActionConfig E namespace st0 of
        (Some e, st1) \<Rightarrow> ((False, Some e), st1)
      | (None, st1) \<Rightarrow>
        let st2 = emit (AHelmHistory namespace releaseName) st1 in
        (case env_helmHistory E (rs_trace st1) namespace releaseName of
           Inr _ \<Rightarrow> ((True, None), st2)
         | Inl e \<Rightarrow>
           if e = ReleaseNotFound then ((False, None), st2)
           else (case env_ctxErr E (rs_trace st2) of
                   Some ctxErr \<Rightarrow> ((False, Some (fmt_wrap ''helm release check timed out'' ctxErr)), st2)
                 | None \<Rightarrow> ((False, Some (fmt_wrap ''failed to get release history'' e)), st2))))"

definition releaseExists ::
  "env \<Rightarrow> reconciler \<Rightarrow> string \<Rightarrow> string \<Rightarrow> rstate \<Rightarrow> (bool \<times> goerr option) \<times> rstate" where
  "releaseExists E r releaseName namespace st =
     (case r_helmReleaseExistsFn r of
        Some f \<Rightarrow> (f (rs_trace st) releaseName namespace, emit (AHelmExists releaseName namespace) st)
      | None \<Rightarrow> helmReleaseExists E releaseName namespace st)"

text \<open>The nested loops over components and charts; the error of \<^verbatim>\<open>releaseExists\<close> is dropped.\<close>

fun driftCharts ::
  "env \<Rightarrow> reconciler \<Rightarrow> InstalledChart list \<Rightarrow> string list \<Rightarrow> rstate \<Rightarrow> string list \<times> rstate" where
  "driftCharts E r [] missing st = (missing, st)"
| "driftCharts E r (chart # charts) missing st =
     (case releaseExists E r (ic_ChartName chart) (ic_Namespace chart) st of
        ((found, _), st') \<Rightarrow>
          driftCharts E r charts
            (if found then missing else missing @ [ic_Namespace chart @ ''/'' @ ic_ChartName chart]) st')"

fun driftComponents ::
  "env \<Rightarrow> reconciler \<Rightarrow> DeployedComponent list \<Rightarrow> string list \<Rightarrow> rstate \<Rightarrow> string list \<times> rstate" where
  "driftComponents E r [] missing st = (missing, st)"
| "driftComponents E r (cmp # cmps) missing st =
     (case driftCharts E r (dc_InstalledCharts cmp) missing st of
        (missing', st') \<Rightarrow> driftComponents E r cmps missing' st')"

definition checkHelmDrift ::
  "env \<Rightarrow> reconciler \<Rightarrow> PackageInfo option \<Rightarrow> rstate \<Rightarrow> (bool \<times> string list) \<times> rstate" where
  "checkHelmDrift E r deployedPkg st =
     (case deployedPkg of
        None \<Rightarrow> ((False, []), st)
      | Some d \<Rightarrow>
        (case driftComponents E r (pi_DeployedComponents d) [] st of
           (missing, st') \<Rightarrow> ((missing \<noteq> [], missing), st')))"

subsection \<open>The decision\<close>

record deploymentDecision =
  dd_needsDeploy :: bool
  dd_source :: string
  dd_requeueAfter :: int

definition refreshFailedPendingAutoUpgrade ::
  "env \<Rightarrow> reconciler \<Rightarrow> deploymentDecision \<Rightarrow> rstate \<Rightarrow> deploymentDecision \<times> rstate" where
  "refreshFailedPendingAutoUpgrade E r decision st =
     (if \<not> shouldRefreshFailedPendingUpgrade (now E st) (rs_pkg st) (dd_source decision)
            (requeueAfter r (rs_pkg st))
      then (decision, st)
      else (case evaluateAutoUpgrade E r st of
              (up, st') \<Rightarrow>
                if \<not> au_checked up then (decision, st')
                else let decision' = decision\<lparr>dd_requeueAfter := au_requeueAfter up\<rparr> in
                  if au_source up \<noteq> [] then (decision'\<lparr>dd_source := au_source up\<rparr>, st')
                  else if strings_TrimSpace (st_AvailableSource (rs_status st')) = []
                  then (decision'\<lparr>dd_source := currentSemverSource (libs E) (rs_pkg st')\<rparr>, st')
                  else (decision', st')))"

text \<open>The drift check of \<^verbatim>\<open>deploymentDecision\<close>: its last step.\<close>

definition driftDecision ::
  "env \<Rightarrow> reconciler \<Rightarrow> PackageInfo option \<Rightarrow> deploymentDecision \<Rightarrow> rstate \<Rightarrow> deploymentDecision \<times> rstate" where
  "driftDecision E r deployedPkg decision st =
     (if sp_SyncPolicy (rs_spec st) = SyncPolicyDetect \<or> sp_SyncPolicy (rs_spec st) = SyncPolicyRemediate
      then (case checkHelmDrift E r deployedPkg st of
              ((driftDetected, missing), st1) \<Rightarrow>
                if driftDetected then
                  let n = fmt_d (int (length missing));
                      st2 = on_pkg (on_status (\<lambda>s. s\<lparr>st_DriftInfo := Some
                              \<lparr>drift_Detected = True, drift_LastCheckTime = now E st1,
                               drift_MissingReleases = missing,
                               drift_Message = ''Missing Helm releases: '' @ fmt_v_strings missing\<rparr>\<rparr>)) st1;
                      st3 = event r EventTypeWarning ReasonDriftDetected
                              (''Drift detected: '' @ n @ '' missing Helm releases: '' @ fmt_v_strings missing) st2;
                      st4 = emit (AMetric MDriftDetected) st3;
                      st5 = set_cond E ConditionTypeDriftDetected ConditionTrue ReasonDriftDetected
                              (''Drift detected: '' @ n @ '' missing releases'') st4
                  in (if sp_SyncPolicy (rs_spec st5) = SyncPolicyRemediate
                      then decision\<lparr>dd_needsDeploy := True\<rparr> else decision, st5)
                else if (case st_DriftInfo (rs_status st1) of None \<Rightarrow> False | Some d \<Rightarrow> drift_Detected d) then
                  (decision,
                   set_cond E ConditionTypeDriftDetected ConditionFalse ReasonDriftResolved ''No drift detected''
                     (event r EventTypeNormal ReasonDriftResolved ''Drift resolved, all releases present''
                        (on_pkg (on_status (\<lambda>s. s\<lparr>st_DriftInfo := None\<rparr>)) st1)))
                else (decision, st1))
      else (decision, st))"

text \<open>
  \<^verbatim>\<open>deploymentDecision\<close>. The local function deploys after a refresh of a failed pending upgrade,
  as three of the early returns do.
\<close>

definition refreshed ::
  "env \<Rightarrow> reconciler \<Rightarrow> deploymentDecision \<Rightarrow> rstate \<Rightarrow> deploymentDecision \<times> rstate" where
  "refreshed E r decision st =
     (case refreshFailedPendingAutoUpgrade E r decision st of
        (decision', st') \<Rightarrow> (decision'\<lparr>dd_needsDeploy := True\<rparr>, st'))"

definition upgradeOrDrift ::
  "env \<Rightarrow> reconciler \<Rightarrow> PackageInfo option \<Rightarrow> deploymentDecision \<Rightarrow> rstate \<Rightarrow> deploymentDecision \<times> rstate" where
  "upgradeOrDrift E r deployedPkg decision st =
     (case evaluateAutoUpgrade E r st of
        (up, st') \<Rightarrow>
          if au_checked up then
            let decision' = decision\<lparr>dd_requeueAfter := au_requeueAfter up\<rparr> in
            if au_source up \<noteq> []
            then (decision'\<lparr>dd_needsDeploy := True, dd_source := au_source up\<rparr>, st')
            else driftDecision E r deployedPkg decision' st'
          else driftDecision E r deployedPkg decision st')"

definition decideDeployment ::
  "env \<Rightarrow> reconciler \<Rightarrow> PackageInfo option \<Rightarrow> rstate \<Rightarrow> deploymentDecision \<times> rstate" where
  "decideDeployment E r deployedPkg st0 =
     (let L = libs E;
          st = on_pkg (pruneAutoUpgradeStatus L) st0;
          decision = \<lparr>dd_needsDeploy = False, dd_source = deploymentSource L (rs_pkg st),
                      dd_requeueAfter = requeueAfter r (rs_pkg st)\<rparr>
      in if deployedPkg = None then refreshed E r decision st
         else if zp_Annotations (rs_pkg st) AnnotationRedeploy \<noteq> None then
           (decision\<lparr>dd_needsDeploy := True\<rparr>,
            event r EventTypeNormal ReasonRedeployRequested ''Redeploy triggered via annotation'' st)
         else if hasFailedDeployedComponent deployedPkg then refreshed E r decision st
         else if st_Phase (rs_status st) = PhaseFailed then refreshed E r decision st
         else if deploymentSpecChanged (rs_pkg st) then
           (decision\<lparr>dd_needsDeploy := True\<rparr>,
            event r EventTypeNormal ''SpecChanged''
              ''Deployment-affecting spec fields changed, triggering redeploy'' st)
         else upgradeOrDrift E r deployedPkg decision st)"

subsection \<open>Frames and views\<close>

text \<open>
  A decision reads: it lists tags, asks Helm and reads Secrets, and it may write the upgrade and drift
  parts of the status. It leaves the view of the status as it is.
\<close>

abbreviation decision_kinds :: "action_kind set" where
  "decision_kinds \<equiv> {KGetSecret, KListTags, KHelm, KEvent, KMetric}"

lemma runs_clearAvailableUpgrade:
  "runs K st st' \<Longrightarrow> runs K st (on_pkg (clearAvailableUpgrade L reason msg) st')"
  by (auto simp: clearAvailableUpgrade_def runs_def emits_def status_only_iff on_pkg_def on_status_def
      setCondition_def)

lemma runs_prune: "runs K st st' \<Longrightarrow> runs K st (on_pkg (pruneAutoUpgradeStatus L) st')"
  by (auto simp: pruneAutoUpgradeStatus_def clearAvailableUpgrade_def runs_def emits_def status_only_iff
      on_pkg_def on_status_def setCondition_def split: option.splits)

lemma runs_recordUpgradeCheckFailure:
  "KEvent \<in> K \<Longrightarrow> runs K st st' \<Longrightarrow> runs K st (recordUpgradeCheckFailure E r msg st')"
  unfolding recordUpgradeCheckFailure_def by (intro runs_event runs_set_cond)

lemmas runs_upgrade = runs_clearAvailableUpgrade runs_prune runs_recordUpgradeCheckFailure

lemma checkRegistry_run:
  assumes "checkRegistry E r policy cur interval st = (d, st')"
  shows "runs decision_kinds st st'"
proof -
  obtain cj st1 where g: "getRegistryCredentialJSON E st = (cj, st1)" by fastforce
  have "runs decision_kinds st st1"
    using getRegistryCredentialJSON_run [OF g] by (auto intro: runs_mono)
  with assms g show ?thesis
    by (auto simp: checkRegistry_def list_tags_def Let_def split: sum.splits option.splits
        intro!: runs_upgrade runs_intros)
qed

lemma evaluateAutoUpgrade_run:
  "evaluateAutoUpgrade E r st = (d, st') \<Longrightarrow> runs decision_kinds st st'"
  by (auto simp: evaluateAutoUpgrade_def Let_def split: if_splits option.splits dest: checkRegistry_run
      intro!: runs_upgrade runs_intros)

lemma releaseExists_run: "releaseExists E r n ns st = (x, st') \<Longrightarrow> runs {KHelm} st st' \<and> rs_pkg st' = rs_pkg st"
  by (auto simp: releaseExists_def helmReleaseExists_def initHelmActionConfig_def Let_def emit_def
      runs_def emits_def status_only_iff split: if_splits option.splits sum.splits)

lemma driftCharts_run:
  "driftCharts E r charts missing st = (x, st') \<Longrightarrow> runs {KHelm} st st' \<and> rs_pkg st' = rs_pkg st"
  by (induction charts arbitrary: missing st)
    (auto split: prod.splits dest: releaseExists_run dest!: meta_spec intro: runs_trans)

lemma driftComponents_run:
  "driftComponents E r cmps missing st = (x, st') \<Longrightarrow> runs {KHelm} st st' \<and> rs_pkg st' = rs_pkg st"
  by (induction cmps arbitrary: missing st)
    (auto split: prod.splits dest: driftCharts_run dest!: meta_spec intro: runs_trans)

lemma checkHelmDrift_run:
  "checkHelmDrift E r d st = (x, st') \<Longrightarrow> runs {KHelm} st st' \<and> rs_pkg st' = rs_pkg st"
  by (auto simp: checkHelmDrift_def split: option.splits prod.splits dest: driftComponents_run)

lemma driftDecision_run:
  assumes "driftDecision E r deployedPkg decision st = (d, st')"
  shows "runs decision_kinds st st'"
proof -
  obtain x st1 where c: "checkHelmDrift E r deployedPkg st = (x, st1)" by fastforce
  have "runs decision_kinds st st1"
    using checkHelmDrift_run [OF c] by (auto intro: runs_mono)
  with assms c show ?thesis
    by (auto simp: driftDecision_def Let_def split: if_splits prod.splits intro!: runs_intros)
qed

lemma refreshed_run: "refreshed E r decision st = (d, st') \<Longrightarrow> runs decision_kinds st st'"
  by (auto simp: refreshed_def refreshFailedPendingAutoUpgrade_def Let_def split: if_splits prod.splits
      dest: evaluateAutoUpgrade_run)

lemma upgradeOrDrift_run: "upgradeOrDrift E r dp decision st = (d, st') \<Longrightarrow> runs decision_kinds st st'"
  by (auto simp: upgradeOrDrift_def Let_def split: if_splits prod.splits
      dest: evaluateAutoUpgrade_run driftDecision_run intro: runs_trans)

lemma decideDeployment_run:
  assumes "decideDeployment E r deployedPkg st = (d, st')"
  shows "runs decision_kinds st st'"
proof -
  let ?st = "on_pkg (pruneAutoUpgradeStatus (libs E)) st"
  have "runs decision_kinds ?st st'"
    using assms
    by (auto simp: decideDeployment_def Let_def split: if_splits dest: refreshed_run upgradeOrDrift_run
        intro!: runs_event)
  moreover have "runs decision_kinds st ?st" by (intro runs_prune runs_refl)
  ultimately show ?thesis using runs_trans by blast
qed

context cond_env
begin

lemma vw_clearAvailableUpgrade [simp]:
  "vw E (on_pkg (clearAvailableUpgrade (libs E) reason msg) st) = vw E st"
  by (simp add: clearAvailableUpgrade_def vw_def view_def on_pkg_def cstat_set)
    (simp add: cstat_def on_status_def)

lemma vw_prune [simp]: "vw E (on_pkg (pruneAutoUpgradeStatus (libs E)) st) = vw E st"
proof -
  have "vw E (on_pkg (\<lambda>p. on_status (\<lambda>s. s\<lparr>st_LastUpgradeCheckTime := None\<rparr>) (f p)) st) = vw E (on_pkg f st)" for f
    by (simp add: vw_def view_def cstat_def on_pkg_def on_status_def)
  moreover have "on_pkg (\<lambda>p. if P p then f p else g p) st = (if P (rs_pkg st) then on_pkg f st else on_pkg g st)"
    for P f g by (simp add: on_pkg_def)
  moreover have "on_pkg (\<lambda>p. p) st = st" by (simp add: on_pkg_def)
  ultimately show ?thesis
    using vw_clearAvailableUpgrade
    by (cases "sp_UpgradePolicy (rs_spec st)") (auto simp: pruneAutoUpgradeStatus_def on_pkg_def vw_def view_def
        cstat_def on_status_def clearAvailableUpgrade_def setCondition_def find_set)
qed

lemma vw_recordUpgradeCheckFailure [simp]: "vw E (recordUpgradeCheckFailure E r msg st) = vw E st"
  by (simp add: recordUpgradeCheckFailure_def)

lemma vw_checkRegistry:
  assumes "checkRegistry E r policy cur interval st = (d, st')"
  shows "vw E st' = vw E st"
proof -
  obtain cj st1 where g: "getRegistryCredentialJSON E st = (cj, st1)" by fastforce
  note run = getRegistryCredentialJSON_run [OF g]
  from assms g run show ?thesis
    by (auto simp: checkRegistry_def list_tags_def Let_def vw_on_status split: sum.splits option.splits)
qed

lemma vw_evaluateAutoUpgrade: "evaluateAutoUpgrade E r st = (d, st') \<Longrightarrow> vw E st' = vw E st"
  by (auto simp: evaluateAutoUpgrade_def Let_def split: if_splits option.splits dest: vw_checkRegistry)

lemma vw_driftDecision:
  assumes "driftDecision E r deployedPkg decision st = (d, st')"
  shows "vw E st' = vw E st"
proof -
  obtain x st1 where c: "checkHelmDrift E r deployedPkg st = (x, st1)" by fastforce
  have "vw E st1 = vw E st" using checkHelmDrift_run [OF c] vw_same_pkg by blast
  with c assms show ?thesis
    by (auto simp: driftDecision_def Let_def vw_on_status split: if_splits prod.splits)
qed

lemma vw_refreshed: "refreshed E r decision st = (d, st') \<Longrightarrow> vw E st' = vw E st"
  by (auto simp: refreshed_def refreshFailedPendingAutoUpgrade_def Let_def split: if_splits prod.splits
      dest: vw_evaluateAutoUpgrade)

lemma vw_upgradeOrDrift: "upgradeOrDrift E r dp decision st = (d, st') \<Longrightarrow> vw E st' = vw E st"
  by (auto simp: upgradeOrDrift_def Let_def split: if_splits prod.splits
      dest!: vw_evaluateAutoUpgrade vw_driftDecision)

lemma vw_decideDeployment: "decideDeployment E r deployedPkg st = (d, st') \<Longrightarrow> vw E st' = vw E st"
  by (auto simp: decideDeployment_def Let_def split: if_splits dest!: vw_refreshed vw_upgradeOrDrift)

end

end
