(* ===== verification/Deploy.thy ===== *)
theory Deploy
  imports Decision
begin

section \<open>Deploying a package\<close>

text \<open>
  Recovery of stuck Helm releases, the cleanup before a retry, the call to the Zarf client with its
  one retry, and the handler \<^verbatim>\<open>deploy\<close> with every exit: secrets that cannot be resolved, a busy or
  cancelled sidecar, user-recoverable and other failures, the retry limit, success, and the clearing
  of the redeploy annotation.
\<close>

subsection \<open>Stuck Helm releases\<close>

definition isStuckHelmStatus :: "helm_status \<Rightarrow> bool" where
  "isStuckHelmStatus s \<longleftrightarrow> s \<in> {StatusPendingInstall, StatusPendingUpgrade, StatusPendingRollback}"

record chartRef =
  cr_name :: string
  cr_namespace :: string

definition addChartRef :: "chartRef list \<Rightarrow> InstalledChartStatus \<Rightarrow> chartRef list" where
  "addChartRef refs chart =
     (if ics_ChartName chart = [] \<or> ics_Namespace chart = [] then refs
      else let ref = \<lparr>cr_name = ics_ChartName chart, cr_namespace = ics_Namespace chart\<rparr> in
           if ref \<in> set refs then refs else refs @ [ref])"

definition uniqueChartRefs :: "ComponentStatus list \<Rightarrow> chartRef list" where
  "uniqueChartRefs components =
     foldl (\<lambda>refs cmp. foldl addChartRef refs (cs_InstalledCharts cmp)) [] components"

definition helmReleaseStatus ::
  "env \<Rightarrow> reconciler \<Rightarrow> string \<Rightarrow> string \<Rightarrow> rstate \<Rightarrow> (helm_status \<times> goerr option) \<times> rstate" where
  "helmReleaseStatus E r releaseName namespace st =
     (case r_helmReleaseStatusFn r of
        Some f \<Rightarrow> (f (rs_trace st) releaseName namespace, emit (AHelmStatus releaseName namespace) st)
      | None \<Rightarrow>
        (case initHelmActionConfig E namespace st of
           (Some e, st1) \<Rightarrow> ((StatusUnknown, Some e), st1)
         | (None, st1) \<Rightarrow>
           let st2 = emit (AHelmHistory namespace releaseName) st1 in
           (case env_helmHistory E (rs_trace st1) namespace releaseName of
              Inl e \<Rightarrow>
                if e = ReleaseNotFound then ((StatusUnknown, None), st2)
                else ((StatusUnknown, Some (fmt_wrap ''failed to get release history'' e)), st2)
            | Inr releases \<Rightarrow>
                (case releases of
                   Some status # _ \<Rightarrow> ((status, None), st2)
                 | _ \<Rightarrow> ((StatusUnknown, None), st2)))))"

definition fixStuckHelmRelease ::
  "env \<Rightarrow> reconciler \<Rightarrow> string \<Rightarrow> string \<Rightarrow> helm_status \<Rightarrow> rstate \<Rightarrow> goerr option \<times> rstate" where
  "fixStuckHelmRelease E r releaseName namespace state st =
     (case r_fixStuckHelmReleaseFn r of
        Some f \<Rightarrow> (f (rs_trace st) releaseName namespace state, emit (AHelmFix releaseName namespace state) st)
      | None \<Rightarrow>
        (case initHelmActionConfig E namespace st of
           (Some e, st1) \<Rightarrow> (Some e, st1)
         | (None, st1) \<Rightarrow>
           if state = StatusPendingInstall
           then (env_helmUninstall E (rs_trace st1) namespace releaseName,
                 emit (AHelmUninstall namespace releaseName) st1)
           else if state = StatusPendingUpgrade \<or> state = StatusPendingRollback
           then (env_helmRollback E (rs_trace st1) namespace releaseName,
                 emit (AHelmRollback namespace releaseName) st1)
           else (None, st1)))"

fun cleanupRefs :: "env \<Rightarrow> reconciler \<Rightarrow> chartRef list \<Rightarrow> nat \<Rightarrow> rstate \<Rightarrow> nat \<times> rstate" where
  "cleanupRefs E r [] cleaned st = (cleaned, st)"
| "cleanupRefs E r (ref # refs) cleaned st =
     (case helmReleaseStatus E r (cr_name ref) (cr_namespace ref) st of
        ((_, Some _), st1) \<Rightarrow> cleanupRefs E r refs cleaned st1
      | ((state, None), st1) \<Rightarrow>
        if \<not> isStuckHelmStatus state then cleanupRefs E r refs cleaned st1
        else (case fixStuckHelmRelease E r (cr_name ref) (cr_namespace ref) state st1 of
                (Some _, st2) \<Rightarrow> cleanupRefs E r refs cleaned st2
              | (None, st2) \<Rightarrow>
                  cleanupRefs E r refs (Suc cleaned)
                    (event r EventTypeWarning ''HelmReleaseRecovered''
                       (''Recovered stuck Helm release '' @ cr_namespace ref @ ''/'' @ cr_name ref @
                        '' (state: '' @ helm_status_string state @ '')'') st2)))"

definition cleanupStuckHelmReleases :: "env \<Rightarrow> reconciler \<Rightarrow> rstate \<Rightarrow> nat \<times> rstate" where
  "cleanupStuckHelmReleases E r st =
     (let refs = uniqueChartRefs (st_ComponentStatuses (rs_status st)) in
      if refs = [] then (0, st) else cleanupRefs E r refs 0 st)"

subsection \<open>Cleanup before a retry\<close>

text \<open>The kubeconfig of the probe, best effort: any failure falls back to the in-cluster one.\<close>

definition preDeployKubeconfig :: "env \<Rightarrow> rstate \<Rightarrow> string \<times> rstate" where
  "preDeployKubeconfig E st =
     (let ref = sp_ClusterSecretRef (rs_spec st) in
      if ref = [] then ([], st)
      else (case get_secret E ref st of
              (Inl _, st') \<Rightarrow> ([], st')
            | (Inr secret, st') \<Rightarrow>
              (case normalizeKubeconfigSecret (libs E) secret of
                 Inl _ \<Rightarrow> ([], st')
               | Inr kc \<Rightarrow> (kc, st'))))"

definition preDeployCleanup :: "env \<Rightarrow> reconciler \<Rightarrow> rstate \<Rightarrow> rstate" where
  "preDeployCleanup E r st0 =
     (case cleanupStuckHelmReleases E r st0 of (cleanedReleases, st1) \<Rightarrow>
      let st2 = (if 0 < cleanedReleases
                 then event r EventTypeWarning ''HelmCleanup''
                        (''Cleaned up '' @ fmt_d (int cleanedReleases) @
                         '' stuck Helm release(s) before deploy retry'') st1
                 else st1);
          name = st_PackageName (rs_status st2)
      in if name = [] then st2
         else (case preDeployKubeconfig E st2 of (kc, st3) \<Rightarrow>
           let opts = \<lparr>gd_PackageName = name, gd_Kubeconfig = kc\<rparr>;
               st4 = emit (AGetDeployed opts) st3
           in case env_GetDeployedPackage E (rs_trace st3) opts of
                (_, Some getErr) \<Rightarrow>
                  if status_Code (libs E) getErr = codes_NotFound then st4
                  else event r EventTypeWarning ''PreDeployCleanupFailed''
                         (truncateMessage (err_Error getErr) 512) st4
              | (None, None) \<Rightarrow> st4
              | (Some _, None) \<Rightarrow>
                  let ropts = \<lparr>ro_PackageName = name, ro_Components = [], ro_Timeout = 0,
                               ro_NamespaceOverride = [], ro_SkipVersionCheck = False, ro_Kubeconfig = kc\<rparr>;
                      st5 = emit (ARemove ropts (2 * minute)) st4
                  in (case env_Remove E (rs_trace st4) ropts (2 * minute) of
                        None \<Rightarrow> event r EventTypeNormal ''PreDeployCleanup''
                                  ''Removed previous failed package state before retry'' st5
                      | Some removeErr \<Rightarrow>
                          if status_Code (libs E) removeErr = codes_NotFound then st5
                          else event r EventTypeWarning ''PreDeployCleanupFailed''
                                 (truncateMessage (err_Error removeErr) 512) st5)))"

subsection \<open>The call to the Zarf client\<close>

definition call_Deploy ::
  "env \<Rightarrow> DeployOptions \<Rightarrow> int \<Rightarrow> rstate \<Rightarrow> (DeployResult option \<times> goerr option) \<times> rstate" where
  "call_Deploy E opts timeout st =
     (let t = wrap64 (timeout + minute) in
      (env_Deploy E (rs_trace st) opts t, emit (ADeploy opts t) st))"

definition retryDeployAfterHelmRecovery ::
  "env \<Rightarrow> reconciler \<Rightarrow> DeployOptions \<Rightarrow> int \<Rightarrow> goerr \<Rightarrow> rstate \<Rightarrow>
   (DeployResult option \<times> goerr option) \<times> rstate" where
  "retryDeployAfterHelmRecovery E r opts timeout deployErr st =
     (case errors_AsDeployError deployErr of
        None \<Rightarrow> ((None, Some deployErr), st)
      | Some dErr \<Rightarrow>
        if \<not> IsHelmOperationInProgress dErr then ((None, Some deployErr), st)
        else let st1 = event r EventTypeWarning ''HelmStuck''
                         ''Detected helm operation in progress; attempting automatic recovery'' st in
          (case cleanupStuckHelmReleases E r st1 of (recovered, st2) \<Rightarrow>
             if recovered = 0 then ((None, Some deployErr), st2)
             else (case call_Deploy E opts timeout st2 of
                     ((_, Some retryErr), st3) \<Rightarrow> ((None, Some retryErr), st3)
                   | ((retryResult, None), st3) \<Rightarrow>
                       ((retryResult, None),
                        event r EventTypeNormal ''HelmRecoverySucceeded''
                          (''Recovered '' @ fmt_d (int recovered) @
                           '' stuck Helm release(s) and deployment retry succeeded'') st3))))"

definition deployPackage ::
  "env \<Rightarrow> reconciler \<Rightarrow> DeployOptions \<Rightarrow> int \<Rightarrow> rstate \<Rightarrow>
   (DeployResult option \<times> goerr option) \<times> rstate" where
  "deployPackage E r opts timeout st =
     (case (case call_Deploy E opts timeout st of
              ((res, None), st1) \<Rightarrow> ((res, None), st1)
            | ((res, Some e), st1) \<Rightarrow> retryDeployAfterHelmRecovery E r opts timeout e st1) of
        ((res, None), st2) \<Rightarrow> ((res, failedDeployResultError res), st2)
      | ((res, Some e), st2) \<Rightarrow> ((res, Some e), st2))"

subsection \<open>Success\<close>

definition applyDeploySuccessStatus :: "env \<Rightarrow> reconciler \<Rightarrow> DeployResult \<Rightarrow> string \<Rightarrow> rstate \<Rightarrow> rstate" where
  "applyDeploySuccessStatus E r result source st0 =
     (let L = libs E;
          st1 = on_pkg (\<lambda>p. resetFailures (on_status (\<lambda>s. s\<lparr>
                  st_PackageName := dr_PackageName result, st_DeployedVersion := dr_Version result,
                  st_DeployedGeneration := dr_Generation result, st_Source := source,
                  st_LastAttemptedRevision := source, st_LastAttemptError := [],
                  st_ComponentStatuses := convertComponentStatuses (dr_DeployedComponents result),
                  st_Phase := PhaseDeployed, st_DeployedSpecHash := DeploymentHash (zp_Spec p)\<rparr>) p)) st0;
          st2 = (if st_AvailableSource (rs_status st1) = source
                 then on_pkg (clearAvailableUpgrade L ReasonUpgradeDeployed
                        ''Latest discovered package source is deployed'') st1
                 else st1);
          st3 = on_pkg (on_status (\<lambda>s. s\<lparr>st_DriftInfo := None\<rparr>)) st2;
          st4 = set_cond E ConditionTypeDriftDetected ConditionFalse ReasonDriftResolved ''No drift detected'' st3;
          st5 = set_cond E ConditionTypeReady ConditionTrue ReasonDeployed ''Package deployed successfully'' st4;
          st6 = set_cond E ConditionTypeStalled ConditionFalse ReasonDeployed ''Deployment succeeded'' st5;
          st7 = set_cond E ConditionTypeProgressing ConditionFalse ReasonDeployed ''Deployment complete'' st6
      in event r EventTypeNormal ReasonDeployed
           (''Package '' @ dr_PackageName result @ '' version '' @ dr_Version result @ '' deployed'') st7)"

subsection \<open>The handler\<close>

text \<open>\<^verbatim>\<open>r.Status().Patch(ctx, zarfPkg, client.MergeFrom(base))\<close>: on success the object in memory is the server's.\<close>

definition patch_status :: "env \<Rightarrow> ZarfPackage \<Rightarrow> rstate \<Rightarrow> goerr option \<times> rstate" where
  "patch_status E base st =
     (let st' = emit (APatchStatus base (rs_pkg st)) st in
      case env_PatchStatus E (rs_trace st) base (rs_pkg st) of
        Inl e \<Rightarrow> (Some e, st')
      | Inr obj \<Rightarrow> (None, st'\<lparr>rs_pkg := obj\<rparr>))"

definition patch_object :: "env \<Rightarrow> ZarfPackage \<Rightarrow> rstate \<Rightarrow> goerr option \<times> rstate" where
  "patch_object E base st =
     (let st' = emit (APatch base (rs_pkg st)) st in
      case env_Patch E (rs_trace st) base (rs_pkg st) of
        Inl e \<Rightarrow> (Some e, st')
      | Inr obj \<Rightarrow> (None, st'\<lparr>rs_pkg := obj\<rparr>))"

text \<open>\<^verbatim>\<open>original.Status = *zarfPkg.Status.DeepCopy()\<close>\<close>

definition remember_status :: "rstate \<Rightarrow> rstate" where
  "remember_status st = st\<lparr>rs_original := (rs_original st)\<lparr>zp_Status := rs_status st\<rparr>\<rparr>"

definition deploy_timeout :: "ZarfPackageSpec \<Rightarrow> int" where
  "deploy_timeout s =
     (if sp_Timeout s \<noteq> [] then (case time_ParseDuration (sp_Timeout s) of Some d \<Rightarrow> d | None \<Rightarrow> 15 * minute)
      else 15 * minute)"

definition deploy_options :: "ZarfPackageSpec \<Rightarrow> string \<Rightarrow> DeployOptions" where
  "deploy_options s source =
     \<lparr>do_Source = source, do_Components = sp_Components s, do_SetVariables = parseSetVariables (sp_Set s),
      do_AdoptExistingResources = sp_AdoptExistingResources s, do_Timeout = deploy_timeout s,
      do_Retries = sp_Retries s, do_NamespaceOverride = sp_Namespace s, do_Shasum = sp_Shasum s,
      do_SkipSignatureValidation = sp_SkipSignatureValidation s, do_Architecture = sp_Architecture s,
      do_OCIConcurrency = sp_OciConcurrency s, do_PublicKeyPath = sp_Key s, do_LogLevel = sp_LogLevel s,
      do_LogFormat = sp_LogFormat s, do_NoColor = sp_NoColor s, do_PlainHTTP = sp_PlainHTTP s,
      do_InsecureSkipTLSVerify = sp_InsecureSkipTLSVerify s, do_SkipVersionCheck = False,
      do_YoloMode = sp_Yolo s, do_RegistryCredentialJSON = [], do_HelmDebugEnabled = sp_HelmDebugEnabled s,
      do_Kubeconfig = [], do_InitOptions = None\<rparr>"

text \<open>The Deploying status, written and patched before anything is resolved.\<close>

definition startDeploy :: "env \<Rightarrow> reconciler \<Rightarrow> string \<Rightarrow> rstate \<Rightarrow> rstate" where
  "startDeploy E r source st0 =
     (let st1 = on_pkg (on_status (\<lambda>s. s\<lparr>st_LastAttemptedRevision := source, st_Phase := PhaseDeploying\<rparr>)) st0;
          st2 = set_cond E ConditionTypeProgressing ConditionTrue ReasonDeploying ''Deployment in progress'' st1;
          st3 = set_cond E ConditionTypeReady ConditionFalse ReasonDeploying ''Deployment in progress'' st2;
          st4 = set_cond E ConditionTypeStalled ConditionFalse ReasonDeploying
                  ''Waiting for deployment to complete'' st3;
          st5 = event r EventTypeNormal ReasonDeploying ''Starting package deployment'' st4
      in case patch_status E (rs_original st5) st5 of
           (Some _, st6) \<Rightarrow> st6
         | (None, st6) \<Rightarrow> remember_status st6)"

text \<open>The events of a failed deployment: the error, the failed component, the captured logs.\<close>

definition deployErrEvents :: "reconciler \<Rightarrow> goerr option \<Rightarrow> rstate \<Rightarrow> rstate" where
  "deployErrEvents r deployErr st =
     (case deployErr of
        None \<Rightarrow> st
      | Some d \<Rightarrow>
        let st1 = (if de_FailedComponent d \<noteq> []
                   then event r EventTypeWarning ReasonDeployFailed
                          (''Component '' @ fmt_q (de_FailedComponent d) @ '' failed (chart: '' @
                           emptyIfBlank (de_FailedChart d) ''unknown'' @ ''): '' @
                           truncateMessage (err_Error d) 400) st
                   else st)
        in if de_DeployLogs d \<noteq> []
           then event r EventTypeWarning ''DeployLogs'' (formatLogSummary (de_DeployLogs d) 1024) st1
           else st1)"

definition deployFailed ::
  "env \<Rightarrow> reconciler \<Rightarrow> DeployResult option \<Rightarrow> goerr \<Rightarrow> rstate \<Rightarrow> outcome \<times> rstate" where
  "deployFailed E r result err st0 =
     (let L = libs E;
          st1 = emit (AMetric (MDeployDuration ''failure'')) st0;
          st2 = on_pkg (on_status (\<lambda>s. s\<lparr>st_Phase := PhaseFailed,
                  st_LastAttemptError := truncateMessage (err_Error err) 512\<rparr>)) st1;
          st3 = (case result of
                   None \<Rightarrow> st2
                 | Some res \<Rightarrow> on_pkg (on_status (\<lambda>s. s\<lparr>st_ComponentStatuses :=
                     convertComponentStatuses (dr_DeployedComponents res)\<rparr>)) st2);
          deployErr = errors_AsDeployError err;
          st4 = on_pkg (markFailedComponentStatus deployErr) st3;
          st5 = set_cond E ConditionTypeReady ConditionFalse ReasonDeployFailed
                  (''Deployment failed: '' @ err_Error err) st4;
          st6 = set_cond E ConditionTypeProgressing ConditionFalse ReasonDeployFailed ''Deployment failed'' st5;
          st7 = deployErrEvents r deployErr
                  (event r EventTypeWarning ReasonDeployFailed (truncateMessage (err_Error err) 512) st6)
      in if isUserRecoverableError L err then
           ((Result_after (r_RequeueInterval r), None),
            recordFailureMetric ReasonDeployFailed
              (set_cond E ConditionTypeStalled ConditionTrue ReasonStalled
                 ''Waiting for user action to fix deployment input'' st7))
         else let st8 = recordFailureMetric ReasonDeployFailed (recordFailure E st7) in
           if maxRetriesExceeded (rs_pkg st8)
           then ((Result_after (r_RequeueInterval r), None),
                 markMaxRetriesExceeded E r ''deploying package'' st8)
           else ((backoff_result E st8, None), st8))"

text \<open>Clearing the redeploy annotation: a patch of the object against its own copy.\<close>

definition clearRedeployAnnotation :: "env \<Rightarrow> reconciler \<Rightarrow> rstate \<Rightarrow> goerr option \<times> rstate" where
  "clearRedeployAnnotation E r st =
     (if zp_Annotations (rs_pkg st) AnnotationRedeploy = None then (None, st)
      else let base = rs_pkg st;
               st1 = on_pkg (\<lambda>p. p\<lparr>zp_Annotations := (zp_Annotations p)(AnnotationRedeploy := None)\<rparr>) st
           in case patch_object E base st1 of
                (Some e, st2) \<Rightarrow> (Some e, st2)
              | (None, st2) \<Rightarrow> (None, event r EventTypeNormal ReasonRedeployRequested
                                 ''Redeploy annotation cleared after successful deploy'' st2))"

definition deploySucceeded ::
  "env \<Rightarrow> reconciler \<Rightarrow> DeployResult \<Rightarrow> string \<Rightarrow> rstate \<Rightarrow> outcome \<times> rstate" where
  "deploySucceeded E r result source st0 =
     (let st1 = emit (AMetric (MDeployDuration ''success'')) st0;
          st2 = applyDeploySuccessStatus E r result source st1;
          st3 = (if sp_HelmDebugEnabled (rs_spec st2) \<and> dr_DeployLogs result \<noteq> []
                 then event r EventTypeNormal ReasonHelmDebugLogs
                        (formatLogSummary (dr_DeployLogs result) 1024) st2
                 else st2)
      in case clearRedeployAnnotation E r st3 of
           (Some e, st4) \<Rightarrow> ((Result_zero, Some e), st4)
         | (None, st4) \<Rightarrow> ((Result_after (requeueAfter r (rs_pkg st4)), None), st4))"

text \<open>
  What \<^verbatim>\<open>deploy\<close> does with the outcome of \<^verbatim>\<open>deployPackage\<close>. A missing result without an error would
  be a nil dereference, which controller-runtime turns into an error; \<open>deployPackage_result\<close> below
  shows that it does not happen.
\<close>

definition nil_dereference :: goerr where
  "nil_dereference = ErrorString ''panic: runtime error: invalid memory address or nil pointer dereference''"

definition afterDeploy ::
  "env \<Rightarrow> reconciler \<Rightarrow> string \<Rightarrow> DeployResult option \<times> goerr option \<Rightarrow> rstate \<Rightarrow> outcome \<times> rstate" where
  "afterDeploy E r source answer st =
     (case answer of
        (result, Some err) \<Rightarrow>
          if status_Code (libs E) err = codes_ResourceExhausted then
            ((Result_after sidecarBusyRequeue, None),
             set_cond E ConditionTypeReady ConditionFalse ReasonDeploying ''Waiting for sidecar deploy slot''
               (set_cond E ConditionTypeProgressing ConditionTrue ReasonDeploying
                  ''Waiting for sidecar deploy slot'' st))
          else if status_Code (libs E) err = codes_Canceled then ((Result_requeue, None), st)
          else deployFailed E r result err st
      | (Some result, None) \<Rightarrow> deploySucceeded E r result source st
      | (None, None) \<Rightarrow> ((Result_zero, Some nil_dereference), emit (AMetric (MDeployDuration ''success'')) st))"

text \<open>
  The middle of \<^verbatim>\<open>deploy\<close>: the three resolvers in order, each with its early return.
\<close>

definition resolveDeploy ::
  "env \<Rightarrow> reconciler \<Rightarrow> DeployOptions \<Rightarrow> rstate \<Rightarrow> (Result + DeployOptions) \<times> rstate" where
  "resolveDeploy E r opts st =
     (case resolveRegistryCredentials E r opts st of
        (Inl retry, st1) \<Rightarrow> (Inl retry, st1)
      | (Inr opts1, st1) \<Rightarrow>
        (case resolveClusterKubeconfig E r st1 of
           (Inl retry, st2) \<Rightarrow> (Inl retry, st2)
         | (Inr kubeconfig, st2) \<Rightarrow>
           (case resolveInitOptions E r st2 of
              (Inl retry, st3) \<Rightarrow> (Inl retry, st3)
            | (Inr initOpts, st3) \<Rightarrow>
                (Inr (opts1\<lparr>do_Kubeconfig := kubeconfig, do_InitOptions := initOpts\<rparr>), st3))))"

definition deploy :: "env \<Rightarrow> reconciler \<Rightarrow> string \<Rightarrow> rstate \<Rightarrow> outcome \<times> rstate" where
  "deploy E r source0 st0 =
     (let source = (if strings_TrimSpace source0 = [] then sp_Source (rs_spec st0) else source0);
          wasFailed = (st_Phase (rs_status st0) = PhaseFailed);
          st1 = startDeploy E r source st0;
          timeout = deploy_timeout (rs_spec st1)
      in case resolveDeploy E r (deploy_options (rs_spec st1) source) st1 of
           (Inl retry, st2) \<Rightarrow> ((retry, None), st2)
         | (Inr opts, st2) \<Rightarrow>
           let st3 = (if wasFailed then preDeployCleanup E r st2 else st2) in
           (case deployPackage E r opts timeout st3 of
              (answer, st4) \<Rightarrow> afterDeploy E r source answer st4))"

subsection \<open>Frames\<close>

lemma helmReleaseStatus_run:
  "helmReleaseStatus E r n ns st = (x, st') \<Longrightarrow> runs {KHelm} st st' \<and> rs_pkg st' = rs_pkg st"
  by (auto simp: helmReleaseStatus_def initHelmActionConfig_def Let_def emit_def runs_def emits_def
      status_only_iff split: if_splits option.splits sum.splits list.splits)

lemma fixStuckHelmRelease_run:
  "fixStuckHelmRelease E r n ns state st = (x, st') \<Longrightarrow> runs {KHelm} st st' \<and> rs_pkg st' = rs_pkg st"
  by (auto simp: fixStuckHelmRelease_def initHelmActionConfig_def Let_def emit_def runs_def emits_def
      status_only_iff split: if_splits option.splits)

text \<open>Operations that touch neither the object nor the status patch base.\<close>

definition passes :: "action_kind set \<Rightarrow> rstate \<Rightarrow> rstate \<Rightarrow> bool" where
  "passes K st st' \<longleftrightarrow> emits K st st' \<and> rs_pkg st' = rs_pkg st \<and> rs_original st' = rs_original st"

lemma passes_refl [simp]: "passes K st st"
  by (simp add: passes_def)

lemma passes_trans: "passes K st st' \<Longrightarrow> passes K st' st'' \<Longrightarrow> passes K st st''"
  unfolding passes_def using emits_trans by auto

lemma passes_mono: "passes K st st' \<Longrightarrow> K \<subseteq> K' \<Longrightarrow> passes K' st st'"
  unfolding passes_def using emits_mono by blast

lemma passes_emit: "kind a \<in> K \<Longrightarrow> passes K st st' \<Longrightarrow> passes K st (emit a st')"
  by (auto simp: passes_def emits_def emit_def)

lemma passes_event: "KEvent \<in> K \<Longrightarrow> passes K st st' \<Longrightarrow> passes K st (event r ty reason msg st')"
  by (simp add: event_def passes_emit)

lemmas passes_intros = passes_refl passes_emit passes_event

lemma runs_passes: "runs K st st' \<Longrightarrow> rs_pkg st' = rs_pkg st \<Longrightarrow> K \<subseteq> K' \<Longrightarrow> passes K' st st'"
  by (auto simp: runs_def passes_def status_only_def intro: emits_mono)

lemma passes_runs: "passes K st st' \<Longrightarrow> runs K st st'"
  by (simp add: passes_def runs_def status_only_def)

lemma passes_vw: "passes K st st' \<Longrightarrow> vw E st' = vw E st"
  by (simp add: passes_def vw_def)

abbreviation cleanup_kinds :: "action_kind set" where
  "cleanup_kinds \<equiv> {KHelm, KEvent}"

lemma cleanupRefs_pass:
  "cleanupRefs E r refs n st = (m, st') \<Longrightarrow> passes cleanup_kinds st st'"
proof (induction refs arbitrary: n st)
  case (Cons ref refs)
  obtain state err st1 where a: "helmReleaseStatus E r (cr_name ref) (cr_namespace ref) st = ((state, err), st1)"
    by (metis prod.exhaust)
  obtain f st2 where b: "fixStuckHelmRelease E r (cr_name ref) (cr_namespace ref) state st1 = (f, st2)"
    by fastforce
  have 1: "passes cleanup_kinds st st1" using helmReleaseStatus_run [OF a] runs_passes by blast
  have "passes cleanup_kinds st1 st2" using fixStuckHelmRelease_run [OF b] runs_passes by blast
  with 1 have 2: "passes cleanup_kinds st st2" by (rule passes_trans)
  have 3: "passes cleanup_kinds st (event r ty reason msg st2)" for ty reason msg
    using 2 by (intro passes_event) simp_all
  from Cons.prems a b show ?case
    by (auto split: option.splits if_splits dest!: Cons.IH intro: passes_trans [OF 1] passes_trans [OF 2]
        passes_trans [OF 3])
qed simp

lemma cleanupStuckHelmReleases_pass:
  "cleanupStuckHelmReleases E r st = (m, st') \<Longrightarrow> passes cleanup_kinds st st'"
  by (auto simp: cleanupStuckHelmReleases_def Let_def split: if_splits dest: cleanupRefs_pass)

lemma preDeployKubeconfig_pass: "preDeployKubeconfig E st = (kc, st') \<Longrightarrow> passes {KGetSecret} st st'"
  by (auto simp: preDeployKubeconfig_def Let_def get_secret_def split: if_splits sum.splits
      intro!: passes_intros)

abbreviation predeploy_kinds :: "action_kind set" where
  "predeploy_kinds \<equiv> {KHelm, KEvent, KGetSecret, KGetDeployed, KRemove}"

lemma preDeployCleanup_pass: "passes predeploy_kinds st (preDeployCleanup E r st)"
proof -
  obtain n st1 where c: "cleanupStuckHelmReleases E r st = (n, st1)" by fastforce
  have 1: "passes predeploy_kinds st st1"
    using cleanupStuckHelmReleases_pass [OF c] by (rule passes_mono) auto
  define st2 where "st2 = (if 0 < n
    then event r EventTypeWarning ''HelmCleanup''
           (''Cleaned up '' @ fmt_d (int n) @ '' stuck Helm release(s) before deploy retry'') st1 else st1)"
  have 2: "passes predeploy_kinds st st2" using 1 by (simp add: st2_def passes_event)
  obtain kc st3 where k: "preDeployKubeconfig E st2 = (kc, st3)" by fastforce
  have "passes predeploy_kinds st2 st3"
    using preDeployKubeconfig_pass [OF k] by (rule passes_mono) auto
  with 2 have 3: "passes predeploy_kinds st st3" by (rule passes_trans)
  show ?thesis
    unfolding preDeployCleanup_def Let_def c prod.case st2_def [symmetric] k
    using 2 3 by (auto split: option.splits prod.splits intro!: passes_emit passes_event)
qed

abbreviation deploy_kinds :: "action_kind set" where
  "deploy_kinds \<equiv> {KHelm, KEvent, KDeploy}"

lemma retryDeploy_pass:
  assumes "retryDeployAfterHelmRecovery E r opts timeout e st = (x, st')"
  shows "passes deploy_kinds st st'"
proof -
  let ?st1 = "event r EventTypeWarning ''HelmStuck''
                ''Detected helm operation in progress; attempting automatic recovery'' st"
  obtain n st2 where c: "cleanupStuckHelmReleases E r ?st1 = (n, st2)" by fastforce
  have "passes deploy_kinds ?st1 st2"
    using cleanupStuckHelmReleases_pass [OF c] by (rule passes_mono) auto
  moreover have "passes deploy_kinds st ?st1" by (intro passes_intros) simp
  ultimately have 2: "passes deploy_kinds st st2" by (rule passes_trans [rotated])
  from assms c 2 show ?thesis
    by (auto simp: retryDeployAfterHelmRecovery_def Let_def call_Deploy_def
        split: option.splits if_splits prod.splits intro!: passes_emit passes_event)
qed

lemma deployPackage_pass:
  assumes "deployPackage E r opts timeout st = (x, st')"
  shows "passes deploy_kinds st st'"
proof -
  let ?st1 = "emit (ADeploy opts (wrap64 (timeout + minute))) st"
  have 1: "passes deploy_kinds st ?st1" by (intro passes_emit passes_refl) simp
  have 2: "retryDeployAfterHelmRecovery E r opts timeout e ?st1 = (z, st2) \<Longrightarrow> passes deploy_kinds st st2"
    for e z st2 using retryDeploy_pass passes_trans [OF 1] by blast
  from assms 1 show ?thesis
    by (auto simp: deployPackage_def call_Deploy_def Let_def split: option.splits prod.splits dest!: 2)
qed

text \<open>A missing result never comes without an error, so the success path has a result to read.\<close>

lemma deployPackage_result:
  "deployPackage E r opts timeout st = ((res, None), st') \<Longrightarrow>
     \<exists>x. res = Some x \<and> failedComponentError (dr_DeployedComponents x) = None"
  by (auto simp: deployPackage_def failedDeployResultError_def split: prod.splits option.splits)

lemma resolveDeploy_run:
  assumes "resolveDeploy E r opts st = (res, st')"
  shows "runs secret_kinds st st'"
proof -
  obtain a st1 where 1: "resolveRegistryCredentials E r opts st = (a, st1)" by fastforce
  obtain b st2 where 2: "resolveClusterKubeconfig E r st1 = (b, st2)" by fastforce
  obtain c st3 where 3: "resolveInitOptions E r st2 = (c, st3)" by fastforce
  have r1: "runs secret_kinds st st1"
    using resolveRegistryCredentials_outcome [of E st r opts] 1 by (simp add: resolver_outcome_runs)
  have r2: "runs secret_kinds st st2"
    using resolveClusterKubeconfig_outcome [of E st1 r] 2 by (auto intro: runs_trans [OF r1] dest: resolver_outcome_runs)
  have r3: "runs secret_kinds st st3"
    using resolveInitOptions_outcome [of E st2 r] 3 by (auto intro: runs_trans [OF r2] dest: resolver_outcome_runs)
  from assms 1 2 3 r1 r2 r3 show ?thesis by (auto simp: resolveDeploy_def split: sum.splits)
qed

lemma deployErrEvents_pass: "passes {KEvent} st (deployErrEvents r d st)"
  by (auto simp: deployErrEvents_def Let_def split: option.splits intro!: passes_intros)

lemma vw_deployErrEvents [simp]: "vw E (deployErrEvents r d st) = vw E st"
  using deployErrEvents_pass passes_vw by blast

lemma runs_deployErrEvents: "KEvent \<in> K \<Longrightarrow> runs K st st' \<Longrightarrow> runs K st (deployErrEvents r d st')"
  using deployErrEvents_pass [of st' r d] by (auto intro: runs_trans dest: passes_runs runs_mono [of "{KEvent}"])

lemma deployFailed_run:
  assumes "deployFailed E r result err st = (out, st')"
  shows "runs {KEvent, KMetric} st st'"
proof -
  have c: "runs K a b \<Longrightarrow> runs K a (case x of None \<Rightarrow> b | Some y \<Rightarrow> on_pkg (on_status (f y)) b)" for K a b x
    and f :: "DeployResult \<Rightarrow> ZarfPackageStatus \<Rightarrow> ZarfPackageStatus"
    by (auto split: option.splits intro: runs_on_status)
  show ?thesis
    using assms
    by (auto simp: deployFailed_def Let_def split: if_splits intro!: runs_intros runs_deployErrEvents c)
qed

lemma runs_if: "runs K st a \<Longrightarrow> runs K st b \<Longrightarrow> runs K st (if P then a else b)"
  by simp

lemma runs_reset_on_status:
  "runs K st st' \<Longrightarrow> runs K st (on_pkg (\<lambda>p. resetFailures (on_status (f p) p)) st')"
  by (auto simp: runs_def emits_def status_only_iff on_pkg_def on_status_def resetFailures_def)

lemma applyDeploySuccess_run: "KEvent \<in> K \<Longrightarrow> runs K st st' \<Longrightarrow> runs K st (applyDeploySuccessStatus E r res source st')"
  unfolding applyDeploySuccessStatus_def Let_def
  by (intro runs_event runs_set_cond runs_on_status runs_if runs_clearAvailableUpgrade runs_reset_on_status)

subsection \<open>Statuses on the API server\<close>

text \<open>
  The status subresource: only status patches write the status, so a status the server returns is the
  zero value or one that an earlier patch sent; an accepted status patch returns what was sent.
\<close>

definition written :: "trace \<Rightarrow> ZarfPackageStatus set" where
  "written tr = {zp_Status obj | base obj. APatchStatus base obj \<in> set tr}"

definition stored :: "trace \<Rightarrow> ZarfPackageStatus \<Rightarrow> bool" where
  "stored tr s \<longleftrightarrow> s = zero_status \<or> s \<in> written tr"

definition written_ok :: "env \<Rightarrow> trace \<Rightarrow> bool" where
  "written_ok E tr \<longleftrightarrow> (\<forall>s\<in>written tr. consistent (view (libs E) s))"

context cond_env
begin

lemma deployFailed_vw:
  assumes "deployFailed E r result err st = (out, st')"
  shows "vw E st' = (PhaseFailed, Some ConditionFalse,
    if isUserRecoverableError (libs E) err \<or> maxRetriesExceeded (rs_pkg st') then Some ConditionTrue
    else snd (snd (vw E st)))"
proof -
  have f: "vw E (on_pkg (on_status (\<lambda>s. s\<lparr>st_Phase := PhaseFailed, st_LastAttemptError := m\<rparr>)) st)
      = (PhaseFailed, snd (vw E st))" for m st
    by (simp add: vw_def view_def cstat_def on_pkg_def on_status_def)
  have c: "vw E (case x of None \<Rightarrow> b | Some y \<Rightarrow> on_pkg (on_status (\<lambda>s. s\<lparr>st_ComponentStatuses := g y\<rparr>)) b) = vw E b"
    for x b and g :: "DeployResult \<Rightarrow> ComponentStatus list"
    by (auto simp: vw_on_status split: option.splits)
  have m: "maxRetriesExceeded (rs_pkg (markMaxRetriesExceeded E r what s)) = maxRetriesExceeded (rs_pkg s)" for what s
    by (simp add: markMaxRetriesExceeded_def Let_def maxRetriesExceeded_def on_pkg_def on_status_def
        setPhase_def setCondition_def event_def emit_def)
  show ?thesis
    using assms by (auto simp: deployFailed_def Let_def f c m split: if_splits)
qed

lemma applyDeploySuccess_vw [simp]:
  "vw E (applyDeploySuccessStatus E r res source st) = (PhaseDeployed, Some ConditionTrue, Some ConditionFalse)"
  by (simp add: applyDeploySuccessStatus_def Let_def vw_on_status)
    (simp add: vw_def view_def on_pkg_def on_status_def resetFailures_def)

end

text \<open>What the proofs carry: the status in memory and every status sent so far are consistent.\<close>

definition good :: "env \<Rightarrow> rstate \<Rightarrow> bool" where
  "good E st \<longleftrightarrow> consistent (vw E st) \<and> written_ok E (rs_trace st)"

lemma written_snoc: "written (tr @ [a]) = written tr \<union> (case a of APatchStatus b p \<Rightarrow> {zp_Status p} | _ \<Rightarrow> {})"
  by (auto simp: written_def split: action.splits)

lemma written_emits: "emits K st st' \<Longrightarrow> KPatchStatus \<notin> K \<Longrightarrow> written (rs_trace st') = written (rs_trace st)"
  by (force simp: emits_def written_def)

lemma good_runs:
  assumes "runs K st st'" and "KPatchStatus \<notin> K" and "written_ok E (rs_trace st)"
    and "consistent (vw E st')"
  shows "good E st'"
  using assms written_emits [of K st st'] by (simp add: good_def written_ok_def runs_def)

lemma good_passes: "passes K st st' \<Longrightarrow> KPatchStatus \<notin> K \<Longrightarrow> good E st \<Longrightarrow> good E st'"
  by (rule good_runs [OF passes_runs]) (auto simp: good_def passes_vw)

lemma written_ok_emit:
  "written_ok E (rs_trace (emit a st)) \<longleftrightarrow>
     written_ok E (rs_trace st) \<and>
     (case a of APatchStatus b p \<Rightarrow> consistent (view (libs E) (zp_Status p)) | _ \<Rightarrow> True)"
  by (auto simp: written_ok_def emit_def written_snoc split: action.splits)

locale status_server = cond_env +
  assumes patch_status_echo: "env_PatchStatus E tr base obj = Inr obj' \<Longrightarrow> zp_Status obj' = zp_Status obj"
    and patch_stored: "env_Patch E tr base obj = Inr obj' \<Longrightarrow> stored tr (zp_Status obj')"
    and get_stored: "env_GetPackage E tr ns name = Inr p \<Longrightarrow> stored tr (zp_Status p)"
begin

lemma stored_consistent: "stored tr s \<Longrightarrow> written_ok E tr \<Longrightarrow> consistent (view (libs E) s)"
  by (auto simp: stored_def written_ok_def zero_status_def view_def cstat_def find_first)

lemma patch_status_vw: "patch_status E base st = (err, st') \<Longrightarrow> vw E st' = vw E st"
  by (auto simp: patch_status_def Let_def vw_def emit_def split: sum.splits dest: patch_status_echo)

lemma good_patch_status: "patch_status E base st = (err, st') \<Longrightarrow> good E st \<Longrightarrow> good E st'"
  using patch_status_vw [of base st err st']
  by (auto simp: good_def patch_status_def Let_def written_ok_emit vw_def split: sum.splits)

lemma good_patch_object: "patch_object E base st = (err, st') \<Longrightarrow> good E st \<Longrightarrow> good E st'"
  by (auto simp: good_def patch_object_def Let_def written_ok_emit vw_def emit_def written_ok_def written_snoc
      split: sum.splits dest!: patch_stored stored_consistent)

lemma good_remember [simp]: "good E (remember_status st) = good E st"
  by (simp add: good_def vw_def remember_status_def)

lemma good_event [simp]: "good E (event r ty reason msg st) = good E st"
  by (simp add: good_def event_def written_ok_emit)

lemma good_emit [simp]: "kind a \<noteq> KPatchStatus \<Longrightarrow> good E (emit a st) = good E st"
  by (cases a) (simp_all add: good_def written_ok_emit)

lemma good_on_pkg: "written_ok E (rs_trace st) \<Longrightarrow> consistent (vw E (on_pkg f st)) \<Longrightarrow> good E (on_pkg f st)"
  by (simp add: good_def on_pkg_def)

lemma startDeploy_good:
  assumes "good E st"
  shows "good E (startDeploy E r source st)"
    and "vw E (startDeploy E r source st) = (PhaseDeploying, Some ConditionFalse, Some ConditionFalse)"
proof -
  let ?st1 = "on_pkg (on_status (\<lambda>s. s\<lparr>st_LastAttemptedRevision := source, st_Phase := PhaseDeploying\<rparr>)) st"
  define st5 where "st5 = event r EventTypeNormal ReasonDeploying ''Starting package deployment''
    (set_cond E ConditionTypeStalled ConditionFalse ReasonDeploying ''Waiting for deployment to complete''
      (set_cond E ConditionTypeReady ConditionFalse ReasonDeploying ''Deployment in progress''
        (set_cond E ConditionTypeProgressing ConditionTrue ReasonDeploying ''Deployment in progress'' ?st1)))"
  have "fst (vw E ?st1) = PhaseDeploying" by (simp add: vw_def view_def on_pkg_def on_status_def)
  then have v: "vw E st5 = (PhaseDeploying, Some ConditionFalse, Some ConditionFalse)" by (simp add: st5_def)
  have "runs {KEvent} st st5" unfolding st5_def by (intro runs_intros) simp
  then have g: "good E st5" by (rule good_runs) (use assms v in \<open>auto simp: good_def\<close>)
  obtain err st6 where p: "patch_status E (rs_original st5) st5 = (err, st6)" by fastforce
  have e: "startDeploy E r source st = (case err of Some _ \<Rightarrow> st6 | None \<Rightarrow> remember_status st6)"
    by (simp add: startDeploy_def Let_def st5_def [symmetric] p split: option.splits)
  show "good E (startDeploy E r source st)"
    using good_patch_status [OF p g] by (simp add: e split: option.splits)
  show "vw E (startDeploy E r source st) = (PhaseDeploying, Some ConditionFalse, Some ConditionFalse)"
    using patch_status_vw [OF p] v by (simp add: e vw_def remember_status_def split: option.splits)
qed

lemma resolveDeploy_cases:
  assumes "resolveDeploy E r opts st = (res, st')"
  shows "res = Inr o' \<Longrightarrow> rs_pkg st' = rs_pkg st"
    and "res = Inl retry \<Longrightarrow> vw E st' = (PhaseFailed, Some ConditionFalse, snd (snd (vw E st)))"
proof -
  obtain a st1 where 1: "resolveRegistryCredentials E r opts st = (a, st1)" by fastforce
  obtain b st2 where 2: "resolveClusterKubeconfig E r st1 = (b, st2)" by fastforce
  obtain c st3 where 3: "resolveInitOptions E r st2 = (c, st3)" by fastforce
  have o1: "resolver_outcome E st (a, st1)" using resolveRegistryCredentials_outcome [of E st r opts] 1 by simp
  have o2: "resolver_outcome E st1 (b, st2)" using resolveClusterKubeconfig_outcome [of E st1 r] 2 by simp
  have o3: "resolver_outcome E st2 (c, st3)" using resolveInitOptions_outcome [of E st2 r] 3 by simp
  have p1: "a = Inr x \<Longrightarrow> rs_pkg st1 = rs_pkg st" for x using o1 by (auto dest: resolver_outcome_Inr)
  have p2: "b = Inr x \<Longrightarrow> rs_pkg st2 = rs_pkg st1" for x using o2 by (auto dest: resolver_outcome_Inr)
  have p3: "c = Inr x \<Longrightarrow> rs_pkg st3 = rs_pkg st2" for x using o3 by (auto dest: resolver_outcome_Inr)
  from assms 1 2 3 p1 p2 p3 show "res = Inr o' \<Longrightarrow> rs_pkg st' = rs_pkg st"
    by (cases a; cases b; cases c) (auto simp: resolveDeploy_def)
  from assms 1 2 3 show "res = Inl retry \<Longrightarrow> vw E st' = (PhaseFailed, Some ConditionFalse, snd (snd (vw E st)))"
    using o1 o2 o3 vw_same_pkg [OF p1, of _ E] vw_same_pkg [OF p2, of _ E]
    by (auto simp: resolveDeploy_def split: sum.splits dest!: vw_resolver_failed)
qed

lemma clearRedeployAnnotation_good:
  "clearRedeployAnnotation E r st = (err, st') \<Longrightarrow> good E st \<Longrightarrow> good E st'"
proof -
  assume c: "clearRedeployAnnotation E r st = (err, st')" and g: "good E st"
  let ?st1 = "on_pkg (\<lambda>p. p\<lparr>zp_Annotations := (zp_Annotations p)(AnnotationRedeploy := None)\<rparr>) st"
  have "good E ?st1" using g by (simp add: good_def vw_def on_pkg_def)
  with c g show ?thesis
    by (auto simp: clearRedeployAnnotation_def Let_def split: if_splits prod.splits option.splits
        dest: good_patch_object)
qed

lemma deploySucceeded_good:
  assumes "deploySucceeded E r res source st = (out, st')" and "good E st"
  shows "good E st'"
proof -
  let ?st2 = "applyDeploySuccessStatus E r res source (emit (AMetric (MDeployDuration ''success'')) st)"
  have "runs {KEvent, KMetric} st ?st2" by (intro applyDeploySuccess_run runs_emit runs_refl) simp_all
  then have "good E ?st2" by (rule good_runs) (use assms(2) in \<open>simp_all add: good_def\<close>)
  with assms(1) show ?thesis
    by (auto simp: deploySucceeded_def Let_def split: if_splits prod.splits option.splits
        dest: clearRedeployAnnotation_good)
qed

lemma afterDeploy_good:
  assumes "afterDeploy E r source answer st = (out, st')" and "good E st" and "fst (vw E st) = PhaseDeploying"
  shows "good E st'"
proof -
  obtain ph rd sl where v: "vw E st = (ph, rd, sl)" by (metis prod.exhaust)
  with assms(2,3) have v': "ph = PhaseDeploying" "sl \<noteq> Some ConditionTrue" "written_ok E (rs_trace st)"
    by (auto simp: good_def)
  have busy: "good E (set_cond E ConditionTypeReady ConditionFalse x y (set_cond E ConditionTypeProgressing z u w st))"
    for x y z u w by (rule good_runs [of "{}" st]) (use v v' in \<open>auto intro!: runs_intros\<close>)
  have failed: "deployFailed E r result err st = (out, st') \<Longrightarrow> good E st'" for result err
  proof (rule good_runs [OF deployFailed_run])
    assume "deployFailed E r result err st = (out, st')"
    from deployFailed_vw [OF this] v v' show "consistent (vw E st')" by auto
  qed (use v' in auto)
  from assms(1,2) busy failed show ?thesis
    by (auto simp: afterDeploy_def split: prod.splits option.splits if_splits dest: deploySucceeded_good)
qed

lemma deploy_good:
  assumes "deploy E r source0 st = (out, st')" and "good E st"
  shows "good E st'"
proof -
  define source where "source = (if strings_TrimSpace source0 = [] then sp_Source (rs_spec st) else source0)"
  define st1 where "st1 = startDeploy E r source st"
  note g1 = startDeploy_good [OF assms(2), of r source, folded st1_def]
  obtain res st2 where rd: "resolveDeploy E r (deploy_options (rs_spec st1) source) st1 = (res, st2)" by fastforce
  show ?thesis
  proof (cases res)
    case (Inl retry)
    with assms(1) rd have [simp]: "st' = st2"
      by (simp add: deploy_def Let_def source_def [symmetric] st1_def [symmetric])
    show ?thesis
      using good_runs [OF resolveDeploy_run [OF rd], of E] resolveDeploy_cases(2) [OF rd Inl] g1
      by (simp add: good_def)
  next
    case (Inr opts)
    define st3 where "st3 = (if st_Phase (rs_status st) = PhaseFailed then preDeployCleanup E r st2 else st2)"
    obtain answer st4 where dp: "deployPackage E r opts (deploy_timeout (rs_spec st1)) st3 = (answer, st4)"
      by fastforce
    have same: "rs_pkg st2 = rs_pkg st1" using resolveDeploy_cases(1) [OF rd Inr] .
    have "good E st2"
      using good_runs [OF resolveDeploy_run [OF rd], of E] g1 vw_same_pkg [OF same] by (simp add: good_def)
    moreover have p3: "passes predeploy_kinds st2 st3" by (simp add: st3_def preDeployCleanup_pass)
    ultimately have "good E st3" using good_passes by blast
    then have g4: "good E st4" using good_passes [OF deployPackage_pass [OF dp]] by blast
    have "vw E st4 = vw E st1"
      using passes_vw [OF deployPackage_pass [OF dp]] passes_vw [OF p3] vw_same_pkg [OF same] by metis
    with g1(2) have ph: "fst (vw E st4) = PhaseDeploying" by simp
    have "afterDeploy E r source answer st4 = (out, st')"
      using assms(1) rd Inr dp
      by (simp add: deploy_def Let_def source_def [symmetric] st1_def [symmetric] st3_def [symmetric])
    then show ?thesis using g4 ph by (rule afterDeploy_good)
  qed
qed

end

lemma last_status_stored: "last_status s tr = s \<or> last_status s tr \<in> written tr"
proof (induction s tr rule: last_status.induct)
  case (2 s base obj tr)
  then show ?case by (fastforce simp: written_def)
qed (auto simp: written_def)

interpretation ref_server: status_server "ref_env p" for p
proof unfold_locales
  show "env_PatchStatus (ref_env p) tr base obj = Inr obj' \<Longrightarrow> zp_Status obj' = zp_Status obj" for tr base obj obj'
    by (simp add: ref_env_def)
  show "env_Patch (ref_env p) tr base obj = Inr obj' \<Longrightarrow> stored tr (zp_Status obj')" for tr base obj obj'
    using last_status_stored [of zero_status tr] by (auto simp: ref_env_def stored_def)
  show "env_GetPackage (ref_env p) tr ns name = Inr q \<Longrightarrow> stored tr (zp_Status q)" for tr ns name q
    using last_status_stored [of zero_status tr] by (auto simp: ref_env_def stored_def split: if_splits)
qed

end
