(* ===== verification/Reconcile.thy ===== *)
theory Reconcile
  imports Deploy
begin

section \<open>The reconcile loop\<close>

text \<open>
  Dependencies, deletion, the body of \<^verbatim>\<open>reconcile\<close> and the entry point \<^verbatim>\<open>Reconcile\<close> with its deferred
  status patch.
\<close>

subsection \<open>Dependencies\<close>

definition markDependenciesMet :: "env \<Rightarrow> rstate \<Rightarrow> rstate" where
  "markDependenciesMet E st =
     set_cond E ConditionTypeDependenciesMet ConditionTrue ReasonDependenciesMet
       ''All dependencies are deployed'' st"

text \<open>The namespace a dependency is looked up in.\<close>

definition dep_namespace :: "ZarfPackage \<Rightarrow> DependsOnReference \<Rightarrow> string" where
  "dep_namespace p d = (if dep_Namespace d = [] then zp_Namespace p else dep_Namespace d)"

fun checkDeps ::
  "env \<Rightarrow> DependsOnReference list \<Rightarrow> string list \<Rightarrow> rstate \<Rightarrow> (goerr + bool \<times> string list) \<times> rstate" where
  "checkDeps E [] notReady st = (Inr (notReady = [], notReady), st)"
| "checkDeps E (d # ds) notReady st =
     (if strings_TrimSpace (dep_Name d) = []
      then checkDeps E ds (notReady @ [''<empty dependency name>'']) st
      else let ns = dep_namespace (rs_pkg st) d;
               st' = emit (AGetPackage ns (dep_Name d)) st
           in case env_GetPackage E (rs_trace st) ns (dep_Name d) of
                Inl e \<Rightarrow>
                  if apierrors_IsNotFound (libs E) e
                  then checkDeps E ds (notReady @ [ns @ ''/'' @ dep_Name d @ '' (not found)'']) st'
                  else (Inl e, st')
              | Inr depPkg \<Rightarrow>
                  (let ph = st_Phase (zp_Status depPkg) in
                   if ph \<noteq> PhaseDeployed
                   then checkDeps E ds (notReady @ [ns @ ''/'' @ dep_Name d @ '' (phase='' @
                          phase_string (if ph = PhaseUnset then PhasePending else ph) @ '')'']) st'
                   else checkDeps E ds notReady st'))"

definition checkDependencies :: "env \<Rightarrow> rstate \<Rightarrow> (goerr + bool \<times> string list) \<times> rstate" where
  "checkDependencies E st =
     (if sp_DependsOn (rs_spec st) = [] then (Inr (True, []), st)
      else checkDeps E (sp_DependsOn (rs_spec st)) [] st)"

definition waitForDependencies ::
  "env \<Rightarrow> reconciler \<Rightarrow> string list \<Rightarrow> PackageInfo option \<Rightarrow> bool \<Rightarrow> rstate \<Rightarrow> Result \<times> rstate" where
  "waitForDependencies E r notReadyDeps deployedPkg preserveCurrentDeployment st0 =
     (let L = libs E;
          message = ''Waiting for dependencies to be deployed: '' @ strings_Join notReadyDeps '', '';
          st1 = set_cond E ConditionTypeDependenciesMet ConditionFalse ReasonDependenciesNotMet message st0;
          st2 = set_cond E ConditionTypeStalled ConditionFalse ReasonDependenciesNotMet
                  ''Waiting for dependency readiness'' st1;
          keepReady = (\<lambda>st. set_cond E ConditionTypeProgressing ConditionTrue ReasonDependenciesNotMet message
                  (set_cond E ConditionTypeReady ConditionTrue ReasonDeployed
                     ''Current deployment remains ready while waiting for dependencies''
                     (on_pkg (setPhase PhaseDeployed) st)));
          st3 = (if deployedPkg \<noteq> None \<and> \<not> hasFailedDeployedComponent deployedPkg \<and>
                    canPreserveCurrentDeployment (rs_pkg st2)
                 then keepReady (on_pkg (syncStatusFromDeployed deployedPkg) st2)
                 else if preserveCurrentDeployment then keepReady st2
                 else let st = (if \<not> shouldPreserveFailedReadyCondition L (rs_pkg st2)
                                then set_cond E ConditionTypeReady ConditionFalse ReasonDependenciesNotMet
                                       message st2
                                else st2)
                      in if st_Phase (rs_status st) \<noteq> PhaseFailed then on_pkg (setPhase PhasePending) st else st)
      in (Result_after dependencyRequeue, event r EventTypeNormal ReasonDependenciesNotMet message st3))"

subsection \<open>Deletion\<close>

definition removeFailed :: "env \<Rightarrow> reconciler \<Rightarrow> goerr \<Rightarrow> rstate \<Rightarrow> outcome \<times> rstate" where
  "removeFailed E r err st0 =
     (let L = libs E;
          st1 = set_cond E ConditionTypeReady ConditionFalse ReasonRemoveFailed
                  (''Remove failed: '' @ err_Error err) st0;
          st2 = event r EventTypeWarning ReasonRemoveFailed (err_Error err) st1
      in if isUserRecoverableError L err then ((Result_after (r_RequeueInterval r), None), st2)
         else let st3 = recordFailureMetric ReasonRemoveFailed (recordFailure E st2) in
           if maxRetriesExceeded (rs_pkg st3)
           then ((Result_after (r_RequeueInterval r), None),
                 markMaxRetriesExceeded E r ''removing package'' st3)
           else ((backoff_result E st3, None), st3))"

text \<open>The end of a deletion: reset the failures and remove the finalizer.\<close>

definition removeFinalizer :: "env \<Rightarrow> reconciler \<Rightarrow> rstate \<Rightarrow> outcome \<times> rstate" where
  "removeFinalizer E r st0 =
     (let st1 = on_pkg resetFailures st0;
          st2 = set_cond E ConditionTypeStalled ConditionFalse ReasonRemoving ''Deletion is progressing'' st1;
          base = rs_pkg st2;
          st3 = on_pkg (\<lambda>p. p\<lparr>zp_Finalizers :=
                  controllerutil_RemoveFinalizer (libs E) (zp_Finalizers p) ZarfPackageFinalizer\<rparr>) st2
      in case patch_object E base st3 of
           (Some e, st4) \<Rightarrow> ((Result_zero, Some e), st4)
         | (None, st4) \<Rightarrow> ((Result_zero, None), st4))"

definition removePackage :: "env \<Rightarrow> reconciler \<Rightarrow> rstate \<Rightarrow> outcome \<times> rstate" where
  "removePackage E r st =
     (case resolveClusterKubeconfig E r st of
        (Inl retry, st1) \<Rightarrow> ((retry, None), st1)
      | (Inr kubeconfig, st1) \<Rightarrow>
        let opts = \<lparr>ro_PackageName = st_PackageName (rs_status st1), ro_Components = [], ro_Timeout = 0,
                    ro_NamespaceOverride = [], ro_SkipVersionCheck = False, ro_Kubeconfig = kubeconfig\<rparr>;
            st2 = emit (ARemove opts (16 * minute)) st1
        in case env_Remove E (rs_trace st1) opts (16 * minute) of
             None \<Rightarrow> removeFinalizer E r st2
           | Some err \<Rightarrow>
               if status_Code (libs E) err = codes_NotFound then removeFinalizer E r st2
               else if status_Code (libs E) err = codes_ResourceExhausted then
                 ((Result_after sidecarBusyRequeue, None),
                  set_cond E ConditionTypeStalled ConditionFalse ReasonRemoving
                    ''Waiting for sidecar remove slot'' st2)
               else if status_Code (libs E) err = codes_Canceled then ((Result_requeue, None), st2)
               else removeFailed E r err st2)"

definition handleDeletion :: "env \<Rightarrow> reconciler \<Rightarrow> rstate \<Rightarrow> outcome \<times> rstate" where
  "handleDeletion E r st0 =
     (if \<not> controllerutil_ContainsFinalizer (libs E) (zp_Finalizers (rs_pkg st0)) ZarfPackageFinalizer
      then ((Result_zero, None), st0)
      else let base = rs_pkg st0;
               st1 = event r EventTypeNormal ReasonRemoving ''Removing package''
                       (on_pkg (setPhase PhaseRemoving) st0)
           in case patch_status E base st1 of
                (err, st2) \<Rightarrow>
                  if (case err of None \<Rightarrow> False | Some e \<Rightarrow> \<not> apierrors_IsNotFound (libs E) e)
                  then ((Result_zero, err), st2)
                  else let st3 = remember_status st2 in
                    if st_PackageName (rs_status st3) \<noteq> [] \<and> r_ZarfClient r
                    then removePackage E r st3
                    else removeFinalizer E r st3)"

subsection \<open>Reconciling\<close>

text \<open>The end of \<^verbatim>\<open>reconcile\<close>: deployed and in sync.\<close>

definition inSync :: "env \<Rightarrow> PackageInfo option \<Rightarrow> rstate \<Rightarrow> rstate" where
  "inSync E deployedPkg st =
     on_pkg (setPhase PhaseDeployed)
       (set_cond E ConditionTypeStalled ConditionFalse ReasonDeployed ''Package is actively reconciling''
         (set_cond E ConditionTypeReady ConditionTrue ReasonDeployed ''Package deployed successfully''
           (on_pkg (\<lambda>p. resetFailures (syncStatusFromDeployed deployedPkg p)) st)))"

text \<open>The second half of \<^verbatim>\<open>reconcile\<close>: the decision, the dependencies if not checked before, deploy.\<close>

definition decideAndDeploy ::
  "env \<Rightarrow> reconciler \<Rightarrow> PackageInfo option \<Rightarrow> bool \<Rightarrow> bool \<Rightarrow> rstate \<Rightarrow> outcome \<times> rstate" where
  "decideAndDeploy E r deployedPkg dependenciesChecked deployedLookupFailed st =
     (case decideDeployment E r deployedPkg st of
        (decision, st1) \<Rightarrow>
          if dd_needsDeploy decision then
            if dependenciesChecked then deploy E r (dd_source decision) st1
            else (case checkDependencies E st1 of
                    (Inl depErr, st2) \<Rightarrow> ((Result_zero, Some depErr), st2)
                  | (Inr (met, notReady), st2) \<Rightarrow>
                    if \<not> met then
                      (case waitForDependencies E r notReady deployedPkg
                              (deployedLookupFailed \<and> canPreserveCurrentDeployment (rs_pkg st2)) st2 of
                         (res, st3) \<Rightarrow> ((res, None), st3))
                    else deploy E r (dd_source decision) (markDependenciesMet E st2))
          else ((Result_after (dd_requeueAfter decision), None), inSync E deployedPkg st1))"

definition reconcile :: "env \<Rightarrow> reconciler \<Rightarrow> rstate \<Rightarrow> outcome \<times> rstate" where
  "reconcile E r st =
     (if isMaxRetriesTerminal (libs E) (rs_pkg st) \<and> zp_Annotations (rs_pkg st) AnnotationRedeploy = None
      then ((Result_after (r_RequeueInterval r), None), st)
      else if strings_TrimSpace (st_PackageName (rs_status st)) \<noteq> [] then
        (case resolveClusterKubeconfig E r st of
           (Inl retry, st1) \<Rightarrow> ((retry, None), st1)
         | (Inr kubeconfig, st1) \<Rightarrow>
           let opts = \<lparr>gd_PackageName = st_PackageName (rs_status st1), gd_Kubeconfig = kubeconfig\<rparr>;
               st2 = emit (AGetDeployed opts) st1
           in case env_GetDeployedPackage E (rs_trace st1) opts of
                (deployedPkg, err) \<Rightarrow>
                  decideAndDeploy E r deployedPkg False
                    (case err of None \<Rightarrow> False | Some e \<Rightarrow> status_Code (libs E) e \<noteq> codes_NotFound) st2)
      else (case checkDependencies E st of
              (Inl depErr, st1) \<Rightarrow> ((Result_zero, Some depErr), st1)
            | (Inr (met, notReady), st1) \<Rightarrow>
              if \<not> met then
                (case waitForDependencies E r notReady None False st1 of (res, st2) \<Rightarrow> ((res, None), st2))
              else decideAndDeploy E r None True False (markDependenciesMet E st1)))"

subsection \<open>The entry point\<close>

definition addFinalizer :: "env \<Rightarrow> rstate \<Rightarrow> outcome \<times> rstate" where
  "addFinalizer E st =
     (let base = rs_pkg st;
          st1 = on_pkg (\<lambda>p. p\<lparr>zp_Finalizers :=
                  controllerutil_AddFinalizer (libs E) (zp_Finalizers p) ZarfPackageFinalizer\<rparr>) st
      in case patch_object E base st1 of
           (Some e, st2) \<Rightarrow> ((Result_zero, Some e), st2)
         | (None, st2) \<Rightarrow> ((Result_requeue, None), st2))"

definition suspended :: "env \<Rightarrow> reconciler \<Rightarrow> rstate \<Rightarrow> outcome \<times> rstate" where
  "suspended E r st =
     ((Result_zero, None),
      setSuspendedMetric True
        (event r EventTypeNormal ''Suspended'' ''Reconciliation suspended by user''
          (set_cond E ConditionTypeSuspended ConditionTrue ''Suspended'' ''Reconciliation is suspended'' st)))"

definition noClient :: "env \<Rightarrow> reconciler \<Rightarrow> rstate \<Rightarrow> outcome \<times> rstate" where
  "noClient E r st0 =
     (let st1 = set_cond E ConditionTypeReady ConditionFalse ReasonReconciling
                  ''Waiting for Zarf sidecar to be ready'' st0;
          st2 = set_cond E ConditionTypeStalled ConditionFalse ReasonReconciling
                  ''Waiting for sidecar connectivity'' st1;
          st3 = event r EventTypeWarning ReasonSidecarUnavailable
                  ''Zarf sidecar is not available, waiting for reconnection'' st2;
          st4 = recordFailure E (on_pkg (setPhase PhasePending) st3)
      in if maxRetriesExceeded (rs_pkg st4)
         then ((Result_after (r_RequeueInterval r), None),
               markMaxRetriesExceeded E r ''waiting for Zarf sidecar'' st4)
         else ((backoff_result E st4, None), st4))"

text \<open>The body of \<^verbatim>\<open>Reconcile\<close> after the object was fetched, without the deferred function.\<close>

definition reconcileBody :: "env \<Rightarrow> reconciler \<Rightarrow> rstate \<Rightarrow> outcome \<times> rstate" where
  "reconcileBody E r st =
     (if zp_DeletionTimestamp (rs_pkg st) \<noteq> None then handleDeletion E r st
      else if \<not> controllerutil_ContainsFinalizer (libs E) (zp_Finalizers (rs_pkg st)) ZarfPackageFinalizer
      then addFinalizer E st
      else if sp_Suspend (rs_spec st) then suspended E r st
      else let st1 = setSuspendedMetric False
                       (set_cond E ConditionTypeSuspended ConditionFalse ''Active'' ''Reconciliation is active'' st)
           in if \<not> r_ZarfClient r then noClient E r st1 else reconcile E r st1)"

text \<open>
  The deferred function: patch the status if it changed, and adjust the result. A patch that finds
  the object gone, or in conflict, returns before the metrics are recorded.
\<close>

definition deferredStatusPatch :: "env \<Rightarrow> outcome \<times> rstate \<Rightarrow> outcome \<times> rstate" where
  "deferredStatusPatch E ret =
     (case ret of ((result, err), st) \<Rightarrow>
      if semantic_DeepEqual (libs E) (zp_Status (rs_original st)) (rs_status st)
      then ((result, err), recordResourceMetrics st)
      else let st1 = on_pkg (\<lambda>p. on_status (\<lambda>s. s\<lparr>st_LastReconcileTime := now E st,
                       st_ObservedGeneration := zp_Generation p\<rparr>) p) st
           in case patch_status E (rs_original st1) st1 of
                (None, st2) \<Rightarrow> ((result, err), recordResourceMetrics st2)
              | (Some updateErr, st2) \<Rightarrow>
                  if apierrors_IsNotFound (libs E) updateErr then ((result, err), st2)
                  else if apierrors_IsConflict (libs E) updateErr
                  then (((if err = None then Result_requeue else result), err), st2)
                  else ((result, (if err = None \<and> result = Result_zero then Some updateErr else err)),
                        recordResourceMetrics st2))"

definition fetched :: "ZarfPackage \<Rightarrow> trace \<Rightarrow> rstate" where
  "fetched p tr = \<lparr>rs_pkg = p, rs_original = p, rs_trace = tr\<rparr>"

text \<open>\<^verbatim>\<open>Reconcile\<close>: the outcome, the actions, and the final state when there was an object.\<close>

definition Reconcile ::
  "env \<Rightarrow> reconciler \<Rightarrow> string \<Rightarrow> string \<Rightarrow> trace \<Rightarrow> outcome \<times> trace" where
  "Reconcile E r ns name tr =
     (let tr1 = tr @ [AGetPackage ns name] in
      case env_GetPackage E tr ns name of
        Inl e \<Rightarrow> ((Result_zero, if apierrors_IsNotFound (libs E) e then None else Some e), tr1)
      | Inr p \<Rightarrow>
        (case deferredStatusPatch E (reconcileBody E r (fetched p tr1)) of
           (out, st) \<Rightarrow> (out, rs_trace st)))"

subsection \<open>Frames\<close>

lemma checkDeps_pass: "checkDeps E ds notReady st = (res, st') \<Longrightarrow> passes {KGetPackage} st st'"
proof (induction ds arbitrary: notReady st)
  case (Cons d ds)
  let ?st = "emit (AGetPackage (dep_namespace (rs_pkg st) d) (dep_Name d)) st"
  have 1: "passes {KGetPackage} st ?st" by (intro passes_intros) simp
  from Cons.prems show ?case
    by (auto simp: Let_def split: if_splits sum.splits dest!: Cons.IH intro: passes_trans [OF 1] 1)
qed simp

lemma checkDependencies_pass: "checkDependencies E st = (res, st') \<Longrightarrow> passes {KGetPackage} st st'"
  by (auto simp: checkDependencies_def split: if_splits dest: checkDeps_pass)

lemma waitForDependencies_run:
  "waitForDependencies E r deps dp keep st = (res, st') \<Longrightarrow> runs {KEvent} st st'"
  by (auto simp: waitForDependencies_def Let_def split: if_splits intro!: runs_intros)

lemma markDependenciesMet_run: "runs K st st' \<Longrightarrow> runs K st (markDependenciesMet E st')"
  unfolding markDependenciesMet_def by (rule runs_set_cond)

lemma inSync_run: "runs {} st (inSync E dp st)"
  by (auto simp: inSync_def runs_def emits_def status_only_iff on_pkg_def on_status_def setCondition_def
      setPhase_def resetFailures_def syncStatusFromDeployed_def split: option.splits)

subsection \<open>Consistency of every status\<close>

context status_server
begin

lemma vw_markDependenciesMet [simp]: "vw E (markDependenciesMet E st) = vw E st"
  by (simp add: markDependenciesMet_def)

lemma vw_inSync [simp]: "vw E (inSync E dp st) = (PhaseDeployed, Some ConditionTrue, Some ConditionFalse)"
  by (simp add: inSync_def)

lemma preserve_ready: "canPreserveCurrentDeployment (rs_pkg st) \<Longrightarrow> fst (vw E st) = PhaseDeployed"
  by (simp add: canPreserveCurrentDeployment_def vw_def view_def split: if_splits)

lemma preserve_failed:
  "shouldPreserveFailedReadyCondition (libs E) (rs_pkg st) \<Longrightarrow>
   fst (vw E st) = PhaseFailed \<and> fst (snd (vw E st)) = Some ConditionFalse"
  by (auto simp: shouldPreserveFailedReadyCondition_def vw_def view_def cstat_def split: option.splits)

lemma waitForDependencies_consistent:
  assumes "waitForDependencies E r deps dp keep st = (res, st')"
  shows "consistent (vw E st')"
proof -
  define message where "message = ''Waiting for dependencies to be deployed: '' @ strings_Join deps '', ''"
  define st2 where "st2 = set_cond E ConditionTypeStalled ConditionFalse ReasonDependenciesNotMet
    ''Waiting for dependency readiness''
    (set_cond E ConditionTypeDependenciesMet ConditionFalse ReasonDependenciesNotMet message st)"
  have v: "vw E st2 = (fst (vw E st), fst (snd (vw E st)), Some ConditionFalse)" by (simp add: st2_def)
  have ph: "st_Phase (rs_status s) = fst (vw E s)" for s by (simp add: vw_def view_def)
  show ?thesis
  proof (cases "shouldPreserveFailedReadyCondition (libs E) (rs_pkg st2)")
    case True
    from preserve_failed [OF this] assms v show ?thesis
      unfolding waitForDependencies_def Let_def message_def [symmetric] st2_def [symmetric]
      by (auto simp: ph split: if_splits)
  next
    case False
    with assms v show ?thesis
      unfolding waitForDependencies_def Let_def message_def [symmetric] st2_def [symmetric]
      by (auto simp: ph split: if_splits)
  qed
qed

lemma waitForDependencies_good:
  "waitForDependencies E r deps dp keep st = (res, st') \<Longrightarrow> good E st \<Longrightarrow> good E st'"
  by (rule good_runs [OF waitForDependencies_run])
    (auto simp: good_def dest: waitForDependencies_consistent)

lemma markDependenciesMet_good: "good E st \<Longrightarrow> good E (markDependenciesMet E st)"
  by (rule good_runs [OF markDependenciesMet_run [OF runs_refl], of "{}"]) (auto simp: good_def)

lemma inSync_good: "good E st \<Longrightarrow> good E (inSync E dp st)"
  by (rule good_runs [OF inSync_run]) (auto simp: good_def)

lemma decideDeployment_good: "decideDeployment E r dp st = (d, st') \<Longrightarrow> good E st \<Longrightarrow> good E st'"
  by (rule good_runs [OF decideDeployment_run]) (auto simp: good_def dest: vw_decideDeployment)

lemma checkDependencies_good: "checkDependencies E st = (res, st') \<Longrightarrow> good E st \<Longrightarrow> good E st'"
  by (rule good_passes [OF checkDependencies_pass]) auto

lemma decideAndDeploy_good:
  assumes "decideAndDeploy E r dp ck lk st = (out, st')" and "good E st"
  shows "good E st'"
proof -
  obtain d st1 where d: "decideDeployment E r dp st = (d, st1)" by fastforce
  obtain res st2 where c: "checkDependencies E st1 = (res, st2)" by fastforce
  have g1: "good E st1" using decideDeployment_good [OF d assms(2)] .
  have g2: "good E st2" using checkDependencies_good [OF c g1] .
  from assms(1) d c g1 g2 show ?thesis
    by (auto simp: decideAndDeploy_def inSync_good split: if_splits sum.splits prod.splits
        dest: deploy_good waitForDependencies_good markDependenciesMet_good)
qed

lemma resolveClusterKubeconfig_good:
  assumes "resolveClusterKubeconfig E r st = (res, st')" and "good E st"
  shows "good E st'"
proof -
  have out: "resolver_outcome E st (res, st')" using resolveClusterKubeconfig_outcome [of E st r] assms(1) by simp
  obtain ph rd sl where v: "vw E st = (ph, rd, sl)" by (metis prod.exhaust)
  show ?thesis
  proof (cases res)
    case (Inl retry)
    with out have "resolver_outcome E st (Inl retry :: Result + string, st')" by simp
    from vw_resolver_failed [OF this] show ?thesis
      using good_runs [OF resolver_outcome_runs [OF out], of E] assms(2) by (simp add: good_def)
  next
    case (Inr x)
    with out have "vw E st' = vw E st" by (auto dest!: resolver_outcome_Inr intro: vw_same_pkg)
    then show ?thesis
      using good_runs [OF resolver_outcome_runs [OF out], of E] assms(2) by (simp add: good_def)
  qed
qed

lemma reconcile_good:
  assumes "reconcile E r st = (out, st')" and "good E st"
  shows "good E st'"
proof -
  obtain res st1 where k: "resolveClusterKubeconfig E r st = (res, st1)" by fastforce
  obtain cd st2 where c: "checkDependencies E st = (cd, st2)" by fastforce
  have g1: "good E st1" using resolveClusterKubeconfig_good [OF k assms(2)] .
  have g2: "good E st2" using checkDependencies_good [OF c assms(2)] .
  from assms k c g1 g2 show ?thesis
    by (auto simp: reconcile_def Let_def split: if_splits sum.splits prod.splits
        dest!: decideAndDeploy_good dest: waitForDependencies_good markDependenciesMet_good)
qed

lemma removing_consistent [simp]: "fst (vw E st) = PhaseRemoving \<Longrightarrow> consistent (vw E st)"
  by (cases "vw E st") auto

lemma removeFinalizer_good:
  assumes "removeFinalizer E r st = (out, st')" and "fst (vw E st) = PhaseRemoving" and "written_ok E (rs_trace st)"
  shows "good E st'"
proof -
  define st2 where "st2 = set_cond E ConditionTypeStalled ConditionFalse ReasonRemoving
    ''Deletion is progressing'' (on_pkg resetFailures st)"
  define st3 where "st3 = on_pkg (\<lambda>p. p\<lparr>zp_Finalizers :=
    controllerutil_RemoveFinalizer (libs E) (zp_Finalizers p) ZarfPackageFinalizer\<rparr>) st2"
  have "fst (vw E st2) = PhaseRemoving" using assms(2) by (simp add: st2_def)
  moreover have "vw E st3 = vw E st2" by (simp add: st3_def vw_def on_pkg_def)
  moreover have "rs_trace st3 = rs_trace st" by (simp add: st3_def st2_def on_pkg_def)
  ultimately have "good E st3" using assms(3) by (simp add: good_def)
  with assms(1) show ?thesis
    by (auto simp: removeFinalizer_def Let_def st2_def [symmetric] st3_def [symmetric]
        split: prod.splits option.splits dest: good_patch_object)
qed

lemma removeFailed_good:
  assumes "removeFailed E r err st = (out, st')" and "fst (vw E st) = PhaseRemoving" and "written_ok E (rs_trace st)"
  shows "good E st'"
proof (rule good_runs [of "{KEvent, KMetric}" st])
  show "runs {KEvent, KMetric} st st'"
    using assms(1) by (auto simp: removeFailed_def Let_def split: if_splits intro!: runs_intros)
  show "consistent (vw E st')"
    using assms(1,2) by (auto simp: removeFailed_def Let_def split: if_splits)
qed (use assms(3) in auto)

lemma removePackage_good:
  assumes "removePackage E r st = (out, st')" and "fst (vw E st) = PhaseRemoving" and "good E st"
  shows "good E st'"
proof -
  obtain res st1 where k: "resolveClusterKubeconfig E r st = (res, st1)" by fastforce
  have g1: "good E st1" using resolveClusterKubeconfig_good [OF k assms(3)] .
  show ?thesis
  proof (cases res)
    case (Inl retry)
    with assms(1) k g1 show ?thesis by (simp add: removePackage_def)
  next
    case (Inr kubeconfig)
    have "resolver_outcome E st (Inr kubeconfig :: Result + string, st1)"
      using resolveClusterKubeconfig_outcome [of E st r] k Inr by simp
    then have "vw E st1 = vw E st" by (intro vw_same_pkg resolver_outcome_Inr)
    with assms(2) have v: "fst (vw E (emit a st1)) = PhaseRemoving" for a by simp
    have w: "written_ok E (rs_trace (emit (ARemove opts t) st1))" for opts t
      using g1 by (simp add: good_def written_ok_emit)
    have busy: "good E (set_cond E ConditionTypeStalled ConditionFalse ReasonRemoving msg (emit (ARemove opts t) st1))"
      for msg opts t
      using w [of opts t] v [of "ARemove opts t"] by (intro good_on_pkg) auto
    from assms(1) k Inr g1 busy show ?thesis
      by (auto simp: removePackage_def Let_def split: option.splits if_splits
          dest: removeFinalizer_good [OF _ v w] removeFailed_good [OF _ v w])
  qed
qed

lemma handleDeletion_good:
  assumes "handleDeletion E r st = (out, st')" and "good E st"
  shows "good E st'"
proof -
  define st1 where "st1 = event r EventTypeNormal ReasonRemoving ''Removing package''
    (on_pkg (setPhase PhaseRemoving) st)"
  have v1: "fst (vw E st1) = PhaseRemoving" by (simp add: st1_def)
  have "runs {KEvent} st st1" unfolding st1_def by (intro runs_intros) simp
  then have g1: "good E st1" by (rule good_runs) (use assms(2) v1 in \<open>auto simp: good_def\<close>)
  obtain err st2 where p: "patch_status E (rs_pkg st) st1 = (err, st2)" by fastforce
  have g2: "good E st2" using good_patch_status [OF p g1] .
  have v2: "fst (vw E (remember_status st2)) = PhaseRemoving"
    using patch_status_vw [OF p] v1 by (simp add: vw_def remember_status_def)
  have w: "written_ok E (rs_trace (remember_status st2))" using g2 by (simp add: good_def remember_status_def)
  from assms p g2 show ?thesis
    by (auto simp: handleDeletion_def Let_def st1_def [symmetric] split: if_splits
        dest: removePackage_good [OF _ v2] removeFinalizer_good [OF _ v2 w])
qed

lemma noClient_good:
  assumes "noClient E r st = (out, st')" and "written_ok E (rs_trace st)"
  shows "good E st'"
proof (rule good_runs [of "{KEvent}" st])
  show "runs {KEvent} st st'"
    using assms(1) by (auto simp: noClient_def Let_def split: if_splits intro!: runs_intros)
  show "consistent (vw E st')"
    using assms(1) by (auto simp: noClient_def Let_def split: if_splits)
qed (use assms(2) in auto)

lemma addFinalizer_good:
  assumes "addFinalizer E st = (out, st')" and "good E st"
  shows "good E st'"
proof -
  define st1 where "st1 = on_pkg (\<lambda>p. p\<lparr>zp_Finalizers :=
    controllerutil_AddFinalizer (libs E) (zp_Finalizers p) ZarfPackageFinalizer\<rparr>) st"
  have "good E st1" using assms(2) by (simp add: good_def st1_def vw_def on_pkg_def)
  with assms(1) show ?thesis
    by (auto simp: addFinalizer_def Let_def st1_def [symmetric] split: prod.splits option.splits
        dest: good_patch_object)
qed

lemma reconcileBody_good:
  assumes "reconcileBody E r st = (out, st')" and "good E st"
  shows "good E st'"
proof -
  have susp: "good E (set_cond E ConditionTypeSuspended v reason msg st)" for v reason msg
    using assms(2) by (intro good_on_pkg) (auto simp: good_def)
  have act: "good E (setSuspendedMetric b (set_cond E ConditionTypeSuspended v reason msg st))" for b v reason msg
    using susp by (simp add: setSuspendedMetric_def)
  then have w: "written_ok E (rs_trace (setSuspendedMetric b (set_cond E ConditionTypeSuspended v reason msg st)))"
    for b v reason msg by (auto simp: good_def)
  from assms susp act show ?thesis
    by (auto simp: reconcileBody_def suspended_def setSuspendedMetric_def Let_def split: if_splits
        dest: handleDeletion_good addFinalizer_good
          noClient_good [OF _ w, unfolded setSuspendedMetric_def]
          reconcile_good [OF _ act, unfolded setSuspendedMetric_def])
qed

lemma deferredStatusPatch_good:
  assumes "deferredStatusPatch E (out, st) = (out', st')" and "good E st"
  shows "good E st'"
proof -
  define st1 where "st1 = on_pkg (\<lambda>p. on_status (\<lambda>s. s\<lparr>st_LastReconcileTime := now E st,
    st_ObservedGeneration := zp_Generation p\<rparr>) p) st"
  have g1: "good E st1"
    unfolding st1_def using assms(2) by (intro good_on_pkg) (auto simp: good_def vw_on_status_pkg)
  have m: "good E (recordResourceMetrics s) = good E s" for s
    by (simp add: recordResourceMetrics_def)
  obtain err st2 where p: "patch_status E (rs_original st1) st1 = (err, st2)" by fastforce
  have "good E st2" using good_patch_status [OF p g1] .
  with assms p show ?thesis
    by (cases out) (auto simp: deferredStatusPatch_def Let_def st1_def [symmetric] m
        split: if_splits option.splits)
qed

lemma Reconcile_written_ok:
  assumes "Reconcile E r ns name tr = (out, tr')" and "written_ok E tr"
  shows "written_ok E tr'"
proof (cases "env_GetPackage E tr ns name")
  case (Inl e)
  with assms show ?thesis by (auto simp: Reconcile_def Let_def written_ok_def written_snoc)
next
  case (Inr p)
  let ?st = "fetched p (tr @ [AGetPackage ns name])"
  have "good E ?st"
    using stored_consistent [OF get_stored [OF Inr] assms(2)] assms(2)
    by (simp add: good_def fetched_def vw_def written_ok_def written_snoc)
  moreover obtain ret st1 where b: "reconcileBody E r ?st = (ret, st1)" by fastforce
  moreover obtain out' st2 where d: "deferredStatusPatch E (ret, st1) = (out', st2)" by fastforce
  ultimately have "good E st2" using reconcileBody_good deferredStatusPatch_good by blast
  with assms(1) Inr b d show ?thesis by (simp add: Reconcile_def Let_def good_def)
qed

end

end
