(* ===== verification/Safety.thy ===== *)
theory Safety
  imports Reconcile
begin

section \<open>When the controller acts\<close>

text \<open>
  Guards on actions: every action of a run satisfies a condition on the actions before it. With it,
  the safety of the reconcile loop: what must have happened before the Zarf client deploys and before
  the finalizer goes away.
\<close>

definition guarded :: "(trace \<Rightarrow> action \<Rightarrow> bool) \<Rightarrow> rstate \<Rightarrow> rstate \<Rightarrow> bool" where
  "guarded P st st' \<longleftrightarrow>
     (\<exists>as. rs_trace st' = rs_trace st @ as \<and>
        (\<forall>xs a ys. as = xs @ a # ys \<longrightarrow> P (rs_trace st @ xs) a))"

lemma guarded_refl [simp]: "guarded P st st"
  by (simp add: guarded_def)

lemma guarded_trans:
  assumes "guarded P st st'" and "guarded P st' st''"
  shows "guarded P st st''"
proof -
  obtain as where as: "rs_trace st' = rs_trace st @ as"
    and P: "\<And>xs a ys. as = xs @ a # ys \<Longrightarrow> P (rs_trace st @ xs) a"
    using assms(1) by (auto simp: guarded_def)
  obtain bs where bs: "rs_trace st'' = rs_trace st' @ bs"
    and Q: "\<And>xs a ys. bs = xs @ a # ys \<Longrightarrow> P (rs_trace st' @ xs) a"
    using assms(2) by (auto simp: guarded_def)
  have "P (rs_trace st @ xs) a" if "as @ bs = xs @ a # ys" for xs a ys
  proof -
    from that consider us where "xs = as @ us" "bs = us @ a # ys" | us where "as = xs @ a # us"
      by (auto simp: append_eq_append_conv2 append_eq_Cons_conv)
    then show ?thesis
      using P Q as by cases auto
  qed
  then show ?thesis using as bs by (auto simp: guarded_def)
qed

lemma guarded_emits:
  assumes "emits K st st'" and "\<And>tr a. kind a \<in> K \<Longrightarrow> P tr a"
  shows "guarded P st st'"
proof -
  obtain as where as: "rs_trace st' = rs_trace st @ as" "kind ` set as \<subseteq> K"
    using assms(1) by (auto simp: emits_def)
  have "P (rs_trace st @ xs) a" if "as = xs @ a # ys" for xs a ys
    using as(2) that assms(2) by auto
  with as(1) show ?thesis by (auto simp: guarded_def)
qed

text \<open>Once the condition holds, and it stays true, everything after it is guarded.\<close>

lemma guarded_after:
  assumes "emits K st st'" and "\<And>tr a. P (rs_trace st @ tr) a"
  shows "guarded P st st'"
  using assms by (auto simp: guarded_def emits_def)

lemma guarded_snoc: "guarded P st st' \<Longrightarrow> P (rs_trace st') a \<Longrightarrow> guarded P st (emit a st')"
proof -
  assume "guarded P st st'" and "P (rs_trace st') a"
  moreover from this have "guarded P st' (emit a st')"
    by (auto simp: guarded_def emit_def append_eq_Cons_conv Cons_eq_append_conv)
  ultimately show ?thesis using guarded_trans by blast
qed

lemma guarded_position:
  assumes "guarded P st st'" and "rs_trace st' = tr1 @ a # tr2" and "length (rs_trace st) \<le> length tr1"
  shows "P tr1 a"
proof -
  obtain as where as: "rs_trace st' = rs_trace st @ as"
    and P: "\<And>xs a ys. as = xs @ a # ys \<Longrightarrow> P (rs_trace st @ xs) a"
    using assms(1) by (auto simp: guarded_def)
  from as assms(2,3) have "take (length (rs_trace st)) tr1 = rs_trace st"
    by (metis append_eq_append_conv_if append_eq_conv_conj)
  then obtain xs where xs: "tr1 = rs_trace st @ xs" by (metis append_take_drop_id)
  with as assms(2) have "as = xs @ a # tr2" by simp
  from P [OF this] xs show ?thesis by simp
qed

subsection \<open>Everything a run emits\<close>

lemma emits_of_passes: "passes K st st' \<Longrightarrow> emits K st st'"
  by (simp add: passes_def)

lemma emits_of_runs: "runs K st st' \<Longrightarrow> emits K st st'"
  by (simp add: runs_def)

lemma emits_then: "emits K st st' \<Longrightarrow> emits K' st' st'' \<Longrightarrow> K' \<subseteq> K \<Longrightarrow> emits K st st''"
  using emits_trans emits_mono by blast

lemma patch_status_emits: "patch_status E base st = (err, st') \<Longrightarrow> emits {KPatchStatus} st st'"
  by (auto simp: patch_status_def Let_def emits_def emit_def split: sum.splits)

lemma patch_object_emits: "patch_object E base st = (err, st') \<Longrightarrow> emits {KPatch} st st'"
  by (auto simp: patch_object_def Let_def emits_def emit_def split: sum.splits)

lemma remember_emits [simp]: "emits K st (remember_status st') = emits K st st'"
  by (simp add: emits_def remember_status_def)

text \<open>Any kind of action.\<close>

abbreviation extends :: "rstate \<Rightarrow> rstate \<Rightarrow> bool" where
  "extends \<equiv> emits UNIV"

lemma extends_of: "emits K st st' \<Longrightarrow> extends st st'"
  by (erule emits_mono) simp

lemma extends_step: "extends st st' \<Longrightarrow> emits K st' st'' \<Longrightarrow> extends st st''"
  using emits_trans extends_of by blast

lemma startDeploy_emits: "emits {KEvent, KPatchStatus} st (startDeploy E r source st)"
proof -
  define st5 where "st5 = event r EventTypeNormal ReasonDeploying ''Starting package deployment''
    (set_cond E ConditionTypeStalled ConditionFalse ReasonDeploying ''Waiting for deployment to complete''
      (set_cond E ConditionTypeReady ConditionFalse ReasonDeploying ''Deployment in progress''
        (set_cond E ConditionTypeProgressing ConditionTrue ReasonDeploying ''Deployment in progress''
          (on_pkg (on_status (\<lambda>s. s\<lparr>st_LastAttemptedRevision := source, st_Phase := PhaseDeploying\<rparr>)) st))))"
  have "runs {KEvent, KPatchStatus} st st5" unfolding st5_def by (intro runs_intros) simp
  then have 5: "emits {KEvent, KPatchStatus} st st5" by (rule emits_of_runs)
  obtain err st6 where p: "patch_status E (rs_original st5) st5 = (err, st6)" by fastforce
  have "emits {KEvent, KPatchStatus} st5 st6" using patch_status_emits [OF p] by (rule emits_mono) simp
  with 5 have "emits {KEvent, KPatchStatus} st st6" by (rule emits_trans)
  then show ?thesis
    by (simp add: startDeploy_def Let_def st5_def [symmetric] p split: option.splits)
qed

subsection \<open>A deployment keeps the finalizers\<close>

text \<open>
  The operation leaves the finalizers alone in every object it patches: any condition that holds of
  such patches and of all other actions guards it.
\<close>

definition keeps_finalizers :: "(trace \<Rightarrow> action \<Rightarrow> bool) \<Rightarrow> bool" where
  "keeps_finalizers P \<longleftrightarrow>
     (\<forall>tr a. kind a \<noteq> KPatch \<longrightarrow> P tr a) \<and>
     (\<forall>tr base obj. zp_Finalizers obj = zp_Finalizers base \<longrightarrow> P tr (APatch base obj))"

lemma keeps_emits: "keeps_finalizers P \<Longrightarrow> emits K st st' \<Longrightarrow> KPatch \<notin> K \<Longrightarrow> guarded P st st'"
  by (erule guarded_emits) (metis keeps_finalizers_def)

lemma keeps_clearRedeploy:
  assumes P: "keeps_finalizers P" and c: "clearRedeployAnnotation E r st = (err, st')"
  shows "guarded P st st'"
proof -
  let ?st1 = "on_pkg (\<lambda>p. p\<lparr>zp_Annotations := (zp_Annotations p)(AnnotationRedeploy := None)\<rparr>) st"
  obtain e st2 where p: "patch_object E (rs_pkg st) ?st1 = (e, st2)" by fastforce
  have "rs_trace st2 = rs_trace st @ [APatch (rs_pkg st) (rs_pkg ?st1)]"
    using p by (auto simp: patch_object_def Let_def emit_def on_pkg_def split: sum.splits)
  moreover have "P (rs_trace st) (APatch (rs_pkg st) (rs_pkg ?st1))"
    using P by (simp add: keeps_finalizers_def on_pkg_def)
  ultimately have 2: "guarded P st st2" by (auto simp: guarded_def append_eq_Cons_conv Cons_eq_append_conv)
  have "guarded P st (event r ty reason msg st2)" for ty reason msg
    using 2 P by (auto simp: event_def keeps_finalizers_def intro!: guarded_snoc)
  with c p 2 show ?thesis
    by (auto simp: clearRedeployAnnotation_def Let_def split: if_splits option.splits)
qed

lemma keeps_deploySucceeded:
  assumes P: "keeps_finalizers P" and d: "deploySucceeded E r res source st = (out, st')"
  shows "guarded P st st'"
proof -
  let ?K = "{KMetric, KEvent}"
  define st2 where "st2 = applyDeploySuccessStatus E r res source (emit (AMetric (MDeployDuration ''success'')) st)"
  define st3 where "st3 = (if sp_HelmDebugEnabled (rs_spec st2) \<and> dr_DeployLogs res \<noteq> []
    then event r EventTypeNormal ReasonHelmDebugLogs (formatLogSummary (dr_DeployLogs res) 1024) st2 else st2)"
  have "runs ?K st st2" unfolding st2_def by (intro applyDeploySuccess_run runs_emit runs_refl) simp_all
  then have "runs ?K st st3" by (simp add: st3_def runs_event)
  then have 3: "guarded P st st3" using keeps_emits [OF P emits_of_runs] by blast
  obtain e st4 where c: "clearRedeployAnnotation E r st3 = (e, st4)" by fastforce
  have "guarded P st st4" using guarded_trans [OF 3 keeps_clearRedeploy [OF P c]] .
  with d c show ?thesis
    unfolding deploySucceeded_def Let_def st2_def [symmetric] st3_def [symmetric]
    by (auto split: option.splits)
qed

lemma keeps_afterDeploy:
  assumes P: "keeps_finalizers P" and d: "afterDeploy E r source answer st = (out, st')"
  shows "guarded P st st'"
proof -
  have busy: "guarded P st (set_cond E t1 v1 r1 m1 (set_cond E t2 v2 r2 m2 st))" for t1 v1 r1 m1 t2 v2 r2 m2
    by (rule keeps_emits [OF P emits_of_runs, of "{}"]) (intro runs_intros, simp)
  have nil: "guarded P st (emit (AMetric m) st)" for m
    using P by (intro guarded_snoc) (auto simp: keeps_finalizers_def)
  have failed: "deployFailed E r result err st = (out, st') \<Longrightarrow> guarded P st st'" for result err
    by (drule deployFailed_run, drule emits_of_runs, erule keeps_emits [OF P]) simp
  from d busy nil failed show ?thesis
    by (auto simp: afterDeploy_def split: prod.splits option.splits if_splits
        dest: keeps_deploySucceeded [OF P])
qed

lemma keeps_deploy:
  assumes P: "keeps_finalizers P" and d: "deploy E r source0 st = (out, st')"
  shows "guarded P st st'"
proof -
  define source where "source = (if strings_TrimSpace source0 = [] then sp_Source (rs_spec st) else source0)"
  define st1 where "st1 = startDeploy E r source st"
  have 1: "guarded P st st1" unfolding st1_def by (rule keeps_emits [OF P startDeploy_emits]) simp
  obtain res st2 where rd: "resolveDeploy E r (deploy_options (rs_spec st1) source) st1 = (res, st2)" by fastforce
  have 2: "guarded P st st2"
    using guarded_trans [OF 1 keeps_emits [OF P emits_of_runs [OF resolveDeploy_run [OF rd]]]] by simp
  define st3 where "st3 = (if st_Phase (rs_status st) = PhaseFailed then preDeployCleanup E r st2 else st2)"
  have p3: "passes predeploy_kinds st2 st3" by (simp add: st3_def preDeployCleanup_pass)
  have 3: "guarded P st st3" using guarded_trans [OF 2 keeps_emits [OF P emits_of_passes [OF p3]]] by simp
  show ?thesis
  proof (cases res)
    case (Inl retry)
    with d rd 2 show ?thesis by (simp add: deploy_def Let_def source_def [symmetric] st1_def [symmetric])
  next
    case (Inr opts)
    obtain answer st4 where dp: "deployPackage E r opts (deploy_timeout (rs_spec st1)) st3 = (answer, st4)"
      by fastforce
    have 4: "guarded P st st4"
      using guarded_trans [OF 3 keeps_emits [OF P emits_of_passes [OF deployPackage_pass [OF dp]]]] by simp
    have "afterDeploy E r source answer st4 = (out, st')"
      using d rd Inr dp
      by (simp add: deploy_def Let_def source_def [symmetric] st1_def [symmetric] st3_def [symmetric])
    then show ?thesis using guarded_trans [OF 4 keeps_afterDeploy [OF P]] by blast
  qed
qed

lemma deploy_extends: "deploy E r source st = (out, st') \<Longrightarrow> extends st st'"
  using keeps_deploy [of "\<lambda>_ _. True"] by (auto simp: keeps_finalizers_def guarded_def emits_def)

text \<open>Removal never deploys.\<close>

abbreviation deletion_kinds :: "action_kind set" where
  "deletion_kinds \<equiv> {KEvent, KMetric, KGetSecret, KPatchStatus, KPatch, KRemove}"

lemma removeFinalizer_emits:
  "removeFinalizer E r st = (out, st') \<Longrightarrow> emits {KPatch} st st'"
  by (auto simp: removeFinalizer_def Let_def emits_def on_pkg_def patch_object_def emit_def
      split: prod.splits option.splits sum.splits)

lemma removeFailed_run: "removeFailed E r err st = (out, st') \<Longrightarrow> runs {KEvent, KMetric} st st'"
  by (auto simp: removeFailed_def Let_def split: if_splits intro!: runs_intros)

lemma removePackage_emits:
  assumes "removePackage E r st = (out, st')"
  shows "emits deletion_kinds st st'"
proof -
  obtain res st1 where k: "resolveClusterKubeconfig E r st = (res, st1)" by fastforce
  have "runs secret_kinds st st1"
    using resolveClusterKubeconfig_outcome [of E st r] k by (simp add: resolver_outcome_runs)
  then have 1: "runs deletion_kinds st st1" by (rule runs_mono) auto
  then have 2: "runs deletion_kinds st (emit (ARemove o' t) st1)" for o' t by (intro runs_emit) auto
  have fin: "removeFinalizer E r (emit (ARemove o' t) st1) = (out, st') \<Longrightarrow> emits deletion_kinds st st'" for o' t
    by (drule removeFinalizer_emits, erule emits_then [OF emits_of_runs [OF 2]]) simp
  have fail: "removeFailed E r e (emit (ARemove o' t) st1) = (out, st') \<Longrightarrow> emits deletion_kinds st st'" for o' t e
    by (drule removeFailed_run, drule emits_of_runs, erule emits_then [OF emits_of_runs [OF 2]]) simp
  have busy: "emits deletion_kinds st (set_cond E t' v reason msg (emit (ARemove o' t) st1))" for t' v reason msg o' t
    using runs_set_cond [OF 2] by (rule emits_of_runs)
  from assms k 1 2 fin fail busy show ?thesis
    by (auto simp: removePackage_def Let_def split: sum.splits option.splits if_splits dest: emits_of_runs)
qed

lemma handleDeletion_emits:
  assumes "handleDeletion E r st = (out, st')"
  shows "emits deletion_kinds st st'"
proof -
  define st1 where "st1 = event r EventTypeNormal ReasonRemoving ''Removing package''
    (on_pkg (setPhase PhaseRemoving) st)"
  have "runs deletion_kinds st st1" unfolding st1_def by (intro runs_intros) simp
  then have 1: "emits deletion_kinds st st1" by (rule emits_of_runs)
  obtain err st2 where p: "patch_status E (rs_pkg st) st1 = (err, st2)" by fastforce
  have "emits deletion_kinds st1 st2" using patch_status_emits [OF p] by (rule emits_mono) simp
  with 1 have 2: "emits deletion_kinds st st2" by (rule emits_trans)
  then have 3: "emits deletion_kinds st (remember_status st2)" by simp
  have fin: "removeFinalizer E r (remember_status st2) = (out, st') \<Longrightarrow> emits deletion_kinds st st'"
    by (drule removeFinalizer_emits, erule emits_then [OF 3]) simp
  have rem: "removePackage E r (remember_status st2) = (out, st') \<Longrightarrow> emits deletion_kinds st st'"
    using emits_trans [OF 3] removePackage_emits by blast
  from assms p 2 fin rem show ?thesis
    by (auto simp: handleDeletion_def Let_def st1_def [symmetric] split: if_splits)
qed

lemma deferredStatusPatch_emits:
  assumes "deferredStatusPatch E (ret, st) = (out, st')"
  shows "emits {KPatchStatus, KMetric} st st'"
proof -
  let ?K = "{KPatchStatus, KMetric}"
  define st1 where "st1 = on_pkg (\<lambda>p. on_status (\<lambda>s. s\<lparr>st_LastReconcileTime := now E st,
    st_ObservedGeneration := zp_Generation p\<rparr>) p) st"
  have 1: "emits ?K st st1" unfolding st1_def by (rule emits_of_runs) (intro runs_intros)
  obtain err st2 where p: "patch_status E (rs_original st1) st1 = (err, st2)" by fastforce
  have "emits ?K st1 st2" using patch_status_emits [OF p] by (rule emits_mono) simp
  with 1 have 2: "emits ?K st st2" by (rule emits_trans)
  have m: "emits ?K st s \<Longrightarrow> emits ?K st (recordResourceMetrics s)" for s
    using emits_of_runs [OF runs_recordResourceMetrics [OF _ runs_refl, of ?K s]] emits_trans by blast
  from assms p 2 m [OF 2] m [OF emits_refl] show ?thesis
    by (cases ret) (auto simp: deferredStatusPatch_def Let_def st1_def [symmetric] split: if_splits option.splits)
qed

subsection \<open>Dependencies before deployment\<close>

text \<open>In the actions so far, the package of this key was read and was Deployed.\<close>

definition dep_seen :: "env \<Rightarrow> string \<Rightarrow> string \<Rightarrow> trace \<Rightarrow> bool" where
  "dep_seen E ns name tr \<longleftrightarrow>
     (\<exists>tr0 rest q. tr = tr0 @ AGetPackage ns name # rest \<and> env_GetPackage E tr0 ns name = Inr q \<and>
        st_Phase (zp_Status q) = PhaseDeployed)"

definition deps_deployed :: "env \<Rightarrow> ZarfPackage \<Rightarrow> trace \<Rightarrow> bool" where
  "deps_deployed E p tr \<longleftrightarrow>
     (\<forall>d\<in>set (sp_DependsOn (zp_Spec p)). strings_TrimSpace (dep_Name d) \<noteq> [] \<and>
        dep_seen E (dep_namespace p d) (dep_Name d) tr)"

lemma dep_seen_mono: "dep_seen E ns n tr \<Longrightarrow> dep_seen E ns n (tr @ as)"
  unfolding dep_seen_def by (metis append.assoc append_Cons)

lemma deps_deployed_mono: "deps_deployed E p tr \<Longrightarrow> deps_deployed E p (tr @ as)"
  by (simp add: deps_deployed_def dep_seen_mono)

lemma deps_deployed_emits: "deps_deployed E p (rs_trace st) \<Longrightarrow> emits K st st' \<Longrightarrow> deps_deployed E p (rs_trace st')"
  by (auto simp: emits_def deps_deployed_mono)

lemma checkDeps_met:
  "checkDeps E ds notReady st = (Inr (True, nr), st') \<Longrightarrow>
   notReady = [] \<and> (\<forall>d\<in>set ds. strings_TrimSpace (dep_Name d) \<noteq> [] \<and>
     dep_seen E (dep_namespace (rs_pkg st) d) (dep_Name d) (rs_trace st'))"
proof (induction ds arbitrary: notReady st)
  case (Cons d ds)
  let ?ns = "dep_namespace (rs_pkg st) d"
  let ?st = "emit (AGetPackage ?ns (dep_Name d)) st"
  have same: "rs_pkg ?st = rs_pkg st" by (simp add: emit_def)
  have n: "strings_TrimSpace (dep_Name d) \<noteq> []"
    using Cons.prems Cons.IH by (auto simp: Let_def split: if_splits)
  obtain q where q: "env_GetPackage E (rs_trace st) ?ns (dep_Name d) = Inr q"
      "st_Phase (zp_Status q) = PhaseDeployed" "checkDeps E ds notReady ?st = (Inr (True, nr), st')"
    using Cons.prems n by (auto simp: Let_def split: if_splits sum.splits dest!: Cons.IH)
  have "dep_seen E ?ns (dep_Name d) (rs_trace ?st)"
    using q by (auto simp: dep_seen_def emit_def)
  moreover have "emits {KGetPackage} ?st st'" using checkDeps_pass [OF q(3)] by (rule emits_of_passes)
  ultimately have "dep_seen E ?ns (dep_Name d) (rs_trace st')" by (auto simp: emits_def dep_seen_mono)
  with Cons.IH [OF q(3)] n same show ?case by simp
qed simp

lemma checkDependencies_met:
  assumes "checkDependencies E st = (Inr (True, nr), st')"
  shows "deps_deployed E (rs_pkg st) (rs_trace st')"
proof (cases "sp_DependsOn (rs_spec st) = []")
  case False
  with assms have "checkDeps E (sp_DependsOn (rs_spec st)) [] st = (Inr (True, nr), st')"
    by (simp add: checkDependencies_def)
  from checkDeps_met [OF this] show ?thesis by (simp add: deps_deployed_def)
qed (simp add: deps_deployed_def)

text \<open>The guard: the Zarf client deploys only after every dependency was seen Deployed.\<close>

definition deploy_guard :: "env \<Rightarrow> ZarfPackage \<Rightarrow> trace \<Rightarrow> action \<Rightarrow> bool" where
  "deploy_guard E p tr a \<longleftrightarrow> (kind a = KDeploy \<longrightarrow> deps_deployed E p tr)"

lemma deploy_guard_emits: "emits K st st' \<Longrightarrow> KDeploy \<notin> K \<Longrightarrow> guarded (deploy_guard E p) st st'"
  by (erule guarded_emits) (auto simp: deploy_guard_def)

lemma deploy_guard_after:
  "deps_deployed E p (rs_trace st) \<Longrightarrow> emits K st st' \<Longrightarrow> guarded (deploy_guard E p) st st'"
  by (erule guarded_after) (simp add: deploy_guard_def deps_deployed_mono)

text \<open>The dependencies depend on name, namespace and spec only, which a status update keeps.\<close>

lemma deps_deployed_status_only: "status_only st st' \<Longrightarrow> deps_deployed E (rs_pkg st') = deps_deployed E (rs_pkg st)"
  by (intro ext) (simp add: deps_deployed_def status_only_iff dep_namespace_def)

lemma deploy_guard_deploy:
  assumes "deploy E r source st = (out, st')" and "deps_deployed E p (rs_trace st)"
  shows "guarded (deploy_guard E p) st st'"
  using deploy_guard_after [OF assms(2)] deploy_extends [OF assms(1)] by blast

lemma decideAndDeploy_guarded:
  assumes d: "decideAndDeploy E r dp ck lk st = (out, st')"
    and ck: "ck \<Longrightarrow> deps_deployed E (rs_pkg st) (rs_trace st)"
  shows "guarded (deploy_guard E (rs_pkg st)) st st'"
proof -
  let ?G = "guarded (deploy_guard E (rs_pkg st))"
  obtain dec st1 where dec: "decideDeployment E r dp st = (dec, st1)" by fastforce
  note run1 = decideDeployment_run [OF dec]
  have g1: "?G st st1" using deploy_guard_emits [OF emits_of_runs [OF run1]] by simp
  have so1: "deps_deployed E (rs_pkg st1) = deps_deployed E (rs_pkg st)"
    using run1 by (simp add: runs_def deps_deployed_status_only)
  obtain res st2 where c: "checkDependencies E st1 = (res, st2)" by fastforce
  have g2: "?G st st2"
    using guarded_trans [OF g1 deploy_guard_emits [OF emits_of_passes [OF checkDependencies_pass [OF c]]]] by simp
  consider (sync) "\<not> dd_needsDeploy dec" | (checked) "dd_needsDeploy dec" ck
    | (err) e where "dd_needsDeploy dec" "\<not> ck" "res = Inl e"
    | (wait) nr where "dd_needsDeploy dec" "\<not> ck" "res = Inr (False, nr)"
    | (met) nr where "dd_needsDeploy dec" "\<not> ck" "res = Inr (True, nr)"
    by (metis (full_types) prod.exhaust sum.exhaust)
  then show ?thesis
  proof cases
    case sync
    with d dec have "st' = inSync E dp st1" by (simp add: decideAndDeploy_def)
    then show ?thesis
      using guarded_trans [OF g1 deploy_guard_emits [OF emits_of_runs [OF inSync_run]]] by simp
  next
    case checked
    with d dec have "deploy E r (dd_source dec) st1 = (out, st')" by (simp add: decideAndDeploy_def)
    moreover have "deps_deployed E (rs_pkg st) (rs_trace st1)"
      using deps_deployed_emits [OF ck [OF checked(2)] emits_of_runs [OF run1]] .
    ultimately show ?thesis using guarded_trans [OF g1 deploy_guard_deploy] by blast
  next
    case err
    with d dec c g2 show ?thesis by (simp add: decideAndDeploy_def)
  next
    case (wait nr)
    with d dec c obtain keep res' where "waitForDependencies E r nr dp keep st2 = (res', st')"
      by (auto simp: decideAndDeploy_def split: prod.splits)
    then show ?thesis
      using guarded_trans [OF g2 deploy_guard_emits [OF emits_of_runs [OF waitForDependencies_run]]] by simp
  next
    case (met nr)
    with d dec c have dp: "deploy E r (dd_source dec) (markDependenciesMet E st2) = (out, st')"
      by (simp add: decideAndDeploy_def)
    have tr: "rs_trace (markDependenciesMet E st2) = rs_trace st2" by (simp add: markDependenciesMet_def on_pkg_def)
    have "deps_deployed E (rs_pkg st1) (rs_trace st2)" using checkDependencies_met c met(3) by blast
    then have "deps_deployed E (rs_pkg st) (rs_trace (markDependenciesMet E st2))" by (simp add: so1 tr)
    from deploy_guard_deploy [OF dp this] have "?G st2 st'" by (simp add: guarded_def tr)
    then show ?thesis using guarded_trans [OF g2] by blast
  qed
qed

lemma reconcile_guarded:
  assumes "reconcile E r st = (out, st')"
  shows "guarded (deploy_guard E (rs_pkg st)) st st'"
proof -
  let ?G = "guarded (deploy_guard E (rs_pkg st))"
  obtain res st1 where k: "resolveClusterKubeconfig E r st = (res, st1)" by fastforce
  have o1: "resolver_outcome E st (res, st1)" using resolveClusterKubeconfig_outcome [of E st r] k by simp
  have g1: "?G st st1"
    using deploy_guard_emits [OF emits_of_runs [OF resolver_outcome_runs [OF o1]]] by simp
  have get: "?G st st'" if "res = Inr kc" "decideAndDeploy E r dp False lk (emit (AGetDeployed opts) st1) = (out, st')"
    for kc dp lk opts
  proof -
    have "rs_pkg (emit (AGetDeployed opts) st1) = rs_pkg st"
      using o1 that(1) by (auto simp: emit_def dest: resolver_outcome_Inr)
    with decideAndDeploy_guarded [OF that(2)] have "?G (emit (AGetDeployed opts) st1) st'" by simp
    moreover have "?G st (emit (AGetDeployed opts) st1)"
      using g1 by (rule guarded_snoc) (simp add: deploy_guard_def)
    ultimately show ?thesis using guarded_trans by blast
  qed
  obtain cd st2 where c: "checkDependencies E st = (cd, st2)" by fastforce
  have g2: "?G st st2" using deploy_guard_emits [OF emits_of_passes [OF checkDependencies_pass [OF c]]] by simp
  have wait: "?G st st'" if "waitForDependencies E r nr None False st2 = (w, st')" for nr w
    using guarded_trans [OF g2 deploy_guard_emits [OF emits_of_runs [OF waitForDependencies_run [OF that]]]] by simp
  have go: "?G st st'" if "cd = Inr (True, nr)"
      "decideAndDeploy E r None True False (markDependenciesMet E st2) = (out, st')" for nr
  proof -
    let ?st = "markDependenciesMet E st2"
    have tr: "rs_trace ?st = rs_trace st2" by (simp add: markDependenciesMet_def on_pkg_def)
    have "runs {KGetPackage} st ?st"
      by (intro markDependenciesMet_run passes_runs checkDependencies_pass [OF c])
    then have so: "deps_deployed E (rs_pkg ?st) = deps_deployed E (rs_pkg st)"
      by (simp add: runs_def deps_deployed_status_only)
    have "deps_deployed E (rs_pkg ?st) (rs_trace ?st)"
      using checkDependencies_met [of E st nr st2] c that(1) by (simp add: so tr)
    from decideAndDeploy_guarded [OF that(2) this] have "?G st2 st'"
      by (simp add: guarded_def deploy_guard_def tr so)
    then show ?thesis using guarded_trans [OF g2] by blast
  qed
  from assms k c g1 g2 get wait go show ?thesis
    by (auto simp: reconcile_def Let_def split: if_splits sum.splits prod.splits)
qed

text \<open>When the body of \<^verbatim>\<open>Reconcile\<close> reaches \<^verbatim>\<open>reconcile\<close>.\<close>

definition active :: "env \<Rightarrow> reconciler \<Rightarrow> ZarfPackage \<Rightarrow> bool" where
  "active E r p \<longleftrightarrow>
     zp_DeletionTimestamp p = None \<and>
     controllerutil_ContainsFinalizer (libs E) (zp_Finalizers p) ZarfPackageFinalizer \<and>
     \<not> sp_Suspend (zp_Spec p) \<and> r_ZarfClient r"

lemma suspended_run: "suspended E r st = (out, st') \<Longrightarrow> runs {KEvent, KMetric} st st'"
  by (auto simp: suspended_def intro!: runs_intros)

lemma noClient_run: "noClient E r st = (out, st') \<Longrightarrow> runs {KEvent, KMetric} st st'"
  by (auto simp: noClient_def Let_def split: if_splits intro!: runs_intros)

lemma addFinalizer_emits: "addFinalizer E st = (out, st') \<Longrightarrow> emits {KPatch} st st'"
  by (auto simp: addFinalizer_def Let_def emits_def on_pkg_def patch_object_def emit_def
      split: prod.splits option.splits sum.splits)

definition activated :: "env \<Rightarrow> rstate \<Rightarrow> rstate" where
  "activated E st = setSuspendedMetric False
     (set_cond E ConditionTypeSuspended ConditionFalse ''Active'' ''Reconciliation is active'' st)"

lemma activated_run: "runs {KMetric} st (activated E st)"
  unfolding activated_def by (intro runs_intros) simp

lemma reconcileBody_cases:
  assumes "reconcileBody E r st = (out, st')"
  obtains (active) "active E r (rs_pkg st)" "reconcile E r (activated E st) = (out, st')"
  | (deleting) "zp_DeletionTimestamp (rs_pkg st) \<noteq> None" "handleDeletion E r st = (out, st')"
  | (adding) "addFinalizer E st = (out, st')"
      "\<not> controllerutil_ContainsFinalizer (libs E) (zp_Finalizers (rs_pkg st)) ZarfPackageFinalizer"
  | (suspended) "sp_Suspend (rs_spec st)" "suspended E r st = (out, st')"
  | (offline) "\<not> r_ZarfClient r" "noClient E r (activated E st) = (out, st')"
  using assms by (auto simp: reconcileBody_def activated_def active_def Let_def split: if_splits)

lemma reconcileBody_guarded:
  assumes "reconcileBody E r st = (out, st')"
  shows "guarded (\<lambda>tr a. kind a = KDeploy \<longrightarrow> active E r (rs_pkg st) \<and> deps_deployed E (rs_pkg st) tr) st st'"
    (is "guarded ?P st st'")
  using assms
proof (cases rule: reconcileBody_cases)
  case active
  have so: "deps_deployed E (rs_pkg (activated E st)) = deps_deployed E (rs_pkg st)"
    using activated_run [of st E] by (simp add: runs_def deps_deployed_status_only)
  have "guarded (deploy_guard E (rs_pkg st)) (activated E st) st'"
    using reconcile_guarded [OF active(2)] by (simp add: deploy_guard_def so guarded_def)
  then have "guarded ?P (activated E st) st'"
    using active(1) by (simp add: deploy_guard_def guarded_def)
  moreover have "guarded ?P st (activated E st)"
    by (rule guarded_emits [OF emits_of_runs [OF activated_run]]) auto
  ultimately show ?thesis using guarded_trans by blast
next
  case deleting
  show ?thesis by (rule guarded_emits [OF handleDeletion_emits [OF deleting(2)]]) auto
next
  case adding
  show ?thesis by (rule guarded_emits [OF addFinalizer_emits [OF adding(1)]]) auto
next
  case suspended
  show ?thesis by (rule guarded_emits [OF emits_of_runs [OF suspended_run [OF suspended(2)]]]) auto
next
  case offline
  have "emits {KEvent, KMetric} st (activated E st)"
    using emits_of_runs [OF activated_run] by (rule emits_mono) simp
  then have "emits {KEvent, KMetric} st st'"
    using emits_of_runs [OF noClient_run [OF offline(2)]] by (rule emits_trans)
  then show ?thesis by (rule guarded_emits) auto
qed

text \<open>A reconcile of an object that exists, as a run of the state.\<close>

lemma Reconcile_run:
  assumes "Reconcile E r ns name tr = (out, tr')" and "env_GetPackage E tr ns name = Inr p"
  obtains ret st1 st2 where "reconcileBody E r (fetched p (tr @ [AGetPackage ns name])) = (ret, st1)"
    and "deferredStatusPatch E (ret, st1) = (out, st2)" and "rs_trace st2 = tr'"
proof -
  obtain ret st1 where b: "reconcileBody E r (fetched p (tr @ [AGetPackage ns name])) = (ret, st1)" by fastforce
  obtain out' st2 where d: "deferredStatusPatch E (ret, st1) = (out', st2)" by fastforce
  from assms b d have "out' = out" and "rs_trace st2 = tr'" by (auto simp: Reconcile_def Let_def)
  with b d that show thesis by blast
qed

lemma Reconcile_position:
  assumes "Reconcile E r ns name tr = (out, tr1 @ a # tr2)" and "length tr \<le> length tr1"
    and "kind a \<noteq> KGetPackage" and "kind a \<noteq> KPatchStatus" and "kind a \<noteq> KMetric"
    and body: "\<And>p ret st'. env_GetPackage E tr ns name = Inr p \<Longrightarrow>
      reconcileBody E r (fetched p (tr @ [AGetPackage ns name])) = (ret, st') \<Longrightarrow>
      guarded (P p) (fetched p (tr @ [AGetPackage ns name])) st'"
  shows "\<exists>p. env_GetPackage E tr ns name = Inr p \<and> P p tr1 a"
proof (cases "env_GetPackage E tr ns name")
  case (Inl e)
  with assms have "tr1 @ a # tr2 = tr @ [AGetPackage ns name]" by (simp add: Reconcile_def Let_def)
  then have "tr1 @ [a] @ tr2 = tr @ [AGetPackage ns name]" by simp
  with assms(2) have "tr1 = tr \<and> a = AGetPackage ns name"
    by (cases tr2 rule: rev_cases) (auto simp: append_eq_append_conv2 append_eq_Cons_conv)
  with assms(3) show ?thesis by simp
next
  case (Inr p)
  let ?st = "fetched p (tr @ [AGetPackage ns name])"
  obtain ret st1 st2 where b: "reconcileBody E r ?st = (ret, st1)"
    and d: "deferredStatusPatch E (ret, st1) = (out, st2)" and t: "rs_trace st2 = tr1 @ a # tr2"
    using Reconcile_run [OF assms(1) Inr] .
  let ?Q = "\<lambda>tr a. kind a \<notin> {KPatchStatus, KMetric} \<longrightarrow> P p tr a"
  have "guarded ?Q ?st st1" using body [OF Inr b] by (auto simp: guarded_def)
  moreover have "guarded ?Q st1 st2"
    by (rule guarded_emits [OF deferredStatusPatch_emits [OF d]]) auto
  ultimately have g: "guarded ?Q ?st st2" by (rule guarded_trans)
  have "length tr \<noteq> length tr1"
  proof
    assume l: "length tr = length tr1"
    obtain as where "tr1 @ a # tr2 = tr @ AGetPackage ns name # as"
      using g t by (auto simp: guarded_def fetched_def)
    with l assms(3) show False by (auto simp: append_eq_append_conv)
  qed
  with assms(2) have "length (rs_trace ?st) \<le> length tr1" by (simp add: fetched_def)
  from guarded_position [OF g t this] assms(4,5) Inr show ?thesis by auto
qed

subsection \<open>The finalizer\<close>

lemma keeps_decideAndDeploy:
  assumes P: "keeps_finalizers P" and d: "decideAndDeploy E r dp ck lk st = (out, st')"
  shows "guarded P st st'"
proof -
  obtain dec st1 where dec: "decideDeployment E r dp st = (dec, st1)" by fastforce
  have 1: "guarded P st st1" using keeps_emits [OF P emits_of_runs [OF decideDeployment_run [OF dec]]] by simp
  obtain res st2 where c: "checkDependencies E st1 = (res, st2)" by fastforce
  have 2: "guarded P st st2"
    using guarded_trans [OF 1 keeps_emits [OF P emits_of_passes [OF checkDependencies_pass [OF c]]]] by simp
  have sync: "guarded P st (inSync E dp st1)"
    using guarded_trans [OF 1 keeps_emits [OF P emits_of_runs [OF inSync_run]]] by simp
  have dep1: "deploy E r src st1 = (out, st') \<Longrightarrow> guarded P st st'" for src
    using guarded_trans [OF 1 keeps_deploy [OF P]] by blast
  have m: "guarded P st (markDependenciesMet E st2)"
    using 2 by (simp add: guarded_def markDependenciesMet_def on_pkg_def)
  have dep2: "deploy E r src (markDependenciesMet E st2) = (out, st') \<Longrightarrow> guarded P st st'" for src
    using guarded_trans [OF m keeps_deploy [OF P]] by blast
  have wait: "waitForDependencies E r nr dp k st2 = (w, st') \<Longrightarrow> guarded P st st'" for nr k w
    using guarded_trans [OF 2 keeps_emits [OF P emits_of_runs [OF waitForDependencies_run]]] by simp
  from d dec c 2 sync dep1 dep2 wait show ?thesis
    by (auto simp: decideAndDeploy_def split: if_splits sum.splits prod.splits)
qed

lemma keeps_reconcile:
  assumes P: "keeps_finalizers P" and d: "reconcile E r st = (out, st')"
  shows "guarded P st st'"
proof -
  obtain res st1 where k: "resolveClusterKubeconfig E r st = (res, st1)" by fastforce
  have "runs secret_kinds st st1"
    using resolveClusterKubeconfig_outcome [of E st r] k by (simp add: resolver_outcome_runs)
  then have 1: "guarded P st st1" using keeps_emits [OF P emits_of_runs] by blast
  then have g: "guarded P st (emit (AGetDeployed o') st1)" for o'
    using P by (intro guarded_snoc) (auto simp: keeps_finalizers_def)
  have dd: "decideAndDeploy E r dp ck lk (emit (AGetDeployed o') st1) = (out, st') \<Longrightarrow> guarded P st st'"
    for dp ck lk o' using guarded_trans [OF g keeps_decideAndDeploy [OF P]] by blast
  obtain cd st2 where c: "checkDependencies E st = (cd, st2)" by fastforce
  have 2: "guarded P st st2" using keeps_emits [OF P emits_of_passes [OF checkDependencies_pass [OF c]]] by simp
  have m: "guarded P st (markDependenciesMet E st2)"
    using 2 by (simp add: guarded_def markDependenciesMet_def on_pkg_def)
  have dm: "decideAndDeploy E r dp ck lk (markDependenciesMet E st2) = (out, st') \<Longrightarrow> guarded P st st'"
    for dp ck lk using guarded_trans [OF m keeps_decideAndDeploy [OF P]] by blast
  have wait: "waitForDependencies E r nr dp k st2 = (w, st') \<Longrightarrow> guarded P st st'" for nr dp k w
    using guarded_trans [OF 2 keeps_emits [OF P emits_of_runs [OF waitForDependencies_run]]] by simp
  from d k c 1 2 dd dm wait show ?thesis
    by (auto simp: reconcile_def Let_def split: if_splits sum.splits prod.splits)
qed

text \<open>
  The package is gone, or there is nothing to remove: no package was ever deployed, or there is no
  client to ask; otherwise a Remove of that package returned success or NotFound before.
\<close>

definition removal_done :: "env \<Rightarrow> reconciler \<Rightarrow> ZarfPackage \<Rightarrow> trace \<Rightarrow> bool" where
  "removal_done E r p tr \<longleftrightarrow>
     st_PackageName (zp_Status p) = [] \<or> \<not> r_ZarfClient r \<or>
     (\<exists>tr0 opts t rest. tr = tr0 @ ARemove opts t # rest \<and>
        ro_PackageName opts = st_PackageName (zp_Status p) \<and>
        (case env_Remove E tr0 opts t of
           None \<Rightarrow> True | Some e \<Rightarrow> status_Code (libs E) e = codes_NotFound))"

definition drops_finalizer :: "action \<Rightarrow> ZarfPackage \<Rightarrow> bool" where
  "drops_finalizer a base \<longleftrightarrow>
     (\<exists>obj. a = APatch base obj \<and> ZarfPackageFinalizer \<in> set (zp_Finalizers base) \<and>
        ZarfPackageFinalizer \<notin> set (zp_Finalizers obj))"

definition finalizer_guard :: "env \<Rightarrow> reconciler \<Rightarrow> trace \<Rightarrow> action \<Rightarrow> bool" where
  "finalizer_guard E r tr a \<longleftrightarrow> (\<forall>base. drops_finalizer a base \<longrightarrow> removal_done E r base tr)"

lemma drops_kind: "drops_finalizer a base \<Longrightarrow> kind a = KPatch"
  by (auto simp: drops_finalizer_def)

lemma finalizer_guard_emits: "emits K st st' \<Longrightarrow> KPatch \<notin> K \<Longrightarrow> guarded (finalizer_guard E r) st st'"
  by (erule guarded_emits) (auto simp: finalizer_guard_def dest: drops_kind)

lemma removeFinalizer_guarded:
  assumes "removeFinalizer E r st = (out, st')" and "removal_done E r (rs_pkg st) (rs_trace st)"
  shows "guarded (finalizer_guard E r) st st'"
proof -
  obtain base obj where "rs_trace st' = rs_trace st @ [APatch base obj]"
    and "st_PackageName (zp_Status base) = st_PackageName (rs_status st)"
    using assms(1) by (auto simp: removeFinalizer_def Let_def on_pkg_def on_status_def setCondition_def
        resetFailures_def patch_object_def emit_def split: prod.splits option.splits sum.splits)
  with assms(2) show ?thesis
    by (auto simp: guarded_def append_eq_Cons_conv Cons_eq_append_conv finalizer_guard_def drops_finalizer_def
        removal_done_def)
qed

lemma removePackage_guarded:
  assumes "removePackage E r st = (out, st')"
  shows "guarded (finalizer_guard E r) st st'"
proof -
  let ?G = "guarded (finalizer_guard E r)"
  obtain res st1 where k: "resolveClusterKubeconfig E r st = (res, st1)" by fastforce
  have "runs secret_kinds st st1"
    using resolveClusterKubeconfig_outcome [of E st r] k by (simp add: resolver_outcome_runs)
  then have 1: "?G st st1" using finalizer_guard_emits [OF emits_of_runs] by blast
  then have 2: "?G st (emit (ARemove o' t) st1)" for o' t
    by (rule guarded_snoc) (simp add: finalizer_guard_def drops_finalizer_def)
  have fin: "?G st st'"
    if "removeFinalizer E r (emit (ARemove o' t) st1) = (out, st')"
      "ro_PackageName o' = st_PackageName (rs_status st1)"
      "case env_Remove E (rs_trace st1) o' t of None \<Rightarrow> True | Some e \<Rightarrow> status_Code (libs E) e = codes_NotFound"
    for o' t
  proof -
    have "removal_done E r (rs_pkg (emit (ARemove o' t) st1)) (rs_trace (emit (ARemove o' t) st1))"
      using that(2,3) by (auto simp: removal_done_def emit_def)
    from guarded_trans [OF 2 removeFinalizer_guarded [OF that(1) this]] show ?thesis .
  qed
  have fail: "?G st st'" if "removeFailed E r e (emit (ARemove o' t) st1) = (out, st')" for o' t e
    using guarded_trans [OF 2 finalizer_guard_emits [OF emits_of_runs [OF removeFailed_run [OF that]]]] by simp
  have busy: "?G st (set_cond E t' v reason msg (emit (ARemove o' t) st1))" for t' v reason msg o' t
    using 2 by (simp add: guarded_def on_pkg_def)
  from assms k 1 2 fin fail busy show ?thesis
    by (auto simp: removePackage_def Let_def split: sum.splits option.splits if_splits)
qed

lemma handleDeletion_guarded:
  assumes "handleDeletion E r st = (out, st')"
  shows "guarded (finalizer_guard E r) st st'"
proof -
  let ?G = "guarded (finalizer_guard E r)"
  define st1 where "st1 = event r EventTypeNormal ReasonRemoving ''Removing package''
    (on_pkg (setPhase PhaseRemoving) st)"
  have "runs {KEvent} st st1" unfolding st1_def by (intro runs_intros) simp
  then have 1: "?G st st1" using finalizer_guard_emits [OF emits_of_runs] by blast
  obtain err st2 where p: "patch_status E (rs_pkg st) st1 = (err, st2)" by fastforce
  have 2: "?G st st2" using guarded_trans [OF 1 finalizer_guard_emits [OF patch_status_emits [OF p]]] by simp
  then have 3: "?G st (remember_status st2)" by (simp add: guarded_def remember_status_def)
  have rem: "?G st st'" if "removePackage E r (remember_status st2) = (out, st')"
    using guarded_trans [OF 3 removePackage_guarded [OF that]] .
  have fin: "?G st st'" if "removeFinalizer E r (remember_status st2) = (out, st')"
      "st_PackageName (rs_status (remember_status st2)) = [] \<or> \<not> r_ZarfClient r"
    using guarded_trans [OF 3 removeFinalizer_guarded [OF that(1)]] that(2) by (auto simp: removal_done_def)
  from assms p 2 rem fin show ?thesis
    by (auto simp: handleDeletion_def Let_def st1_def [symmetric] split: if_splits)
qed

lemma addFinalizer_guarded:
  assumes "finalizer_api (controllerutil_ContainsFinalizer (libs E)) (controllerutil_AddFinalizer (libs E))
      (controllerutil_RemoveFinalizer (libs E))"
    and "addFinalizer E st = (out, st')"
  shows "guarded (\<lambda>tr a. \<forall>base. \<not> drops_finalizer a base) st st'"
proof -
  obtain base obj where "rs_trace st' = rs_trace st @ [APatch base obj]"
    and "zp_Finalizers obj = controllerutil_AddFinalizer (libs E) (zp_Finalizers base) ZarfPackageFinalizer"
    using assms(2) by (auto simp: addFinalizer_def Let_def on_pkg_def patch_object_def emit_def
        split: prod.splits option.splits sum.splits)
  then show ?thesis
    using finalizer_api.add_set [OF assms(1)]
    by (auto simp: guarded_def append_eq_Cons_conv Cons_eq_append_conv drops_finalizer_def)
qed

lemma reconcileBody_finalizer:
  assumes fin: "finalizer_api (controllerutil_ContainsFinalizer (libs E)) (controllerutil_AddFinalizer (libs E))
      (controllerutil_RemoveFinalizer (libs E))"
    and "reconcileBody E r st = (out, st')"
  shows "guarded (\<lambda>tr a. \<forall>base. drops_finalizer a base \<longrightarrow>
    zp_DeletionTimestamp (rs_pkg st) \<noteq> None \<and> removal_done E r base tr) st st'" (is "guarded ?P st st'")
  using assms(2)
proof (cases rule: reconcileBody_cases)
  case active
  have P: "keeps_finalizers ?P" by (auto simp: keeps_finalizers_def drops_finalizer_def)
  show ?thesis
    using guarded_trans [OF keeps_emits [OF P emits_of_runs [OF activated_run]] keeps_reconcile [OF P active(2)]]
    by simp
next
  case deleting
  then show ?thesis
    using handleDeletion_guarded [OF deleting(2)] by (auto simp: guarded_def finalizer_guard_def)
next
  case adding
  then show ?thesis using addFinalizer_guarded [OF fin adding(1)] by (auto simp: guarded_def)
next
  case suspended
  have P: "keeps_finalizers ?P" by (auto simp: keeps_finalizers_def drops_finalizer_def)
  show ?thesis using keeps_emits [OF P emits_of_runs [OF suspended_run [OF suspended(2)]]] by simp
next
  case offline
  have P: "keeps_finalizers ?P" by (auto simp: keeps_finalizers_def drops_finalizer_def)
  show ?thesis
    using guarded_trans [OF keeps_emits [OF P emits_of_runs [OF activated_run]]
        keeps_emits [OF P emits_of_runs [OF noClient_run [OF offline(2)]]]] by simp
qed

subsection \<open>When nothing happens\<close>

text \<open>The new actions of a reconcile, by kind.\<close>

definition new_kinds :: "trace \<Rightarrow> trace \<Rightarrow> action_kind set" where
  "new_kinds tr tr' = kind ` set (drop (length tr) tr')"

lemma Reconcile_new_kinds:
  assumes "Reconcile E r ns name tr = (out, tr')" and "env_GetPackage E tr ns name = Inr p"
    and "\<And>ret st'. reconcileBody E r (fetched p (tr @ [AGetPackage ns name])) = (ret, st') \<Longrightarrow>
      emits K (fetched p (tr @ [AGetPackage ns name])) st'"
  shows "new_kinds tr tr' \<subseteq> {KGetPackage, KPatchStatus, KMetric} \<union> K"
proof -
  let ?st = "fetched p (tr @ [AGetPackage ns name])"
  obtain ret st1 st2 where b: "reconcileBody E r ?st = (ret, st1)"
    and d: "deferredStatusPatch E (ret, st1) = (out, st2)" and t: "rs_trace st2 = tr'"
    using Reconcile_run [OF assms(1,2)] .
  have "emits ({KPatchStatus, KMetric} \<union> K) ?st st1" using assms(3) [OF b] by (rule emits_mono) auto
  then have "emits ({KPatchStatus, KMetric} \<union> K) ?st st2"
    by (rule emits_then [OF _ deferredStatusPatch_emits [OF d]]) simp
  then obtain as where "tr' = tr @ AGetPackage ns name # as" "kind ` set as \<subseteq> {KPatchStatus, KMetric} \<union> K"
    using t by (auto simp: emits_def fetched_def)
  then show ?thesis by (auto simp: new_kinds_def)
qed

lemma suspended_body_emits:
  assumes "reconcileBody E r st = (ret, st')" and "zp_DeletionTimestamp (rs_pkg st) = None" and "sp_Suspend (rs_spec st)"
  shows "emits {KPatch, KEvent, KMetric} st st'"
  using assms(1)
proof (cases rule: reconcileBody_cases)
  case adding
  show ?thesis using addFinalizer_emits [OF adding(1)] by (rule emits_mono) simp
next
  case suspended
  show ?thesis using emits_of_runs [OF suspended_run [OF suspended(2)]] by (rule emits_mono) simp
next
  case offline
  show ?thesis
    using assms by (auto simp: reconcileBody_def split: if_splits
        intro: emits_mono [OF addFinalizer_emits] emits_mono [OF emits_of_runs [OF suspended_run]])
qed (use assms in \<open>auto simp: active_def\<close>)

context cond_env
begin

lemma terminal_activated:
  "isMaxRetriesTerminal (libs E) (rs_pkg (activated E st)) = isMaxRetriesTerminal (libs E) (rs_pkg st)"
  by (simp add: isMaxRetriesTerminal_def activated_def setSuspendedMetric_def emit_def on_pkg_def
      setCondition_def on_status_def find_set)

lemma terminal_body:
  assumes "active E r (rs_pkg st)" and "isMaxRetriesTerminal (libs E) (rs_pkg st)"
    and "zp_Annotations (rs_pkg st) AnnotationRedeploy = None"
  shows "reconcileBody E r st = ((Result_after (r_RequeueInterval r), None), activated E st)"
proof -
  have "reconcileBody E r st = reconcile E r (activated E st)"
    using assms(1) by (simp add: reconcileBody_def active_def activated_def Let_def)
  moreover have "zp_Annotations (rs_pkg (activated E st)) AnnotationRedeploy = None"
    using assms(3) by (simp add: activated_def setSuspendedMetric_def emit_def on_pkg_def setCondition_def on_status_def)
  ultimately show ?thesis using assms(2) by (simp add: reconcile_def terminal_activated)
qed

end

end
