(* ===== verification/Liveness.thy ===== *)
theory Liveness
  imports Safety
begin

section \<open>That the controller does act\<close>

text \<open>
  The converse of the guards: a package that is due is deployed, in the same reconcile. The server may
  answer a status patch with an object that changed otherwise, but not with another spec.
\<close>

definition no_secrets :: "ZarfPackageSpec \<Rightarrow> bool" where
  "no_secrets s \<longleftrightarrow>
     sp_RegistryCredentialSecretRef s = [] \<and> sp_ClusterSecretRef s = [] \<and>
     (case sp_InitOptions s of
        None \<Rightarrow> True
      | Some i \<Rightarrow> (case io_RegistryInfo i of None \<Rightarrow> True | Some reg \<Rightarrow> rg_CredentialsSecretRef reg = []))"

definition patch_keeps_spec :: "env \<Rightarrow> bool" where
  "patch_keeps_spec E \<longleftrightarrow>
     (\<forall>tr base obj obj'. env_PatchStatus E tr base obj = Inr obj' \<longrightarrow> zp_Spec obj' = zp_Spec obj)"

text \<open>Among the actions after the first state, a deployment of the source.\<close>

definition deploys :: "string \<Rightarrow> trace \<Rightarrow> trace \<Rightarrow> bool" where
  "deploys source tr tr' \<longleftrightarrow>
     (\<exists>tr1 opts t tr2. tr' = tr1 @ ADeploy opts t # tr2 \<and> length tr \<le> length tr1 \<and> do_Source opts = source)"

lemma deploys_extend: "deploys s tr tr' \<Longrightarrow> deploys s tr (tr' @ as)"
  unfolding deploys_def by (metis append.assoc append_Cons)

lemma deploys_later: "deploys s tr tr' \<Longrightarrow> length tr0 \<le> length tr \<Longrightarrow> deploys s tr0 tr'"
  unfolding deploys_def using le_trans by blast

lemma deploys_emits: "deploys s tr (rs_trace st) \<Longrightarrow> emits K st st' \<Longrightarrow> deploys s tr (rs_trace st')"
  by (auto simp: emits_def deploys_extend)

lemma deploys_run: "emits K st st1 \<Longrightarrow> deploys s (rs_trace st1) tr \<Longrightarrow> deploys s (rs_trace st) tr"
  by (erule deploys_later) (auto simp: emits_def)

lemma resolveDeploy_no_secrets:
  assumes "no_secrets (rs_spec st)"
  obtains opts' where "resolveDeploy E r opts st = (Inr opts', st)" and "do_Source opts' = do_Source opts"
proof -
  obtain i where "resolveInitOptions E r st = (Inr i, st)"
    using assms by (auto simp: resolveInitOptions_def no_secrets_def split: option.splits)
  with assms have "resolveDeploy E r opts st = (Inr (opts\<lparr>do_Kubeconfig := [], do_InitOptions := i\<rparr>), st)"
    by (simp add: resolveDeploy_def resolveRegistryCredentials_def getRegistryCredentialJSON_def
        resolveClusterKubeconfig_def no_secrets_def)
  with that show thesis by simp
qed

lemma startDeploy_spec:
  assumes "patch_keeps_spec E"
  shows "rs_spec (startDeploy E r source st) = rs_spec st"
proof -
  define st5 where "st5 = event r EventTypeNormal ReasonDeploying ''Starting package deployment''
    (set_cond E ConditionTypeStalled ConditionFalse ReasonDeploying ''Waiting for deployment to complete''
      (set_cond E ConditionTypeReady ConditionFalse ReasonDeploying ''Deployment in progress''
        (set_cond E ConditionTypeProgressing ConditionTrue ReasonDeploying ''Deployment in progress''
          (on_pkg (on_status (\<lambda>s. s\<lparr>st_LastAttemptedRevision := source, st_Phase := PhaseDeploying\<rparr>)) st))))"
  have "runs {KEvent} st st5" unfolding st5_def by (intro runs_intros) simp
  then have "rs_spec st5 = rs_spec st" by (rule runs_spec)
  moreover obtain err st6 where p: "patch_status E (rs_original st5) st5 = (err, st6)" by fastforce
  moreover have "rs_spec st6 = rs_spec st5"
    using p assms by (auto simp: patch_status_def patch_keeps_spec_def emit_def Let_def split: sum.splits)
  ultimately show ?thesis
    by (simp add: startDeploy_def Let_def st5_def [symmetric] remember_status_def split: option.splits)
qed

lemma deployPackage_calls: "deployPackage E r opts timeout st = (x, st') \<Longrightarrow> deploys (do_Source opts) (rs_trace st) (rs_trace st')"
proof -
  assume d: "deployPackage E r opts timeout st = (x, st')"
  let ?st1 = "emit (ADeploy opts (wrap64 (timeout + minute))) st"
  have 1: "deploys (do_Source opts) (rs_trace st) (rs_trace ?st1)" by (auto simp: deploys_def emit_def)
  have "emits deploy_kinds ?st1 st'"
    using d by (auto simp: deployPackage_def call_Deploy_def Let_def split: option.splits prod.splits
        dest!: retryDeploy_pass emits_of_passes)
  with 1 show ?thesis by (rule deploys_emits)
qed

lemma deploy_calls:
  assumes "deploy E r source0 st = (out, st')" and "patch_keeps_spec E" and "no_secrets (rs_spec st)"
  shows "deploys (if strings_TrimSpace source0 = [] then sp_Source (rs_spec st) else source0)
    (rs_trace st) (rs_trace st')" (is "deploys ?source _ _")
proof -
  define source where "source = ?source"
  define st1 where "st1 = startDeploy E r source st"
  have 1: "emits {KEvent, KPatchStatus} st st1" unfolding st1_def by (rule startDeploy_emits)
  have "no_secrets (rs_spec st1)" using assms(2,3) by (simp add: st1_def startDeploy_spec)
  then obtain opts where rd: "resolveDeploy E r (deploy_options (rs_spec st1) source) st1 = (Inr opts, st1)"
    and "do_Source opts = do_Source (deploy_options (rs_spec st1) source)" by (rule resolveDeploy_no_secrets)
  then have src: "do_Source opts = source" by (simp add: deploy_options_def)
  define st3 where "st3 = (if st_Phase (rs_status st) = PhaseFailed then preDeployCleanup E r st1 else st1)"
  have 3: "passes predeploy_kinds st1 st3" by (simp add: st3_def preDeployCleanup_pass)
  obtain answer st4 where dp: "deployPackage E r opts (deploy_timeout (rs_spec st1)) st3 = (answer, st4)" by fastforce
  have "deploys source (rs_trace st3) (rs_trace st4)" using deployPackage_calls [OF dp] src by simp
  then have "deploys source (rs_trace st) (rs_trace st4)"
    by (rule deploys_run [OF 1 deploys_run [OF emits_of_passes [OF 3]]])
  moreover have after: "afterDeploy E r source answer st4 = (out, st')"
    using assms(1) rd dp by (simp add: deploy_def Let_def source_def [symmetric] st1_def [symmetric] st3_def [symmetric])
  have "guarded (\<lambda>_ _. True) st4 st'"
    by (rule keeps_afterDeploy [OF _ after]) (simp add: keeps_finalizers_def)
  then have "extends st4 st'" by (auto simp: guarded_def emits_def)
  ultimately show ?thesis using deploys_emits source_def by blast
qed

text \<open>Without a deployed package the decision is to deploy.\<close>

lemma decideDeployment_None: "decideDeployment E r None st = (d, st') \<Longrightarrow> dd_needsDeploy d"
  by (auto simp: decideDeployment_def refreshed_def Let_def split: prod.splits)

text \<open>Every dependency, whenever it is read, is there and Deployed.\<close>

definition dependencies_up :: "env \<Rightarrow> ZarfPackage \<Rightarrow> bool" where
  "dependencies_up E p \<longleftrightarrow>
     (\<forall>d\<in>set (sp_DependsOn (zp_Spec p)). strings_TrimSpace (dep_Name d) \<noteq> [] \<and>
        (\<forall>tr. \<exists>q. env_GetPackage E tr (dep_namespace p d) (dep_Name d) = Inr q \<and>
           st_Phase (zp_Status q) = PhaseDeployed))"

lemma checkDeps_up:
  assumes "\<forall>d\<in>set ds. strings_TrimSpace (dep_Name d) \<noteq> [] \<and>
    (\<forall>tr. \<exists>q. env_GetPackage E tr (dep_namespace p d) (dep_Name d) = Inr q \<and> st_Phase (zp_Status q) = PhaseDeployed)"
    and "zp_Namespace (rs_pkg st) = zp_Namespace p"
  shows "\<exists>st'. checkDeps E ds [] st = (Inr (True, []), st')"
  using assms
proof (induction ds arbitrary: st)
  case (Cons d ds)
  have ns: "dep_namespace (rs_pkg st) d = dep_namespace p d" using Cons.prems(2) by (simp add: dep_namespace_def)
  obtain q where q: "env_GetPackage E (rs_trace st) (dep_namespace p d) (dep_Name d) = Inr q"
      "st_Phase (zp_Status q) = PhaseDeployed" using Cons.prems(1) by (meson list.set_intros(1))
  from Cons.IH [of "emit (AGetPackage (dep_namespace p d) (dep_Name d)) st"] Cons.prems q ns show ?case
    by (simp add: Let_def emit_def)
qed simp

lemma checkDependencies_up:
  assumes "dependencies_up E p" and "rs_spec st = zp_Spec p" and "zp_Namespace (rs_pkg st) = zp_Namespace p"
  shows "\<exists>st'. checkDependencies E st = (Inr (True, []), st')"
  using checkDeps_up [of "sp_DependsOn (zp_Spec p)" E p st] assms
  by (auto simp: checkDependencies_def dependencies_up_def)

lemma decideAndDeploy_new:
  assumes "decideAndDeploy E r None True lk st = (out, st')" and "patch_keeps_spec E" and "no_secrets (rs_spec st)"
  shows "\<exists>source. deploys source (rs_trace st) (rs_trace st')"
proof -
  obtain d st1 where d: "decideDeployment E r None st = (d, st1)" by fastforce
  with assms(1) have dep: "deploy E r (dd_source d) st1 = (out, st')"
    using decideDeployment_None [OF d] by (simp add: decideAndDeploy_def)
  have "rs_spec st1 = rs_spec st" using decideDeployment_run [OF d] by (rule runs_spec)
  with deploy_calls [OF dep assms(2)] assms(3)
  show ?thesis using deploys_run [OF emits_of_runs [OF decideDeployment_run [OF d]]] by metis
qed

lemma reconcile_new:
  assumes r: "reconcile E r st = (out, st')" and keep: "patch_keeps_spec E" and sec: "no_secrets (rs_spec st)"
    and new: "strings_TrimSpace (st_PackageName (rs_status st)) = []"
    and live: "\<not> isMaxRetriesTerminal (libs E) (rs_pkg st)"
    and up: "dependencies_up E (rs_pkg st)"
  shows "\<exists>source. deploys source (rs_trace st) (rs_trace st')"
proof -
  obtain st1 where c: "checkDependencies E st = (Inr (True, []), st1)" using checkDependencies_up [OF up] by auto
  let ?st = "markDependenciesMet E st1"
  have run: "runs {KGetPackage} st ?st"
    by (intro markDependenciesMet_run passes_runs checkDependencies_pass [OF c])
  have "decideAndDeploy E r None True False ?st = (out, st')"
    using r c new live by (simp add: reconcile_def)
  from decideAndDeploy_new [OF this keep] runs_spec [OF run] sec
  obtain source where "deploys source (rs_trace ?st) (rs_trace st')" by auto
  then show ?thesis using deploys_run [OF emits_of_runs [OF run]] by blast
qed

text \<open>A new package that is due is deployed by its reconcile.\<close>

lemma activated_pkg:
  "rs_spec (activated E st) = rs_spec st" "st_PackageName (rs_status (activated E st)) = st_PackageName (rs_status st)"
  "st_Phase (rs_status (activated E st)) = st_Phase (rs_status st)" "zp_Annotations (rs_pkg (activated E st)) = zp_Annotations (rs_pkg st)"
  "zp_Namespace (rs_pkg (activated E st)) = zp_Namespace (rs_pkg st)"
  by (simp_all add: activated_def setSuspendedMetric_def emit_def on_pkg_def setCondition_def on_status_def)

lemma reconcileBody_active: "active E r (rs_pkg st) \<Longrightarrow> reconcileBody E r st = reconcile E r (activated E st)"
  by (simp add: reconcileBody_def active_def activated_def Let_def)

lemma Reconcile_new:
  assumes R: "Reconcile E r ns name tr = (out, tr')" and get: "env_GetPackage E tr ns name = Inr p"
    and act: "active E r p" and new: "strings_TrimSpace (st_PackageName (zp_Status p)) = []"
    and live: "st_Phase (zp_Status p) \<noteq> PhaseFailed" and keep: "patch_keeps_spec E"
    and sec: "no_secrets (zp_Spec p)" and up: "dependencies_up E p"
  shows "\<exists>source. deploys source tr tr'"
proof -
  let ?st = "fetched p (tr @ [AGetPackage ns name])"
  have fp: "rs_pkg ?st = p" by (simp add: fetched_def)
  obtain ret st1 st2 where b: "reconcileBody E r ?st = (ret, st1)"
    and d: "deferredStatusPatch E (ret, st1) = (out, st2)" and t: "rs_trace st2 = tr'"
    using Reconcile_run [OF R get] .
  have "reconcile E r (activated E ?st) = (ret, st1)" using b reconcileBody_active [of E r ?st] act fp by simp
  moreover have "dependencies_up E (rs_pkg (activated E ?st))"
    using up unfolding dependencies_up_def activated_pkg dep_namespace_def fp .
  moreover have "\<not> isMaxRetriesTerminal (libs E) (rs_pkg (activated E ?st))"
    using live by (simp add: isMaxRetriesTerminal_def activated_pkg fp)
  ultimately obtain source where "deploys source (rs_trace (activated E ?st)) (rs_trace st1)"
    using reconcile_new keep sec new by (metis activated_pkg(1,2) fp)
  then have "deploys source (rs_trace ?st) (rs_trace st1)"
    using deploys_run [OF emits_of_runs [OF activated_run]] by blast
  then have "deploys source tr (rs_trace st1)" by (rule deploys_later) (simp add: fetched_def)
  with deploys_emits [OF _ deferredStatusPatch_emits [OF d]] t show ?thesis by blast
qed

end
