(* ===== verification/Reference_Run.thy ===== *)
theory Reference_Run
  imports Status_Ops
begin

text \<open>
  The configurations and the initial state of the closed instances of the properties: a reconciler
  with a Zarf client and no event recorder, the same without a client, and the state in which a
  reconcile starts on the object of \<^const>\<open>ref_env\<close>.
\<close>

definition wit_reconciler :: reconciler where
  "wit_reconciler =
     \<lparr>r_RequeueInterval = 5 * minute, r_MaxConcurrentReconciles = 1, r_recorder = False,
      r_ZarfClient = True, r_OCITagResolver = None, r_helmReleaseExistsFn = None,
      r_helmReleaseStatusFn = None, r_fixStuckHelmReleaseFn = None\<rparr>"

definition wit_offline :: reconciler where
  "wit_offline = wit_reconciler\<lparr>r_ZarfClient := False\<rparr>"

definition wit_state :: rstate where
  "wit_state = \<lparr>rs_pkg = ref_pkg, rs_original = ref_pkg, rs_trace = []\<rparr>"

end
