(* ===== verification/Upgrade_Properties.thy ===== *)
theory Upgrade_Properties
  imports Decision Reference_Run
begin

section \<open>Correctness of upgrade discovery and source selection\<close>

text \<open>Which tag is chosen, that sources never go backwards, and that the two readings of a pending upgrade agree.\<close>

subsection \<open>The chosen tag\<close>

text \<open>The constraint the policy expression stands for: none when it is blank.\<close>

definition constraint_of :: "lib \<Rightarrow> string \<Rightarrow> (semver_Version \<Rightarrow> bool) option" where
  "constraint_of L expr =
     (if strings_TrimSpace expr = [] then None
      else (case semver_NewConstraint L expr of Inl _ \<Rightarrow> None | Inr chk \<Rightarrow> Some chk))"

text \<open>
  Property C18. The upgrade that is selected is one of the listed tags: a full semantic version without
  prerelease, newer than the current one and allowed by the constraint, and no other such tag is newer.
  Nothing is selected only when no listed tag is eligible.
\<close>

theorem selectLatestSemverUpgrade_newest:
  assumes "semver_order (semver_GreaterThan L)"
    and "strictSemverVersion L currentTag = Inr current"
    and "selectLatestSemverUpgrade L currentTag tags expr = Inr res"
  shows "case res of
      None \<Rightarrow> \<forall>tag\<in>set tags. \<forall>v. \<not> eligible L current (constraint_of L expr) tag v
    | Some c \<Rightarrow> cand_Tag c \<in> set tags \<and>
        eligible L current (constraint_of L expr) (cand_Tag c) (cand_version c) \<and>
        (\<forall>tag\<in>set tags. \<forall>v. eligible L current (constraint_of L expr) tag v \<longrightarrow>
           \<not> semver_GreaterThan L v (cand_version c))"
proof -
  have "res = selectLoop L current (constraint_of L expr) tags None"
    using assms(2,3) by (auto simp: selectLatestSemverUpgrade_def constraint_of_def split: if_splits sum.splits)
  then have "best_of L current (constraint_of L expr) tags None res"
    using selectLoop_best [OF assms(1)] by simp
  then show ?thesis
    by (cases res) (auto simp: best_of_def candidate_of_def)
qed

theorem selectLatestSemverUpgrade_newest_witness:
  "\<exists>c. selectLatestSemverUpgrade ref_lib ''1.0.0'' [''latest'', ''1.2.0'', ''1.10.0'', ''2.0.0-rc1'', ''1.9.9''] [] = Inr (Some c) \<and>
     cand_Tag c = ''1.10.0'' \<and>
     (\<forall>tag\<in>set [''latest'', ''1.2.0'', ''1.10.0'', ''2.0.0-rc1'', ''1.9.9'']. \<forall>v.
        eligible ref_lib \<lparr>ver_Major = 1, ver_Minor = 0, ver_Patch = 0, ver_Prerelease = [], ver_Metadata = [],
          ver_Original = ''1.0.0''\<rparr> None tag v \<longrightarrow> \<not> semver_GreaterThan ref_lib v (cand_version c))"
proof -
  let ?tags = "[''latest'', ''1.2.0'', ''1.10.0'', ''2.0.0-rc1'', ''1.9.9'']"
  let ?cur = "\<lparr>ver_Major = 1, ver_Minor = 0, ver_Patch = 0, ver_Prerelease = [], ver_Metadata = [],
    ver_Original = ''1.0.0''\<rparr>"
  have cur: "strictSemverVersion ref_lib ''1.0.0'' = Inr ?cur" by code_simp
  have ord: "semver_order (semver_GreaterThan ref_lib)" by (simp add: ref_semver.semver_order_axioms)
  have "map_sum (\<lambda>_. ()) (map_option cand_Tag) (selectLatestSemverUpgrade ref_lib ''1.0.0'' ?tags []) = Inr (Some ''1.10.0'')"
    by code_simp
  then obtain c where c: "selectLatestSemverUpgrade ref_lib ''1.0.0'' ?tags [] = Inr (Some c)" "cand_Tag c = ''1.10.0''"
    by (cases "selectLatestSemverUpgrade ref_lib ''1.0.0'' ?tags []") auto
  have "constraint_of ref_lib [] = None" by (simp add: constraint_of_def)
  with selectLatestSemverUpgrade_newest [OF ord cur c(1)]
  have "\<forall>tag\<in>set ?tags. \<forall>v. eligible ref_lib ?cur None tag v \<longrightarrow> \<not> semver_GreaterThan ref_lib v (cand_version c)"
    by (simp only: option.case) blast
  with c show ?thesis by blast
qed

subsection \<open>Sources never go backwards\<close>

text \<open>Two sources of one repository, the second with the newer version tag.\<close>

definition newer_source :: "lib \<Rightarrow> string \<Rightarrow> string \<Rightarrow> bool" where
  "newer_source L a b \<longleftrightarrow>
     (\<exists>ra rb va vb. parseOCISourceForTagList L a = Inr ra \<and> parseOCISourceForTagList L b = Inr rb \<and>
        ref_Repository ra = ref_Repository rb \<and> strictSemverVersion L (ref_Tag ra) = Inr va \<and>
        strictSemverVersion L (ref_Tag rb) = Inr vb \<and> semver_GreaterThan L vb va)"

lemma newer_source_trans:
  "semver_order (semver_GreaterThan L) \<Longrightarrow> newer_source L a b \<Longrightarrow> newer_source L b c \<Longrightarrow> newer_source L a c"
  unfolding newer_source_def using semver_order.gt_trans by fastforce

lemma preferred_newer:
  "preferredResolvedSemverSource L a b = Some s \<Longrightarrow> newer_source L a b \<and> s = strings_TrimSpace b"
  by (auto simp: preferredResolvedSemverSource_def newer_source_def split: sum.splits if_splits)

lemma pending_newer:
  "pendingAvailableSemverSource L a b expr = Some s \<Longrightarrow> newer_source L a b \<and> s = strings_TrimSpace b"
  by (auto simp: pendingAvailableSemverSource_def newer_source_def split: sum.splits if_splits)

lemma currentSemverSource_cases:
  obtains "currentSemverSource L p = strings_TrimSpace (sp_Source (zp_Spec p))"
  | "newer_source L (strings_TrimSpace (sp_Source (zp_Spec p))) (currentSemverSource L p)"
  by (cases "preferredResolvedSemverSource L (strings_TrimSpace (sp_Source (zp_Spec p)))
        (strings_TrimSpace (st_Source (zp_Status p)))")
    (auto simp: currentSemverSource_def TrimSpace_idem dest!: preferred_newer)


definition wit_upgraded :: ZarfPackage where
  "wit_upgraded = ref_pkg\<lparr>zp_Status := zero_status\<lparr>st_Source := ''oci://r/p:1.4.0''\<rparr>\<rparr>"


subsection \<open>Pending upgrades\<close>

text \<open>
  The two readings of a recorded upgrade are complementary: a source that is recorded as available
  either violates the current policy, and is cleared, or is pending, and is deployed.
\<close>

lemma pending_iff_not_violating:
  assumes "strings_TrimSpace availableSource \<noteq> []"
  shows "pendingAvailableSemverSource L currentSource availableSource expr = None \<longleftrightarrow>
    availableSourceViolatesCurrentPolicy L currentSource availableSource expr"
  using assms
  by (auto simp: pendingAvailableSemverSource_def availableSourceViolatesCurrentPolicy_def split: sum.splits if_splits)



subsection \<open>When to deploy\<close>

lemma evaluateAutoUpgrade_disabled:
  "\<not> upgrades_enabled (rs_spec st) \<Longrightarrow>
   evaluateAutoUpgrade E r st = (\<lparr>au_checked = False, au_source = [], au_requeueAfter = 0\<rparr>, st)"
  by (auto simp: evaluateAutoUpgrade_def upgrades_enabled_def split: option.splits)

lemma driftDecision_needs:
  "driftDecision E r dp d st = (d', st') \<Longrightarrow> dd_needsDeploy d' \<longleftrightarrow> dd_needsDeploy d \<or>
     (sp_SyncPolicy (rs_spec st) = SyncPolicyRemediate \<and> fst (fst (checkHelmDrift E r dp st)))"
  using checkHelmDrift_run [of E r dp st]
  by (auto simp: driftDecision_def Let_def on_pkg_def on_status_def event_def emit_def setCondition_def
      split: if_splits prod.splits)

lemma decideDeployment_needs:
  assumes "decideDeployment E r deployedPkg st = (d, st')" and "\<not> upgrades_enabled (rs_spec st)"
  shows "dd_needsDeploy d \<longleftrightarrow>
    deployedPkg = None \<or> zp_Annotations (rs_pkg st) AnnotationRedeploy \<noteq> None \<or>
    hasFailedDeployedComponent deployedPkg \<or> st_Phase (rs_status st) = PhaseFailed \<or>
    deploymentSpecChanged (rs_pkg st) \<or>
    (sp_SyncPolicy (rs_spec st) = SyncPolicyRemediate \<and>
     fst (fst (checkHelmDrift E r deployedPkg (on_pkg (pruneAutoUpgradeStatus (libs E)) st))))"
proof -
  define st0 where "st0 = on_pkg (pruneAutoUpgradeStatus (libs E)) st"
  have run: "runs {} st st0" unfolding st0_def by (intro runs_prune runs_refl)
  then have keep: "rs_spec st0 = rs_spec st" "zp_Annotations (rs_pkg st0) = zp_Annotations (rs_pkg st)"
    by (auto simp: runs_def status_only_iff)
  have ph: "st_Phase (rs_status st0) = st_Phase (rs_status st)"
    and hash: "st_DeployedSpecHash (rs_status st0) = st_DeployedSpecHash (rs_status st)"
    by (auto simp: st0_def on_pkg_def pruneAutoUpgradeStatus_def clearAvailableUpgrade_def on_status_def
        setCondition_def split: option.splits)
  have ch: "deploymentSpecChanged (rs_pkg st0) = deploymentSpecChanged (rs_pkg st)"
    by (simp add: deploymentSpecChanged_def hash keep)
  have up: "evaluateAutoUpgrade E r st0 = (\<lparr>au_checked = False, au_source = [], au_requeueAfter = 0\<rparr>, st0)"
    using assms(2) keep by (simp add: evaluateAutoUpgrade_disabled)
  let ?d = "\<lparr>dd_needsDeploy = False, dd_source = deploymentSource (libs E) (rs_pkg st0),
    dd_requeueAfter = requeueAfter r (rs_pkg st0)\<rparr>"
  have "(if deployedPkg = None \<or> zp_Annotations (rs_pkg st) AnnotationRedeploy \<noteq> None \<or>
      hasFailedDeployedComponent deployedPkg \<or> st_Phase (rs_status st) = PhaseFailed \<or>
      deploymentSpecChanged (rs_pkg st) then dd_needsDeploy d
     else driftDecision E r deployedPkg ?d st0 = (d, st'))"
    using assms(1) unfolding decideDeployment_def Let_def st0_def [symmetric] keep ph ch refreshed_def upgradeOrDrift_def up
    by (auto split: if_splits prod.splits)
  then show ?thesis
    using driftDecision_needs [of E r deployedPkg ?d st0 d st'] unfolding st0_def [symmetric] keep
    by (auto split: if_splits)
qed



end
