(* ===== verification/Deploy_Properties.thy ===== *)
theory Deploy_Properties
  imports Deploy Upgrade_Properties
begin

section \<open>What a deployment attempt does\<close>

text \<open>
  Properties of the deploy handler beyond the consistency of the statuses: how often it calls Zarf,
  how it counts failures, that a success is not repeated, and what the sidecar's busy answer does.
\<close>

subsection \<open>Calls\<close>

definition deploy_count :: "action list \<Rightarrow> nat" where
  "deploy_count tr = length (filter (\<lambda>a. kind a = KDeploy) tr)"

definition new_actions :: "rstate \<Rightarrow> rstate \<Rightarrow> action list" where
  "new_actions st st' = drop (length (rs_trace st)) (rs_trace st')"

lemma emits_new: "emits K st st' \<Longrightarrow> rs_trace st' = rs_trace st @ new_actions st st' \<and> kind ` set (new_actions st st') \<subseteq> K"
  by (auto simp: emits_def new_actions_def)

lemma emits_no_deploy: "emits K st st' \<Longrightarrow> KDeploy \<notin> K \<Longrightarrow> deploy_count (new_actions st st') = 0"
  using emits_new [of K st st'] by (auto simp: deploy_count_def filter_empty_conv)

lemma new_actions_trans:
  assumes "emits K st st'" and "emits K' st' st''"
  shows "new_actions st st'' = new_actions st st' @ new_actions st' st''"
  using emits_new [OF assms(1)] emits_new [OF assms(2)] by (metis append.assoc append_eq_conv_conj new_actions_def)

lemma deploy_count_append: "deploy_count (xs @ ys) = deploy_count xs + deploy_count ys"
  by (simp add: deploy_count_def)

lemma call_Deploy_step:
  "call_Deploy E opts timeout st = (ans, st') \<Longrightarrow>
     emits {KDeploy} st st' \<and> new_actions st st' = [ADeploy opts (wrap64 (timeout + minute))] \<and>
     ans = env_Deploy E (rs_trace st) opts (wrap64 (timeout + minute))"
  by (auto simp: call_Deploy_def Let_def emit_def emits_def new_actions_def)

lemma event_count:
  assumes "emits K st st'" and "KEvent \<in> K" and "deploy_count (new_actions st st') = n"
  shows "emits K st (event r ty reason msg st') \<and> deploy_count (new_actions st (event r ty reason msg st')) = n"
proof -
  have e: "emits {KEvent} st' (event r ty reason msg st')" by (auto simp: event_def emits_def emit_def)
  then have "emits K st (event r ty reason msg st')" using emits_trans [OF assms(1) emits_mono [OF e]] assms(2) by simp
  moreover have "deploy_count (new_actions st (event r ty reason msg st')) = n"
    using new_actions_trans [OF assms(1) e] emits_no_deploy [OF e] assms(3) by (simp add: deploy_count_append)
  ultimately show ?thesis ..
qed

text \<open>The retry: at most one more call, and only after Helm's lock was recognised and released.\<close>

lemma retry_calls:
  assumes "retryDeployAfterHelmRecovery E r opts timeout e st = (x, st')"
  shows "emits {KHelm, KEvent, KDeploy} st st' \<and> deploy_count (new_actions st st') \<le> 1 \<and>
    (deploy_count (new_actions st st') = 1 \<longrightarrow>
       (\<exists>d. errors_AsDeployError e = Some d \<and> IsHelmOperationInProgress d \<and>
         0 < fst (cleanupStuckHelmReleases E r (event r EventTypeWarning ''HelmStuck''
           ''Detected helm operation in progress; attempting automatic recovery'' st))))"
proof -
  let ?st1 = "event r EventTypeWarning ''HelmStuck''
    ''Detected helm operation in progress; attempting automatic recovery'' st"
  obtain n st2 where c: "cleanupStuckHelmReleases E r ?st1 = (n, st2)" by fastforce
  have p2: "passes {KHelm, KEvent} st st2"
    using passes_trans [OF passes_event [OF _ passes_refl] cleanupStuckHelmReleases_pass [OF c]] by simp
  then have e2: "emits {KHelm, KEvent} st st2" by (simp add: passes_def)
  have n2: "deploy_count (new_actions st st2) = 0" using emits_no_deploy [OF e2] by simp
  obtain ans st3 where d: "call_Deploy E opts timeout st2 = (ans, st3)" by fastforce
  note d' = call_Deploy_step [OF d]
  have e3: "emits {KHelm, KEvent, KDeploy} st st3"
    using emits_trans [OF emits_mono [OF e2] emits_mono [of "{KDeploy}" st2 st3]] d' by auto
  have n3: "deploy_count (new_actions st st3) = 1"
    using new_actions_trans [OF e2, of "{KDeploy}" st3] d' n2 by (simp add: deploy_count_append) (simp add: deploy_count_def)
  note ev = event_count [OF e3 _ n3]
  consider "errors_AsDeployError e = None \<or> (\<exists>d. errors_AsDeployError e = Some d \<and> \<not> IsHelmOperationInProgress d)" "st' = st"
    | "n = 0" "st' = st2"
    | d0 where "errors_AsDeployError e = Some d0" "IsHelmOperationInProgress d0" "0 < n"
        "st' = st3 \<or> (\<exists>ty reason msg. st' = event r ty reason msg st3)"
    using assms c d
    by (auto simp: retryDeployAfterHelmRecovery_def Let_def split: option.splits if_splits prod.splits)
  then show ?thesis
  proof cases
    case 1
    then show ?thesis by (simp add: new_actions_def deploy_count_def)
  next
    case 2
    then show ?thesis using n2 emits_mono [OF e2] by auto
  next
    case 3
    then show ?thesis using e3 n3 ev c by auto
  qed
qed

lemma deployPackage_count:
  assumes "deployPackage E r opts timeout st = (x, st')"
  shows "deploy_count (new_actions st st') \<in> {1, 2} \<and>
    (deploy_count (new_actions st st') = 2 \<longrightarrow>
       (\<exists>e d. snd (env_Deploy E (rs_trace st) opts (wrap64 (timeout + minute))) = Some e \<and>
          errors_AsDeployError e = Some d \<and> IsHelmOperationInProgress d))"
proof -
  obtain ans st1 where d: "call_Deploy E opts timeout st = (ans, st1)" by fastforce
  note d' = call_Deploy_step [OF d]
  have n1: "deploy_count (new_actions st st1) = 1" using d' by (simp add: deploy_count_def)
  show ?thesis
  proof (cases "snd ans")
    case None
    with assms d have "st' = st1" by (cases ans) (auto simp: deployPackage_def split: option.splits)
    with n1 show ?thesis by simp
  next
    case (Some e)
    obtain y st2 where r: "retryDeployAfterHelmRecovery E r opts timeout e st1 = (y, st2)" by fastforce
    with assms d Some have st': "st' = st2" by (cases ans; cases y) (auto simp: deployPackage_def split: option.splits)
    note r' = retry_calls [OF r]
    have "deploy_count (new_actions st st2) = 1 + deploy_count (new_actions st1 st2)"
      using new_actions_trans [of "{KDeploy}" st st1 "{KHelm, KEvent, KDeploy}" st2] d' r' n1
      by (simp only: deploy_count_append)
    with r' st' d' Some show ?thesis by (cases ans) auto
  qed
qed



subsection \<open>Failures\<close>

text \<open>The failure count, and status and reason of the Ready condition; what leaves them alone.\<close>

definition failures :: "rstate \<Rightarrow> int" where
  "failures st = st_FailureCount (rs_status st)"

definition ready :: "env \<Rightarrow> rstate \<Rightarrow> (ConditionStatus \<times> string) option" where
  "ready E st = map_option (\<lambda>c. (cond_Status c, cond_Reason c))
     (apimeta_FindStatusCondition (libs E) (st_Conditions (rs_status st)) ConditionTypeReady)"

lemma on_status_frame [frame]:
  "(\<And>s. st_FailureCount (f s) = st_FailureCount s) \<Longrightarrow> failures (on_pkg (on_status f) st) = failures st"
  "(\<And>s. st_Conditions (f s) = st_Conditions s) \<Longrightarrow> ready E (on_pkg (on_status f) st) = ready E st"
  by (simp_all add: failures_def ready_def on_pkg_def on_status_def)

lemma passes_frame: "passes K st st' \<Longrightarrow> failures st' = failures st \<and> ready E st' = ready E st"
  by (simp add: passes_def failures_def ready_def)

lemma failures_frame [frame]:
  "failures (emit a st) = failures st" "failures (event r ty reason msg st) = failures st"
  "failures (recordFailureMetric m st) = failures st" "failures (deployErrEvents r d st) = failures st"
  "failures (on_pkg (setPhase ph) st) = failures st" "failures (set_cond E t s reason msg st) = failures st"
  "failures (on_pkg (markFailedComponentStatus d) st) = failures st"
  "failures (recordFailure E st) = wrap32 (failures st + 1)"
  "failures (markMaxRetriesExceeded E r what st) = failures st"
  using deployErrEvents_pass [of st r d, THEN passes_frame]
  by (auto simp: failures_def emit_def event_def recordFailureMetric_def on_pkg_def on_status_def setPhase_def
      setCondition_def markFailedComponentStatus_def recordFailure_def markMaxRetriesExceeded_def Let_def
      split: option.splits)

lemma ready_frame [frame]:
  "ready E (emit a st) = ready E st" "ready E (event r ty reason msg st) = ready E st"
  "ready E (recordFailureMetric m st) = ready E st" "ready E (deployErrEvents r d st) = ready E st"
  "ready E (on_pkg (setPhase ph) st) = ready E st"
  "ready E (on_pkg (markFailedComponentStatus d) st) = ready E st"
  "ready E (recordFailure E' st) = ready E st"
  using deployErrEvents_pass [of st r d, THEN passes_frame]
  by (auto simp: ready_def emit_def event_def recordFailureMetric_def on_pkg_def on_status_def setPhase_def
      markFailedComponentStatus_def recordFailure_def Let_def split: option.splits)

lemma afterDeploy_err:
  "afterDeploy E r source (result, Some err) st =
     (if status_Code (libs E) err = codes_ResourceExhausted then
        ((Result_after sidecarBusyRequeue, None),
         set_cond E ConditionTypeReady ConditionFalse ReasonDeploying ''Waiting for sidecar deploy slot''
           (set_cond E ConditionTypeProgressing ConditionTrue ReasonDeploying ''Waiting for sidecar deploy slot'' st))
      else if status_Code (libs E) err = codes_Canceled then ((Result_requeue, None), st)
      else deployFailed E r result err st)"
  by (cases result) (simp_all add: afterDeploy_def)

context cond_env
begin

lemma ready_set [frame]:
  "ready E (set_cond E t s reason msg st) =
     (if t = ConditionTypeReady then Some (s, reason) else ready E st)"
  by (simp add: ready_def on_pkg_def setCondition_def on_status_def find_set)

lemma terminal_ready:
  "isMaxRetriesTerminal (libs E) (rs_pkg st) \<longleftrightarrow>
     fst (vw E st) = PhaseFailed \<and> ready E st = Some (ConditionFalse, ReasonMaxRetriesExceeded)"
  by (auto simp: isMaxRetriesTerminal_def vw_def view_def ready_def split: option.splits)

lemma ready_markMaxRetriesExceeded [frame]:
  "ready E (markMaxRetriesExceeded E r what st) = Some (ConditionFalse, ReasonMaxRetriesExceeded)"
  by (simp add: markMaxRetriesExceeded_def Let_def frame)

lemma deployFailed_accounting:
  assumes "deployFailed E r result err st = (out, st')"
  shows "snd out = None \<and>
    (if isUserRecoverableError (libs E) err
     then failures st' = failures st \<and> fst out = Result_after (r_RequeueInterval r) \<and>
       ready E st' = Some (ConditionFalse, ReasonDeployFailed)
     else failures st' = wrap32 (failures st + 1) \<and>
       (if maxRetriesExceeded (rs_pkg st')
        then fst out = Result_after (r_RequeueInterval r) \<and> ready E st' = Some (ConditionFalse, ReasonMaxRetriesExceeded)
        else fst out = backoff_result E st' \<and> ready E st' = Some (ConditionFalse, ReasonDeployFailed)))"
proof -
  have c: "failures (case x of None \<Rightarrow> b | Some y \<Rightarrow> on_pkg (on_status (\<lambda>s. s\<lparr>st_ComponentStatuses := g y\<rparr>)) b) = failures b"
    for x b and g :: "DeployResult \<Rightarrow> ComponentStatus list"
    by (cases x) (simp_all add: frame)
  have m: "maxRetriesExceeded (rs_pkg (markMaxRetriesExceeded E r what s)) = maxRetriesExceeded (rs_pkg s)" for what s
    by (simp add: markMaxRetriesExceeded_def Let_def maxRetriesExceeded_def on_pkg_def on_status_def
        setPhase_def setCondition_def event_def emit_def)
  show ?thesis
    using assms by (auto simp: deployFailed_def Let_def c m frame split: if_splits)
qed

lemma afterDeploy_accounting:
  assumes "afterDeploy E r source (result, Some err) st = (out, st')"
  shows "snd out = None \<and>
    (let code = status_Code (libs E) err; n = st_FailureCount (rs_status st); n' = st_FailureCount (rs_status st') in
     if code = codes_ResourceExhausted
     then n' = n \<and> st_Phase (rs_status st') = st_Phase (rs_status st) \<and> fst out = Result_after sidecarBusyRequeue
     else if code = codes_Canceled then st' = st \<and> fst out = Result_requeue
     else st_Phase (rs_status st') = PhaseFailed \<and>
       cstat (libs E) (rs_status st') ConditionTypeReady = Some ConditionFalse \<and>
       (if isUserRecoverableError (libs E) err
        then n' = n \<and> fst out = Result_after (r_RequeueInterval r) \<and>
          cstat (libs E) (rs_status st') ConditionTypeStalled = Some ConditionTrue \<and>
          \<not> isMaxRetriesTerminal (libs E) (rs_pkg st')
        else n' = wrap32 (n + 1) \<and>
          (isMaxRetriesTerminal (libs E) (rs_pkg st') \<longleftrightarrow> 0 < sp_MaxRetries (rs_spec st) \<and> sp_MaxRetries (rs_spec st) \<le> n') \<and>
          fst out = (if isMaxRetriesTerminal (libs E) (rs_pkg st') then Result_after (r_RequeueInterval r)
            else Result_after (calculateBackoff (env_Int63n E (rs_trace st') backoffMaxJitter) n'))))"
proof -
  let ?code = "status_Code (libs E) err"
  show ?thesis
  proof (cases "?code = codes_ResourceExhausted \<or> ?code = codes_Canceled")
    case True
    then show ?thesis
      using assms by (auto simp: afterDeploy_err Let_def on_pkg_def on_status_def setCondition_def)
  next
    case False
    then have d: "deployFailed E r result err st = (out, st')" using assms by (simp add: afterDeploy_err)
    have t: "isMaxRetriesTerminal (libs E) (rs_pkg st') \<longleftrightarrow>
        \<not> isUserRecoverableError (libs E) err \<and> maxRetriesExceeded (rs_pkg st')"
      using deployFailed_accounting [OF d] deployFailed_vw [OF d] by (auto simp: terminal_ready split: if_splits)
    have "st_Phase (rs_status st') = PhaseFailed" "cstat (libs E) (rs_status st') ConditionTypeReady = Some ConditionFalse"
        "isUserRecoverableError (libs E) err \<Longrightarrow> cstat (libs E) (rs_status st') ConditionTypeStalled = Some ConditionTrue"
      using deployFailed_vw [OF d] by (auto simp: vw_def view_def)
    moreover have "rs_spec st' = rs_spec st" using deployFailed_run [OF d] by (rule runs_spec)
    ultimately show ?thesis
      using deployFailed_accounting [OF d] False unfolding t
      by (auto simp: Let_def failures_def backoff_result_def maxRetriesExceeded_def split: if_splits)
  qed
qed

end

text \<open>
  Property C5. The controller treats the ways a deployment can fail as its retry policy says, and none
  of them surfaces as an error of the reconcile. A busy sidecar is retried soon and a cancelled call at
  once, and neither counts as a failure. An error in the user's input is not counted either: the package
  is Failed and Stalled and waits for the interval. Every other error adds one to the failure count; below
  the retry limit the next attempt follows after the backoff for that count, and when the limit is
  reached the package becomes terminal. A package below its limit is never made terminal.
\<close>

theorem deploy_error_accounting:
  assumes "cond_env E" and "afterDeploy E r source (result, Some err) st = (out, st')"
  shows "snd out = None \<and>
    (let code = status_Code (libs E) err; n = st_FailureCount (rs_status st); n' = st_FailureCount (rs_status st') in
     if code = codes_ResourceExhausted
     then n' = n \<and> st_Phase (rs_status st') = st_Phase (rs_status st) \<and> fst out = Result_after sidecarBusyRequeue
     else if code = codes_Canceled then st' = st \<and> fst out = Result_requeue
     else st_Phase (rs_status st') = PhaseFailed \<and>
       cstat (libs E) (rs_status st') ConditionTypeReady = Some ConditionFalse \<and>
       (if isUserRecoverableError (libs E) err
        then n' = n \<and> fst out = Result_after (r_RequeueInterval r) \<and>
          cstat (libs E) (rs_status st') ConditionTypeStalled = Some ConditionTrue \<and>
          \<not> isMaxRetriesTerminal (libs E) (rs_pkg st')
        else n' = wrap32 (n + 1) \<and>
          (isMaxRetriesTerminal (libs E) (rs_pkg st') \<longleftrightarrow> 0 < sp_MaxRetries (rs_spec st) \<and> sp_MaxRetries (rs_spec st) \<le> n') \<and>
          fst out = (if isMaxRetriesTerminal (libs E) (rs_pkg st') then Result_after (r_RequeueInterval r)
            else Result_after (calculateBackoff (env_Int63n E (rs_trace st') backoffMaxJitter) n'))))"
  by (rule cond_env.afterDeploy_accounting [OF assms])

theorem deploy_error_accounting_witness:
  "st_FailureCount (rs_status (snd (afterDeploy (ref_env ref_pkg) wit_reconciler ''oci://r/app:1.0.0''
     (None, Some (StatusError codes_Internal ''boom'' [])) wit_state))) = 1"
proof -
  have c: "status_Code ref_lib (StatusError codes_Internal ''boom'' []) = codes_Internal"
    by (simp add: ref_defs)
  have n: "st_FailureCount (rs_status wit_state) = 0" by (simp add: wit_state_def ref_defs zero_status_def)
  show ?thesis
    using deploy_error_accounting [OF ref_conditions.cond_env_axioms surjective_pairing, of ref_pkg wit_reconciler
        "''oci://r/app:1.0.0''" None "StatusError codes_Internal ''boom'' []" wit_state]
    by (simp add: c n isUserRecoverableError_def Let_def wrap32_def split: if_splits)
qed

subsection \<open>Success\<close>

lemma applyDeploySuccess_status:
  "st_Phase (rs_status (applyDeploySuccessStatus E r result source st)) = PhaseDeployed"
  "st_DeployedSpecHash (rs_status (applyDeploySuccessStatus E r result source st)) = DeploymentHash (rs_spec st)"
  "failures (applyDeploySuccessStatus E r result source st) = 0"
proof -
  define seen where "seen = (\<lambda>st. (st_Phase (rs_status st), st_DeployedSpecHash (rs_status st), failures st))"
  have keep: "seen (set_cond E t v reason msg s) = seen s" "seen (event r ty reason msg s) = seen s"
      "seen (on_pkg (clearAvailableUpgrade L reason msg) s) = seen s"
      "seen (on_pkg (on_status (\<lambda>x. x\<lparr>st_DriftInfo := d\<rparr>)) s) = seen s" for t v reason msg s ty L d
    by (simp_all add: seen_def failures_def on_pkg_def on_status_def setCondition_def event_def emit_def
        clearAvailableUpgrade_def)
  have keep_if: "seen (if b then x else y) = (if b then seen x else seen y)" for b x y by simp
  have "seen (applyDeploySuccessStatus E r result source st) = (PhaseDeployed, DeploymentHash (rs_spec st), 0)"
    unfolding applyDeploySuccessStatus_def Let_def keep keep_if if_cancel
    by (simp add: seen_def failures_def on_pkg_def on_status_def resetFailures_def)
  then show "st_Phase (rs_status (applyDeploySuccessStatus E r result source st)) = PhaseDeployed"
    "st_DeployedSpecHash (rs_status (applyDeploySuccessStatus E r result source st)) = DeploymentHash (rs_spec st)"
    "failures (applyDeploySuccessStatus E r result source st) = 0"
    by (simp_all add: seen_def)
qed

lemma deploySucceeded_status:
  assumes "deploySucceeded E r result source st = (out, st')" and "zp_Annotations (rs_pkg st) AnnotationRedeploy = None"
  shows "out = (Result_after (requeueAfter r (rs_pkg st)), None) \<and> st_Phase (rs_status st') = PhaseDeployed \<and>
    st_DeployedSpecHash (rs_status st') = DeploymentHash (rs_spec st) \<and> st_FailureCount (rs_status st') = 0 \<and>
    rs_spec st' = rs_spec st \<and> zp_Annotations (rs_pkg st') = zp_Annotations (rs_pkg st)"
proof -
  let ?st1 = "applyDeploySuccessStatus E r result source (emit (AMetric (MDeployDuration ''success'')) st)"
  have run: "runs {KEvent} (emit (AMetric (MDeployDuration ''success'')) st) ?st1"
    by (rule applyDeploySuccess_run) simp_all
  then have keep: "zp_Annotations (rs_pkg ?st1) = zp_Annotations (rs_pkg st)" "rs_spec ?st1 = rs_spec st"
    by (auto simp: runs_def status_only_iff emit_def)
  have req: "requeueAfter r p = requeueAfter r q" if "zp_Spec p = zp_Spec q" for p q
    using that by (simp add: requeueAfter_def)
  define ev where "ev = (if sp_HelmDebugEnabled (rs_spec ?st1) \<and> dr_DeployLogs result \<noteq> []
    then event r EventTypeNormal ReasonHelmDebugLogs (formatLogSummary (dr_DeployLogs result) 1024) ?st1 else ?st1)"
  have ev: "rs_pkg ev = rs_pkg ?st1" by (simp add: ev_def event_def emit_def)
  then have "clearRedeployAnnotation E r ev = (None, ev)"
    using assms(2) keep by (simp add: clearRedeployAnnotation_def)
  then have "st' = ev" "out = (Result_after (requeueAfter r (rs_pkg ev)), None)"
    using assms(1) unfolding deploySucceeded_def Let_def ev_def [symmetric] by auto
  moreover have "requeueAfter r (rs_pkg ev) = requeueAfter r (rs_pkg st)" by (rule req) (simp add: ev keep)
  ultimately show ?thesis
    using applyDeploySuccess_status [of E r result source "emit (AMetric (MDeployDuration ''success'')) st"]
    by (simp add: ev failures_def keep) (simp add: emit_def)
qed


definition wit_result :: DeployResult where
  "wit_result = \<lparr>dr_PackageName = ''app'', dr_Version = ''1.0.0'', dr_Generation = 1,
     dr_DeployedComponents = [\<lparr>dc_Name = ''web'', dc_Status = ComponentStatusSucceeded,
       dc_InstalledCharts = [], dc_ObservedGeneration = 1\<rparr>], dr_DeployLogs = []\<rparr>"

definition wit_record_of :: "DeployResult \<Rightarrow> PackageInfo" where
  "wit_record_of res = \<lparr>pi_Name = dr_PackageName res, pi_Version = dr_Version res, pi_Generation = dr_Generation res,
     pi_CLIVersion = [], pi_DeployedComponents = dr_DeployedComponents res, pi_NamespaceOverride = []\<rparr>"


end
