(* ===== verification/Retry_Loop.thy ===== *)
theory Retry_Loop
  imports Liveness Deploy_Properties
begin

section \<open>The retry loop ends\<close>

text \<open>
  A package whose deployment keeps failing is reconciled again and again, each time from the object the last
  reconcile left. This theory closes that loop over \<^const>\<open>reconcileBody\<close> and shows that it ends: the failures
  are counted one by one, through every operation of a reconcile, and when the count reaches \<^verbatim>\<open>spec.maxRetries\<close> the package is
  terminal and Zarf is not called any more.
\<close>

subsection \<open>What a reconcile leaves of the bookkeeping until it deploys\<close>

definition book :: "rstate \<Rightarrow> int \<times> string" where
  "book st = (st_FailureCount (rs_status st), st_PackageName (rs_status st))"

lemma book_same_pkg: "rs_pkg st' = rs_pkg st \<Longrightarrow> book st' = book st"
  by (simp add: book_def)

lemma book_passes: "passes K st st' \<Longrightarrow> book st' = book st"
  by (simp add: passes_def book_def)

lemma book_frame [frame]:
  "book (emit a st) = book st" "book (event r ty reason msg st) = book st"
  "book (set_cond E t v reason msg st) = book st" "book (setSuspendedMetric b st) = book st"
  "book (recordUpgradeCheckFailure E r msg st) = book st"
  "book (on_pkg (clearAvailableUpgrade L reason msg) st) = book st"
  "book (remember_status st) = book st"
  by (simp_all add: book_def emit_def event_def on_pkg_def setCondition_def on_status_def setSuspendedMetric_def
      recordUpgradeCheckFailure_def clearAvailableUpgrade_def remember_status_def)

lemma book_on_status [frame]:
  "(\<And>s. st_FailureCount (f s) = st_FailureCount s \<and> st_PackageName (f s) = st_PackageName s) \<Longrightarrow>
   book (on_pkg (on_status f) st) = book st"
  by (simp add: book_def on_pkg_def on_status_def)

lemma book_prune [frame]: "book (on_pkg (pruneAutoUpgradeStatus L) st) = book st"
  by (simp add: book_def on_pkg_def pruneAutoUpgradeStatus_def clearAvailableUpgrade_def setCondition_def on_status_def
      split: option.splits)

lemma book_checkRegistry:
  assumes "checkRegistry E r policy cur interval st = (d, st')"
  shows "book st' = book st"
proof -
  obtain cj st1 where g: "getRegistryCredentialJSON E st = (cj, st1)" by fastforce
  have "book st1 = book st" using getRegistryCredentialJSON_run [OF g] book_same_pkg by blast
  with assms g show ?thesis
    by (auto simp: checkRegistry_def list_tags_def Let_def frame split: sum.splits option.splits)
qed

lemma book_evaluateAutoUpgrade: "evaluateAutoUpgrade E r st = (d, st') \<Longrightarrow> book st' = book st"
  by (auto simp: evaluateAutoUpgrade_def Let_def frame split: if_splits option.splits dest: book_checkRegistry)

lemma book_refreshed: "refreshed E r decision st = (d, st') \<Longrightarrow> book st' = book st"
  by (auto simp: refreshed_def refreshFailedPendingAutoUpgrade_def Let_def split: if_splits prod.splits
      dest: book_evaluateAutoUpgrade)

lemma book_decideDeployment_new: "decideDeployment E r None st = (d, st') \<Longrightarrow> book st' = book st"
  by (auto simp: decideDeployment_def Let_def frame dest!: book_refreshed)

lemma book_markDependenciesMet [frame]: "book (markDependenciesMet E st) = book st"
  by (simp add: markDependenciesMet_def frame)

lemma book_activated [frame]: "book (activated E st) = book st"
  by (simp add: activated_def frame)

subsection \<open>One failing reconcile\<close>

text \<open>An error that counts as a failure: not busy, not cancelled, and not for the user to fix.\<close>

definition counted :: "lib \<Rightarrow> goerr \<Rightarrow> bool" where
  "counted L e \<longleftrightarrow> status_Code L e \<notin> {codes_ResourceExhausted, codes_Canceled} \<and> \<not> isUserRecoverableError L e"

text \<open>A sidecar that never manages to deploy, and an API server that stores what it is given.\<close>

locale failing_deploys = cond_env +
  assumes deploy_fails: "\<exists>e. snd (env_Deploy E tr opts t) = Some e \<and> counted (libs E) e"
    and patch_echo: "env_PatchStatus E tr base obj = Inr obj' \<Longrightarrow> obj' = obj"

text \<open>A package that each reconcile tries to deploy: owned, live, never deployed, no Secrets, dependencies up.\<close>

definition due :: "env \<Rightarrow> reconciler \<Rightarrow> ZarfPackage \<Rightarrow> bool" where
  "due E r p \<longleftrightarrow>
     active E r p \<and> zp_Annotations p AnnotationRedeploy = None \<and> no_secrets (zp_Spec p) \<and>
     dependencies_up E p \<and> strings_TrimSpace (st_PackageName (zp_Status p)) = []"

text \<open>Only the status of the object may differ.\<close>

definition kept :: "rstate \<Rightarrow> rstate \<Rightarrow> bool" where
  "kept st st' \<longleftrightarrow>
     zp_Name (rs_pkg st') = zp_Name (rs_pkg st) \<and> zp_Namespace (rs_pkg st') = zp_Namespace (rs_pkg st) \<and>
     zp_DeletionTimestamp (rs_pkg st') = zp_DeletionTimestamp (rs_pkg st) \<and>
     zp_Finalizers (rs_pkg st') = zp_Finalizers (rs_pkg st) \<and>
     zp_Annotations (rs_pkg st') = zp_Annotations (rs_pkg st) \<and> rs_spec st' = rs_spec st"

lemma kept_trans: "kept st st' \<Longrightarrow> kept st' st'' \<Longrightarrow> kept st st''"
  by (simp add: kept_def)

lemma kept_runs: "runs K st st' \<Longrightarrow> kept st st'"
  by (simp add: runs_def status_only_iff kept_def)

lemma kept_passes: "passes K st st' \<Longrightarrow> kept st st'"
  by (simp add: passes_def kept_def)

lemma due_kept: "kept st st' \<Longrightarrow> st_PackageName (rs_status st') = st_PackageName (rs_status st) \<Longrightarrow>
    due E r (rs_pkg st) \<Longrightarrow> due E r (rs_pkg st')"
  by (auto simp: kept_def due_def active_def dependencies_up_def dep_namespace_def)

lemma kept_spec: "kept st st' \<Longrightarrow> rs_spec st' = rs_spec st"
  by (simp add: kept_def)

lemma deploy_count_emits:
  assumes "emits K st st'" and "KDeploy \<notin> K"
  shows "deploy_count (rs_trace st') = deploy_count (rs_trace st)"
  using emits_new [OF assms(1)] emits_no_deploy [OF assms] deploy_count_append by (metis add.right_neutral)

lemma deployFailed_name:
  assumes "deployFailed E r result err st = (out, st')"
  shows "st_PackageName (rs_status st') = st_PackageName (rs_status st)"
proof -
  define name where "name = (\<lambda>st. st_PackageName (rs_status st))"
  have [simp]: "name (emit a s) = name s" "name (event r ty reason msg s) = name s"
      "name (set_cond E' t v reason msg s) = name s" "name (recordFailure E' s) = name s"
      "name (recordFailureMetric m s) = name s" "name (on_pkg (markFailedComponentStatus d) s) = name s"
      "name (deployErrEvents r d s) = name s" "name (markMaxRetriesExceeded E' r what s) = name s"
    for a s ty reason msg E' t v m d what
    using deployErrEvents_pass [of s r d]
    by (simp_all add: name_def emit_def event_def on_pkg_def on_status_def setCondition_def recordFailure_def
        recordFailureMetric_def markFailedComponentStatus_def markMaxRetriesExceeded_def setPhase_def Let_def passes_def
        split: option.splits)
  have [simp]: "name (on_pkg (on_status f) s) = name s" if "\<And>x. st_PackageName (f x) = st_PackageName x" for f s
    using that by (simp add: name_def on_pkg_def on_status_def)
  have "name st' = name st" using assms by (auto simp: deployFailed_def Let_def split: if_splits option.splits)
  then show ?thesis by (simp add: name_def)
qed

context failing_deploys
begin

lemma startDeploy_kept:
  "kept st (startDeploy E r source st) \<and> book (startDeploy E r source st) = book st"
proof -
  define st5 where "st5 = event r EventTypeNormal ReasonDeploying ''Starting package deployment''
    (set_cond E ConditionTypeStalled ConditionFalse ReasonDeploying ''Waiting for deployment to complete''
      (set_cond E ConditionTypeReady ConditionFalse ReasonDeploying ''Deployment in progress''
        (set_cond E ConditionTypeProgressing ConditionTrue ReasonDeploying ''Deployment in progress''
          (on_pkg (on_status (\<lambda>s. s\<lparr>st_LastAttemptedRevision := source, st_Phase := PhaseDeploying\<rparr>)) st))))"
  have "runs {KEvent} st st5" unfolding st5_def by (intro runs_intros) simp
  then have k: "kept st st5" by (rule kept_runs)
  have b: "book st5 = book st" by (simp add: st5_def frame)
  obtain err st6 where p: "patch_status E (rs_original st5) st5 = (err, st6)" by fastforce
  have "rs_pkg st6 = rs_pkg st5"
    using p by (auto simp: patch_status_def emit_def Let_def split: sum.splits dest: patch_echo)
  then show ?thesis
    using k b by (simp add: startDeploy_def Let_def st5_def [symmetric] p kept_def book_def remember_status_def split: option.splits)
qed

lemma deployPackage_fails:
  assumes "deployPackage E r opts timeout st = ((res, err), st')"
  shows "\<exists>e. err = Some e \<and> counted (libs E) e"
proof -
  obtain ans st1 where c: "call_Deploy E opts timeout st = (ans, st1)" by fastforce
  then obtain e where e: "snd ans = Some e" "counted (libs E) e"
    using call_Deploy_step [OF c] deploy_fails by metis
  have again: "\<exists>e'. snd y = Some e' \<and> counted (libs E) e'"
    if r: "retryDeployAfterHelmRecovery E r opts timeout e st1 = (y, st2)" for y st2
  proof -
    obtain n st3 where n: "cleanupStuckHelmReleases E r (event r EventTypeWarning ''HelmStuck''
        ''Detected helm operation in progress; attempting automatic recovery'' st1) = (n, st3)" by fastforce
    obtain ans' st4 where c': "call_Deploy E opts timeout st3 = (ans', st4)" by fastforce
    then obtain e' where e': "snd ans' = Some e'" "counted (libs E) e'"
      using call_Deploy_step [OF c'] deploy_fails by metis
    from r n c' e e' show ?thesis
      by (cases ans') (auto simp: retryDeployAfterHelmRecovery_def Let_def split: option.splits if_splits)
  qed
  obtain y st2 where r: "retryDeployAfterHelmRecovery E r opts timeout e st1 = (y, st2)" by fastforce
  from assms c e(1) r again [OF r] show ?thesis
    by (cases ans; cases y) (auto simp: deployPackage_def split: option.splits)
qed

text \<open>One run of the deploy handler: one failure more, one or two calls of Zarf, and terminal exactly at the limit.\<close>

lemma deploy_fails_once:
  assumes d: "deploy E r source0 st = (out, st')" and sec: "no_secrets (rs_spec st)"
  shows "kept st st' \<and> st_PackageName (rs_status st') = st_PackageName (rs_status st) \<and>
    failures st' = wrap32 (failures st + 1) \<and>
    (isMaxRetriesTerminal (libs E) (rs_pkg st') \<longleftrightarrow>
       0 < sp_MaxRetries (rs_spec st) \<and> sp_MaxRetries (rs_spec st) \<le> failures st') \<and>
    deploy_count (rs_trace st') \<in> {deploy_count (rs_trace st) + 1, deploy_count (rs_trace st) + 2}"
proof -
  define source where "source = (if strings_TrimSpace source0 = [] then sp_Source (rs_spec st) else source0)"
  define st1 where "st1 = startDeploy E r source st"
  have 1: "kept st st1" "book st1 = book st" using startDeploy_kept by (simp_all add: st1_def)
  have c1: "deploy_count (rs_trace st1) = deploy_count (rs_trace st)"
    unfolding st1_def by (rule deploy_count_emits [OF startDeploy_emits]) simp
  have "no_secrets (rs_spec st1)" using sec kept_spec [OF 1(1)] by simp
  then obtain opts where rd: "resolveDeploy E r (deploy_options (rs_spec st1) source) st1 = (Inr opts, st1)"
    by (rule resolveDeploy_no_secrets)
  define st3 where "st3 = (if st_Phase (rs_status st) = PhaseFailed then preDeployCleanup E r st1 else st1)"
  have 3: "passes predeploy_kinds st1 st3" by (simp add: st3_def preDeployCleanup_pass)
  have c3: "deploy_count (rs_trace st3) = deploy_count (rs_trace st1)"
    by (rule deploy_count_emits [OF emits_of_passes [OF 3]]) simp
  obtain res err st4 where dp: "deployPackage E r opts (deploy_timeout (rs_spec st1)) st3 = ((res, err), st4)"
    by (metis prod.collapse)
  obtain e where e: "err = Some e" "counted (libs E) e" using deployPackage_fails [OF dp] by blast
  have 4: "passes deploy_kinds st3 st4" by (rule deployPackage_pass [OF dp])
  have c4: "deploy_count (rs_trace st4) \<in> {deploy_count (rs_trace st3) + 1, deploy_count (rs_trace st3) + 2}"
    using deployPackage_count [OF dp] emits_new [OF emits_of_passes [OF 4]] deploy_count_append
    by (metis insertE insertI1 insertI2 singletonD)
  have k4: "kept st st4" "book st4 = book st"
    using 1 book_passes [OF 3] book_passes [OF 4] kept_trans kept_passes [OF 3] kept_passes [OF 4] by metis+
  have after: "afterDeploy E r source (res, Some e) st4 = (out, st')"
    using d rd dp e(1) by (simp add: deploy_def Let_def source_def [symmetric] st1_def [symmetric] st3_def [symmetric])
  then have failed: "deployFailed E r res e st4 = (out, st')" using e(2) by (simp add: afterDeploy_err counted_def)
  note run = deployFailed_run [OF failed]
  have "deploy_count (rs_trace st') = deploy_count (rs_trace st4)"
    by (rule deploy_count_emits [OF emits_of_runs [OF run]]) simp
  moreover have "kept st st'" using kept_trans [OF k4(1) kept_runs [OF run]] .
  moreover have "st_PackageName (rs_status st') = st_PackageName (rs_status st)"
    using deployFailed_name [OF failed] k4(2) by (simp add: book_def)
  moreover have "rs_spec st4 = rs_spec st" by (rule kept_spec [OF k4(1)])
  ultimately show ?thesis
    using afterDeploy_accounting [OF after] e(2) k4(2) c1 c3 c4
    by (auto simp: counted_def Let_def failures_def book_def)
qed

text \<open>The same for a whole reconcile.\<close>

lemma reconcile_fails_once:
  assumes due: "due E r (rs_pkg st)" and live: "\<not> isMaxRetriesTerminal (libs E) (rs_pkg st)"
    and body: "reconcileBody E r st = (out, st')"
  shows "due E r (rs_pkg st') \<and> rs_spec st' = rs_spec st \<and> failures st' = wrap32 (failures st + 1) \<and>
    (isMaxRetriesTerminal (libs E) (rs_pkg st') \<longleftrightarrow>
       0 < sp_MaxRetries (rs_spec st) \<and> sp_MaxRetries (rs_spec st) \<le> failures st') \<and>
    deploy_count (rs_trace st') \<in> {deploy_count (rs_trace st) + 1, deploy_count (rs_trace st) + 2}"
proof -
  let ?a = "activated E st"
  have rec: "reconcile E r ?a = (out, st')"
    using body due reconcileBody_active [of E r st] by (simp add: due_def)
  have ka: "kept st ?a" by (rule kept_runs [OF activated_run])
  have ba: "book ?a = book st" by (simp add: frame)
  have due_a: "due E r (rs_pkg ?a)" by (rule due_kept [OF ka _ due]) (simp add: activated_pkg)
  obtain st1 where c: "checkDependencies E ?a = (Inr (True, []), st1)"
    using checkDependencies_up [of E "rs_pkg ?a" ?a] due_a by (auto simp: due_def)
  let ?m = "markDependenciesMet E st1"
  have rm: "runs {KGetPackage} ?a ?m"
    by (intro markDependenciesMet_run passes_runs checkDependencies_pass [OF c])
  have bm: "book ?m = book ?a" using book_passes [OF checkDependencies_pass [OF c]] by (simp add: frame)
  have "decideAndDeploy E r None True False ?m = (out, st')"
    using rec c due_a live terminal_activated [of st] by (simp add: reconcile_def due_def)
  moreover obtain d st2 where d: "decideDeployment E r None ?m = (d, st2)" by fastforce
  ultimately have dep: "deploy E r (dd_source d) st2 = (out, st')"
    using decideDeployment_None [OF d] by (simp add: decideAndDeploy_def)
  note rd = decideDeployment_run [OF d]
  have k: "kept st st2" using ka kept_runs [OF rm] kept_runs [OF rd] kept_trans by blast
  have b: "book st2 = book st" using ba bm book_decideDeployment_new [OF d] by simp
  have "no_secrets (rs_spec st2)" using due kept_spec [OF k] by (simp add: due_def)
  note f = deploy_fails_once [OF dep this]
  have "deploy_count (rs_trace st2) = deploy_count (rs_trace st)"
    using deploy_count_emits [OF emits_of_runs [OF activated_run [of st E]]]
      deploy_count_emits [OF emits_of_runs [OF rm]] deploy_count_emits [OF emits_of_runs [OF rd]] by simp
  moreover have "due E r (rs_pkg st')"
    using f b by (intro due_kept [OF kept_trans [OF k] _ due]) (auto simp: book_def)
  ultimately show ?thesis using f b kept_spec [OF k] kept_spec [of st2 st'] by (simp add: book_def failures_def)
qed

lemma reconcile_terminal:
  assumes due: "due E r (rs_pkg st)" and terminal: "isMaxRetriesTerminal (libs E) (rs_pkg st)"
    and body: "reconcileBody E r st = (out, st')"
  shows "due E r (rs_pkg st') \<and> rs_spec st' = rs_spec st \<and> failures st' = failures st \<and>
    isMaxRetriesTerminal (libs E) (rs_pkg st') \<and> deploy_count (rs_trace st') = deploy_count (rs_trace st)"
proof -
  have st': "st' = activated E st" using terminal_body [of r st] assms by (simp add: due_def)
  have "book st' = book st" by (simp add: st' frame)
  moreover have "due E r (rs_pkg st')"
    unfolding st' by (rule due_kept [OF kept_runs [OF activated_run] _ due]) (simp add: activated_pkg)
  moreover have "deploy_count (rs_trace st') = deploy_count (rs_trace st)"
    unfolding st' by (rule deploy_count_emits [OF emits_of_runs [OF activated_run]]) simp
  ultimately show ?thesis using terminal by (simp add: st' terminal_activated activated_pkg book_def failures_def)
qed

end

subsection \<open>The loop\<close>

text \<open>Reconciles one after the other, each on the object that the last one left.\<close>

fun retryLoop :: "env \<Rightarrow> reconciler \<Rightarrow> nat \<Rightarrow> rstate \<Rightarrow> rstate" where
  "retryLoop E r 0 st = st"
| "retryLoop E r (Suc n) st =
     (let st' = retryLoop E r n st in snd (reconcileBody E r (fetched (rs_pkg st') (rs_trace st'))))"

lemma fetched_simps [simp]: "rs_pkg (fetched p tr) = p" "rs_trace (fetched p tr) = tr"
  by (simp_all add: fetched_def)

context failing_deploys
begin

lemma retryLoop_counts:
  fixes tr :: trace and n k :: nat
  assumes "due E r p" and "\<not> isMaxRetriesTerminal (libs E) p" and "st_FailureCount (zp_Status p) = 0"
    and k: "sp_MaxRetries (zp_Spec p) = int k" "0 < k" "int32_range (int k)"
  defines "st \<equiv> \<lambda>n. retryLoop E r n (fetched p tr)"
  shows "due E r (rs_pkg (st n)) \<and> rs_spec (st n) = zp_Spec p \<and> failures (st n) = int (min n k) \<and>
    (isMaxRetriesTerminal (libs E) (rs_pkg (st n)) \<longleftrightarrow> k \<le> n) \<and>
    deploy_count tr + min n k \<le> deploy_count (rs_trace (st n)) \<and>
    deploy_count (rs_trace (st n)) \<le> deploy_count tr + 2 * min n k"
proof (induction n)
  case 0
  then show ?case using assms by (simp add: failures_def)
next
  case (Suc n)
  let ?s = "fetched (rs_pkg (st n)) (rs_trace (st n))"
  obtain out st' where body: "reconcileBody E r ?s = (out, st')" by fastforce
  have st': "st (Suc n) = st'" using body by (simp add: st_def Let_def)
  have due: "due E r (rs_pkg ?s)" and fs: "failures ?s = int (min n k)" using Suc by (simp_all add: failures_def)
  show ?case
  proof (cases "k \<le> n")
    case True
    then have "isMaxRetriesTerminal (libs E) (rs_pkg ?s)" using Suc by simp
    with reconcile_terminal [OF due this body] True Suc fs st' show ?thesis by (simp add: min.absorb2)
  next
    case False
    then have "\<not> isMaxRetriesTerminal (libs E) (rs_pkg ?s)" using Suc by simp
    note f = reconcile_fails_once [OF due this body]
    have "wrap32 (int n + 1) = int n + 1" using False k(3) by (intro wrap32_id) (auto simp: int32_range_def)
    with f False Suc fs st' k(1,2) show ?thesis by (auto simp: min_def)
  qed
qed

end

interpretation ref_failing: failing_deploys "ref_env p" for p
proof (intro failing_deploys.intro failing_deploys_axioms.intro)
  show "cond_env (ref_env p)" by (rule ref_conditions.cond_env_axioms)
  show "\<exists>e. snd (env_Deploy (ref_env p) tr opts t) = Some e \<and> counted (libs (ref_env p)) e" for tr opts t
    by (simp add: ref_defs counted_def isUserRecoverableError_def)
  show "obj' = obj" if "env_PatchStatus (ref_env p) tr base obj = Inr obj'" for tr base obj obj'
    using that by (simp add: ref_env_def)
qed

text \<open>
  Property C13. Retrying ends. Take a package that every reconcile tries to deploy and a sidecar that always fails
  with an error that counts. In any number of reconciles, each on the object that the last one left, the
  failures are counted one by one up to \<^verbatim>\<open>spec.maxRetries\<close>; the package is terminal exactly from that reconcile
  on; and Zarf is called at least once and at most twice for each counted failure, and never again.
\<close>

theorem retries_are_bounded:
  assumes "failing_deploys E" and "due E r p" and "\<not> isMaxRetriesTerminal (libs E) p"
    and "st_FailureCount (zp_Status p) = 0"
    and "sp_MaxRetries (zp_Spec p) = int k" and "0 < k" and "int32_range (int k)"
  shows "st_FailureCount (rs_status (retryLoop E r n (fetched p tr))) = int (min n k) \<and>
    (isMaxRetriesTerminal (libs E) (rs_pkg (retryLoop E r n (fetched p tr))) \<longleftrightarrow> k \<le> n) \<and>
    deploy_count tr + min n k \<le> deploy_count (rs_trace (retryLoop E r n (fetched p tr))) \<and>
    deploy_count (rs_trace (retryLoop E r n (fetched p tr))) \<le> deploy_count tr + 2 * min n k"
  using failing_deploys.retryLoop_counts [OF assms, of n tr] by (simp add: failures_def)

definition wit_retry :: ZarfPackage where
  "wit_retry = ref_pkg\<lparr>zp_Spec := ref_spec\<lparr>sp_MaxRetries := 3\<rparr>\<rparr>"

theorem retries_are_bounded_witness:
  "st_FailureCount (rs_status (retryLoop (ref_env wit_retry) wit_reconciler 1000 (fetched wit_retry []))) = 3 \<and>
   deploy_count (rs_trace (retryLoop (ref_env wit_retry) wit_reconciler 1000 (fetched wit_retry []))) \<le> 6"
proof -
  have due: "due (ref_env wit_retry) wit_reconciler wit_retry"
    by (simp add: due_def active_def no_secrets_def dependencies_up_def wit_retry_def wit_reconciler_def ref_defs
        zero_status_def ref_ContainsFinalizer_def ZarfPackageFinalizer_def)
  have live: "\<not> isMaxRetriesTerminal (libs (ref_env wit_retry)) wit_retry"
    by (simp add: isMaxRetriesTerminal_def wit_retry_def ref_defs zero_status_def)
  have "st_FailureCount (zp_Status wit_retry) = 0" "sp_MaxRetries (zp_Spec wit_retry) = int 3" "int32_range (int 3)"
    by (simp_all add: wit_retry_def ref_defs zero_status_def int32_range_def)
  from retries_are_bounded [OF ref_failing.failing_deploys_axioms due live this(1,2) _ this(3), of 1000 "[]"]
  show ?thesis by (simp add: deploy_count_def)
qed

end
