(* ===== verification/Status_Properties.thy ===== *)
theory Status_Properties
  imports Status_Ops
begin

section \<open>Correctness of the status bookkeeping\<close>

text \<open>Backoff, messages, set variables and component evidence: what the helpers of the controller compute.\<close>

subsection \<open>Backoff\<close>

lemma backoff_capped:
  "0 < n \<Longrightarrow> calculateBackoff jitter n =
     wrap64 (min backoffMaxInterval (backoffBaseInterval * 2 ^ nat n) + jitter)"
  by (simp add: calculateBackoff_def Let_def min_def backoffMultiplier_def)

lemma backoff_double: "0 < n \<Longrightarrow> 2 * backoffBaseInterval \<le> backoffBaseInterval * 2 ^ nat n"
proof -
  assume "0 < n"
  then have "(2::int) ^ 1 \<le> 2 ^ nat n" by (intro power_increasing) auto
  then show ?thesis by (simp add: backoff_consts)
qed

definition backoff_core :: "int \<Rightarrow> int" where
  "backoff_core n = min backoffMaxInterval (backoffBaseInterval * 2 ^ nat n)"

lemma backoff_core_bounds:
  "0 < n \<Longrightarrow> 20000000000 \<le> backoff_core n" "backoff_core n \<le> 300000000000"
  using backoff_double [of n] by (simp_all add: backoff_core_def backoff_consts)

lemma backoff_core_mono: "n \<le> m \<Longrightarrow> backoff_core n \<le> backoff_core m"
proof -
  assume "n \<le> m"
  then have "(2::int) ^ nat n \<le> 2 ^ nat m" by (intro power_increasing) auto
  then have "backoffBaseInterval * 2 ^ nat n \<le> backoffBaseInterval * 2 ^ nat m" by (simp add: backoff_consts)
  then show ?thesis by (simp add: backoff_core_def min.coboundedI2 min_le_iff_disj)
qed

lemma backoff_value:
  assumes "0 \<le> jitter" and "jitter < backoffMaxJitter"
  shows "calculateBackoff jitter n = (if n \<le> 0 then backoffBaseInterval else backoff_core n + jitter)"
proof (cases "n \<le> 0")
  case False
  then have "0 \<le> backoff_core n + jitter" "backoff_core n + jitter < 400000000000"
    using backoff_core_bounds [of n] assms by (auto simp: backoff_consts)
  then have "int64_range (backoff_core n + jitter)" by (simp add: int64_range_def)
  with False show ?thesis by (simp add: backoff_capped backoff_core_def wrap64_id)
qed (simp add: calculateBackoff_def)

text \<open>
  Property C21. The retry delay is the documented formula: the base interval doubled once per failure,
  capped at the maximum, plus the jitter (and the plain base interval when there was no failure). It
  never overflows, stays between the base interval and the maximum plus the jitter, and does not shrink
  when the number of failures grows.
\<close>

theorem calculateBackoff_formula:
  assumes "0 \<le> jitter" and "jitter < backoffMaxJitter"
  shows "calculateBackoff jitter n =
      (if n \<le> 0 then backoffBaseInterval else min backoffMaxInterval (backoffBaseInterval * 2 ^ nat n) + jitter) \<and>
    backoffBaseInterval \<le> calculateBackoff jitter n \<and>
    calculateBackoff jitter n < backoffMaxInterval + backoffMaxJitter \<and>
    (n \<le> m \<longrightarrow> calculateBackoff jitter n \<le> calculateBackoff jitter m)"
proof (intro conjI impI)
  note v = backoff_value [OF assms]
  show "calculateBackoff jitter n =
      (if n \<le> 0 then backoffBaseInterval else min backoffMaxInterval (backoffBaseInterval * 2 ^ nat n) + jitter)"
    by (simp add: v backoff_core_def)
  show "backoffBaseInterval \<le> calculateBackoff jitter n"
    using backoff_core_bounds [of n] assms unfolding v backoff_consts by (cases "n \<le> 0") auto
  show "calculateBackoff jitter n < backoffMaxInterval + backoffMaxJitter"
    using backoff_core_bounds [of n] assms unfolding v backoff_consts by (cases "n \<le> 0") auto
  assume "n \<le> m"
  then show "calculateBackoff jitter n \<le> calculateBackoff jitter m"
    using backoff_core_bounds [of m] backoff_core_mono [of n m] assms unfolding v backoff_consts
    by (cases "n \<le> 0"; cases "m \<le> 0") auto
qed

theorem calculateBackoff_formula_witness:
  "calculateBackoff 7 3 = 80000000007 \<and> calculateBackoff 7 3 \<le> calculateBackoff 7 40"
  using calculateBackoff_formula [of 7 3 40] by (simp add: backoff_consts)

subsection \<open>Messages\<close>

lemma truncateMessage_length: "3 < mx \<Longrightarrow> int (length (truncateMessage msg mx)) \<le> mx"
  by (auto simp: truncateMessage_def)

text \<open>The nonblank lines, trimmed, and the length of a summary of some of them.\<close>

definition texts :: "string list \<Rightarrow> string list" where
  "texts ls = filter (\<lambda>l. l \<noteq> []) (map strings_TrimSpace ls)"

definition summary :: "string list \<Rightarrow> string" where
  "summary ks = ''Last deploy logs:'' @ '' '' @ strings_Join ks '' | ''"

definition summary_size :: "string list \<Rightarrow> int" where
  "summary_size ks = (if ks = [] then int (length ''Last deploy logs:'') else int (length (summary ks)))"

lemma summary_size_Cons:
  "summary_size (l # ks) = summary_size ks + (if ks = [] then 1 else 3) + int (length l)"
  by (cases ks) (simp_all add: summary_size_def summary_def)

lemma keepLines_texts:
  assumes "used = summary_size kept" and "kept \<noteq> [] \<Longrightarrow> used \<le> mb"
  shows "\<exists>k. keepLines ls mb kept used = rev (take k (texts ls)) @ kept \<and> k \<le> length (texts ls) \<and>
    (rev (take k (texts ls)) @ kept \<noteq> [] \<longrightarrow> summary_size (rev (take k (texts ls)) @ kept) \<le> mb) \<and>
    (k < length (texts ls) \<longrightarrow> mb < summary_size (texts ls ! k # rev (take k (texts ls)) @ kept))"
  using assms
proof (induction ls arbitrary: kept used)
  case Nil
  then show ?case by (simp add: texts_def)
next
  case (Cons l ls)
  let ?t = "strings_TrimSpace l"
  show ?case
  proof (cases "?t = []")
    case True
    then have t: "texts (l # ls) = texts ls" by (simp add: texts_def)
    with True Cons show ?thesis by (simp add: Let_def)
  next
    case False
    then have t: "texts (l # ls) = ?t # texts ls" by (simp add: texts_def)
    have size: "used + (if kept = [] then 1 else 3) + int (length ?t) = summary_size (?t # kept)"
      using Cons.prems(1) by (simp add: summary_size_Cons)
    show ?thesis
    proof (cases "mb < summary_size (?t # kept)")
      case True
      with False size have "keepLines (l # ls) mb kept used = kept" by (simp add: Let_def)
      with True Cons.prems t show ?thesis by (intro exI [of _ 0]) auto
    next
      case fits: False
      with False size have step: "keepLines (l # ls) mb kept used = keepLines ls mb (?t # kept) (summary_size (?t # kept))"
        by (simp add: Let_def)
      from Cons.IH [OF refl, of "?t # kept"] fits obtain k where k:
        "keepLines ls mb (?t # kept) (summary_size (?t # kept)) = rev (take k (texts ls)) @ ?t # kept"
        "k \<le> length (texts ls)" "summary_size (rev (take k (texts ls)) @ ?t # kept) \<le> mb"
        "k < length (texts ls) \<longrightarrow> mb < summary_size (texts ls ! k # rev (take k (texts ls)) @ ?t # kept)"
        by auto
      then show ?thesis using step t by (intro exI [of _ "Suc k"]) auto
    qed
  qed
qed

text \<open>
  The log summary of an event fits its byte limit. It joins the trimmed nonblank lines
  from the end, as many as fit: the line before them would not have fit. Only when not even the last
  one fits, the last line itself is cut to the limit.
\<close>

theorem formatLogSummary_newest_that_fit:
  assumes "3 < maxBytes" and "lines \<noteq> []"
  shows "int (length (formatLogSummary lines maxBytes)) \<le> maxBytes \<and>
    (\<exists>older ks. texts lines = older @ ks \<and>
       formatLogSummary lines maxBytes = (if ks = [] then truncateMessage (last lines) maxBytes else summary ks) \<and>
       (older \<noteq> [] \<longrightarrow> maxBytes < summary_size (last older # ks)))"
proof -
  let ?t = "texts (rev lines)"
  have rev: "texts lines = rev ?t" by (simp add: texts_def rev_map rev_filter)
  obtain k where k: "keepLines (rev lines) maxBytes [] (int (length ''Last deploy logs:'')) = rev (take k ?t)"
      "k \<le> length ?t" "rev (take k ?t) \<noteq> [] \<longrightarrow> summary_size (rev (take k ?t)) \<le> maxBytes"
      "k < length ?t \<longrightarrow> maxBytes < summary_size (?t ! k # rev (take k ?t))"
    using keepLines_texts [of "int (length ''Last deploy logs:'')" "[]" maxBytes "rev lines"]
    by (auto simp: summary_size_def)
  have f: "formatLogSummary lines maxBytes =
      (if rev (take k ?t) = [] then truncateMessage (last lines) maxBytes else summary (rev (take k ?t)))"
    using assms k(1) by (simp add: formatLogSummary_def Let_def summary_def)
  have split: "texts lines = rev (drop k ?t) @ rev (take k ?t)"
    unfolding rev by (metis append_take_drop_id rev_append)
  have older: "rev (drop k ?t) \<noteq> [] \<longrightarrow> maxBytes < summary_size (last (rev (drop k ?t)) # rev (take k ?t))"
    using k(2,4) by (auto simp: last_rev hd_drop_conv_nth)
  have "int (length (formatLogSummary lines maxBytes)) \<le> maxBytes"
    using f k(3) truncateMessage_length [OF assms(1)] by (simp add: summary_size_def)
  with f split older show ?thesis by blast
qed

theorem formatLogSummary_newest_that_fit_witness:
  "int (length (formatLogSummary [''first line'', ''  '', ''second''] 30)) \<le> 30"
  using formatLogSummary_newest_that_fit [of 30 "[''first line'', ''  '', ''second'']"] by simp

subsection \<open>Set variables\<close>

lemma SplitN2_eq: "strings_SplitN2 s c = [k, v] \<longleftrightarrow> s = k @ c # v \<and> c \<notin> set k"
proof
  assume a: "strings_SplitN2 s c = [k, v]"
  then have c: "c \<in> set s" by (simp add: strings_SplitN2_def split: if_splits)
  with a have k: "k = takeWhile (\<lambda>x. x \<noteq> c) s" and v: "v = tl (dropWhile (\<lambda>x. x \<noteq> c) s)"
    by (auto simp: strings_SplitN2_def)
  have "dropWhile (\<lambda>x. x \<noteq> c) s \<noteq> []" and "hd (dropWhile (\<lambda>x. x \<noteq> c) s) = c"
    using c hd_dropWhile [of "\<lambda>x. x \<noteq> c" s] by (auto simp: dropWhile_eq_Nil_conv)
  then have "dropWhile (\<lambda>x. x \<noteq> c) s = c # v" using v by (metis list.collapse)
  then have "s = k @ c # v" using k takeWhile_dropWhile_id [of "\<lambda>x. x \<noteq> c" s] by simp
  moreover have "c \<notin> set k" using k by (auto dest: set_takeWhileD)
  ultimately show "s = k @ c # v \<and> c \<notin> set k" ..
qed (auto simp: SplitN2_two)

lemma parseSet_snoc_entry:
  assumes "CHR ''='' \<notin> set k"
  shows "parseSetVariables (xs @ [k @ CHR ''='' # v]) = (parseSetVariables xs)(k \<mapsto> v)"
proof -
  have "strings_SplitN2 (k @ CHR ''='' # v) (CHR ''='') = [k, v]" by (rule SplitN2_two [OF assms])
  then show ?thesis unfolding parseSetVariables_def by (simp only: foldl_append foldl.simps list.case)
qed

lemma parseSet_snoc_other:
  assumes "CHR ''='' \<notin> set s"
  shows "parseSetVariables (xs @ [s]) = parseSetVariables xs"
proof -
  have "strings_SplitN2 s (CHR ''='') = [s]" using assms by (simp add: strings_SplitN2_def)
  then show ?thesis unfolding parseSetVariables_def by (simp only: foldl_append foldl.simps list.case)
qed

text \<open>
  A variable is set to a value exactly when some entry \<^verbatim>\<open>KEY=value\<close> says so and no later
  entry sets the same key; the key ends at the first equals sign, entries without one are ignored.
\<close>

theorem parseSetVariables_last_wins:
  "parseSetVariables entries key = Some v \<longleftrightarrow>
     CHR ''='' \<notin> set key \<and>
     (\<exists>before after. entries = before @ (key @ ''='' @ v) # after \<and>
        \<not> (\<exists>w. key @ ''='' @ w \<in> set after))"
proof (induction entries rule: rev_induct)
  case Nil
  then show ?case by (simp add: parseSetVariables_def)
next
  case (snoc s xs)
  have split: "(\<exists>before after. xs @ [s] = before @ e # after \<and> P after) \<longleftrightarrow>
      (\<exists>before after. xs = before @ e # after \<and> P (after @ [s])) \<or> (e = s \<and> P [])" for e :: string and P
    by (auto simp: append_eq_append_conv2 Cons_eq_append_conv append_eq_Cons_conv)
  show ?case
  proof (cases "CHR ''='' \<in> set s")
    case False
    then have "key @ ''='' @ w \<noteq> s" for w by auto
    with False snoc show ?thesis unfolding split by (auto simp: parseSet_snoc_other)
  next
    case True
    then obtain k w where s: "s = k @ CHR ''='' # w" "CHR ''='' \<notin> set k" by (meson split_list_first)
    have eq: "key @ ''='' @ x = s \<longleftrightarrow> key = k \<and> x = w" if "CHR ''='' \<notin> set key" for x
      using SplitN2_eq [of s "CHR ''=''" key x] SplitN2_eq [of s "CHR ''=''" k w] s that by auto
    have look: "parseSetVariables (xs @ [s]) = (parseSetVariables xs)(k \<mapsto> w)"
      using s by (simp add: parseSet_snoc_entry)
    show ?thesis
    proof (cases "key = k")
      case True
      then show ?thesis unfolding split look using s eq [OF s(2) [folded True]] by auto
    next
      case False
      have "CHR ''='' \<notin> set key \<Longrightarrow> key @ ''='' @ x \<noteq> s" for x using eq False by blast
      then have "CHR ''='' \<notin> set key \<Longrightarrow> (\<nexists>x. key @ ''='' @ x \<in> set (after @ [s])) \<longleftrightarrow> (\<nexists>x. key @ ''='' @ x \<in> set after)"
        for after by auto
      moreover have "((parseSetVariables xs)(k \<mapsto> w)) key = parseSetVariables xs key" using False by simp
      moreover have "CHR ''='' \<notin> set key \<Longrightarrow> key @ ''='' @ v \<noteq> s" using eq False by blast
      ultimately show ?thesis unfolding split look using snoc by metis
    qed
  qed
qed

subsection \<open>Failed components\<close>

lemma markChart_Some:
  "markChart cs n = Some cs' \<Longrightarrow>
     (\<exists>c\<in>set cs'. ics_ChartName c = n \<and> ics_Status c = ChartStatusFailed) \<and>
     map ics_ChartName cs' = map ics_ChartName cs"
  by (induction cs arbitrary: cs') (auto split: if_splits)

lemma markChart_None: "markChart cs n = None \<longleftrightarrow> n \<notin> ics_ChartName ` set cs"
  by (induction cs) auto

lemma merge_single:
  "mergeFailedChartEvidence existing [ch] =
     (if existing = [] then [ch]
      else if strings_TrimSpace (ics_ChartName ch) = [] then existing
      else case markChart existing (ics_ChartName ch) of Some m \<Rightarrow> m | None \<Rightarrow> existing @ [ch])"
  by (simp add: mergeFailedChartEvidence_def)

lemma merge_keeps:
  "set (map ics_ChartName existing) \<subseteq> set (map ics_ChartName (mergeFailedChartEvidence existing [ch]))"
  by (auto simp: merge_single split: option.splits dest!: markChart_Some intro: rev_image_eqI)
    (metis image_eqI list.set_map)

lemma merge_marks:
  assumes "strings_TrimSpace (ics_ChartName ch) \<noteq> []" and "ics_Status ch = ChartStatusFailed"
  shows "\<exists>c\<in>set (mergeFailedChartEvidence existing [ch]).
    ics_ChartName c = ics_ChartName ch \<and> ics_Status c = ChartStatusFailed"
  using assms by (auto simp: merge_single split: option.splits dest: markChart_Some)

lemma replaceComponent_spec:
  "filter (\<lambda>c. cs_Name c \<noteq> cs_Name f) (replaceComponent f cs) = filter (\<lambda>c. cs_Name c \<noteq> cs_Name f) cs \<and>
   (\<exists>c\<in>set (replaceComponent f cs). \<exists>old. cs_Name c = cs_Name f \<and> cs_Status c = cs_Status f \<and>
      cs_InstalledCharts c = (if old = None then cs_InstalledCharts f
        else mergeFailedChartEvidence (the old) (cs_InstalledCharts f)))"
proof (induction cs)
  case Nil
  show ?case by (auto intro!: exI [of _ None])
next
  case (Cons c cs)
  show ?case
  proof (cases "cs_Name c = cs_Name f")
    case True
    then show ?thesis by (auto intro!: exI [of _ "Some (cs_InstalledCharts c)"])
  next
    case False
    with Cons show ?thesis by auto
  qed
qed

abbreviation components :: "ZarfPackage \<Rightarrow> ComponentStatus list" where
  "components p \<equiv> st_ComponentStatuses (zp_Status p)"

text \<open>
  After a failed deployment the failed component is in the status, marked Failed, with the
  failed chart marked in it; every other component is as it was.
\<close>

theorem markFailedComponentStatus_evidence:
  assumes "strings_TrimSpace (de_FailedComponent d) \<noteq> []"
  shows "(\<exists>c\<in>set (components (markFailedComponentStatus (Some d) p)). cs_Name c = de_FailedComponent d \<and> cs_Status c = ComponentStatusFailed \<and>
      (strings_TrimSpace (de_FailedChart d) \<noteq> [] \<longrightarrow>
        (\<exists>ch\<in>set (cs_InstalledCharts c). ics_ChartName ch = de_FailedChart d \<and> ics_Status ch = ChartStatusFailed))) \<and>
    filter (\<lambda>c. cs_Name c \<noteq> de_FailedComponent d) (components (markFailedComponentStatus (Some d) p)) =
      filter (\<lambda>c. cs_Name c \<noteq> de_FailedComponent d) (components p)"
proof -
  define before where "before = components p"
  define after where "after = components (markFailedComponentStatus (Some d) p)"
  define ch where "ch = \<lparr>ics_Namespace = sp_Namespace (zp_Spec p), ics_ChartName = de_FailedChart d,
    ics_Status = ChartStatusFailed\<rparr>"
  define f where "f = \<lparr>cs_Name = de_FailedComponent d, cs_Status = ComponentStatusFailed,
    cs_InstalledCharts = (if strings_TrimSpace (de_FailedChart d) \<noteq> [] then [ch] else []),
    cs_ObservedGeneration = zp_Generation p\<rparr>"
  have a: "after = replaceComponent f before"
    using assms(1) by (simp add: after_def before_def markFailedComponentStatus_def Let_def f_def ch_def on_status_def)
  obtain c old where c: "c \<in> set after" "cs_Name c = de_FailedComponent d" "cs_Status c = ComponentStatusFailed"
    "cs_InstalledCharts c = (if old = None then cs_InstalledCharts f
        else mergeFailedChartEvidence (the old) (cs_InstalledCharts f))"
    using replaceComponent_spec [of f before] by (auto simp: a f_def)
  have "\<exists>x\<in>set (cs_InstalledCharts c). ics_ChartName x = de_FailedChart d \<and> ics_Status x = ChartStatusFailed"
    if "strings_TrimSpace (de_FailedChart d) \<noteq> []"
    using that c(4) merge_marks [of ch "the old"] by (auto simp: f_def ch_def split: if_splits)
  with c(1-3) have "\<exists>c\<in>set after. cs_Name c = de_FailedComponent d \<and> cs_Status c = ComponentStatusFailed \<and>
      (strings_TrimSpace (de_FailedChart d) \<noteq> [] \<longrightarrow>
        (\<exists>ch\<in>set (cs_InstalledCharts c). ics_ChartName ch = de_FailedChart d \<and> ics_Status ch = ChartStatusFailed))"
    by blast
  moreover have "filter (\<lambda>c. cs_Name c \<noteq> de_FailedComponent d) after = filter (\<lambda>c. cs_Name c \<noteq> de_FailedComponent d) before"
    using replaceComponent_spec [of f before] by (simp add: a f_def)
  ultimately show ?thesis by (simp add: before_def after_def)
qed

theorem markFailedComponentStatus_evidence_witness:
  "\<exists>c\<in>set (st_ComponentStatuses (zp_Status (markFailedComponentStatus
      (Some (DeployErr None ''web'' ''nginx'' [])) ref_pkg))). cs_Name c = ''web'' \<and> cs_Status c = ComponentStatusFailed"
proof -
  have "strings_TrimSpace (de_FailedComponent (DeployErr None ''web'' ''nginx'' [])) \<noteq> []" by code_simp
  from markFailedComponentStatus_evidence [OF this, of ref_pkg] show ?thesis by auto
qed

subsection \<open>Failures in results\<close>

lemma firstFailedChartName_Nil:
  assumes "\<forall>ch\<in>set (dc_InstalledCharts c). ic_ChartName ch \<noteq> []"
  shows "firstFailedChartName c = [] \<longleftrightarrow> (\<forall>ch\<in>set (dc_InstalledCharts c). ic_Status ch \<noteq> ChartStatusFailed)"
proof (cases "List.find (\<lambda>ch. ic_Status ch = ChartStatusFailed) (dc_InstalledCharts c)")
  case None
  then have "\<forall>ch\<in>set (dc_InstalledCharts c). ic_Status ch \<noteq> ChartStatusFailed" by (auto simp: find_None_iff)
  with None show ?thesis by (simp add: firstFailedChartName_def)
next
  case (Some ch)
  then have "ch \<in> set (dc_InstalledCharts c)" "ic_Status ch = ChartStatusFailed"
    by (auto simp: find_Some_iff)
  with Some assms show ?thesis by (auto simp: firstFailedChartName_def)
qed

lemma failedComponentError_None:
  assumes "\<forall>c\<in>set cs. \<forall>ch\<in>set (dc_InstalledCharts c). ic_ChartName ch \<noteq> []"
  shows "failedComponentError cs = None \<longleftrightarrow>
    (\<forall>c\<in>set cs. dc_Status c \<noteq> ComponentStatusFailed \<and>
       (\<forall>ch\<in>set (dc_InstalledCharts c). ic_Status ch \<noteq> ChartStatusFailed))"
  using assms by (induction cs) (auto simp: firstFailedChartName_Nil)

text \<open>
  Property C22. The check on the answer of a deployment agrees with the check that makes a later
  reconcile retry: a result whose charts have names is accepted exactly when the package it describes
  has no failed component or chart. A missing result is never accepted.
\<close>

theorem failedDeployResultError_agrees:
  assumes "\<forall>c\<in>set (dr_DeployedComponents res). \<forall>ch\<in>set (dc_InstalledCharts c). ic_ChartName ch \<noteq> []"
    and "pi_DeployedComponents info = dr_DeployedComponents res"
  shows "failedDeployResultError None \<noteq> None \<and>
    (failedDeployResultError (Some res) = None \<longleftrightarrow> \<not> hasFailedDeployedComponent (Some info))"
  using failedComponentError_None [OF assms(1)] assms(2)
  by (auto simp: failedDeployResultError_def hasFailedDeployedComponent_def list_ex_iff)

theorem failedDeployResultError_agrees_witness:
  "failedDeployResultError None \<noteq> None \<and>
   (failedDeployResultError (Some \<lparr>dr_PackageName = ''app'', dr_Version = [], dr_Generation = 1,
      dr_DeployedComponents = [\<lparr>dc_Name = ''web'', dc_Status = ''Succeeded'', dc_InstalledCharts =
        [\<lparr>ic_Namespace = ''ns'', ic_ChartName = ''nginx'', ic_Status = ''Failed''\<rparr>], dc_ObservedGeneration = 1\<rparr>],
      dr_DeployLogs = []\<rparr>) = None \<longleftrightarrow>
    \<not> hasFailedDeployedComponent (Some \<lparr>pi_Name = ''app'', pi_Version = [], pi_Generation = 1, pi_CLIVersion = [],
      pi_DeployedComponents = [\<lparr>dc_Name = ''web'', dc_Status = ''Succeeded'', dc_InstalledCharts =
        [\<lparr>ic_Namespace = ''ns'', ic_ChartName = ''nginx'', ic_Status = ''Failed''\<rparr>], dc_ObservedGeneration = 1\<rparr>],
      pi_NamespaceOverride = []\<rparr>))"
  by (rule failedDeployResultError_agrees) simp_all

end
