(* ===== verification/Log_Capture.thy ===== *)
theory Log_Capture
  imports Go_Strings
begin

section \<open>Captured deploy logs: \<^verbatim>\<open>cmd/sidecar/server/log_capture.go\<close>\<close>

text \<open>
  The sidecar keeps the last log lines of a deployment in a ring buffer. Every access to a slot of
  the backing slice is an option: \<^verbatim>\<open>None\<close> is Go's index panic. The interface \<open>bounded_log\<close> says what a
  client may rely on, a log that holds the newest lines; the ring buffer implements it.
  The mutex makes each operation atomic, so the model has one function per operation. The counters
  are natural numbers: the invariant keeps them below the capacity, which is the length of a slice.
\<close>

subsection \<open>The ring buffer\<close>

record captureState =
  cs_capacity :: nat
  cs_lines :: "string list"
  cs_start :: nat
  cs_count :: nat

definition newCapturingHandler :: "int \<Rightarrow> captureState" where
  "newCapturingHandler capacity =
     (let capacity = (if capacity \<le> 0 then 1 else capacity) in
      \<lparr>cs_capacity = nat capacity, cs_lines = replicate (nat capacity) [], cs_start = 0, cs_count = 0\<rparr>)"

definition slice_set :: "'a list \<Rightarrow> nat \<Rightarrow> 'a \<Rightarrow> 'a list option" where
  "slice_set xs i v = (if i < length xs then Some (xs[i := v]) else None)"

definition slice_get :: "'a list \<Rightarrow> nat \<Rightarrow> 'a option" where
  "slice_get xs i = (if i < length xs then Some (xs ! i) else None)"

definition addLine :: "captureState \<Rightarrow> string \<Rightarrow> captureState option" where
  "addLine h line =
     (if cs_count h < cs_capacity h then
        let idx = (cs_start h + cs_count h) mod cs_capacity h in
        map_option (\<lambda>ls. h\<lparr>cs_lines := ls, cs_count := cs_count h + 1\<rparr>) (slice_set (cs_lines h) idx line)
      else
        map_option (\<lambda>ls. h\<lparr>cs_lines := ls, cs_start := (cs_start h + 1) mod cs_capacity h\<rparr>)
          (slice_set (cs_lines h) (cs_start h) line))"

text \<open>The loop of \<^verbatim>\<open>Lines\<close>, from index \<open>i\<close> on, with the lines still to copy.\<close>

fun linesLoop :: "captureState \<Rightarrow> nat \<Rightarrow> nat \<Rightarrow> string list option" where
  "linesLoop h i 0 = Some []"
| "linesLoop h i (Suc n) =
     (case slice_get (cs_lines h) ((cs_start h + i) mod cs_capacity h) of
        None \<Rightarrow> None
      | Some l \<Rightarrow> map_option (\<lambda>ls. l # ls) (linesLoop h (Suc i) n))"

definition Lines :: "captureState \<Rightarrow> string list option" where
  "Lines h = (if cs_count h = 0 then Some [] else linesLoop h 0 (cs_count h))"

fun addLines :: "captureState \<Rightarrow> string list \<Rightarrow> captureState option" where
  "addLines h [] = Some h"
| "addLines h (l # ls) = (case addLine h l of None \<Rightarrow> None | Some h' \<Rightarrow> addLines h' ls)"

subsection \<open>Formatting a record\<close>

text \<open>
  A record of \<^verbatim>\<open>log/slog\<close>: its level, its message and its attributes, each with its key and the text
  of its value under the verb \<^verbatim>\<open>%v\<close>.
\<close>

record slog_Record =
  rec_Level :: int
  rec_Message :: string
  rec_Attrs :: "(string \<times> string) list"

definition level_str :: "string \<Rightarrow> int \<Rightarrow> string" where
  "level_str base v = (if v = 0 then base else if v > 0 then base @ ''+'' @ fmt_d v else base @ fmt_d v)"

definition slog_Level_String :: "int \<Rightarrow> string" where
  "slog_Level_String l =
     (if l < 0 then level_str ''DEBUG'' (l + 4)
      else if l < 4 then level_str ''INFO'' l
      else if l < 8 then level_str ''WARN'' (l - 4)
      else level_str ''ERROR'' (l - 8))"

definition formatRecord :: "slog_Record \<Rightarrow> string" where
  "formatRecord r =
     strings_TrimSpace (strings_Join
       ([slog_Level_String (rec_Level r), rec_Message r] @ map (\<lambda>(k, v). k @ ''='' @ v) (rec_Attrs r)) '' '')"

definition Handle :: "captureState \<Rightarrow> slog_Record \<Rightarrow> captureState option" where
  "Handle h r = addLine h (formatRecord r)"

fun handleAll :: "captureState \<Rightarrow> slog_Record list \<Rightarrow> captureState option" where
  "handleAll h [] = Some h"
| "handleAll h (r # rs) = (case Handle h r of None \<Rightarrow> None | Some h' \<Rightarrow> handleAll h' rs)"

lemma handleAll_addLines: "handleAll h rs = addLines h (map formatRecord rs)"
  by (induction rs arbitrary: h) (simp_all add: Handle_def split: option.split)

subsection \<open>The contract of a bounded log\<close>

definition newest :: "nat \<Rightarrow> 'a list \<Rightarrow> 'a list" where
  "newest n xs = drop (length xs - n) xs"

lemma newest_length [simp]: "length (newest n xs) = min n (length xs)"
  by (simp add: newest_def)

lemma newest_all: "length xs \<le> n \<Longrightarrow> newest n xs = xs"
  by (simp add: newest_def)

lemma newest_snoc: "newest n (newest n xs @ [x]) = newest n (xs @ [x])"
proof (cases "length xs \<le> n")
  case False
  then have "length xs - n + (Suc n - n) = Suc (length xs) - n" by simp
  with False show ?thesis by (simp add: newest_def)
qed (simp add: newest_all)

lemma newest_suffix: "suffix (newest n xs) xs"
  by (simp add: newest_def suffix_drop)

locale bounded_log =
  fixes invar :: "'s \<Rightarrow> bool" and cap :: "'s \<Rightarrow> nat"
    and content :: "'s \<Rightarrow> 'a list" and add :: "'s \<Rightarrow> 'a \<Rightarrow> 's option"
  assumes content_cap: "invar s \<Longrightarrow> length (content s) \<le> cap s"
    and add_ok: "invar s \<Longrightarrow> \<exists>s'. add s x = Some s' \<and> invar s' \<and> cap s' = cap s \<and>
      content s' = newest (cap s) (content s @ [x])"
begin

fun add_all :: "'s \<Rightarrow> 'a list \<Rightarrow> 's option" where
  "add_all s [] = Some s"
| "add_all s (x # xs) = (case add s x of None \<Rightarrow> None | Some s' \<Rightarrow> add_all s' xs)"

lemma newest_append_content:
  "newest n (newest n xs @ ys) = newest n (xs @ ys)"
proof (induction ys rule: rev_induct)
  case Nil
  show ?case by (simp add: newest_def)
next
  case (snoc y ys)
  have "newest n (newest n xs @ ys @ [y]) = newest n (newest n (newest n xs @ ys) @ [y])"
    by (simp only: newest_snoc append_assoc)
  also have "\<dots> = newest n (newest n (xs @ ys) @ [y])" using snoc by simp
  finally show ?case by (simp only: newest_snoc append_assoc)
qed

lemma add_all_newest:
  assumes "invar s"
  shows "\<exists>s'. add_all s xs = Some s' \<and> invar s' \<and> cap s' = cap s \<and> content s' = newest (cap s) (content s @ xs)"
  using assms
proof (induction xs arbitrary: s)
  case Nil
  then show ?case using content_cap by (simp add: newest_all)
next
  case (Cons x xs)
  obtain s1 where s1: "add s x = Some s1" "invar s1" "cap s1 = cap s"
      "content s1 = newest (cap s) (content s @ [x])" using add_ok [OF Cons.prems] by blast
  from Cons.IH [OF s1(2)] obtain s' where "add_all s1 xs = Some s'" "invar s'" "cap s' = cap s1"
      "content s' = newest (cap s1) (content s1 @ xs)" by blast
  with s1 show ?case by (simp add: newest_append_content)
qed

end

subsection \<open>The ring buffer keeps it\<close>

definition capture_invar :: "captureState \<Rightarrow> bool" where
  "capture_invar h \<longleftrightarrow> 0 < cs_capacity h \<and> length (cs_lines h) = cs_capacity h \<and>
     cs_start h < cs_capacity h \<and> cs_count h \<le> cs_capacity h"

definition capture_content :: "captureState \<Rightarrow> string list" where
  "capture_content h = map (\<lambda>i. cs_lines h ! ((cs_start h + i) mod cs_capacity h)) [0..<cs_count h]"

lemma linesLoop_content:
  assumes "capture_invar h"
  shows "linesLoop h i n = Some (map (\<lambda>j. cs_lines h ! ((cs_start h + j) mod cs_capacity h)) [i..<i + n])"
  using assms
proof (induction n arbitrary: i)
  case (Suc n)
  from Suc.prems have "(cs_start h + i) mod cs_capacity h < length (cs_lines h)" by (simp add: capture_invar_def)
  with Suc show ?case by (simp add: slice_get_def upt_rec [of i] del: upt_Suc)
qed simp

lemma Lines_content: "capture_invar h \<Longrightarrow> Lines h = Some (capture_content h)"
  by (simp add: Lines_def capture_content_def linesLoop_content)

lemma nat_mod_add_cancel: "((a :: nat) + i) mod n = (a + j) mod n \<Longrightarrow> i mod n = j mod n"
proof -
  assume e: "(a + i) mod n = (a + j) mod n"
  have "(int a + int i) mod int n = (int a + int j) mod int n" using arg_cong [OF e, of int] by (simp add: zmod_int)
  then have "(int a + int i - int a) mod int n = (int a + int j - int a) mod int n" by (rule mod_diff_cong) simp
  then show ?thesis by (simp flip: zmod_int)
qed

lemma mod_add_inj:
  fixes a :: nat
  assumes "i < n" "j < n" "(a + i) mod n = (a + j) mod n"
  shows "i = j"
proof -
  have "i mod n = j mod n" using assms(3) by (rule nat_mod_add_cancel)
  with assms(1,2) show ?thesis by simp
qed

lemma new_invar: "capture_invar (newCapturingHandler c)"
  by (simp add: newCapturingHandler_def capture_invar_def Let_def)

text \<open>While there is room a line goes to the next free place; then it replaces the oldest one.\<close>

lemma addLine_room:
  assumes inv: "capture_invar h" and room: "cs_count h < cs_capacity h"
  shows "\<exists>h'. addLine h x = Some h' \<and> capture_invar h' \<and> cs_capacity h' = cs_capacity h \<and>
    capture_content h' = newest (cs_capacity h) (capture_content h @ [x])"
proof -
  let ?n = "cs_capacity h" and ?k = "cs_count h"
  let ?idx = "(cs_start h + ?k) mod ?n"
  from inv have idx: "?idx < length (cs_lines h)" by (simp add: capture_invar_def)
  let ?h = "h\<lparr>cs_lines := (cs_lines h)[?idx := x], cs_count := ?k + 1\<rparr>"
  have "(cs_lines h)[?idx := x] ! ((cs_start h + i) mod ?n) = cs_lines h ! ((cs_start h + i) mod ?n)"
    if "i < ?k" for i
    using mod_add_inj [of i ?n ?k "cs_start h"] that room by (metis nth_list_update_neq less_irrefl less_trans)
  then have "capture_content ?h = capture_content h @ [x]"
    using idx by (simp add: capture_content_def)
  moreover have "newest ?n (capture_content h @ [x]) = capture_content h @ [x]"
    using room by (simp add: newest_all capture_content_def)
  ultimately show ?thesis using room inv idx by (simp add: addLine_def Let_def slice_set_def capture_invar_def)
qed

lemma addLine_full:
  assumes inv: "capture_invar h" and full: "\<not> cs_count h < cs_capacity h"
  shows "\<exists>h'. addLine h x = Some h' \<and> capture_invar h' \<and> cs_capacity h' = cs_capacity h \<and>
    capture_content h' = newest (cs_capacity h) (capture_content h @ [x])"
proof -
  let ?n = "cs_capacity h"
  from full inv have k: "cs_count h = ?n" "0 < ?n" "cs_start h < length (cs_lines h)"
    by (auto simp: capture_invar_def)
  let ?h = "h\<lparr>cs_lines := (cs_lines h)[cs_start h := x], cs_start := (cs_start h + 1) mod ?n\<rparr>"
  have "capture_content ?h = newest ?n (capture_content h @ [x])"
  proof (rule nth_equalityI)
    show "length (capture_content ?h) = length (newest ?n (capture_content h @ [x]))"
      using k by (simp add: capture_content_def)
    fix i assume "i < length (capture_content ?h)"
    then have i: "i < ?n" using k by (simp add: capture_content_def)
    have s0: "cs_start h = (cs_start h + 0) mod ?n" using inv by (simp add: capture_invar_def)
    have hit: "(cs_start h + Suc i) mod ?n = cs_start h \<longleftrightarrow> Suc i = ?n"
    proof
      assume e: "(cs_start h + Suc i) mod ?n = cs_start h"
      show "Suc i = ?n"
      proof (rule ccontr)
        assume "Suc i \<noteq> ?n"
        with i have "Suc i < ?n" by simp
        from mod_add_inj [OF this k(2), of "cs_start h"] e s0 show False by simp
      qed
    qed (use s0 in simp)
    have len: "length (capture_content h) = ?n" using k by (simp add: capture_content_def)
    have "newest ?n (capture_content h @ [x]) ! i = (capture_content h @ [x]) ! Suc i"
      using i len by (auto simp: newest_def nth_append)
    also have "\<dots> = (if Suc i = ?n then x else cs_lines h ! ((cs_start h + Suc i) mod ?n))"
      using i k len by (auto simp: nth_append capture_content_def)
    also have "\<dots> = capture_content ?h ! i"
      using i k hit by (auto simp: capture_content_def mod_simps nth_list_update)
    finally show "capture_content ?h ! i = newest ?n (capture_content h @ [x]) ! i" by simp
  qed
  moreover have "capture_invar ?h" using inv k by (simp add: capture_invar_def)
  ultimately show ?thesis using full k by (simp add: addLine_def slice_set_def)
qed

lemma addLine_spec:
  assumes "capture_invar h"
  shows "\<exists>h'. addLine h x = Some h' \<and> capture_invar h' \<and> cs_capacity h' = cs_capacity h \<and>
    capture_content h' = newest (cs_capacity h) (capture_content h @ [x])"
  using addLine_room [OF assms] addLine_full [OF assms] by blast

interpretation ring: bounded_log capture_invar cs_capacity capture_content addLine
proof
  fix h :: captureState and x :: string
  show "capture_invar h \<Longrightarrow> length (capture_content h) \<le> cs_capacity h"
    by (simp add: capture_content_def capture_invar_def)
  show "capture_invar h \<Longrightarrow> \<exists>h'. addLine h x = Some h' \<and> capture_invar h' \<and> cs_capacity h' = cs_capacity h \<and>
      capture_content h' = newest (cs_capacity h) (capture_content h @ [x])"
    by (rule addLine_spec)
qed

lemma ring_add_all: "ring.add_all = addLines"
proof (intro ext)
  fix h xs
  show "ring.add_all h xs = addLines h xs"
    by (induction xs arbitrary: h) (simp_all split: option.split)
qed

text \<open>
  Property C28. The ring buffer of a deployment implements a bounded log: after any number of log
  records no index was out of range, and the lines it returns are exactly the newest ones, formatted,
  oldest first, at most as many as the capacity (a capacity below one counts as one).
\<close>

theorem captured_lines_are_newest:
  "\<exists>h. handleAll (newCapturingHandler capacity) rs = Some h \<and>
     Lines h = Some (newest (nat (max 1 capacity)) (map formatRecord rs))"
proof -
  let ?h0 = "newCapturingHandler capacity"
  obtain h where h: "addLines ?h0 (map formatRecord rs) = Some h" "capture_invar h"
      "capture_content h = newest (cs_capacity ?h0) (capture_content ?h0 @ map formatRecord rs)"
    using ring.add_all_newest [OF new_invar] unfolding ring_add_all by blast
  have "cs_capacity ?h0 = nat (max 1 capacity)" "capture_content ?h0 = []"
    by (auto simp: newCapturingHandler_def Let_def capture_content_def)
  with h show ?thesis by (simp add: handleAll_addLines Lines_content)
qed

end
