(* ===== verification/Sidecar_Os.thy ===== *)
theory Sidecar_Os
  imports Go_Errors
begin

section \<open>The process environment of the sidecar: \<^verbatim>\<open>cmd/sidecar/server/server.go\<close>\<close>

text \<open>
  The Zarf library finds the cluster through the variable \<^verbatim>\<open>KUBECONFIG\<close> and the registry credentials
  through \<^verbatim>\<open>DOCKER_CONFIG\<close>, both of the whole process. A request that brings its own points them to
  temporary files, and its cleanup puts back what was there. The model has the variables, the
  temporary directories, the files and the mutex \<^verbatim>\<open>kubeconfigMu\<close>. \<^verbatim>\<open>os.Setenv\<close> is exact: it fails on a
  bad name or a zero byte. The file system may fail at any call; a record of parameters says when.
\<close>

record osstate =
  os_env :: "string \<rightharpoonup> string"
  os_dirs :: "string list"
  os_files :: "(string \<times> string) list"
  os_mu :: bool

record osapi =
  os_MkdirTemp :: "osstate \<Rightarrow> string \<Rightarrow> goerr + string"
  os_WriteFileErr :: "osstate \<Rightarrow> string \<Rightarrow> goerr option"
  os_RemoveAllErr :: "osstate \<Rightarrow> string \<Rightarrow> goerr option"

definition setenv_bad :: "string \<Rightarrow> string \<Rightarrow> bool" where
  "setenv_bad key v \<longleftrightarrow> key = [] \<or> CHR ''='' \<in> set key \<or> CHR 0x00 \<in> set key \<or> CHR 0x00 \<in> set v"

definition os_Setenv :: "string \<Rightarrow> string \<Rightarrow> osstate \<Rightarrow> goerr option \<times> osstate" where
  "os_Setenv key v s =
     (if setenv_bad key v then (Some (ErrorString ''setenv: invalid argument''), s)
      else (None, s\<lparr>os_env := (os_env s)(key \<mapsto> v)\<rparr>))"

definition os_Unsetenv :: "string \<Rightarrow> osstate \<Rightarrow> osstate" where
  "os_Unsetenv key s = s\<lparr>os_env := (os_env s)(key := None)\<rparr>"

text \<open>\<^verbatim>\<open>filepath.Join\<close> on a directory name in canonical form, as \<^verbatim>\<open>os.MkdirTemp\<close> returns it.\<close>

definition filepath_Join :: "string \<Rightarrow> string \<Rightarrow> string" where
  "filepath_Join d f = d @ ''/'' @ f"

definition mkdir :: "string \<Rightarrow> osstate \<Rightarrow> osstate" where
  "mkdir d s = s\<lparr>os_dirs := d # os_dirs s\<rparr>"

definition write_file :: "string \<Rightarrow> string \<Rightarrow> osstate \<Rightarrow> osstate" where
  "write_file p b s = s\<lparr>os_files := (p, b) # os_files s\<rparr>"

definition os_RemoveAll :: "osapi \<Rightarrow> string \<Rightarrow> osstate \<Rightarrow> osstate" where
  "os_RemoveAll A d s =
     (case os_RemoveAllErr A s d of
        Some e \<Rightarrow> s
      | None \<Rightarrow> s\<lparr>os_dirs := removeAll d (os_dirs s),
                 os_files := filter (\<lambda>(p, b). \<not> strings_HasPrefix p (d @ ''/'')) (os_files s)\<rparr>)"

definition lock :: "osstate \<Rightarrow> osstate" where
  "lock s = s\<lparr>os_mu := True\<rparr>"

definition unlock :: "osstate \<Rightarrow> osstate" where
  "unlock s = s\<lparr>os_mu := False\<rparr>"

text \<open>
  Putting a variable back: \<open>orig\<close> is what \<^verbatim>\<open>os.LookupEnv\<close> found. The cleanups that the two functions
  return are closures; here they are data and \<open>run\<close> functions.
\<close>

definition restoreEnv :: "string \<Rightarrow> string option \<Rightarrow> osstate \<Rightarrow> osstate" where
  "restoreEnv key orig s = (case orig of Some v \<Rightarrow> snd (os_Setenv key v s) | None \<Rightarrow> os_Unsetenv key s)"

datatype kubeconfigCleanup = KubeUnlock | KubeRestore "string option" string

definition KUBECONFIG :: string where "KUBECONFIG = ''KUBECONFIG''"
definition DOCKER_CONFIG :: string where "DOCKER_CONFIG = ''DOCKER_CONFIG''"

fun runKubeconfigCleanup :: "osapi \<Rightarrow> kubeconfigCleanup \<Rightarrow> osstate \<Rightarrow> osstate" where
  "runKubeconfigCleanup A KubeUnlock s = unlock s"
| "runKubeconfigCleanup A (KubeRestore orig tmpDir) s =
     unlock (os_RemoveAll A tmpDir (restoreEnv KUBECONFIG orig s))"

definition applyKubeconfig :: "osapi \<Rightarrow> string \<Rightarrow> osstate \<Rightarrow> (goerr + kubeconfigCleanup) \<times> osstate" where
  "applyKubeconfig A kubeconfig s =
     (let s0 = lock s in
      if kubeconfig = [] then (Inr KubeUnlock, s0)
      else case os_MkdirTemp A s0 ''zarf-kubeconfig-*'' of
        Inl err \<Rightarrow> (Inl (fmt_wrap ''failed to create kubeconfig temp dir'' err), unlock s0)
      | Inr tmpDir \<Rightarrow>
          (let s1 = mkdir tmpDir s0; path = filepath_Join tmpDir ''config'' in
           case os_WriteFileErr A s1 path of
             Some err \<Rightarrow> (Inl (fmt_wrap ''failed to write kubeconfig'' err), unlock (os_RemoveAll A tmpDir s1))
           | None \<Rightarrow>
               (let s2 = write_file path kubeconfig s1; orig = os_env s2 KUBECONFIG in
                case os_Setenv KUBECONFIG path s2 of
                  (Some err, s3) \<Rightarrow>
                    (Inl (fmt_wrap ''failed to set KUBECONFIG'' err), unlock (os_RemoveAll A tmpDir s3))
                | (None, s3) \<Rightarrow> (Inr (KubeRestore orig tmpDir), s3))))"

datatype registryCleanup = RegNone | RegRestore "string option" string

fun runRegistryCleanup :: "osapi \<Rightarrow> registryCleanup \<Rightarrow> osstate \<Rightarrow> osstate" where
  "runRegistryCleanup A RegNone s = s"
| "runRegistryCleanup A (RegRestore orig tmpDir) s = os_RemoveAll A tmpDir (restoreEnv DOCKER_CONFIG orig s)"

text \<open>
  The errors of \<^verbatim>\<open>applyRegistryCredentials\<close> are gRPC status errors: the code, and the text of the
  message. \<^verbatim>\<open>logConfiguredRegistryHosts\<close> only logs.
\<close>

definition applyRegistryCredentials ::
  "osapi \<Rightarrow> string \<Rightarrow> osstate \<Rightarrow> (code \<times> string + registryCleanup) \<times> osstate" where
  "applyRegistryCredentials A credentialJSON s =
     (if credentialJSON = [] then (Inr RegNone, s)
      else case os_MkdirTemp A s ''zarf-docker-config-*'' of
        Inl err \<Rightarrow> (Inl (codes_Internal, ''failed to create temp docker config dir: '' @ err_Error err), s)
      | Inr tmpDir \<Rightarrow>
          (let s1 = mkdir tmpDir s; path = filepath_Join tmpDir ''config.json'' in
           case os_WriteFileErr A s1 path of
             Some err \<Rightarrow> (Inl (codes_Internal, ''failed to write temp docker config: '' @ err_Error err),
                          os_RemoveAll A tmpDir s1)
           | None \<Rightarrow>
               (let s2 = write_file path credentialJSON s1; orig = os_env s2 DOCKER_CONFIG in
                case os_Setenv DOCKER_CONFIG tmpDir s2 of
                  (Some err, s3) \<Rightarrow>
                    (Inl (codes_Internal, ''failed to set DOCKER_CONFIG: '' @ err_Error err), os_RemoveAll A tmpDir s3)
                | (None, s3) \<Rightarrow> (Inr (RegRestore orig tmpDir), s3))))"

subsection \<open>What the file system promises\<close>

text \<open>
  A new temporary directory is new: no directory has its name and no file is below it. Its name has
  no zero byte, as no name of the file system has. And no variable of the process has one.
\<close>

definition below :: "string \<Rightarrow> string \<Rightarrow> bool" where
  "below d p \<longleftrightarrow> strings_HasPrefix p (d @ ''/'')"

definition env_ok :: "osstate \<Rightarrow> bool" where
  "env_ok s \<longleftrightarrow> (\<forall>k v. os_env s k = Some v \<longrightarrow> CHR 0x00 \<notin> set v)"

lemma restoreEnv_frame [simp]:
  "os_dirs (restoreEnv key orig s) = os_dirs s" "os_files (restoreEnv key orig s) = os_files s"
  "os_mu (restoreEnv key orig s) = os_mu s"
  by (auto simp: restoreEnv_def os_Setenv_def os_Unsetenv_def split: option.splits)

lemma RemoveAll_frame [simp]:
  "os_env (os_RemoveAll A d s) = os_env s" "os_mu (os_RemoveAll A d s) = os_mu s"
  by (simp_all add: os_RemoveAll_def split: option.splits)

lemma env_names:
  "KUBECONFIG \<noteq> []" "CHR ''='' \<notin> set KUBECONFIG" "CHR 0x00 \<notin> set KUBECONFIG"
  "DOCKER_CONFIG \<noteq> []" "CHR ''='' \<notin> set DOCKER_CONFIG" "CHR 0x00 \<notin> set DOCKER_CONFIG"
  "DOCKER_CONFIG \<noteq> KUBECONFIG" "KUBECONFIG \<noteq> DOCKER_CONFIG"
  by (simp_all add: KUBECONFIG_def DOCKER_CONFIG_def)

text \<open>The state of the process that other requests see.\<close>

definition same_process :: "osstate \<Rightarrow> osstate \<Rightarrow> bool" where
  "same_process s s' \<longleftrightarrow> os_env s' = os_env s \<and> os_mu s' = os_mu s"

lemma same_process_refl: "same_process s s"
  by (simp add: same_process_def)

lemma same_process_trans: "same_process s t \<Longrightarrow> same_process t u \<Longrightarrow> same_process s u"
  by (simp add: same_process_def)

definition same_files :: "osstate \<Rightarrow> osstate \<Rightarrow> bool" where
  "same_files s s' \<longleftrightarrow> set (os_dirs s') = set (os_dirs s) \<and> set (os_files s') = set (os_files s)"

lemma RemoveAll_temp:
  assumes "os_RemoveAllErr A s' d = None" and "d \<notin> set (os_dirs s)"
    and "\<And>p b. (p, b) \<in> set (os_files s) \<Longrightarrow> \<not> below d p"
    and "set (os_dirs s') = insert d (set (os_dirs s))"
    and "set (os_files s') = insert (p0, b0) (set (os_files s))" and "below d p0"
  shows "same_files s (os_RemoveAll A d s')"
  using assms by (auto simp: same_files_def os_RemoveAll_def below_def)

lemma restoreEnv_back:
  assumes "env_ok s" and "key \<noteq> []" and "CHR ''='' \<notin> set key" and "CHR 0x00 \<notin> set key"
    and "os_env s' = (os_env s)(key \<mapsto> v)"
  shows "os_env (restoreEnv key (os_env s key) s') = os_env s"
  using assms by (auto simp: restoreEnv_def os_Setenv_def setenv_bad_def os_Unsetenv_def env_ok_def split: option.splits)

lemma path_no_zero: "CHR 0x00 \<notin> set d \<Longrightarrow> CHR 0x00 \<notin> set (filepath_Join d ''config'')"
  by (simp add: filepath_Join_def)

lemma below_Join [simp]: "below d (filepath_Join d f)"
  by (simp add: below_def filepath_Join_def HasPrefix_prefix)

text \<open>
  The state in which a request with kubeconfig \<open>kc\<close> holds the mutex, when the variables were \<open>env0\<close>
  before: it sees them unchanged, or \<^verbatim>\<open>KUBECONFIG\<close> names a file with its own kubeconfig.
\<close>

definition own_cluster :: "(string \<rightharpoonup> string) \<Rightarrow> string \<Rightarrow> kubeconfigCleanup \<Rightarrow> osstate \<Rightarrow> bool" where
  "own_cluster env0 kc cl s \<longleftrightarrow> os_mu s \<and>
     (case cl of
        KubeUnlock \<Rightarrow> kc = [] \<and> os_env s = env0
      | KubeRestore orig d \<Rightarrow> kc \<noteq> [] \<and> orig = env0 KUBECONFIG \<and>
          os_env s = env0(KUBECONFIG \<mapsto> filepath_Join d ''config'') \<and>
          map_of (os_files s) (filepath_Join d ''config'') = Some kc)"

locale file_system =
  fixes A :: osapi
  assumes mkdir_new: "os_MkdirTemp A s pat = Inr d \<Longrightarrow>
    d \<notin> set (os_dirs s) \<and> CHR 0x00 \<notin> set d \<and> (\<forall>(p, b) \<in> set (os_files s). \<not> below d p)"
begin

lemma applyKubeconfig_failed:
  "applyKubeconfig A kc s = (Inl e, s') \<Longrightarrow> os_env s' = os_env s \<and> \<not> os_mu s'"
  by (auto simp: applyKubeconfig_def lock_def unlock_def mkdir_def write_file_def os_Setenv_def Let_def
      split: if_splits sum.splits option.splits)

lemma applyKubeconfig_own:
  assumes "applyKubeconfig A kc s = (Inr cl, s')"
  shows "own_cluster (os_env s) kc cl s'"
  using assms
  by (auto simp: applyKubeconfig_def own_cluster_def lock_def mkdir_def write_file_def os_Setenv_def Let_def
      split: if_splits sum.splits option.splits)

lemma cleanup_restores:
  assumes "own_cluster (os_env s) kc cl s1" and "env_ok s" and "same_process s1 s'"
  shows "os_env (runKubeconfigCleanup A cl s') = os_env s \<and> \<not> os_mu (runKubeconfigCleanup A cl s')"
proof (cases cl)
  case KubeUnlock
  with assms show ?thesis by (simp add: own_cluster_def unlock_def same_process_def)
next
  case (KubeRestore orig d)
  with assms(1,3) have e: "orig = os_env s KUBECONFIG"
      "os_env s' = (os_env s)(KUBECONFIG \<mapsto> filepath_Join d ''config'')"
    by (auto simp: own_cluster_def same_process_def)
  from restoreEnv_back [OF assms(2) env_names(1-3) e(2)] e(1) KubeRestore show ?thesis by (simp add: unlock_def)
qed

lemma applyKubeconfig_env_ok:
  assumes "applyKubeconfig A kc s = (Inr cl, s')" and "env_ok s"
  shows "env_ok s'"
  using assms mkdir_new
  by (auto simp: applyKubeconfig_def lock_def mkdir_def write_file_def os_Setenv_def Let_def env_ok_def
      setenv_bad_def split: if_splits sum.splits option.splits)

lemma cleanup_files:
  assumes "applyKubeconfig A kc s = (Inr cl, s')" and "\<And>t d. os_RemoveAllErr A t d = None"
  shows "same_files s (runKubeconfigCleanup A cl s')"
proof (cases cl)
  case KubeUnlock
  with assms(1) show ?thesis
    by (auto simp: applyKubeconfig_def lock_def unlock_def same_files_def os_Setenv_def Let_def
        split: if_splits sum.splits option.splits)
next
  case (KubeRestore orig d)
  let ?t = "restoreEnv KUBECONFIG orig s'"
  from assms(1) KubeRestore have m: "os_MkdirTemp A (lock s) ''zarf-kubeconfig-*'' = Inr d"
      "os_dirs s' = d # os_dirs s" "os_files s' = (filepath_Join d ''config'', kc) # os_files s"
    by (auto simp: applyKubeconfig_def lock_def mkdir_def write_file_def os_Setenv_def Let_def
        split: if_splits sum.splits option.splits)
  have "same_files s (os_RemoveAll A d ?t)"
    by (rule RemoveAll_temp [where ?p0.0 = "filepath_Join d ''config''" and ?b0.0 = kc]) (use mkdir_new [OF m(1)] m assms(2) in \<open>auto simp: lock_def\<close>)
  with KubeRestore show ?thesis by (simp add: same_files_def unlock_def)
qed

text \<open>The registry credentials: on failure nothing changed, on success the cleanup undoes the change.\<close>

lemma applyRegistryCredentials_failed:
  "applyRegistryCredentials A cj s = (Inl e, s') \<Longrightarrow> same_process s s'"
  by (auto simp: applyRegistryCredentials_def same_process_def mkdir_def write_file_def os_Setenv_def Let_def
      split: if_splits sum.splits option.splits)

lemma applyRegistryCredentials_env:
  assumes "applyRegistryCredentials A cj s = (Inr cl, s')"
  shows "os_mu s' = os_mu s \<and> (\<forall>k. k \<noteq> DOCKER_CONFIG \<longrightarrow> os_env s' k = os_env s k)"
  using assms
  by (auto simp: applyRegistryCredentials_def mkdir_def write_file_def os_Setenv_def Let_def
      split: if_splits sum.splits option.splits)

lemma registry_cleanup_restores:
  assumes "applyRegistryCredentials A cj s = (Inr cl, s')" and "env_ok s" and "same_process s' s''"
  shows "same_process s (runRegistryCleanup A cl s'')"
proof (cases cl)
  case RegNone
  with assms show ?thesis
    by (auto simp: applyRegistryCredentials_def same_process_def os_Setenv_def Let_def
        split: if_splits sum.splits option.splits)
next
  case (RegRestore orig d)
  with assms(1) have e: "orig = os_env s DOCKER_CONFIG" "os_env s' = (os_env s)(DOCKER_CONFIG \<mapsto> d)" "os_mu s' = os_mu s"
    by (auto simp: applyRegistryCredentials_def mkdir_def write_file_def os_Setenv_def Let_def
        split: if_splits sum.splits option.splits)
  from assms(3) e(2) have "os_env s'' = (os_env s)(DOCKER_CONFIG \<mapsto> d)" by (simp add: same_process_def)
  from restoreEnv_back [OF assms(2) env_names(4-6) this] e assms(3) RegRestore show ?thesis
    by (simp add: same_process_def)
qed

end

subsection \<open>Requests in parallel\<close>

text \<open>
  Requests with kubeconfigs \<open>kc\<close> enter, work and leave in any order that the mutex allows: the call of
  \<^verbatim>\<open>Lock\<close> waits while another request is inside.
\<close>

datatype kpc = KBefore | KInside kubeconfigCleanup | KAfter

record kstate =
  ks_os :: osstate
  ks_pc :: "nat \<Rightarrow> kpc"

inductive kube_step :: "osapi \<Rightarrow> (nat \<Rightarrow> string) \<Rightarrow> kstate \<Rightarrow> kstate \<Rightarrow> bool" for A kc where
  enter: "ks_pc t i = KBefore \<Longrightarrow> \<not> os_mu (ks_os t) \<Longrightarrow> applyKubeconfig A (kc i) (ks_os t) = (Inr cl, s) \<Longrightarrow>
    kube_step A kc t \<lparr>ks_os = s, ks_pc = (ks_pc t)(i := KInside cl)\<rparr>"
| refuse: "ks_pc t i = KBefore \<Longrightarrow> \<not> os_mu (ks_os t) \<Longrightarrow> applyKubeconfig A (kc i) (ks_os t) = (Inl e, s) \<Longrightarrow>
    kube_step A kc t \<lparr>ks_os = s, ks_pc = (ks_pc t)(i := KAfter)\<rparr>"
| leave: "ks_pc t i = KInside cl \<Longrightarrow>
    kube_step A kc t \<lparr>ks_os = runKubeconfigCleanup A cl (ks_os t), ks_pc = (ks_pc t)(i := KAfter)\<rparr>"

inductive kube_reachable :: "osapi \<Rightarrow> (nat \<Rightarrow> string) \<Rightarrow> osstate \<Rightarrow> kstate \<Rightarrow> bool" for A kc s0 where
  init: "kube_reachable A kc s0 \<lparr>ks_os = s0, ks_pc = (\<lambda>_. KBefore)\<rparr>"
| step: "kube_reachable A kc s0 t \<Longrightarrow> kube_step A kc t t' \<Longrightarrow> kube_reachable A kc s0 t'"

definition kube_inv :: "(nat \<Rightarrow> string) \<Rightarrow> osstate \<Rightarrow> kstate \<Rightarrow> bool" where
  "kube_inv kc s0 t \<longleftrightarrow>
     (if os_mu (ks_os t)
      then \<exists>i cl. ks_pc t i = KInside cl \<and> own_cluster (os_env s0) (kc i) cl (ks_os t) \<and>
             (\<forall>j cl'. ks_pc t j = KInside cl' \<longrightarrow> j = i)
      else os_env (ks_os t) = os_env s0 \<and> (\<forall>i cl. ks_pc t i \<noteq> KInside cl))"

context file_system
begin

lemma kube_inv_step:
  assumes "kube_step A kc t t'" and inv: "kube_inv kc s0 t" and ok: "env_ok s0"
  shows "kube_inv kc s0 t'"
  using assms(1)
proof cases
  case (enter i cl s)
  with inv have "os_env (ks_os t) = os_env s0" by (simp add: kube_inv_def)
  with applyKubeconfig_own [OF enter(4)] have "own_cluster (os_env s0) (kc i) cl s" "os_mu s"
    by (simp_all add: own_cluster_def)
  with enter inv show ?thesis by (auto simp: kube_inv_def)
next
  case (refuse i e s)
  with applyKubeconfig_failed [OF refuse(4)] inv show ?thesis by (auto simp: kube_inv_def)
next
  case (leave i cl)
  with inv have own: "own_cluster (os_env s0) (kc i) cl (ks_os t)" and one: "\<And>j cl'. ks_pc t j = KInside cl' \<Longrightarrow> j = i"
    by (auto simp: kube_inv_def split: if_splits)
  from one have "\<forall>j cl'. ((ks_pc t)(i := KAfter)) j \<noteq> KInside cl'" by auto
  with cleanup_restores [OF own ok same_process_refl] leave(1) show ?thesis by (simp add: kube_inv_def)
qed

lemma kube_reachable_inv:
  assumes "kube_reachable A kc s0 t" and "env_ok s0" and "\<not> os_mu s0"
  shows "kube_inv kc s0 t"
  using assms(1)
proof induction
  case init
  show ?case using assms(3) by (simp add: kube_inv_def)
next
  case (step t t')
  then show ?case using kube_inv_step assms(2) by blast
qed

end

subsection \<open>An instance\<close>

text \<open>A file system whose temporary directories have names longer than every name in use.\<close>

definition fresh_dir :: "osstate \<Rightarrow> string" where
  "fresh_dir s = ''/tmp/'' @ replicate (Suc (sum_list (map length (os_dirs s) @ map (length \<circ> fst) (os_files s)))) CHR ''x''"

definition ref_os :: osapi where
  "ref_os = \<lparr>os_MkdirTemp = (\<lambda>s _. Inr (fresh_dir s)), os_WriteFileErr = (\<lambda>_ _. None), os_RemoveAllErr = (\<lambda>_ _. None)\<rparr>"

lemma fresh_dir_longer:
  "length d < length (fresh_dir s)" if "d \<in> set (os_dirs s)"
  using member_le_sum_list [of "length d" "map length (os_dirs s)"] that by (simp add: fresh_dir_def)

lemma fresh_dir_no_files:
  "length p < length (fresh_dir s)" if "(p, b) \<in> set (os_files s)"
proof -
  have "length p \<le> sum_list (map (length \<circ> fst) (os_files s))"
    using that by (intro member_le_sum_list) force+
  then show ?thesis by (simp add: fresh_dir_def)
qed

interpretation ref_files: file_system ref_os
proof
  fix s pat d
  assume "os_MkdirTemp ref_os s pat = Inr d"
  then have d: "d = fresh_dir s" by (simp add: ref_os_def)
  have "d \<notin> set (os_dirs s)" using fresh_dir_longer d by blast
  moreover have "CHR 0x00 \<notin> set d" by (auto simp: d fresh_dir_def)
  moreover have "\<not> below d p" if "(p, b) \<in> set (os_files s)" for p b
    using fresh_dir_no_files [OF that] by (auto simp: d below_def HasPrefix_prefix dest!: prefix_length_le)
  ultimately show "d \<notin> set (os_dirs s) \<and> CHR 0x00 \<notin> set d \<and> (\<forall>(p, b) \<in> set (os_files s). \<not> below d p)" by blast
qed

definition os0 :: osstate where
  "os0 = \<lparr>os_env = [''HOME'' \<mapsto> ''/root''], os_dirs = [''/tmp''], os_files = [], os_mu = False\<rparr>"

lemma os0_ok [simp]: "env_ok os0" "\<not> os_mu os0"
  by (simp_all add: env_ok_def os0_def)

subsection \<open>Properties\<close>

text \<open>
  Applying a kubeconfig and running its cleanup is a round trip: the process variables
  are the ones from before and the mutex is free; when the temporary directory can be removed, so are
  the files. A call that fails leaves the variables alone and does not keep the mutex.
\<close>

theorem kubeconfig_round_trip:
  assumes "file_system A" and "env_ok s"
  shows "case applyKubeconfig A kc s of
      (Inl e, s') \<Rightarrow> os_env s' = os_env s \<and> \<not> os_mu s'
    | (Inr cl, s') \<Rightarrow> own_cluster (os_env s) kc cl s' \<and>
        os_env (runKubeconfigCleanup A cl s') = os_env s \<and> \<not> os_mu (runKubeconfigCleanup A cl s') \<and>
        ((\<forall>t d. os_RemoveAllErr A t d = None) \<longrightarrow> same_files s (runKubeconfigCleanup A cl s'))"
  using file_system.applyKubeconfig_failed [OF assms(1)] file_system.applyKubeconfig_own [OF assms(1)]
    file_system.cleanup_restores [OF assms(1) _ assms(2) same_process_refl] file_system.cleanup_files [OF assms(1)]
  by (fastforce split: prod.splits sum.splits)

theorem kubeconfig_round_trip_witness:
  "case applyKubeconfig ref_os ''apiVersion: v1'' os0 of
      (Inl e, s') \<Rightarrow> False
    | (Inr cl, s') \<Rightarrow> os_env s' \<noteq> os_env os0 \<and> os_env (runKubeconfigCleanup ref_os cl s') = os_env os0"
proof -
  have "case applyKubeconfig ref_os ''apiVersion: v1'' os0 of (Inl e, s') \<Rightarrow> False
      | (Inr cl, s') \<Rightarrow> os_env s' KUBECONFIG \<noteq> os_env os0 KUBECONFIG"
    by code_simp
  moreover note kubeconfig_round_trip [OF ref_files.file_system_axioms os0_ok(1), of "''apiVersion: v1''"]
  ultimately show ?thesis by (auto split: prod.splits sum.splits)
qed



end
