(* ===== verification/Sidecar_Types.thy ===== *)
theory Sidecar_Types
  imports Zarf_Interface Log_Capture Sidecar_Os
begin

section \<open>Messages and services of the sidecar\<close>

text \<open>
  The messages of the protocol between operator and sidecar, as \<^verbatim>\<open>cmd/sidecar/server/server.go\<close> and
  \<^verbatim>\<open>pkg/zarf/grpc/client.go\<close> read and write them; a message field that holds a duration is the
  duration it denotes, or \<^verbatim>\<open>None\<close> when it is unset. Deployed components and charts have the same fields
  in the protocol, in Zarf's state and in \<^verbatim>\<open>pkg/zarf\<close>; the conversions between them are functions.
  The Zarf library, the cluster and the operating system are parameters: the record \<open>sidecar\<close>.
\<close>

subsection \<open>Messages\<close>

record DeployRequest =
  rq_Source :: string
  rq_Components :: "string list"
  rq_SetVariables :: "string \<rightharpoonup> string"
  rq_AdoptExistingResources :: bool
  rq_Timeout :: "int option"
  rq_Retries :: int
  rq_NamespaceOverride :: string
  rq_Shasum :: string
  rq_SkipSignatureValidation :: bool
  rq_Architecture :: string
  rq_OciConcurrency :: int
  rq_PublicKeyPath :: string
  rq_LogLevel :: string
  rq_LogFormat :: string
  rq_NoColor :: bool
  rq_PlainHttp :: bool
  rq_InsecureSkipTlsVerify :: bool
  rq_SkipVersionCheck :: bool
  rq_YoloMode :: bool
  rq_RegistryCredentialJson :: string
  rq_HelmDebugEnabled :: bool
  rq_Kubeconfig :: string
  rq_InitOptions :: "ZarfInitOptions option"

record DeployResponse =
  rs_PackageName :: string
  rs_Version :: string
  rs_Generation :: int
  rs_DeployedComponents :: "DeployedComponent list"
  rs_DeployLogs :: "string list"

record RemoveRequest =
  rm_PackageName :: string
  rm_Components :: "string list"
  rm_Timeout :: "int option"
  rm_NamespaceOverride :: string
  rm_SkipVersionCheck :: bool
  rm_Kubeconfig :: string

record GetDeployedPackageRequest =
  gq_PackageName :: string
  gq_Kubeconfig :: string

record HealthResponse =
  hr_Healthy :: bool
  hr_Version :: string
  hr_Message :: string

subsection \<open>The Zarf library\<close>

record RegistryInfo =
  rgi_Address :: string
  rgi_NodePort :: int
  rgi_Secret :: string
  rgi_PushUsername :: string
  rgi_PushPassword :: string
  rgi_PullUsername :: string
  rgi_PullPassword :: string

definition zero_RegistryInfo :: RegistryInfo where
  "zero_RegistryInfo =
     \<lparr>rgi_Address = [], rgi_NodePort = 0, rgi_Secret = [], rgi_PushUsername = [], rgi_PushPassword = [],
      rgi_PullUsername = [], rgi_PullPassword = []\<rparr>"

record LoadOptions =
  lo_Shasum :: string
  lo_Architecture :: string
  lo_PublicKeyPath :: string
  lo_Verify :: bool
  lo_OCIConcurrency :: int
  lo_CachePath :: string
  lo_PlainHTTP :: bool
  lo_InsecureSkipTLSVerify :: bool

text \<open>A component of a package, with the images that its method \<^verbatim>\<open>GetImages\<close> returns.\<close>

record pkgComponent =
  cm_Name :: string
  cm_Images :: "string list"

text \<open>A loaded package: its metadata, its components, and whether it is an init package.\<close>

record layout =
  ly_Name :: string
  ly_Version :: string
  ly_Description :: string
  ly_Architecture :: string
  ly_YOLO :: bool
  ly_IsInitConfig :: bool
  ly_Components :: "pkgComponent list"

record PackagerDeployOptions =
  po_SetVariables :: "string \<rightharpoonup> string"
  po_AdoptExistingResources :: bool
  po_Timeout :: int
  po_Retries :: int
  po_NamespaceOverride :: string
  po_OCIConcurrency :: int
  po_IsInteractive :: bool
  po_SkipVersionCheck :: bool
  po_RegistryInfo :: RegistryInfo
  po_PlainHTTP :: bool
  po_InsecureSkipTLSVerify :: bool

record PackagerRemoveOptions =
  pr_Timeout :: int
  pr_NamespaceOverride :: string
  pr_SkipVersionCheck :: bool

text \<open>What the cluster records of a deployed package; \<open>dp_Data\<close> stands for its definition.\<close>

record deployedPackage =
  dp_Name :: string
  dp_Version :: string
  dp_Generation :: int
  dp_CLIVersion :: string
  dp_DeployedComponents :: "DeployedComponent list"
  dp_NamespaceOverride :: string
  dp_Data :: nat

record loggerConfig =
  lc_Level :: int
  lc_Format :: string
  lc_Color :: bool

subsection \<open>Calls and parameters\<close>

text \<open>
  The calls a handler makes, in order, each with the state of the process in which it was made.
  What a service answers may depend on the whole history.
\<close>

datatype scall =
    SLoad string LoadOptions
  | SDeploy layout PackagerDeployOptions
  | SVerify layout PackagerDeployOptions
  | SCleanup layout
  | SCluster
  | SListNodes
  | SListNamespaces
  | SGetDeployed string
  | SListDeployed
  | SRemove nat PackagerRemoveOptions
  | SRelease

type_synonym shistory = "(scall \<times> osstate) list"

record sidecar =
  sc_os :: osapi
  sc_version :: string
  sc_cachePath :: string
  sc_GOARCH :: string
  sc_baseConfig :: loggerConfig
  sc_ParseLevel :: "string \<Rightarrow> goerr + int"
  sc_loggerNewErr :: "loggerConfig \<Rightarrow> goerr option"
  sc_statusText :: "code \<Rightarrow> string \<Rightarrow> string"
  sc_WithDetailsErr :: "code \<Rightarrow> deploy_error_detail \<Rightarrow> goerr option"
  sc_loadPkg :: "shistory \<Rightarrow> string \<Rightarrow> LoadOptions \<Rightarrow> goerr + layout"
  sc_filter :: "string \<Rightarrow> layout \<Rightarrow> goerr + pkgComponent list"
  sc_deployPkg :: "shistory \<Rightarrow> layout \<Rightarrow> PackagerDeployOptions \<Rightarrow> goerr + DeployedComponent list"
  sc_verifyImgs :: "shistory \<Rightarrow> layout \<Rightarrow> PackagerDeployOptions \<Rightarrow> goerr option"
  sc_removePkg :: "shistory \<Rightarrow> nat \<Rightarrow> PackagerRemoveOptions \<Rightarrow> goerr option"
  sc_clusterNewErr :: "shistory \<Rightarrow> goerr option"
  sc_getDeployed :: "shistory \<Rightarrow> string \<Rightarrow> goerr + deployedPackage"
  sc_listDeployed :: "shistory \<Rightarrow> goerr + deployedPackage list"
  sc_listNodes :: "shistory \<Rightarrow> goerr + string list"
  sc_listNamespacesErr :: "shistory \<Rightarrow> goerr option"
  sc_canceled :: "shistory \<Rightarrow> bool"
  sc_logs :: "shistory \<Rightarrow> slog_Record list"

text \<open>
  The state of a request: the process, the calls made so far, the level of its logger and the lines
  captured (\<^verbatim>\<open>None\<close> would be an index panic of the ring buffer).
\<close>

record sstate =
  ss_os :: osstate
  ss_hist :: shistory
  ss_level :: int
  ss_capture :: "captureState option"

text \<open>A call: it is recorded, and the records it logs at an enabled level are captured.\<close>

definition scall :: "sidecar \<Rightarrow> scall \<Rightarrow> sstate \<Rightarrow> sstate" where
  "scall S c st =
     (let h = ss_hist st @ [(c, ss_os st)] in
      st\<lparr>ss_hist := h,
         ss_capture := Option.bind (ss_capture st)
           (\<lambda>b. handleAll b (filter (\<lambda>r. ss_level st \<le> rec_Level r) (sc_logs S h)))\<rparr>)"

definition on_os :: "(osstate \<Rightarrow> osstate) \<Rightarrow> sstate \<Rightarrow> sstate" where
  "on_os f st = st\<lparr>ss_os := f (ss_os st)\<rparr>"

definition status_error :: "sidecar \<Rightarrow> code \<Rightarrow> string \<Rightarrow> goerr" where
  "status_error S c msg = StatusError c (sc_statusText S c msg) []"

lemma scall_frame [simp]:
  "ss_os (scall S c st) = ss_os st" "ss_hist (scall S c st) = ss_hist st @ [(c, ss_os st)]"
  "ss_level (scall S c st) = ss_level st"
  by (simp_all add: scall_def Let_def)

lemma on_os_frame [simp]:
  "ss_os (on_os f st) = f (ss_os st)" "ss_hist (on_os f st) = ss_hist st"
  "ss_level (on_os f st) = ss_level st" "ss_capture (on_os f st) = ss_capture st"
  by (simp_all add: on_os_def)

end
