(* ===== verification/Go_Net.thy ===== *)
theory Go_Net
  imports Go_Duration
begin

section \<open>Host names: the parts of \<^verbatim>\<open>net\<close> the sidecar uses\<close>

text \<open>
  \<^verbatim>\<open>net.SplitHostPort\<close> and \<^verbatim>\<open>net.ParseIP\<close> of Go's standard library, as far as the sidecar looks at
  their results: the host or an error, and the address as sixteen bytes (an IPv4 address in its
  IPv4-mapped form) or nothing.
\<close>

subsection \<open>\<^verbatim>\<open>SplitHostPort\<close>\<close>

definition net_SplitHostPort :: "string \<Rightarrow> string option" where
  "net_SplitHostPort hostport =
     (let i = strings_LastIndex hostport CHR '':'' in
      if i < 0 then None
      else if hd hostport = CHR ''['' then
        if CHR '']'' \<notin> set hostport then None
        else
          let close_at = length (takeWhile (\<lambda>c. c \<noteq> CHR '']'') hostport) in
          if int close_at + 1 \<noteq> i then None
          else if CHR ''['' \<in> set (drop 1 hostport) \<or> CHR '']'' \<in> set (drop (close_at + 1) hostport) then None
          else Some (drop 1 (take close_at hostport))
      else
        let host = take (nat i) hostport in
        if CHR '':'' \<in> set host \<or> CHR ''['' \<in> set hostport \<or> CHR '']'' \<in> set hostport then None
        else Some host)"

subsection \<open>\<^verbatim>\<open>ParseIP\<close>\<close>

text \<open>
  The dotted form: the value and the number of digits of the current field, and the fields before it.
\<close>

fun ipv4_fields :: "nat \<Rightarrow> nat \<Rightarrow> nat list \<Rightarrow> string \<Rightarrow> nat list option" where
  "ipv4_fields val digLen fields [] =
     (if length fields = 3 \<and> digLen > 0 then Some (fields @ [val]) else None)"
| "ipv4_fields val digLen fields (c # s) =
     (if is_digit c then
        (if digLen = 1 \<and> val = 0 then None
         else let v = val * 10 + digit_val c in if v > 255 then None else ipv4_fields v (digLen + 1) fields s)
      else if c = CHR ''.'' then
        (if digLen = 0 \<or> s = [] \<or> length fields = 3 then None else ipv4_fields 0 0 (fields @ [val]) s)
      else None)"

definition hex_val :: "char \<Rightarrow> nat option" where
  "hex_val c =
     (let n = of_char c :: nat in
      if 48 \<le> n \<and> n \<le> 57 then Some (n - 48)
      else if 97 \<le> n \<and> n \<le> 102 then Some (n - 87)
      else if 65 \<le> n \<and> n \<le> 70 then Some (n - 55)
      else None)"

text \<open>The hexadecimal digits at the front: their value, their number and the rest.\<close>

fun hex_prefix :: "nat \<Rightarrow> nat \<Rightarrow> string \<Rightarrow> nat \<times> nat \<times> string" where
  "hex_prefix acc off [] = (acc, off, [])"
| "hex_prefix acc off (c # s) =
     (case hex_val c of None \<Rightarrow> (acc, off, c # s) | Some v \<Rightarrow> hex_prefix (acc * 16 + v) (off + 1) s)"

lemma hex_prefix_length: "hex_prefix acc off s = (a, n, r) \<Longrightarrow> length r + n = length s + off"
  by (induction acc off s rule: hex_prefix.induct) (auto split: option.splits)

text \<open>The bytes so far and the place of the ellipsis; the result when the input is used up.\<close>

function ipv6_fields :: "nat list \<Rightarrow> nat option \<Rightarrow> string \<Rightarrow> (nat list \<times> nat option) option" where
  "ipv6_fields bytes ell s =
     (if length bytes \<ge> 16 then (if s = [] then Some (bytes, ell) else None)
      else case hex_prefix 0 0 s of
        (acc, off, r) \<Rightarrow>
          if off = 0 \<or> off > 4 then None
          else if r \<noteq> [] \<and> hd r = CHR ''.'' then
            (if (ell = None \<and> length bytes \<noteq> 12) \<or> length bytes + 4 > 16 then None
             else map_option (\<lambda>v4. (bytes @ v4, ell)) (ipv4_fields 0 0 [] s))
          else let bytes' = bytes @ [acc div 256, acc mod 256] in
            case r of
              [] \<Rightarrow> Some (bytes', ell)
            | c # r' \<Rightarrow>
                if c \<noteq> CHR '':'' \<or> r' = [] then None
                else if hd r' = CHR '':'' then
                  (if ell \<noteq> None then None
                   else if tl r' = [] then Some (bytes', Some (length bytes'))
                   else ipv6_fields bytes' (Some (length bytes')) (tl r'))
                else ipv6_fields bytes' ell r')"
  by pat_completeness auto
termination
  by (relation "measure (\<lambda>(_, _, s). length s)") (auto dest!: hex_prefix_length [OF sym])

declare ipv6_fields.simps [simp del]

definition parseIPv6 :: "string \<Rightarrow> nat list option" where
  "parseIPv6 s =
     (if CHR ''%'' \<in> set s then None
      else if s = ''::'' then Some (replicate 16 0)
      else
        case (if strings_HasPrefix s ''::'' then ipv6_fields [] (Some 0) (drop 2 s) else ipv6_fields [] None s) of
          None \<Rightarrow> None
        | Some (bytes, ell) \<Rightarrow>
            (if length bytes < 16 then
               (case ell of
                  None \<Rightarrow> None
                | Some e \<Rightarrow> Some (take e bytes @ replicate (16 - length bytes) 0 @ drop e bytes))
             else if ell = None then Some bytes else None))"

definition net_ParseIP :: "string \<Rightarrow> nat list option" where
  "net_ParseIP s =
     (case dropWhile (\<lambda>c. c \<noteq> CHR ''.'' \<and> c \<noteq> CHR '':'' \<and> c \<noteq> CHR ''%'') s of
        [] \<Rightarrow> None
      | c # _ \<Rightarrow>
          if c = CHR ''.'' then map_option (\<lambda>v4. replicate 10 0 @ [255, 255] @ v4) (ipv4_fields 0 0 [] s)
          else if c = CHR '':'' then parseIPv6 s
          else None)"

definition IsLoopback :: "nat list option \<Rightarrow> bool" where
  "IsLoopback ip =
     (case ip of
        None \<Rightarrow> False
      | Some b \<Rightarrow>
          if take 12 b = replicate 10 0 @ [255, 255] then b ! 12 = 127
          else b = replicate 15 0 @ [1])"

definition strings_TrimBrackets :: "string \<Rightarrow> string" where
  "strings_TrimBrackets s =
     (let d = dropWhile (\<lambda>c. c = CHR ''['' \<or> c = CHR '']'') in rev (d (rev (d s))))"

end
