(* ===== verification/Image_Verification.thy ===== *)
theory Image_Verification
  imports Sidecar_Types Go_Net
begin

section \<open>Checking the images after a deployment: \<^verbatim>\<open>cmd/sidecar/server/image_verification.go\<close>\<close>

text \<open>
  After Zarf reports success the sidecar resolves every image the package should have pushed in the
  target registry. The Zarf library's reference transformation, the cluster, the registry client and
  the tunnel are parameters.
\<close>

record expectedImageRef =
  ei_component :: string
  ei_ref :: string

record regclient =
  rg_Reference :: string
  rg_PlainHTTP :: bool
  rg_InsecureSkipVerify :: bool
  rg_Credential :: "(string \<times> string \<times> string) option"

record imgapi =
  iv_HasImages :: "layout \<Rightarrow> bool"
  iv_clusterNewErr :: "shistory \<Rightarrow> goerr option"
  iv_LoadState :: "shistory \<Rightarrow> goerr + RegistryInfo option"
  iv_ConnectToZarfRegistryEndpoint :: "shistory \<Rightarrow> RegistryInfo \<Rightarrow> goerr + string \<times> bool"
  iv_ImageTransformHostWithoutChecksum :: "string \<Rightarrow> string \<Rightarrow> goerr + string"
  iv_ImageTransformHost :: "string \<Rightarrow> string \<Rightarrow> goerr + string"
  iv_IsInternal :: "RegistryInfo \<Rightarrow> bool"
  iv_ParseReference :: "string \<Rightarrow> goerr + string"
  iv_DefaultTransportOk :: bool
  iv_ShouldUsePlainHTTP :: "shistory \<Rightarrow> string \<Rightarrow> goerr + bool"
  iv_Resolve :: "shistory \<Rightarrow> regclient \<Rightarrow> goerr option"
  iv_Wrap :: "shistory \<Rightarrow> goerr option \<Rightarrow> goerr option"

definition registryInfoForImageVerification ::
  "imgapi \<Rightarrow> shistory \<Rightarrow> PackagerDeployOptions \<Rightarrow> goerr + RegistryInfo \<times> bool" where
  "registryInfoForImageVerification V h opts =
     (case iv_clusterNewErr V h of
        Some err \<Rightarrow>
          if strings_TrimSpace (rgi_Address (po_RegistryInfo opts)) = [] then
            Inl (fmt_wrap ''connect to cluster for target registry verification'' err)
          else Inr (po_RegistryInfo opts, False)
      | None \<Rightarrow>
          (let st = iv_LoadState V h in
           case (case st of Inr (Some info) \<Rightarrow> if strings_TrimSpace (rgi_Address info) \<noteq> [] then Some info else None
                 | _ \<Rightarrow> None) of
             Some info \<Rightarrow> Inr (info, True)
           | None \<Rightarrow>
               if strings_TrimSpace (rgi_Address (po_RegistryInfo opts)) \<noteq> [] then Inr (po_RegistryInfo opts, True)
               else case st of
                 Inl stateErr \<Rightarrow> Inl (fmt_wrap ''load zarf state for target registry verification'' stateErr)
               | Inr _ \<Rightarrow> Inl (ErrorString ''zarf state did not include target registry information'')))"

definition skipImageVerificationForComponent :: "imgapi \<Rightarrow> layout \<Rightarrow> string \<Rightarrow> RegistryInfo \<Rightarrow> bool" where
  "skipImageVerificationForComponent V pkgLayout componentName registryInfo =
     (if \<not> ly_IsInitConfig pkgLayout then False
      else if componentName = ''zarf-seed-registry'' then True
      else if \<not> iv_IsInternal V registryInfo \<and> (componentName = ''zarf-injector'' \<or> componentName = ''zarf-registry'')
      then True
      else False)"

definition appendUniqueRef ::
  "expectedImageRef list \<Rightarrow> string list \<Rightarrow> expectedImageRef \<Rightarrow> expectedImageRef list \<times> string list" where
  "appendUniqueRef refs seen ref =
     (if ei_ref ref \<in> set seen then (refs, seen) else (refs @ [ref], ei_ref ref # seen))"

fun imageLoop ::
  "imgapi \<Rightarrow> string \<Rightarrow> string \<Rightarrow> string list \<Rightarrow> expectedImageRef list \<times> string list \<Rightarrow>
   goerr + expectedImageRef list \<times> string list" where
  "imageLoop V addr comp_name [] acc = Inr acc"
| "imageLoop V addr comp_name (img # images) (refs, seen) =
     (case iv_ImageTransformHostWithoutChecksum V addr img of
        Inl err \<Rightarrow> Inl (fmt_wrap (''build no-checksum target ref for '' @ img) err)
      | Inr noChecksumRef \<Rightarrow>
          (let acc = appendUniqueRef refs seen \<lparr>ei_component = comp_name, ei_ref = noChecksumRef\<rparr> in
           if comp_name = ''zarf-agent'' then imageLoop V addr comp_name images acc
           else case iv_ImageTransformHost V addr img of
             Inl err \<Rightarrow> Inl (fmt_wrap (''build checksum target ref for '' @ img) err)
           | Inr checksumRef \<Rightarrow>
               imageLoop V addr comp_name images
                 (appendUniqueRef (fst acc) (snd acc) \<lparr>ei_component = comp_name, ei_ref = checksumRef\<rparr>)))"

fun componentLoop ::
  "imgapi \<Rightarrow> string \<Rightarrow> layout \<Rightarrow> RegistryInfo \<Rightarrow> pkgComponent list \<Rightarrow> expectedImageRef list \<times> string list \<Rightarrow>
   goerr + expectedImageRef list \<times> string list" where
  "componentLoop V addr pl info [] acc = Inr acc"
| "componentLoop V addr pl info (c # cs) acc =
     (if skipImageVerificationForComponent V pl (cm_Name c) info then componentLoop V addr pl info cs acc
      else case imageLoop V addr (cm_Name c) (cm_Images c) acc of
        Inl err \<Rightarrow> Inl err
      | Inr acc' \<Rightarrow> componentLoop V addr pl info cs acc')"

definition expectedDeployedImageRefs ::
  "imgapi \<Rightarrow> string \<Rightarrow> layout \<Rightarrow> RegistryInfo \<Rightarrow> goerr + expectedImageRef list" where
  "expectedDeployedImageRefs V registryAddress pkgLayout registryInfo =
     (if strings_TrimSpace registryAddress = [] then
        Inl (ErrorString ''target registry address is required for image verification'')
      else case componentLoop V registryAddress pkgLayout registryInfo (ly_Components pkgLayout) ([], []) of
        Inl err \<Rightarrow> Inl err
      | Inr (refs, seen) \<Rightarrow> Inr refs)"

definition isLocalRegistryHost :: "string \<Rightarrow> bool" where
  "isLocalRegistryHost hostport =
     (let host = (case net_SplitHostPort hostport of None \<Rightarrow> hostport | Some h \<Rightarrow> h);
          host = strings_TrimBrackets host
      in host = ''localhost'' \<or> IsLoopback (net_ParseIP host))"

definition registryResolveHTTPClient :: "imgapi \<Rightarrow> PackagerDeployOptions \<Rightarrow> goerr + bool" where
  "registryResolveHTTPClient V opts =
     (if \<not> iv_DefaultTransportOk V then Inl (ErrorString ''default transport is not an *http.Transport'')
      else Inr (po_InsecureSkipTLSVerify opts))"

definition resolveRegistryImage ::
  "imgapi \<Rightarrow> shistory \<Rightarrow> string \<Rightarrow> RegistryInfo \<Rightarrow> PackagerDeployOptions \<Rightarrow> goerr option" where
  "resolveRegistryImage V h ref registryInfo opts =
     (case iv_ParseReference V ref of
        Inl err \<Rightarrow> Some (fmt_wrap ''parse target image ref'' err)
      | Inr host \<Rightarrow>
          (case registryResolveHTTPClient V opts of
             Inl err \<Rightarrow> Some err
           | Inr insecure \<Rightarrow>
               (let cred = (if rgi_PullUsername registryInfo \<noteq> [] \<or> rgi_PullPassword registryInfo \<noteq> []
                            then Some (host, rgi_PullUsername registryInfo, rgi_PullPassword registryInfo) else None) in
                case (if isLocalRegistryHost host \<and> \<not> po_PlainHTTP opts then iv_ShouldUsePlainHTTP V h host
                      else Inr (po_PlainHTTP opts)) of
                  Inl err \<Rightarrow> Some (fmt_wrap ''determine target registry protocol'' err)
                | Inr plainHTTP \<Rightarrow>
                    iv_Resolve V h \<lparr>rg_Reference = ref, rg_PlainHTTP = plainHTTP, rg_InsecureSkipVerify = insecure,
                                    rg_Credential = cred\<rparr>)))"

fun verifyLoop ::
  "imgapi \<Rightarrow> shistory \<Rightarrow> RegistryInfo \<Rightarrow> PackagerDeployOptions \<Rightarrow> bool \<Rightarrow> expectedImageRef list \<Rightarrow> goerr option" where
  "verifyLoop V h info opts tunnel [] = None"
| "verifyLoop V h info opts tunnel (ref # refs) =
     (let r = resolveRegistryImage V h (ei_ref ref) info opts in
      case (if tunnel then iv_Wrap V h r else r) of
        Some err \<Rightarrow> Some (ImageErr (ei_component ref) (ei_ref ref) err)
      | None \<Rightarrow> verifyLoop V h info opts tunnel refs)"

text \<open>The address to use, and whether a tunnel leads to it.\<close>

definition registryEndpoint :: "imgapi \<Rightarrow> shistory \<Rightarrow> RegistryInfo \<Rightarrow> bool \<Rightarrow> goerr + string \<times> bool" where
  "registryEndpoint V h registryInfo client =
     (if client then
        (case iv_ConnectToZarfRegistryEndpoint V h registryInfo of
           Inl err \<Rightarrow> Inl (fmt_wrap ''connect to target registry'' err)
         | Inr endpoint \<Rightarrow> Inr endpoint)
      else Inr (rgi_Address registryInfo, False))"

definition verifyDeployedPackageImages ::
  "imgapi \<Rightarrow> shistory \<Rightarrow> layout \<Rightarrow> PackagerDeployOptions \<Rightarrow> goerr option" where
  "verifyDeployedPackageImages V h pkgLayout opts =
     (if ly_YOLO pkgLayout \<or> \<not> iv_HasImages V pkgLayout then None
      else case registryInfoForImageVerification V h opts of
        Inl err \<Rightarrow> Some err
      | Inr (registryInfo, client) \<Rightarrow>
          (case registryEndpoint V h registryInfo client of
             Inl err \<Rightarrow> Some err
           | Inr (registryAddress, tunnel) \<Rightarrow>
               (case expectedDeployedImageRefs V registryAddress pkgLayout registryInfo of
                  Inl err \<Rightarrow> Some err
                | Inr refs \<Rightarrow> verifyLoop V h registryInfo opts tunnel refs)))"

definition failedImageComponent :: "goerr \<Rightarrow> string" where
  "failedImageComponent err =
     (case errors_AsImageError err of Some (ImageErr c ref e) \<Rightarrow> c | _ \<Rightarrow> [])"

subsection \<open>The references that are expected\<close>

text \<open>
  The references of one image: without the checksum, and, but for the agent, with it.
\<close>

definition image_refs :: "imgapi \<Rightarrow> string \<Rightarrow> string \<Rightarrow> string \<Rightarrow> string set" where
  "image_refs V addr comp_name img =
     {r. iv_ImageTransformHostWithoutChecksum V addr img = Inr r} \<union>
     {r. comp_name \<noteq> ''zarf-agent'' \<and> iv_ImageTransformHost V addr img = Inr r}"

definition component_refs :: "imgapi \<Rightarrow> string \<Rightarrow> layout \<Rightarrow> RegistryInfo \<Rightarrow> pkgComponent \<Rightarrow> string set" where
  "component_refs V addr pl info c =
     (if skipImageVerificationForComponent V pl (cm_Name c) info then {}
      else \<Union>img \<in> set (cm_Images c). image_refs V addr (cm_Name c) img)"

text \<open>The accumulator: no reference twice, and the seen ones are those collected.\<close>

definition refs_ok :: "expectedImageRef list \<times> string list \<Rightarrow> bool" where
  "refs_ok acc \<longleftrightarrow> distinct (map ei_ref (fst acc)) \<and> set (snd acc) = ei_ref ` set (fst acc)"

lemma appendUniqueRef_ok:
  "refs_ok (refs, seen) \<Longrightarrow> refs_ok (appendUniqueRef refs seen r) \<and>
     ei_ref ` set (fst (appendUniqueRef refs seen r)) = insert (ei_ref r) (ei_ref ` set refs)"
  by (auto simp: refs_ok_def appendUniqueRef_def)

lemma imageLoop_ok:
  assumes "imageLoop V addr c images acc = Inr acc'" and "refs_ok acc"
  shows "refs_ok acc' \<and> ei_ref ` set (fst acc') = ei_ref ` set (fst acc) \<union> (\<Union>img \<in> set images. image_refs V addr c img)"
  using assms
proof (induction V addr c images acc rule: imageLoop.induct)
  case (2 V addr c img images refs seen)
  from "2.prems"(1) obtain r1 where r1: "iv_ImageTransformHostWithoutChecksum V addr img = Inr r1"
    by (auto split: sum.splits)
  obtain refs1 seen1 where a1: "appendUniqueRef refs seen \<lparr>ei_component = c, ei_ref = r1\<rparr> = (refs1, seen1)" by fastforce
  have ok1: "refs_ok (refs1, seen1)" "ei_ref ` set refs1 = insert r1 (ei_ref ` set refs)"
    using appendUniqueRef_ok [OF "2.prems"(2), of "\<lparr>ei_component = c, ei_ref = r1\<rparr>"] by (auto simp: a1)
  show ?case
  proof (cases "c = ''zarf-agent''")
    case True
    with "2.IH"(1) [OF r1 a1 [symmetric] True] "2.prems"(1) r1 a1 ok1 show ?thesis
      by (auto simp: image_refs_def)
  next
    case False
    with "2.prems"(1) r1 a1 obtain r2 where r2: "iv_ImageTransformHost V addr img = Inr r2"
      by (auto simp: Let_def split: sum.splits)
    obtain refs2 seen2 where a2: "appendUniqueRef refs1 seen1 \<lparr>ei_component = c, ei_ref = r2\<rparr> = (refs2, seen2)" by fastforce
    have ok2: "refs_ok (refs2, seen2)" "ei_ref ` set refs2 = insert r2 (ei_ref ` set refs1)"
      using appendUniqueRef_ok [OF ok1(1), of "\<lparr>ei_component = c, ei_ref = r2\<rparr>"] by (auto simp: a2)
    with "2.IH"(2) [OF r1 a1 [symmetric] False r2] "2.prems"(1) r1 r2 a1 a2 ok1 False show ?thesis
      by (auto simp: image_refs_def)
  qed
qed simp

lemma componentLoop_ok:
  assumes "componentLoop V addr pl info cs acc = Inr acc'" and "refs_ok acc"
  shows "refs_ok acc' \<and>
    ei_ref ` set (fst acc') = ei_ref ` set (fst acc) \<union> (\<Union>c \<in> set cs. component_refs V addr pl info c)"
  using assms
proof (induction cs arbitrary: acc)
  case (Cons c cs)
  show ?case
  proof (cases "skipImageVerificationForComponent V pl (cm_Name c) info")
    case True
    with Cons show ?thesis by (auto simp: component_refs_def)
  next
    case False
    with Cons.prems obtain acc1 where l: "imageLoop V addr (cm_Name c) (cm_Images c) acc = Inr acc1"
        "componentLoop V addr pl info cs acc1 = Inr acc'" by (auto split: sum.splits)
    from imageLoop_ok [OF l(1) Cons.prems(2)] Cons.IH [OF l(2)] False show ?thesis
      by (auto simp: component_refs_def)
  qed
qed simp

lemma verifyLoop_None:
  "verifyLoop V h info opts tunnel refs = None \<longleftrightarrow>
     (\<forall>ref \<in> set refs. (let r = resolveRegistryImage V h (ei_ref ref) info opts in
        if tunnel then iv_Wrap V h r else r) = None)"
  by (induction refs) (auto simp: Let_def split: option.splits)

text \<open>
  Property C26. The references that are checked are exactly the ones the deployment should have pushed:
  for every image of every component that is not skipped, the reference without checksum and, except
  for the agent, the one with it; none is missing, none is checked twice.
\<close>

theorem expected_refs_complete:
  assumes "expectedDeployedImageRefs V addr pl info = Inr refs"
  shows "distinct (map ei_ref refs) \<and>
    set (map ei_ref refs) = (\<Union>c \<in> set (ly_Components pl). component_refs V addr pl info c)"
proof -
  from assms obtain seen where l: "componentLoop V addr pl info (ly_Components pl) ([], []) = Inr (refs, seen)"
    by (auto simp: expectedDeployedImageRefs_def split: if_splits sum.splits prod.splits)
  have "refs_ok ([], [])" by (simp add: refs_ok_def)
  from componentLoop_ok [OF l this] show ?thesis by (simp add: refs_ok_def)
qed

text \<open>
  Property C27. The verification lets a package with images (outside YOLO mode) pass only when each of
  its expected references resolved in the registry that was determined for the cluster.
\<close>

theorem verified_images_resolved:
  assumes "verifyDeployedPackageImages V h pl opts = None" and "\<not> ly_YOLO pl" and "iv_HasImages V pl"
  shows "\<exists>info addr tunnel client refs.
    registryInfoForImageVerification V h opts = Inr (info, client) \<and>
    registryEndpoint V h info client = Inr (addr, tunnel) \<and>
    expectedDeployedImageRefs V addr pl info = Inr refs \<and>
    (\<forall>c \<in> set (ly_Components pl). \<forall>r \<in> component_refs V addr pl info c.
       (if tunnel then iv_Wrap V h (resolveRegistryImage V h r info opts)
        else resolveRegistryImage V h r info opts) = None)"
proof -
  from assms obtain info client addr tunnel refs where
    v: "registryInfoForImageVerification V h opts = Inr (info, client)"
      "expectedDeployedImageRefs V addr pl info = Inr refs" "verifyLoop V h info opts tunnel refs = None"
      "registryEndpoint V h info client = Inr (addr, tunnel)"
    by (auto simp: verifyDeployedPackageImages_def split: sum.splits prod.splits if_splits)
  from v(2) obtain seen where l: "componentLoop V addr pl info (ly_Components pl) ([], []) = Inr (refs, seen)"
    by (auto simp: expectedDeployedImageRefs_def split: if_splits sum.splits prod.splits)
  have "refs_ok ([], [])" by (simp add: refs_ok_def)
  from componentLoop_ok [OF l this]
  have "\<exists>ref \<in> set refs. ei_ref ref = r" if "c \<in> set (ly_Components pl)" "r \<in> component_refs V addr pl info c" for c r
    using that by (metis (no_types, lifting) UN_I Un_iff fst_conv image_iff)
  with v(3) have "\<forall>c \<in> set (ly_Components pl). \<forall>r \<in> component_refs V addr pl info c.
       (if tunnel then iv_Wrap V h (resolveRegistryImage V h r info opts)
        else resolveRegistryImage V h r info opts) = None"
    by (fastforce simp: verifyLoop_None Let_def)
  with v show ?thesis by blast
qed

text \<open>A registry outside the cluster that holds everything, and a package with two images.\<close>

definition wit_registry :: imgapi where
  "wit_registry =
     \<lparr>iv_HasImages = (\<lambda>_. True), iv_clusterNewErr = (\<lambda>_. Some (ErrorString ''no cluster'')),
      iv_LoadState = (\<lambda>_. Inr None), iv_ConnectToZarfRegistryEndpoint = (\<lambda>_ _. Inl (ErrorString ''no cluster'')),
      iv_ImageTransformHostWithoutChecksum = (\<lambda>addr img. Inr (addr @ ''/'' @ img)),
      iv_ImageTransformHost = (\<lambda>addr img. Inr (addr @ ''/'' @ img @ ''-zarf-1'')),
      iv_IsInternal = (\<lambda>_. False), iv_ParseReference = (\<lambda>_. Inr ''r.example:5000''), iv_DefaultTransportOk = True,
      iv_ShouldUsePlainHTTP = (\<lambda>_ _. Inr False), iv_Resolve = (\<lambda>_ _. None), iv_Wrap = (\<lambda>_ r. r)\<rparr>"

definition wit_layout :: layout where
  "wit_layout =
     \<lparr>ly_Name = ''app'', ly_Version = ''1.0.0'', ly_Description = [], ly_Architecture = ''amd64'', ly_YOLO = False,
      ly_IsInitConfig = False,
      ly_Components = [\<lparr>cm_Name = ''web'', cm_Images = [''nginx:1'', ''nginx:1'', ''redis:7'']\<rparr>]\<rparr>"

definition wit_popts :: PackagerDeployOptions where
  "wit_popts =
     \<lparr>po_SetVariables = Map.empty, po_AdoptExistingResources = False, po_Timeout = 0, po_Retries = 3,
      po_NamespaceOverride = [], po_OCIConcurrency = 6, po_IsInteractive = False, po_SkipVersionCheck = False,
      po_RegistryInfo = zero_RegistryInfo\<lparr>rgi_Address := ''r.example:5000''\<rparr>, po_PlainHTTP = False,
      po_InsecureSkipTLSVerify = False\<rparr>"

theorem expected_refs_complete_witness:
  "\<exists>refs. expectedDeployedImageRefs wit_registry ''r.example:5000'' wit_layout zero_RegistryInfo = Inr refs \<and>
     length refs = 4 \<and> distinct (map ei_ref refs)"
proof -
  have "case expectedDeployedImageRefs wit_registry ''r.example:5000'' wit_layout zero_RegistryInfo of
      Inl e \<Rightarrow> False | Inr refs \<Rightarrow> length refs = 4" by code_simp
  then obtain refs where r: "expectedDeployedImageRefs wit_registry ''r.example:5000'' wit_layout zero_RegistryInfo = Inr refs"
      "length refs = 4" by (auto split: sum.splits)
  from r expected_refs_complete [OF r(1)] show ?thesis by blast
qed

theorem verified_images_resolved_witness:
  "\<exists>info addr tunnel client refs.
    registryInfoForImageVerification wit_registry [] wit_popts = Inr (info, client) \<and>
    registryEndpoint wit_registry [] info client = Inr (addr, tunnel) \<and>
    expectedDeployedImageRefs wit_registry addr wit_layout info = Inr refs"
proof -
  have "verifyDeployedPackageImages wit_registry [] wit_layout wit_popts = None" by code_simp
  from verified_images_resolved [OF this] show ?thesis by (auto simp: wit_layout_def wit_registry_def)
qed

end
