(* ===== verification/Op_Slot.thy ===== *)
theory Op_Slot
  imports Go_Errors
begin

section \<open>One operation at a time: \<^verbatim>\<open>acquireOp\<close> of \<^verbatim>\<open>cmd/sidecar/server/server.go\<close>\<close>

text \<open>
  The sidecar runs at most one deploy or remove. A second request cancels a running deploy and waits
  until it is gone, but is turned away while a remove runs. \<^verbatim>\<open>acquireOp\<close> and the cleanup it returns are a
  protocol between request threads over the field \<^verbatim>\<open>active\<close>, which a mutex protects, and over the
  \<^verbatim>\<open>done\<close> channel of each operation. The model has one function per critical section, with the program
  counter of each thread, and a step relation that interleaves the threads in every way.
  A thread's number identifies its \<^verbatim>\<open>activeOperation\<close> (its pointer, its context and its channel).
\<close>

datatype opKind = opDeploy | opRemove

text \<open>
  Where a request is: before the first lock; in the \<^verbatim>\<open>select\<close> on another operation's channel; woken by
  that channel, before the second lock; running its operation; in the cleanup, before and after it gave
  the slot back; done; or turned away with an error.
\<close>

datatype pc =
    Start opKind
  | Waiting opKind nat
  | Woken opKind
  | Running opKind
  | Cancelling opKind
  | Closing opKind
  | Finished
  | Rejected code string

record opstate =
  op_active :: "(nat \<times> opKind) option"
  op_cancelled :: "nat \<Rightarrow> bool"
  op_done :: "nat \<Rightarrow> bool"
  op_pc :: "nat \<Rightarrow> pc"

definition goto :: "nat \<Rightarrow> pc \<Rightarrow> opstate \<Rightarrow> opstate" where
  "goto i l s = s\<lparr>op_pc := (op_pc s)(i := l)\<rparr>"

definition occupy :: "nat \<Rightarrow> opKind \<Rightarrow> opstate \<Rightarrow> opstate" where
  "occupy i k s = goto i (Running k) (s\<lparr>op_active := Some (i, k)\<rparr>)"

text \<open>The first critical section.\<close>

definition acquireOp :: "nat \<Rightarrow> opKind \<Rightarrow> opstate \<Rightarrow> opstate" where
  "acquireOp i k s =
     (case op_active s of
        Some (j, opRemove) \<Rightarrow> goto i (Rejected codes_ResourceExhausted ''a remove operation is in progress'') s
      | Some (j, opDeploy) \<Rightarrow> goto i (Waiting k j) (s\<lparr>op_cancelled := (op_cancelled s)(j := True)\<rparr>)
      | None \<Rightarrow> occupy i k s)"

text \<open>The branches of the \<^verbatim>\<open>select\<close>: the channel, the timer, the request's own context.\<close>

definition wakeDone :: "nat \<Rightarrow> opKind \<Rightarrow> opstate \<Rightarrow> opstate" where
  "wakeDone i k s = goto i (Woken k) s"

definition wakeTimeout :: "nat \<Rightarrow> opstate \<Rightarrow> opstate" where
  "wakeTimeout i s =
     goto i (Rejected codes_ResourceExhausted ''timed out waiting for previous operation to cancel'') s"

definition wakeContext :: "nat \<Rightarrow> code \<Rightarrow> string \<Rightarrow> opstate \<Rightarrow> opstate" where
  "wakeContext i c msg s = goto i (Rejected c msg) s"

text \<open>The second critical section.\<close>

definition reacquire :: "nat \<Rightarrow> opKind \<Rightarrow> opstate \<Rightarrow> opstate" where
  "reacquire i k s =
     (if op_active s \<noteq> None
      then goto i (Rejected codes_ResourceExhausted ''another operation started while cancelling previous'') s
      else occupy i k s)"

text \<open>The cleanup: cancel the context, give the slot back, close the channel.\<close>

definition cleanupCancel :: "nat \<Rightarrow> opKind \<Rightarrow> opstate \<Rightarrow> opstate" where
  "cleanupCancel i k s = goto i (Cancelling k) (s\<lparr>op_cancelled := (op_cancelled s)(i := True)\<rparr>)"

definition cleanupRelease :: "nat \<Rightarrow> opKind \<Rightarrow> opstate \<Rightarrow> opstate" where
  "cleanupRelease i k s = goto i (Closing k) (s\<lparr>op_active := None\<rparr>)"

definition cleanupClose :: "nat \<Rightarrow> opstate \<Rightarrow> opstate" where
  "cleanupClose i s = goto i Finished (s\<lparr>op_done := (op_done s)(i := True)\<rparr>)"

subsection \<open>Interleavings\<close>

text \<open>
  A request's own context ends because it was cancelled or because its deadline passed
  (\<^verbatim>\<open>status.FromContextError\<close>).
\<close>

inductive op_step :: "opstate \<Rightarrow> opstate \<Rightarrow> bool" where
  acquire: "op_pc s i = Start k \<Longrightarrow> op_step s (acquireOp i k s)"
| wake_done: "op_pc s i = Waiting k j \<Longrightarrow> op_done s j \<Longrightarrow> op_step s (wakeDone i k s)"
| wake_timeout: "op_pc s i = Waiting k j \<Longrightarrow> op_step s (wakeTimeout i s)"
| wake_context: "op_pc s i = Waiting k j \<Longrightarrow> c = codes_Canceled \<or> c = codes_DeadlineExceeded \<Longrightarrow>
    op_step s (wakeContext i c msg s)"
| reacquire: "op_pc s i = Woken k \<Longrightarrow> op_step s (reacquire i k s)"
| cancel: "op_pc s i = Running k \<Longrightarrow> op_step s (cleanupCancel i k s)"
| release: "op_pc s i = Cancelling k \<Longrightarrow> op_step s (cleanupRelease i k s)"
| close: "op_pc s i = Closing k \<Longrightarrow> op_step s (cleanupClose i s)"

inductive_cases op_stepE: "op_step s s'"

lemmas slot_steps = acquireOp_def reacquire_def wakeDone_def wakeTimeout_def wakeContext_def cleanupCancel_def
  cleanupRelease_def cleanupClose_def occupy_def goto_def

text \<open>The sidecar starts with a free slot; every request, of any kind, is still to come.\<close>

definition op_init :: "(nat \<Rightarrow> opKind) \<Rightarrow> opstate" where
  "op_init ks =
     \<lparr>op_active = None, op_cancelled = (\<lambda>_. False), op_done = (\<lambda>_. False), op_pc = (\<lambda>i. Start (ks i))\<rparr>"

inductive op_reachable :: "(nat \<Rightarrow> opKind) \<Rightarrow> opstate \<Rightarrow> bool" for ks where
  init: "op_reachable ks (op_init ks)"
| step: "op_reachable ks s \<Longrightarrow> op_step s s' \<Longrightarrow> op_reachable ks s'"

subsection \<open>The slot's invariant\<close>

text \<open>
  What holds for thread \<open>i\<close>, given the slot \<open>A\<close>, whether its context is cancelled and its channel closed:
  it holds the slot exactly while it runs or cancels itself; its channel is closed exactly when it
  finished; its context is not cancelled before it runs, nor by others while it runs a remove.
\<close>

fun thread_ok :: "(nat \<times> opKind) option \<Rightarrow> nat \<Rightarrow> bool \<Rightarrow> bool \<Rightarrow> pc \<Rightarrow> bool" where
  "thread_ok A i c d (Running k) \<longleftrightarrow> A = Some (i, k) \<and> \<not> d \<and> (k = opRemove \<longrightarrow> \<not> c)"
| "thread_ok A i c d (Cancelling k) \<longleftrightarrow> A = Some (i, k) \<and> \<not> d"
| "thread_ok A i c d (Closing k) \<longleftrightarrow> map_option fst A \<noteq> Some i \<and> \<not> d"
| "thread_ok A i c d Finished \<longleftrightarrow> map_option fst A \<noteq> Some i \<and> d"
| "thread_ok A i c d _ \<longleftrightarrow> map_option fst A \<noteq> Some i \<and> \<not> d \<and> \<not> c"

definition op_inv :: "opstate \<Rightarrow> bool" where
  "op_inv s \<longleftrightarrow> (\<forall>i. thread_ok (op_active s) i (op_cancelled s i) (op_done s i) (op_pc s i))"

lemma op_inv_init: "op_inv (op_init ks)"
  by (simp add: op_inv_def op_init_def)

text \<open>A thread that holds no slot is not affected when another one takes or leaves it.\<close>

lemma thread_ok_take: "thread_ok None j c d l \<Longrightarrow> j \<noteq> i \<Longrightarrow> thread_ok (Some (i, k)) j c d l"
  by (cases l) auto

lemma thread_ok_leave: "thread_ok (Some (i, k)) j c d l \<Longrightarrow> j \<noteq> i \<Longrightarrow> thread_ok None j c d l"
  by (cases l) auto

lemma thread_ok_cancel: "thread_ok (Some (j, opDeploy)) j c d l \<Longrightarrow> thread_ok (Some (j, opDeploy)) j True d l"
  by (cases l) auto

lemma op_inv_at: "op_inv s \<Longrightarrow> thread_ok (op_active s) i (op_cancelled s i) (op_done s i) (op_pc s i)"
  by (simp add: op_inv_def)

lemma op_inv_goto:
  assumes "op_inv s" and "thread_ok (op_active s) i (op_cancelled s i) (op_done s i) l"
  shows "op_inv (goto i l s)"
  using assms by (simp add: op_inv_def goto_def)

lemma op_inv_occupy:
  assumes "op_inv s" and "op_active s = None" and "\<not> op_cancelled s i" and "\<not> op_done s i"
  shows "op_inv (occupy i k s)"
proof -
  have "thread_ok (Some (i, k)) j (op_cancelled s j) (op_done s j) (op_pc s j)" if "j \<noteq> i" for j
    using op_inv_at [OF assms(1), of j] assms(2) that by (auto intro: thread_ok_take)
  then show ?thesis using assms(3,4) by (simp add: op_inv_def occupy_def goto_def)
qed

lemma op_inv_acquire:
  assumes inv: "op_inv s" and pc: "op_pc s i = Start k"
  shows "op_inv (acquireOp i k s)"
proof -
  have i: "thread_ok (op_active s) i (op_cancelled s i) (op_done s i) (Start k)"
    using op_inv_at [OF inv, of i] pc by simp
  show ?thesis
  proof (cases "op_active s")
    case None
    with i inv show ?thesis by (simp add: acquireOp_def op_inv_occupy)
  next
    case (Some a)
    obtain j kj where a: "a = (j, kj)" by fastforce
    with i Some have ij: "i \<noteq> j" by auto
    show ?thesis
    proof (cases kj)
      case opDeploy
      let ?s = "s\<lparr>op_cancelled := (op_cancelled s)(j := True)\<rparr>"
      have "op_inv ?s"
        using inv Some a opDeploy by (auto simp: op_inv_def intro: thread_ok_cancel)
      then have "op_inv (goto i (Waiting k j) ?s)" by (rule op_inv_goto) (use i ij in simp)
      with Some a opDeploy show ?thesis by (simp add: acquireOp_def)
    next
      case opRemove
      with Some a i inv show ?thesis by (simp add: acquireOp_def op_inv_goto)
    qed
  qed
qed

lemma op_inv_release:
  assumes inv: "op_inv s" and pc: "op_pc s i = Cancelling k"
  shows "op_inv (cleanupRelease i k s)"
proof -
  have i: "op_active s = Some (i, k)" "\<not> op_done s i" using op_inv_at [OF inv, of i] pc by auto
  have "thread_ok None j (op_cancelled s j) (op_done s j) (op_pc s j)" if "j \<noteq> i" for j
    using op_inv_at [OF inv, of j] i that by (auto intro: thread_ok_leave)
  then show ?thesis using i by (simp add: op_inv_def cleanupRelease_def goto_def)
qed

lemma op_inv_step:
  assumes "op_step s s'" and inv: "op_inv s"
  shows "op_inv s'"
  using assms(1)
proof cases
  case (acquire i k)
  with inv show ?thesis by (simp add: op_inv_acquire)
next
  case (reacquire i k)
  with op_inv_at [OF inv, of i] have "\<not> op_cancelled s i" "\<not> op_done s i" "map_option fst (op_active s) \<noteq> Some i"
    by simp_all
  with reacquire inv show ?thesis
    by (cases "op_active s") (simp_all add: reacquire_def op_inv_occupy op_inv_goto)
next
  case (release i k)
  with inv show ?thesis by (simp add: op_inv_release)
next
  case (cancel i k)
  with inv op_inv_at [OF inv, of i] show ?thesis by (simp add: op_inv_def cleanupCancel_def goto_def)
next
  case (close i k)
  with inv op_inv_at [OF inv, of i] show ?thesis by (simp add: op_inv_def cleanupClose_def goto_def)
next
  case (wake_done i k j)
  with inv op_inv_at [OF inv, of i] show ?thesis by (simp add: wakeDone_def op_inv_goto)
next
  case (wake_timeout i k j)
  with inv op_inv_at [OF inv, of i] show ?thesis by (simp add: wakeTimeout_def op_inv_goto)
next
  case (wake_context i k j c msg)
  with inv op_inv_at [OF inv, of i] show ?thesis by (simp add: wakeContext_def op_inv_goto)
qed

lemma op_reachable_inv: "op_reachable ks s \<Longrightarrow> op_inv s"
  by (induction rule: op_reachable.induct) (auto intro: op_inv_init op_inv_step)

text \<open>The errors with which a request can be turned away.\<close>

definition busy_messages :: "string set" where
  "busy_messages = {''a remove operation is in progress'', ''timed out waiting for previous operation to cancel'',
     ''another operation started while cancelling previous''}"

lemma rejected_busy:
  assumes "op_reachable ks s"
  shows "op_pc s i = Rejected codes_ResourceExhausted msg \<longrightarrow> msg \<in> busy_messages"
  using assms
proof induction
  case init
  show ?case by (simp add: op_init_def)
next
  case (step s s')
  from step(2,3) show ?case
    by (elim op_stepE) (auto simp: busy_messages_def slot_steps split: option.splits prod.splits opKind.splits if_splits)
qed

text \<open>
  Property C8. In every interleaving of any number of requests, at most one runs its operation, and it
  is the one the slot names; and no other request cancels a remove while it runs.
\<close>

theorem one_operation_at_a_time:
  assumes "op_reachable ks s"
  shows "(\<forall>i j k l. op_pc s i = Running k \<and> op_pc s j = Running l \<longrightarrow> i = j) \<and>
    (\<forall>i k. op_pc s i = Running k \<longrightarrow> op_active s = Some (i, k)) \<and>
    (\<forall>i. op_pc s i = Running opRemove \<longrightarrow> \<not> op_cancelled s i)"
proof -
  have r: "op_active s = Some (i, k) \<and> (k = opRemove \<longrightarrow> \<not> op_cancelled s i)" if "op_pc s i = Running k" for i k
    using op_inv_at [OF op_reachable_inv [OF assms], of i] that by simp
  then have "i = j" if "op_pc s i = Running k" "op_pc s j = Running l" for i j k l
    using r [OF that(1)] r [OF that(2)] by simp
  with r show ?thesis by blast
qed

theorem one_operation_at_a_time_witness:
  "\<not> op_cancelled (acquireOp 1 opDeploy (acquireOp 0 opRemove (op_init (\<lambda>i. if i = 0 then opRemove else opDeploy)))) 0"
proof -
  let ?ks = "\<lambda>i :: nat. if i = 0 then opRemove else opDeploy"
  let ?s = "acquireOp 0 opRemove (op_init ?ks)"
  have "op_reachable ?ks ?s"
    by (rule op_reachable.step [OF op_reachable.init]) (rule op_step.acquire, simp add: op_init_def)
  moreover have "op_step ?s (acquireOp 1 opDeploy ?s)"
    by (rule op_step.acquire) (simp add: op_init_def slot_steps)
  ultimately have "op_reachable ?ks (acquireOp 1 opDeploy ?s)" by (rule op_reachable.step)
  moreover have "op_pc (acquireOp 1 opDeploy ?s) 0 = Running opRemove"
    by (simp add: op_init_def slot_steps)
  ultimately show ?thesis using one_operation_at_a_time by blast
qed

text \<open>
  Property C24. The slot is never lost: whatever happened before, when no request runs or cleans up any
  more, the next request gets it at once; and a channel that a cleanup is about to close is still open.
\<close>

theorem slot_is_given_back:
  assumes "op_reachable ks s" and "\<And>j l. op_pc s j \<noteq> Running l \<and> op_pc s j \<noteq> Cancelling l"
  shows "op_pc (acquireOp i k s) i = Running k \<and> (\<forall>j l. op_pc s j = Closing l \<longrightarrow> \<not> op_done s j)"
proof -
  have inv: "op_inv s" using assms(1) by (rule op_reachable_inv)
  have "op_active s = None"
  proof (cases "op_active s")
    case (Some a)
    then have "thread_ok (Some a) (fst a) (op_cancelled s (fst a)) (op_done s (fst a)) (op_pc s (fst a))"
      using op_inv_at [OF inv, of "fst a"] by simp
    with assms(2) [of "fst a"] show ?thesis by (cases "op_pc s (fst a)") auto
  qed simp
  then have "op_pc (acquireOp i k s) i = Running k" by (simp add: slot_steps)
  moreover have "\<not> op_done s j" if "op_pc s j = Closing l" for j l
    using op_inv_at [OF inv, of j] that by simp
  ultimately show ?thesis by blast
qed

theorem slot_is_given_back_witness:
  "op_pc (acquireOp 0 opDeploy (op_init (\<lambda>_. opDeploy))) 0 = Running opDeploy"
  using slot_is_given_back [OF op_reachable.init, of "\<lambda>_. opDeploy" 0 opDeploy]
  by (simp add: op_init_def)

end
