(* ===== verification/Sidecar.thy ===== *)
theory Sidecar
  imports Image_Verification Op_Slot
begin

section \<open>The sidecar's handlers: \<^verbatim>\<open>cmd/sidecar/server/server.go\<close>\<close>

text \<open>
  The RPC handlers as functions on the state of the request. A deferred cleanup is a wrapper around
  the rest of the handler (\<open>withOp\<close>, \<open>withKubeconfig\<close>, \<open>withRegistry\<close>, the layout's \<^verbatim>\<open>Cleanup\<close>), so it
  runs on every return path and in reverse order. The argument \<open>acq\<close> is what \<^verbatim>\<open>acquireOp\<close> returned: the
  code and message of its error, or \<^verbatim>\<open>None\<close> when the slot was acquired; its protocol is
  \<^verbatim>\<open>Op_Slot.thy\<close>. The call \<open>SRelease\<close> stands for the cleanup that gives the slot back.
  \<^verbatim>\<open>ctx.Err() == context.Canceled\<close> is the parameter \<open>sc_canceled\<close>.
\<close>

definition NewZarfServer :: "(string \<rightharpoonup> string) \<Rightarrow> imgapi \<Rightarrow> sidecar \<Rightarrow> sidecar" where
  "NewZarfServer environ V S =
     (let cachePath = (case environ ''ZARF_CACHE_PATH'' of None \<Rightarrow> [] | Some p \<Rightarrow> p);
          cachePath = (if cachePath = [] then ''/tmp/cache'' else cachePath)
      in S\<lparr>sc_cachePath := cachePath, sc_verifyImgs := verifyDeployedPackageImages V\<rparr>)"

subsection \<open>Classifying errors\<close>

definition classifyOCIError :: "goerr option \<Rightarrow> code" where
  "classifyOCIError err =
     (case err of
        None \<Rightarrow> codes_Internal
      | Some e \<Rightarrow>
          (let msg = strings_ToLower (err_Error e) in
           if strings_Contains msg ''401'' \<or> strings_Contains msg ''unauthorized'' then codes_Unauthenticated
           else if strings_Contains msg ''credential'' then codes_Unauthenticated
           else if strings_Contains msg ''403'' \<or> strings_Contains msg ''forbidden'' \<or> strings_Contains msg ''denied''
           then codes_PermissionDenied
           else if strings_Contains msg ''signature verification failed'' \<or> strings_Contains msg ''not signed''
           then codes_InvalidArgument
           else if strings_Contains msg ''404'' \<or> strings_Contains msg ''not found'' then codes_NotFound
           else codes_Internal))"

definition classifyDeployError :: "goerr option \<Rightarrow> code" where
  "classifyDeployError err =
     (case err of
        None \<Rightarrow> codes_Internal
      | Some e \<Rightarrow>
          (let msg = strings_ToLower (err_Error e) in
           if strings_Contains msg ''another operation'' \<and> strings_Contains msg ''in progress''
           then codes_FailedPrecondition
           else if strings_Contains msg ''context deadline exceeded'' \<or> strings_Contains msg ''timed out'' \<or>
             strings_Contains msg ''timeout''
           then codes_DeadlineExceeded
           else codes_Internal))"

text \<open>
  \<^verbatim>\<open>FindStringSubmatch\<close> of the two patterns: the group of the leftmost match. \<open>componentAt\<close> and \<open>chartAt\<close>
  match at the front of their argument.
\<close>

fun findFirst :: "(string \<Rightarrow> string option) \<Rightarrow> string \<Rightarrow> string option" where
  "findFirst f [] = f []"
| "findFirst f (c # s) = (case f (c # s) of Some m \<Rightarrow> Some m | None \<Rightarrow> findFirst f s)"

definition componentErrorPrefix :: string where
  "componentErrorPrefix = ''unable to deploy component '' @ [CHR 0x22]"

definition componentAt :: "string \<Rightarrow> string option" where
  "componentAt s =
     (if strings_HasPrefix s componentErrorPrefix then
        let rest = strings_TrimPrefix s componentErrorPrefix; name = takeWhile (\<lambda>c. c \<noteq> CHR 0x22) rest in
        if name \<noteq> [] \<and> length name < length rest then Some name else None
      else None)"

definition chartErrorPrefix :: string where
  "chartErrorPrefix = ''unable to install chart ''"

definition chart_char :: "char \<Rightarrow> bool" where
  "chart_char c \<longleftrightarrow> c \<noteq> CHR '':'' \<and> c \<noteq> CHR '' '' \<and> c \<noteq> CHR 0x09 \<and> c \<noteq> CHR 0x0A \<and> c \<noteq> CHR 0x0C \<and> c \<noteq> CHR 0x0D"

definition chartAt :: "string \<Rightarrow> string option" where
  "chartAt s =
     (if strings_HasPrefix s chartErrorPrefix then
        let name = takeWhile chart_char (strings_TrimPrefix s chartErrorPrefix) in
        if name \<noteq> [] then Some name else None
      else None)"

definition parseDeployError :: "string \<Rightarrow> string \<times> string" where
  "parseDeployError msg =
     ((case findFirst componentAt msg of Some m \<Rightarrow> m | None \<Rightarrow> []),
      (case findFirst chartAt msg of Some m \<Rightarrow> m | None \<Rightarrow> []))"

subsection \<open>Conversions\<close>

definition buildRegistryInfo :: "ZarfInitOptions option \<Rightarrow> RegistryInfo" where
  "buildRegistryInfo opts =
     (case opts of
        None \<Rightarrow> zero_RegistryInfo
      | Some o' \<Rightarrow>
          \<lparr>rgi_Address = zi_RegistryAddress o', rgi_NodePort = zi_RegistryNodePort o',
           rgi_Secret = zi_RegistrySecret o', rgi_PushUsername = zi_RegistryPushUsername o',
           rgi_PushPassword = zi_RegistryPushPassword o', rgi_PullUsername = zi_RegistryPullUsername o',
           rgi_PullPassword = zi_RegistryPullPassword o'\<rparr>)"

definition chartMessage :: "InstalledChart \<Rightarrow> InstalledChart" where
  "chartMessage ch = \<lparr>ic_Namespace = ic_Namespace ch, ic_ChartName = ic_ChartName ch, ic_Status = ic_Status ch\<rparr>"

definition componentMessage :: "DeployedComponent \<Rightarrow> DeployedComponent" where
  "componentMessage c =
     \<lparr>dc_Name = dc_Name c, dc_Status = dc_Status c, dc_InstalledCharts = map chartMessage (dc_InstalledCharts c),
      dc_ObservedGeneration = wrap32 (dc_ObservedGeneration c)\<rparr>"

definition packageMessage :: "deployedPackage option \<Rightarrow> PackageInfo option" where
  "packageMessage pkg =
     (case pkg of
        None \<Rightarrow> None
      | Some p \<Rightarrow>
          Some \<lparr>pi_Name = dp_Name p, pi_Version = dp_Version p, pi_Generation = wrap32 (dp_Generation p),
                pi_CLIVersion = dp_CLIVersion p, pi_DeployedComponents = map componentMessage (dp_DeployedComponents p),
                pi_NamespaceOverride = dp_NamespaceOverride p\<rparr>)"

subsection \<open>Logger of a request\<close>

definition lower_level :: "sidecar \<Rightarrow> string \<Rightarrow> loggerConfig \<Rightarrow> loggerConfig" where
  "lower_level S name cfg =
     (case sc_ParseLevel S name of
        Inl err \<Rightarrow> cfg
      | Inr level \<Rightarrow> if level < lc_Level cfg then cfg\<lparr>lc_Level := level\<rparr> else cfg)"

definition loggerForRequest :: "sidecar \<Rightarrow> DeployRequest \<Rightarrow> loggerConfig" where
  "loggerForRequest S req =
     (let cfg = sc_baseConfig S;
          cfg = (if rq_LogLevel req \<noteq> [] then lower_level S (rq_LogLevel req) cfg else cfg);
          cfg = (if rq_HelmDebugEnabled req then lower_level S ''debug'' cfg else cfg);
          cfg = (if rq_LogFormat req \<noteq> [] then cfg\<lparr>lc_Format := rq_LogFormat req\<rparr> else cfg);
          cfg = (if rq_NoColor req then cfg\<lparr>lc_Color := False\<rparr> else cfg)
      in case sc_loggerNewErr S cfg of Some err \<Rightarrow> sc_baseConfig S | None \<Rightarrow> cfg)"

subsection \<open>Deferred cleanups\<close>

definition withOp :: "sidecar \<Rightarrow> (code \<times> string) option \<Rightarrow> (sstate \<Rightarrow> (goerr + 'a) \<times> sstate) \<Rightarrow> sstate \<Rightarrow> (goerr + 'a) \<times> sstate" where
  "withOp S acq body st =
     (case acq of
        Some (c, msg) \<Rightarrow> (Inl (status_error S c msg), st)
      | None \<Rightarrow> (let (r, st') = body st in (r, scall S SRelease st')))"

definition withKubeconfig :: "sidecar \<Rightarrow> string \<Rightarrow> (sstate \<Rightarrow> (goerr + 'a) \<times> sstate) \<Rightarrow> sstate \<Rightarrow> (goerr + 'a) \<times> sstate" where
  "withKubeconfig S kubeconfig body st =
     (case applyKubeconfig (sc_os S) kubeconfig (ss_os st) of
        (Inl err, os') \<Rightarrow>
          (Inl (status_error S codes_Internal (''failed to apply kubeconfig: '' @ err_Error err)), on_os (\<lambda>_. os') st)
      | (Inr cl, os') \<Rightarrow>
          (let (r, st') = body (on_os (\<lambda>_. os') st) in (r, on_os (runKubeconfigCleanup (sc_os S) cl) st')))"

definition withRegistry :: "sidecar \<Rightarrow> string \<Rightarrow> (sstate \<Rightarrow> (goerr + 'a) \<times> sstate) \<Rightarrow> sstate \<Rightarrow> (goerr + 'a) \<times> sstate" where
  "withRegistry S credentialJSON body st =
     (case applyRegistryCredentials (sc_os S) credentialJSON (ss_os st) of
        (Inl (c, msg), os') \<Rightarrow> (Inl (status_error S c msg), on_os (\<lambda>_. os') st)
      | (Inr cl, os') \<Rightarrow>
          (let (r, st') = body (on_os (\<lambda>_. os') st) in (r, on_os (runRegistryCleanup (sc_os S) cl) st')))"

subsection \<open>\<^verbatim>\<open>Deploy\<close>\<close>

definition getClusterArchitecture :: "sidecar \<Rightarrow> sstate \<Rightarrow> (goerr + string) \<times> sstate" where
  "getClusterArchitecture S st =
     (let st1 = scall S SCluster st in
      case sc_clusterNewErr S (ss_hist st1) of
        Some err \<Rightarrow> (Inl (fmt_wrap ''failed to connect to cluster'' err), st1)
      | None \<Rightarrow>
          (let st2 = scall S SListNodes st1 in
           case sc_listNodes S (ss_hist st2) of
             Inl err \<Rightarrow> (Inl (fmt_wrap ''failed to list nodes'' err), st2)
           | Inr [] \<Rightarrow> (Inr (sc_GOARCH S), st2)
           | Inr (arch # _) \<Rightarrow> (Inr (if arch = [] then sc_GOARCH S else arch), st2)))"

text \<open>Defaults for headless operation, and the architecture of the cluster.\<close>

definition requestDefaults :: "DeployRequest \<Rightarrow> DeployRequest" where
  "requestDefaults req =
     req\<lparr>rq_Retries := (if rq_Retries req = 0 then 3 else rq_Retries req),
         rq_Timeout := (if rq_Timeout req = None \<or> rq_Timeout req = Some 0 then Some (15 * minute) else rq_Timeout req),
         rq_OciConcurrency := (if rq_OciConcurrency req = 0 then 6 else rq_OciConcurrency req)\<rparr>"

definition deployDefaults :: "sidecar \<Rightarrow> DeployRequest \<Rightarrow> sstate \<Rightarrow> DeployRequest \<times> sstate" where
  "deployDefaults S req st =
     (let req = requestDefaults req in
      if rq_Architecture req = [] then
        (case getClusterArchitecture S st of
           (Inl err, st') \<Rightarrow> (req\<lparr>rq_Architecture := sc_GOARCH S\<rparr>, st')
         | (Inr arch, st') \<Rightarrow> (req\<lparr>rq_Architecture := arch\<rparr>, st'))
      else (req, st))"

definition loadOptions :: "sidecar \<Rightarrow> DeployRequest \<Rightarrow> LoadOptions" where
  "loadOptions S req =
     \<lparr>lo_Shasum = rq_Shasum req, lo_Architecture = rq_Architecture req, lo_PublicKeyPath = rq_PublicKeyPath req,
      lo_Verify = (\<not> rq_SkipSignatureValidation req), lo_OCIConcurrency = rq_OciConcurrency req,
      lo_CachePath = sc_cachePath S, lo_PlainHTTP = rq_PlainHttp req,
      lo_InsecureSkipTLSVerify = rq_InsecureSkipTlsVerify req\<rparr>"

definition deployOptions :: "DeployRequest \<Rightarrow> PackagerDeployOptions" where
  "deployOptions req =
     \<lparr>po_SetVariables = rq_SetVariables req, po_AdoptExistingResources = rq_AdoptExistingResources req,
      po_Timeout = (case rq_Timeout req of None \<Rightarrow> 0 | Some d \<Rightarrow> d), po_Retries = rq_Retries req,
      po_NamespaceOverride = rq_NamespaceOverride req, po_OCIConcurrency = rq_OciConcurrency req,
      po_IsInteractive = False, po_SkipVersionCheck = rq_SkipVersionCheck req,
      po_RegistryInfo = buildRegistryInfo (rq_InitOptions req), po_PlainHTTP = rq_PlainHttp req,
      po_InsecureSkipTLSVerify = rq_InsecureSkipTlsVerify req\<rparr>"

definition captureLines :: "sstate \<Rightarrow> string list" where
  "captureLines st =
     (case ss_capture st of None \<Rightarrow> [] | Some h \<Rightarrow> (case Lines h of None \<Rightarrow> [] | Some ls \<Rightarrow> ls))"

text \<open>An error status with the detail, or without it when attaching fails.\<close>

definition detailed_error :: "sidecar \<Rightarrow> code \<Rightarrow> string \<Rightarrow> deploy_error_detail \<Rightarrow> goerr" where
  "detailed_error S c msg detail =
     (case sc_WithDetailsErr S c detail of
        Some err \<Rightarrow> status_error S c msg
      | None \<Rightarrow> StatusError c (sc_statusText S c msg) [detail])"

text \<open>Deploying the selected components, and checking their images.\<close>

definition deployVerified ::
  "sidecar \<Rightarrow> DeployRequest \<Rightarrow> layout \<Rightarrow> sstate \<Rightarrow> (goerr + DeployResponse) \<times> sstate" where
  "deployVerified S req pl st =
     (let opts = deployOptions req; st1 = scall S (SDeploy pl opts) st in
      case sc_deployPkg S (ss_hist st1) pl opts of
        Inl err \<Rightarrow>
          if sc_canceled S (ss_hist st1) then (Inl (status_error S codes_Canceled ''deploy cancelled''), st1)
          else
            (Inl (detailed_error S (classifyDeployError (Some err)) (''deployment failed: '' @ err_Error err)
               \<lparr>det_FailedComponent = fst (parseDeployError (err_Error err)),
                det_FailedChart = snd (parseDeployError (err_Error err)),
                det_ErrorMessage = err_Error err, det_DeployLogs = captureLines st1\<rparr>), st1)
      | Inr deployed \<Rightarrow>
          (let st2 = scall S (SVerify pl opts) st1 in
           case sc_verifyImgs S (ss_hist st2) pl opts of
             Some err \<Rightarrow>
               (Inl (detailed_error S (classifyOCIError (Some err))
                  (''deployment image verification failed: '' @ err_Error err)
                  \<lparr>det_FailedComponent = failedImageComponent err, det_FailedChart = [],
                   det_ErrorMessage = err_Error err, det_DeployLogs = captureLines st2\<rparr>), st2)
           | None \<Rightarrow>
               (Inr \<lparr>rs_PackageName = ly_Name pl, rs_Version = ly_Version pl, rs_Generation = 1,
                     rs_DeployedComponents = map componentMessage deployed,
                     rs_DeployLogs = captureLines st2\<rparr>, st2)))"

text \<open>The component filter and the YOLO mode.\<close>

definition deployLayout ::
  "sidecar \<Rightarrow> DeployRequest \<Rightarrow> layout \<Rightarrow> sstate \<Rightarrow> (goerr + DeployResponse) \<times> sstate" where
  "deployLayout S req pkgLayout st =
     (case (if rq_Components req \<noteq> [] then sc_filter S (strings_Join (rq_Components req) '','') pkgLayout
            else Inr (ly_Components pkgLayout)) of
        Inl err \<Rightarrow> (Inl (status_error S codes_InvalidArgument (''failed to filter components: '' @ err_Error err)), st)
      | Inr comps \<Rightarrow>
          (let pl = pkgLayout\<lparr>ly_Components := comps\<rparr>;
               pl = (if rq_YoloMode req then pl\<lparr>ly_YOLO := True\<rparr> else pl)
           in deployVerified S req pl st))"

definition deployLoaded :: "sidecar \<Rightarrow> DeployRequest \<Rightarrow> sstate \<Rightarrow> (goerr + DeployResponse) \<times> sstate" where
  "deployLoaded S req st =
     (let opts = loadOptions S req; st1 = scall S (SLoad (rq_Source req) opts) st in
      case sc_loadPkg S (ss_hist st1) (rq_Source req) opts of
        Inl err \<Rightarrow>
          if sc_canceled S (ss_hist st1) then (Inl (status_error S codes_Canceled ''operation cancelled''), st1)
          else (Inl (status_error S (classifyOCIError (Some err)) (''failed to load package: '' @ err_Error err)), st1)
      | Inr pkgLayout \<Rightarrow>
          (let (r, st2) = deployLayout S req pkgLayout st1 in (r, scall S (SCleanup pkgLayout) st2)))"

definition deployBody :: "sidecar \<Rightarrow> DeployRequest \<Rightarrow> sstate \<Rightarrow> (goerr + DeployResponse) \<times> sstate" where
  "deployBody S req st =
     (let (req', st1) = deployDefaults S req st in
      withRegistry S (rq_RegistryCredentialJson req') (deployLoaded S req') st1)"

definition sidecar_Deploy ::
  "sidecar \<Rightarrow> (code \<times> string) option \<Rightarrow> DeployRequest \<Rightarrow> osstate \<Rightarrow> (goerr + DeployResponse) \<times> sstate" where
  "sidecar_Deploy S acq req proc =
     (let st = \<lparr>ss_os = proc, ss_hist = [], ss_level = lc_Level (loggerForRequest S req),
                ss_capture = Some (newCapturingHandler 200)\<rparr>
      in if strings_TrimSpace (rq_Source req) = [] then
           (Inl (status_error S codes_InvalidArgument ''source is required''), st)
         else withOp S acq (withKubeconfig S (rq_Kubeconfig req) (deployBody S req)) st)"

subsection \<open>The other handlers\<close>

definition base_request :: "sidecar \<Rightarrow> osstate \<Rightarrow> sstate" where
  "base_request S proc = \<lparr>ss_os = proc, ss_hist = [], ss_level = lc_Level (sc_baseConfig S), ss_capture = None\<rparr>"

text \<open>Reading a deployed package: an error that says \<^verbatim>\<open>not found\<close> is \<^verbatim>\<open>NotFound\<close>.\<close>

definition deployed_package ::
  "sidecar \<Rightarrow> string \<Rightarrow> string \<Rightarrow> sstate \<Rightarrow> (goerr + deployedPackage) \<times> sstate" where
  "deployed_package S name failed_msg st =
     (let st1 = scall S SCluster st in
      case sc_clusterNewErr S (ss_hist st1) of
        Some err \<Rightarrow> (Inl (status_error S codes_Unavailable (''failed to connect to cluster: '' @ err_Error err)), st1)
      | None \<Rightarrow>
          (let st2 = scall S (SGetDeployed name) st1 in
           case sc_getDeployed S (ss_hist st2) name of
             Inl err \<Rightarrow>
               (if strings_Contains (strings_ToLower (err_Error err)) ''not found''
                then (Inl (status_error S codes_NotFound (''package '' @ fmt_q name @ '' not found: '' @ err_Error err)), st2)
                else (Inl (status_error S codes_Internal (failed_msg @ '': '' @ err_Error err)), st2))
           | Inr p \<Rightarrow> (Inr p, st2)))"

definition sidecar_GetDeployedPackage ::
  "sidecar \<Rightarrow> GetDeployedPackageRequest \<Rightarrow> osstate \<Rightarrow> (goerr + PackageInfo option) \<times> sstate" where
  "sidecar_GetDeployedPackage S req proc =
     withKubeconfig S (gq_Kubeconfig req)
       (\<lambda>st. case deployed_package S (gq_PackageName req) ''failed to get package'' st of
          (Inl err, st') \<Rightarrow> (Inl err, st')
        | (Inr p, st') \<Rightarrow> (Inr (packageMessage (Some p)), st'))
       (base_request S proc)"

definition sidecar_ListDeployedPackages :: "sidecar \<Rightarrow> osstate \<Rightarrow> (goerr + PackageInfo option list) \<times> sstate" where
  "sidecar_ListDeployedPackages S proc =
     (let st1 = scall S SCluster (base_request S proc) in
      case sc_clusterNewErr S (ss_hist st1) of
        Some err \<Rightarrow> (Inl (status_error S codes_Unavailable (''failed to connect to cluster: '' @ err_Error err)), st1)
      | None \<Rightarrow>
          (let st2 = scall S SListDeployed st1 in
           case sc_listDeployed S (ss_hist st2) of
             Inl err \<Rightarrow> (Inl (status_error S codes_Internal (''failed to list packages: '' @ err_Error err)), st2)
           | Inr pkgs \<Rightarrow> (Inr (map (\<lambda>p. packageMessage (Some p)) pkgs), st2)))"

definition removeBody :: "sidecar \<Rightarrow> RemoveRequest \<Rightarrow> sstate \<Rightarrow> (goerr + unit) \<times> sstate" where
  "removeBody S req st =
     (case deployed_package S (rm_PackageName req) ''failed to get deployed package'' st of
        (Inl err, st') \<Rightarrow> (Inl err, st')
      | (Inr p, st') \<Rightarrow>
          (let timeout = (case rm_Timeout req of Some d \<Rightarrow> if d > 0 then d else 15 * minute | None \<Rightarrow> 15 * minute);
               opts = \<lparr>pr_Timeout = timeout, pr_NamespaceOverride = rm_NamespaceOverride req,
                       pr_SkipVersionCheck = rm_SkipVersionCheck req\<rparr>;
               st1 = scall S (SRemove (dp_Data p) opts) st'
           in case sc_removePkg S (ss_hist st1) (dp_Data p) opts of
                Some err \<Rightarrow>
                  if sc_canceled S (ss_hist st1) then (Inl (status_error S codes_Canceled ''remove cancelled''), st1)
                  else (Inl (status_error S codes_Internal (''removal failed: '' @ err_Error err)), st1)
              | None \<Rightarrow> (Inr (), st1)))"

definition sidecar_Remove ::
  "sidecar \<Rightarrow> (code \<times> string) option \<Rightarrow> RemoveRequest \<Rightarrow> osstate \<Rightarrow> (goerr + unit) \<times> sstate" where
  "sidecar_Remove S acq req proc =
     (if strings_TrimSpace (rm_PackageName req) = [] then
        (Inl (status_error S codes_InvalidArgument ''package_name is required''), base_request S proc)
      else withOp S acq (withKubeconfig S (rm_Kubeconfig req) (removeBody S req)) (base_request S proc))"

definition packageMetadataLoadOptions :: "sidecar \<Rightarrow> LoadOptions" where
  "packageMetadataLoadOptions S =
     \<lparr>lo_Shasum = [], lo_Architecture = [], lo_PublicKeyPath = [], lo_Verify = False, lo_OCIConcurrency = 0,
      lo_CachePath = sc_cachePath S, lo_PlainHTTP = False, lo_InsecureSkipTLSVerify = False\<rparr>"

definition sidecar_GetPackageMetadata ::
  "sidecar \<Rightarrow> string \<Rightarrow> osstate \<Rightarrow> (goerr + PackageMetadata) \<times> sstate" where
  "sidecar_GetPackageMetadata S source proc =
     (let st = base_request S proc in
      if strings_TrimSpace source = [] then (Inl (status_error S codes_InvalidArgument ''source is required''), st)
      else
        let opts = packageMetadataLoadOptions S; st1 = scall S (SLoad source opts) st in
        case sc_loadPkg S (ss_hist st1) source opts of
          Inl err \<Rightarrow> (Inl (status_error S codes_Internal (''failed to load package metadata: '' @ err_Error err)), st1)
        | Inr pl \<Rightarrow>
            (Inr \<lparr>pm_Name = ly_Name pl, pm_Version = ly_Version pl, pm_Description = ly_Description pl,
                  pm_Components = map cm_Name (ly_Components pl), pm_Architecture = ly_Architecture pl\<rparr>,
             scall S (SCleanup pl) st1))"

definition sidecar_Health :: "sidecar \<Rightarrow> osstate \<Rightarrow> HealthResponse \<times> sstate" where
  "sidecar_Health S proc =
     (let st1 = scall S SCluster (base_request S proc) in
      case sc_clusterNewErr S (ss_hist st1) of
        Some err \<Rightarrow>
          (\<lparr>hr_Healthy = False, hr_Version = sc_version S,
            hr_Message = ''cluster connectivity failed: '' @ err_Error err\<rparr>, st1)
      | None \<Rightarrow>
          (let st2 = scall S SListNamespaces st1 in
           case sc_listNamespacesErr S (ss_hist st2) of
             Some err \<Rightarrow>
               (\<lparr>hr_Healthy = False, hr_Version = sc_version S,
                 hr_Message = ''cluster API test failed: '' @ err_Error err\<rparr>, st2)
           | None \<Rightarrow> (\<lparr>hr_Healthy = True, hr_Version = sc_version S, hr_Message = []\<rparr>, st2)))"

end
