(* ===== verification/Sidecar_Properties.thy ===== *)
theory Sidecar_Properties
  imports Sidecar
begin

section \<open>What the sidecar's handlers guarantee\<close>

text \<open>
  The lemmas follow the handlers from the inside out: the body of a deployment leaves the process
  alone, each wrapper undoes what it did. A handler body \<^emph>\<open>keeps\<close> the process when its final state
  has the variables and the mutex of its initial state.
\<close>

subsection \<open>The process\<close>

lemma getClusterArchitecture_os: "ss_os (snd (getClusterArchitecture S st)) = ss_os st"
  by (simp add: getClusterArchitecture_def Let_def split: option.splits sum.splits list.splits)

lemma deployDefaults_os: "ss_os (snd (deployDefaults S req st)) = ss_os st"
  using getClusterArchitecture_os [of S st]
  by (auto simp: deployDefaults_def Let_def split: sum.splits prod.splits)

lemma deployVerified_os: "ss_os (snd (deployVerified S req pl st)) = ss_os st"
  by (simp add: deployVerified_def Let_def split: sum.split option.split)

lemma deployLayout_os: "ss_os (snd (deployLayout S req pl st)) = ss_os st"
  by (simp add: deployLayout_def Let_def deployVerified_os split: sum.split)

lemma deployLoaded_os: "ss_os (snd (deployLoaded S req st)) = ss_os st"
proof -
  have "ss_os st2 = ss_os st1" if "deployLayout S req pl st1 = (r, st2)" for pl r st1 st2
    using deployLayout_os [of S req pl st1] that by simp
  then show ?thesis by (auto simp: deployLoaded_def Let_def split: sum.splits prod.splits)
qed

lemma deployed_package_os: "ss_os (snd (deployed_package S name msg st)) = ss_os st"
  by (simp add: deployed_package_def Let_def split: option.splits sum.splits)

lemma getBody_os:
  "ss_os (snd (case deployed_package S name msg st of (Inl err, st') \<Rightarrow> (Inl err, st') | (Inr p, st') \<Rightarrow> (Inr (f p), st'))) =
   ss_os st"
  using deployed_package_os [of S name msg st] by (auto split: prod.splits sum.splits)

lemma removeBody_os: "ss_os (snd (removeBody S req st)) = ss_os st"
  using deployed_package_os [of S "rm_PackageName req" "''failed to get deployed package''" st]
  by (auto simp: removeBody_def Let_def split: option.splits sum.splits prod.splits)

lemma withRegistry_keeps:
  assumes "file_system (sc_os S)" and "env_ok (ss_os st)" and "\<And>st. same_process (ss_os st) (ss_os (snd (body st)))"
  shows "same_process (ss_os st) (ss_os (snd (withRegistry S cj body st)))"
proof (cases "applyRegistryCredentials (sc_os S) cj (ss_os st)")
  case (Pair r os')
  show ?thesis
  proof (cases r)
    case (Inl e)
    with Pair file_system.applyRegistryCredentials_failed [OF assms(1)] show ?thesis
      by (cases e) (auto simp: withRegistry_def)
  next
    case (Inr cl)
    have "same_process os' (ss_os (snd (body (on_os (\<lambda>_. os') st))))"
      using assms(3) [of "on_os (\<lambda>_. os') st"] by simp
    from file_system.registry_cleanup_restores [OF assms(1) _ assms(2) this] Pair Inr show ?thesis
      by (simp add: withRegistry_def case_prod_beta)
  qed
qed

lemma withKubeconfig_keeps:
  assumes "file_system (sc_os S)" and "env_ok (ss_os st)" and "\<not> os_mu (ss_os st)"
    and "\<And>st. env_ok (ss_os st) \<Longrightarrow> same_process (ss_os st) (ss_os (snd (body st)))"
  shows "same_process (ss_os st) (ss_os (snd (withKubeconfig S kc body st)))"
proof (cases "applyKubeconfig (sc_os S) kc (ss_os st)")
  case (Pair r os')
  show ?thesis
  proof (cases r)
    case (Inl e)
    with Pair file_system.applyKubeconfig_failed [OF assms(1)] assms(3) show ?thesis
      by (auto simp: withKubeconfig_def same_process_def)
  next
    case (Inr cl)
    have "env_ok os'" using file_system.applyKubeconfig_env_ok [OF assms(1) _ assms(2)] Pair Inr by blast
    then have "same_process os' (ss_os (snd (body (on_os (\<lambda>_. os') st))))"
      using assms(4) [of "on_os (\<lambda>_. os') st"] by simp
    from file_system.cleanup_restores [OF assms(1) file_system.applyKubeconfig_own [OF assms(1)] assms(2) this]
      Pair Inr assms(3) show ?thesis
      by (simp add: withKubeconfig_def same_process_def case_prod_beta)
  qed
qed

lemma withOp_os:
  "same_process (ss_os st) (ss_os (snd (body st))) \<Longrightarrow> same_process (ss_os st) (ss_os (snd (withOp S acq body st)))"
  by (auto simp: withOp_def same_process_def split: option.splits prod.splits)

lemma deployBody_keeps:
  assumes "file_system (sc_os S)" and "env_ok (ss_os st)"
  shows "same_process (ss_os st) (ss_os (snd (deployBody S req st)))"
proof -
  obtain req' st1 where d: "deployDefaults S req st = (req', st1)" by fastforce
  with deployDefaults_os [of S req st] have os: "ss_os st1 = ss_os st" by simp
  have "same_process (ss_os st1) (ss_os (snd (withRegistry S (rq_RegistryCredentialJson req') (deployLoaded S req') st1)))"
    by (rule withRegistry_keeps [OF assms(1)]) (use assms(2) os in \<open>simp_all add: deployLoaded_os same_process_def\<close>)
  with d os show ?thesis by (simp add: deployBody_def)
qed

text \<open>
  Property C10. Deploy, Remove and GetDeployedPackage leave the sidecar's process as they found it, on
  every path, successful or not: the environment variables (KUBECONFIG and DOCKER_CONFIG among them)
  have their old values, and the mutex is free.
\<close>

theorem handlers_restore_process:
  assumes "file_system (sc_os S)" and "env_ok proc" and "\<not> os_mu proc"
  shows "same_process proc (ss_os (snd (sidecar_Deploy S acq req proc))) \<and>
    same_process proc (ss_os (snd (sidecar_Remove S acq rreq proc))) \<and>
    same_process proc (ss_os (snd (sidecar_GetDeployedPackage S greq proc)))"
proof (intro conjI)
  show "same_process proc (ss_os (snd (sidecar_Deploy S acq req proc)))"
  proof -
    let ?st = "\<lparr>ss_os = proc, ss_hist = [], ss_level = lc_Level (loggerForRequest S req),
      ss_capture = Some (newCapturingHandler 200)\<rparr>"
    have "same_process (ss_os ?st) (ss_os (snd (withOp S acq (withKubeconfig S (rq_Kubeconfig req) (deployBody S req)) ?st)))"
      using assms by (intro withOp_os withKubeconfig_keeps deployBody_keeps) simp_all
    then show ?thesis by (simp add: sidecar_Deploy_def Let_def same_process_refl)
  qed
  show "same_process proc (ss_os (snd (sidecar_Remove S acq rreq proc)))"
  proof -
    have "same_process (ss_os (base_request S proc))
        (ss_os (snd (withOp S acq (withKubeconfig S (rm_Kubeconfig rreq) (removeBody S rreq)) (base_request S proc))))"
      using assms by (intro withOp_os withKubeconfig_keeps) (simp_all add: base_request_def removeBody_os same_process_def)
    then show ?thesis by (simp add: sidecar_Remove_def base_request_def same_process_refl)
  qed
  show "same_process proc (ss_os (snd (sidecar_GetDeployedPackage S greq proc)))"
  proof -
    have "same_process (ss_os (base_request S proc)) (ss_os (snd (sidecar_GetDeployedPackage S greq proc)))"
      unfolding sidecar_GetDeployedPackage_def using assms
      by (intro withKubeconfig_keeps) (simp_all add: base_request_def getBody_os same_process_refl)
    then show ?thesis by (simp add: base_request_def)
  qed
qed

subsection \<open>The calls of a deployment\<close>

text \<open>The history grows by the calls \<open>cs\<close>, all made in the process state of \<open>st\<close>.\<close>

definition grows :: "sstate \<Rightarrow> scall list \<Rightarrow> sstate \<Rightarrow> bool" where
  "grows st cs st' \<longleftrightarrow> ss_hist st' = ss_hist st @ map (\<lambda>c. (c, ss_os st)) cs \<and> ss_os st' = ss_os st"

lemma grows_refl: "grows st [] st"
  by (simp add: grows_def)

lemma grows_scall: "grows st cs st' \<Longrightarrow> grows st (cs @ [c]) (scall S c st')"
  by (simp add: grows_def)

lemma deployVerified_grows:
  assumes "deployVerified S req pl st = (r, st')"
  shows "\<exists>cs. grows st cs st' \<and> set cs \<subseteq> {SDeploy pl (deployOptions req), SVerify pl (deployOptions req)}"
proof -
  let ?o = "deployOptions req"
  let ?st1 = "scall S (SDeploy pl ?o) st"
  have g1: "grows st [SDeploy pl ?o] ?st1" using grows_scall [OF grows_refl] by simp
  have g2: "grows st [SDeploy pl ?o, SVerify pl ?o] (scall S (SVerify pl ?o) ?st1)" using grows_scall [OF g1] by simp
  have "st' = ?st1 \<or> st' = scall S (SVerify pl ?o) ?st1"
    using assms by (auto simp: deployVerified_def Let_def split: sum.splits option.splits if_splits)
  with g1 g2 show ?thesis by fastforce
qed

lemma deployLayout_grows:
  assumes "deployLayout S req pl st = (r, st')"
  shows "\<exists>cs. grows st cs st' \<and> (\<forall>c \<in> set cs. \<exists>pl'. c = SDeploy pl' (deployOptions req) \<or> c = SVerify pl' (deployOptions req))"
proof (cases "if rq_Components req \<noteq> [] then sc_filter S (strings_Join (rq_Components req) '','') pl else Inr (ly_Components pl)")
  case (Inl err)
  with assms show ?thesis by (intro exI [of _ "[]"]) (simp add: deployLayout_def grows_refl)
next
  case (Inr comps)
  with assms obtain pl' where "deployVerified S req pl' st = (r, st')"
    by (simp add: deployLayout_def Let_def split: if_splits)
  from deployVerified_grows [OF this] show ?thesis by blast
qed

lemma deployLoaded_grows:
  assumes "deployLoaded S req st = (r, st')"
  shows "\<exists>cs. grows st (SLoad (rq_Source req) (loadOptions S req) # cs) st' \<and>
    (\<forall>pl opts. SDeploy pl opts \<in> set cs \<longrightarrow> opts = deployOptions req)"
proof -
  let ?l = "SLoad (rq_Source req) (loadOptions S req)"
  let ?st1 = "scall S ?l st"
  have g1: "grows st [?l] ?st1" using grows_scall [OF grows_refl] by simp
  show ?thesis
  proof (cases "sc_loadPkg S (ss_hist ?st1) (rq_Source req) (loadOptions S req)")
    case (Inl err)
    with assms have "st' = ?st1" by (auto simp: deployLoaded_def Let_def split: if_splits)
    with g1 show ?thesis by (intro exI [of _ "[]"]) simp
  next
    case (Inr pl)
    obtain r2 st2 where d: "deployLayout S req pl ?st1 = (r2, st2)" by fastforce
    with assms Inr have st': "st' = scall S (SCleanup pl) st2" by (auto simp: deployLoaded_def Let_def)
    from deployLayout_grows [OF d] obtain cs where cs: "grows ?st1 cs st2"
        "\<forall>c \<in> set cs. \<exists>pl'. c = SDeploy pl' (deployOptions req) \<or> c = SVerify pl' (deployOptions req)" by blast
    with g1 st' have "grows st (?l # cs @ [SCleanup pl]) st'" by (simp add: grows_def)
    with cs(2) show ?thesis by (intro exI [of _ "cs @ [SCleanup pl]"]) auto
  qed
qed

lemma getClusterArchitecture_grows:
  "\<exists>cs. grows st cs (snd (getClusterArchitecture S st)) \<and> set cs \<subseteq> {SCluster, SListNodes}"
proof -
  have g1: "grows st [SCluster] (scall S SCluster st)" using grows_scall [OF grows_refl] by simp
  have g2: "grows st [SCluster, SListNodes] (scall S SListNodes (scall S SCluster st))" using grows_scall [OF g1] by simp
  have "snd (getClusterArchitecture S st) = scall S SCluster st \<or>
      snd (getClusterArchitecture S st) = scall S SListNodes (scall S SCluster st)"
    by (simp add: getClusterArchitecture_def Let_def split: option.splits sum.splits list.splits)
  with g1 g2 show ?thesis by fastforce
qed

lemma requestDefaults_arch [simp]: "rq_Architecture (requestDefaults req) = rq_Architecture req"
  by (simp add: requestDefaults_def)

lemma deployDefaults_grows:
  assumes "deployDefaults S req st = (req', st')"
  shows "\<exists>cs. grows st cs st' \<and> set cs \<subseteq> {SCluster, SListNodes}"
proof (cases "rq_Architecture req = []")
  case True
  with assms have "st' = snd (getClusterArchitecture S st)"
    by (auto simp: deployDefaults_def Let_def split: prod.splits sum.splits)
  then show ?thesis using getClusterArchitecture_grows by simp
next
  case False
  with assms have "st' = st" by (simp add: deployDefaults_def Let_def)
  then show ?thesis using grows_refl [of st] by (intro exI [of _ "[]"]) simp
qed

text \<open>What the defaults leave alone, and what they guarantee.\<close>

lemma deployDefaults_shape:
  assumes "deployDefaults S req st = (req', st')"
  shows "\<exists>arch. req' = (requestDefaults req)\<lparr>rq_Architecture := arch\<rparr>"
proof (cases "rq_Architecture req = []")
  case True
  with assms show ?thesis by (auto simp: deployDefaults_def Let_def split: prod.splits sum.splits)
next
  case False
  with assms have "req' = (requestDefaults req)\<lparr>rq_Architecture := rq_Architecture (requestDefaults req)\<rparr>"
    by (simp add: deployDefaults_def Let_def)
  then show ?thesis by blast
qed

lemma deployDefaults_request:
  assumes "deployDefaults S req st = (req', st')"
  shows "rq_Source req' = rq_Source req \<and> rq_SkipSignatureValidation req' = rq_SkipSignatureValidation req \<and>
    rq_Shasum req' = rq_Shasum req \<and> rq_RegistryCredentialJson req' = rq_RegistryCredentialJson req \<and>
    rq_Retries req' \<noteq> 0 \<and> rq_OciConcurrency req' \<noteq> 0 \<and> (\<exists>d. rq_Timeout req' = Some d \<and> d \<noteq> 0)"
  using deployDefaults_shape [OF assms] by (cases "rq_Timeout req") (auto simp: requestDefaults_def minute_def split: if_splits)

text \<open>What a call sees of the cluster and the credentials that the request brought.\<close>

definition sees_cluster :: "string \<Rightarrow> osstate \<Rightarrow> osstate \<Rightarrow> bool" where
  "sees_cluster kc proc s \<longleftrightarrow>
     (if kc = [] then os_env s KUBECONFIG = os_env proc KUBECONFIG
      else \<exists>path. os_env s KUBECONFIG = Some path \<and> map_of (os_files s) path = Some kc)"

definition sees_credentials :: "string \<Rightarrow> osstate \<Rightarrow> osstate \<Rightarrow> bool" where
  "sees_credentials cj proc s \<longleftrightarrow>
     (if cj = [] then os_env s DOCKER_CONFIG = os_env proc DOCKER_CONFIG
      else \<exists>dir. os_env s DOCKER_CONFIG = Some dir \<and> map_of (os_files s) (filepath_Join dir ''config.json'') = Some cj)"

context file_system
begin

lemma registry_seen:
  assumes "applyRegistryCredentials A cj s = (Inr cl, s')"
  shows "sees_credentials cj s s' \<and> os_env s' KUBECONFIG = os_env s KUBECONFIG \<and>
    (\<forall>p b. map_of (os_files s) p = Some b \<longrightarrow> map_of (os_files s') p = Some b)"
proof (cases cl)
  case RegNone
  with assms show ?thesis
    by (auto simp: applyRegistryCredentials_def sees_credentials_def os_Setenv_def Let_def
        split: if_splits sum.splits option.splits)
next
  case (RegRestore orig d)
  with assms have m: "os_MkdirTemp A s ''zarf-docker-config-*'' = Inr d" "cj \<noteq> []"
      "os_files s' = (filepath_Join d ''config.json'', cj) # os_files s" "os_env s' = (os_env s)(DOCKER_CONFIG \<mapsto> d)"
    by (auto simp: applyRegistryCredentials_def mkdir_def write_file_def os_Setenv_def Let_def
        split: if_splits sum.splits option.splits)
  have "p \<noteq> filepath_Join d ''config.json''" if "map_of (os_files s) p = Some b" for p b
    using mkdir_new [OF m(1)] map_of_SomeD [OF that] by fastforce
  with m show ?thesis by (auto simp: sees_credentials_def env_names)
qed

lemma kubeconfig_seen:
  assumes "applyKubeconfig A kc s = (Inr cl, s')"
  shows "sees_cluster kc s s' \<and> os_env s' DOCKER_CONFIG = os_env s DOCKER_CONFIG"
  using applyKubeconfig_own [OF assms]
  by (auto simp: own_cluster_def sees_cluster_def env_names split: kubeconfigCleanup.splits)

end

lemma deploy_call_in_body:
  assumes "(SDeploy pl opts, s) \<in> set (ss_hist (snd (sidecar_Deploy S acq req proc)))"
  shows "\<exists>cl s1. acq = None \<and> strings_TrimSpace (rq_Source req) \<noteq> [] \<and>
    applyKubeconfig (sc_os S) (rq_Kubeconfig req) proc = (Inr cl, s1) \<and>
    (\<exists>st. ss_os st = s1 \<and> ss_hist st = [] \<and> (SDeploy pl opts, s) \<in> set (ss_hist (snd (deployBody S req st))) \<and>
       set (ss_hist (snd (deployBody S req st))) \<subseteq> set (ss_hist (snd (sidecar_Deploy S acq req proc))))"
proof (cases acq)
  case None
  let ?st = "\<lparr>ss_os = proc, ss_hist = [], ss_level = lc_Level (loggerForRequest S req),
      ss_capture = Some (newCapturingHandler 200)\<rparr>"
  obtain r s1 where k: "applyKubeconfig (sc_os S) (rq_Kubeconfig req) proc = (r, s1)" by fastforce
  have src: "strings_TrimSpace (rq_Source req) \<noteq> []" using assms by (auto simp: sidecar_Deploy_def)
  show ?thesis
  proof (cases r)
    case (Inl e)
    with assms None k src show ?thesis by (simp add: sidecar_Deploy_def withOp_def withKubeconfig_def)
  next
    case (Inr cl)
    let ?b = "snd (deployBody S req (on_os (\<lambda>_. s1) ?st))"
    have "ss_hist (snd (sidecar_Deploy S acq req proc)) = ss_hist ?b @ [(SRelease, runKubeconfigCleanup (sc_os S) cl (ss_os ?b))]"
      using None k src Inr by (simp add: sidecar_Deploy_def Let_def withOp_def withKubeconfig_def case_prod_beta)
    with assms None k src Inr show ?thesis
      by (intro exI [of _ cl] exI [of _ s1] conjI exI [of _ "on_os (\<lambda>_. s1) ?st"]) auto
  qed
next
  case (Some e)
  with assms show ?thesis by (cases e) (auto simp: sidecar_Deploy_def Let_def withOp_def split: if_splits)
qed

lemma deploy_call_in_load:
  assumes "(SDeploy pl opts, s) \<in> set (ss_hist (snd (deployBody S req st)))" and "ss_hist st = []"
  shows "\<exists>cl req' st1. applyRegistryCredentials (sc_os S) (rq_RegistryCredentialJson req) (ss_os st) = (Inr cl, s) \<and>
    deployDefaults S req st = (req', st1) \<and> opts = deployOptions req' \<and>
    (SLoad (rq_Source req) (loadOptions S req'), s) \<in> set (ss_hist (snd (deployBody S req st)))"
proof -
  obtain req' st1 where d: "deployDefaults S req st = (req', st1)" by fastforce
  from deployDefaults_grows [OF d] obtain cs1 where g1: "grows st cs1 st1" "set cs1 \<subseteq> {SCluster, SListNodes}" by blast
  note rq = deployDefaults_request [OF d]
  obtain r s1 where a: "applyRegistryCredentials (sc_os S) (rq_RegistryCredentialJson req) (ss_os st) = (r, s1)" by fastforce
  have body: "deployBody S req st = withRegistry S (rq_RegistryCredentialJson req) (deployLoaded S req') st1"
    using d rq by (simp add: deployBody_def)
  have before: "(SDeploy pl opts, s) \<notin> set (ss_hist st1)" using g1 assms(2) by (auto simp: grows_def)
  have os1: "ss_os st1 = ss_os st" using g1 by (simp add: grows_def)
  show ?thesis
  proof (cases r)
    case (Inl e)
    with assms body a before os1 show ?thesis by (cases e) (simp add: withRegistry_def)
  next
    case (Inr cl)
    obtain r2 st2 where l: "deployLoaded S req' (on_os (\<lambda>_. s1) st1) = (r2, st2)" by fastforce
    have h: "ss_hist (snd (deployBody S req st)) = ss_hist st2" using body a Inr os1 l by (simp add: withRegistry_def)
    from deployLoaded_grows [OF l] obtain cs where
      g2: "grows (on_os (\<lambda>_. s1) st1) (SLoad (rq_Source req') (loadOptions S req') # cs) st2"
        "\<forall>pl opts. SDeploy pl opts \<in> set cs \<longrightarrow> opts = deployOptions req'" by blast
    from assms(1) h g2 before have "s = s1" "opts = deployOptions req'" by (auto simp: grows_def)
    with a Inr d g2(1) h rq show ?thesis by (auto simp: grows_def)
  qed
qed


subsection \<open>The captured logs\<close>

text \<open>The records of level \<open>lvl\<close> or above that the calls of a history logged, in order.\<close>

definition logged :: "sidecar \<Rightarrow> int \<Rightarrow> shistory \<Rightarrow> slog_Record list" where
  "logged S lvl h = concat (map (\<lambda>n. filter (\<lambda>r. lvl \<le> rec_Level r) (sc_logs S (take (Suc n) h))) [0..<length h])"

lemma logged_snoc: "logged S lvl (h @ [x]) = logged S lvl h @ filter (\<lambda>r. lvl \<le> rec_Level r) (sc_logs S (h @ [x]))"
proof -
  have "map (\<lambda>n. filter (\<lambda>r. lvl \<le> rec_Level r) (sc_logs S (take (Suc n) (h @ [x])))) [0..<length h] =
      map (\<lambda>n. filter (\<lambda>r. lvl \<le> rec_Level r) (sc_logs S (take (Suc n) h))) [0..<length h]"
    by (rule map_cong) auto
  then show ?thesis by (simp add: logged_def del: take_append map_eq_conv)
qed

lemma handleAll_append: "handleAll h (xs @ ys) = Option.bind (handleAll h xs) (\<lambda>h'. handleAll h' ys)"
  by (induction xs arbitrary: h) (auto split: option.split)

definition capturing :: "sidecar \<Rightarrow> sstate \<Rightarrow> bool" where
  "capturing S st \<longleftrightarrow> ss_capture st = handleAll (newCapturingHandler 200) (logged S (ss_level st) (ss_hist st))"

lemma capturing_scall: "capturing S st \<Longrightarrow> capturing S (scall S c st)"
  by (simp add: capturing_def scall_def Let_def logged_snoc handleAll_append)

lemma capturing_on_os [simp]: "capturing S (on_os f st) \<longleftrightarrow> capturing S st"
  by (simp add: capturing_def)

lemma captureLines_newest:
  assumes "capturing S st"
  shows "captureLines st = newest 200 (map formatRecord (logged S (ss_level st) (ss_hist st)))"
proof -
  obtain h where "addLines (newCapturingHandler 200) (map formatRecord (logged S (ss_level st) (ss_hist st))) = Some h"
      "capture_invar h" "capture_content h = newest (cs_capacity (newCapturingHandler 200))
        (capture_content (newCapturingHandler 200) @ map formatRecord (logged S (ss_level st) (ss_hist st)))"
    using ring.add_all_newest [OF new_invar] unfolding ring_add_all by blast
  then show ?thesis using assms
    by (simp add: capturing_def captureLines_def handleAll_addLines Lines_content newCapturingHandler_def Let_def
        capture_content_def)
qed

lemma deployDefaults_capturing:
  assumes "deployDefaults S req st = (req', st')" and "capturing S st"
  shows "capturing S st'"
proof -
  have "snd (getClusterArchitecture S st) \<in> {scall S SCluster st, scall S SListNodes (scall S SCluster st)}"
    by (simp add: getClusterArchitecture_def Let_def split: option.splits sum.splits list.splits)
  then have "capturing S (snd (getClusterArchitecture S st))" using assms(2) by (auto simp: capturing_scall)
  with assms show ?thesis
    by (cases "getClusterArchitecture S st") (auto simp: deployDefaults_def Let_def split: sum.splits if_splits)
qed

subsection \<open>Where the answer comes from\<close>

fun is_SDeploy :: "scall \<times> osstate \<Rightarrow> bool" where
  "is_SDeploy (SDeploy _ _, _) = True"
| "is_SDeploy _ = False"

definition no_deploy :: "shistory \<Rightarrow> bool" where
  "no_deploy h \<longleftrightarrow> list_all (\<lambda>x. \<not> is_SDeploy x) h"

lemma no_deploy_snoc [simp]: "no_deploy (h @ [x]) \<longleftrightarrow> no_deploy h \<and> \<not> is_SDeploy x"
  by (simp add: no_deploy_def)

lemma no_deploy_Nil [simp]: "no_deploy []"
  by (simp add: no_deploy_def)

text \<open>The history up to the first deployment.\<close>

definition first_deploy :: "shistory \<Rightarrow> layout \<Rightarrow> PackagerDeployOptions \<Rightarrow> osstate \<Rightarrow> shistory \<Rightarrow> bool" where
  "first_deploy h pl opts s hist \<longleftrightarrow> no_deploy h \<and> prefix (h @ [(SDeploy pl opts, s)]) hist"

lemma first_deploy_unique:
  assumes "first_deploy h pl opts s hist" and "first_deploy h' pl' opts' s' hist"
  shows "h = h' \<and> pl = pl' \<and> opts = opts' \<and> s = s'"
proof -
  let ?x = "(SDeploy pl opts, s)" and ?x' = "(SDeploy pl' opts', s')"
  have c: "prefix (h @ [?x]) (h' @ [?x']) \<or> prefix (h' @ [?x']) (h @ [?x])"
    using assms by (meson first_deploy_def prefix_same_cases)
  have n: "no_deploy h" "no_deploy h'" using assms by (simp_all add: first_deploy_def)
  have "\<not> prefix (a @ [y]) b" if "is_SDeploy y" "no_deploy b" for a b y
    using that by (auto simp: prefix_def no_deploy_def)
  with n have "\<not> prefix (h @ [?x]) h'" "\<not> prefix (h' @ [?x']) h" by auto
  with c show ?thesis by (auto simp: prefix_snoc)
qed

definition plain_error :: "goerr + 'a \<Rightarrow> bool" where
  "plain_error r \<longleftrightarrow> (\<exists>c t. r = Inl (StatusError c t []))"

lemma plain_status_error [simp]: "plain_error (Inl (status_error S c msg))"
  by (simp add: plain_error_def status_error_def)

definition verified_step :: "sidecar \<Rightarrow> (goerr + DeployResponse) \<Rightarrow> sstate \<Rightarrow> bool" where
  "verified_step S r st' \<longleftrightarrow> (\<exists>req' pl st0 st1. deployVerified S req' pl st0 = (r, st1) \<and> capturing S st0 \<and>
     no_deploy (ss_hist st0) \<and> prefix (ss_hist st1) (ss_hist st'))"

definition source_ok :: "sidecar \<Rightarrow> (goerr + DeployResponse) \<Rightarrow> sstate \<Rightarrow> bool" where
  "source_ok S r st' \<longleftrightarrow> plain_error r \<and> no_deploy (ss_hist st') \<or> verified_step S r st'"

definition starts :: "sidecar \<Rightarrow> sstate \<Rightarrow> bool" where
  "starts S st \<longleftrightarrow> capturing S st \<and> no_deploy (ss_hist st)"

lemma starts_scall: "starts S st \<Longrightarrow> \<not> is_SDeploy (c, ss_os st) \<Longrightarrow> starts S (scall S c st)"
  by (simp add: starts_def capturing_scall)

lemma starts_on_os [simp]: "starts S (on_os f st) \<longleftrightarrow> starts S st"
  by (simp add: starts_def)

lemma deployLoaded_source:
  assumes "deployLoaded S req st = (r, st')" and "starts S st"
  shows "source_ok S r st'"
proof -
  let ?st1 = "scall S (SLoad (rq_Source req) (loadOptions S req)) st"
  have s1: "starts S ?st1" using assms(2) by (rule starts_scall) simp
  show ?thesis
  proof (cases "sc_loadPkg S (ss_hist ?st1) (rq_Source req) (loadOptions S req)")
    case (Inl err)
    with assms(1) s1 show ?thesis
      by (auto simp: deployLoaded_def Let_def source_ok_def starts_def split: if_splits)
  next
    case (Inr pl)
    obtain st2 where d: "deployLayout S req pl ?st1 = (r, st2)" "st' = scall S (SCleanup pl) st2"
      using assms(1) Inr by (auto simp: deployLoaded_def Let_def split: prod.splits)
    show ?thesis
    proof (cases "if rq_Components req \<noteq> [] then sc_filter S (strings_Join (rq_Components req) '','') pl else Inr (ly_Components pl)")
      case (Inl err)
      with d s1 show ?thesis by (auto simp: deployLayout_def source_ok_def starts_def)
    next
      case (Inr comps)
      with d obtain pl' where "deployVerified S req pl' ?st1 = (r, st2)"
        by (simp add: deployLayout_def Let_def split: if_splits)
      moreover have "prefix (ss_hist st2) (ss_hist st')" using d(2) by simp
      ultimately show ?thesis using s1 unfolding source_ok_def verified_step_def starts_def by blast
    qed
  qed
qed

lemma source_ok_hist: "source_ok S r st1 \<Longrightarrow> ss_hist st' = ss_hist st1 \<Longrightarrow> source_ok S r st'"
  by (simp add: source_ok_def verified_step_def)

lemma withRegistry_source:
  assumes "withRegistry S cj body st = (r, st')" and "starts S st"
    and "\<And>st r st'. body st = (r, st') \<Longrightarrow> starts S st \<Longrightarrow> source_ok S r st'"
  shows "source_ok S r st'"
proof (cases "applyRegistryCredentials (sc_os S) cj (ss_os st)")
  case (Pair x os')
  show ?thesis
  proof (cases x)
    case (Inl e)
    with Pair assms(1,2) show ?thesis by (cases e) (auto simp: withRegistry_def source_ok_def starts_def)
  next
    case (Inr cl)
    with Pair assms(1) obtain st1 where "body (on_os (\<lambda>_. os') st) = (r, st1)" "ss_hist st' = ss_hist st1"
      by (auto simp: withRegistry_def split: prod.splits)
    with assms(2,3) show ?thesis by (meson source_ok_hist starts_on_os)
  qed
qed

lemma withKubeconfig_source:
  assumes "withKubeconfig S kc body st = (r, st')" and "starts S st"
    and "\<And>st r st'. body st = (r, st') \<Longrightarrow> starts S st \<Longrightarrow> source_ok S r st'"
  shows "source_ok S r st'"
proof (cases "applyKubeconfig (sc_os S) kc (ss_os st)")
  case (Pair x os')
  show ?thesis
  proof (cases x)
    case (Inl e)
    with Pair assms(1,2) show ?thesis by (auto simp: withKubeconfig_def source_ok_def starts_def)
  next
    case (Inr cl)
    with Pair assms(1) obtain st1 where "body (on_os (\<lambda>_. os') st) = (r, st1)" "ss_hist st' = ss_hist st1"
      by (auto simp: withKubeconfig_def split: prod.splits)
    with assms(2,3) show ?thesis by (meson source_ok_hist starts_on_os)
  qed
qed

lemma deployBody_source:
  assumes "deployBody S req st = (r, st')" and "starts S st"
  shows "source_ok S r st'"
proof -
  obtain req' st1 where d: "deployDefaults S req st = (req', st1)" by fastforce
  have "capturing S st1" using deployDefaults_capturing [OF d] assms(2) by (simp add: starts_def)
  moreover from deployDefaults_grows [OF d] have "no_deploy (ss_hist st1)"
    using assms(2) by (fastforce simp: grows_def starts_def no_deploy_def list_all_iff)
  ultimately have c: "starts S st1" by (simp add: starts_def)
  from assms(1) d have "withRegistry S (rq_RegistryCredentialJson req') (deployLoaded S req') st1 = (r, st')"
    by (simp add: deployBody_def)
  from withRegistry_source [OF this c deployLoaded_source] show ?thesis .
qed

lemma Deploy_source:
  assumes "sidecar_Deploy S acq req proc = (r, st')"
  shows "source_ok S r st'"
proof (cases "acq = None \<and> strings_TrimSpace (rq_Source req) \<noteq> []")
  case True
  let ?st = "\<lparr>ss_os = proc, ss_hist = [], ss_level = lc_Level (loggerForRequest S req),
      ss_capture = Some (newCapturingHandler 200)\<rparr>"
  have c: "starts S ?st" by (simp add: starts_def capturing_def logged_def)
  from True assms obtain st1 where k: "withKubeconfig S (rq_Kubeconfig req) (deployBody S req) ?st = (r, st1)"
      "st' = scall S SRelease st1"
    by (auto simp: sidecar_Deploy_def Let_def withOp_def split: prod.splits)
  have "source_ok S r st1" by (rule withKubeconfig_source [OF k(1) c deployBody_source])
  moreover have "verified_step S r st1 \<Longrightarrow> verified_step S r st'"
    unfolding verified_step_def k(2) scall_frame by (meson prefix_order.trans prefixI)
  ultimately show ?thesis using k(2) by (auto simp: source_ok_def)
next
  case False
  with assms show ?thesis
    by (auto simp: sidecar_Deploy_def Let_def withOp_def source_ok_def split: if_splits option.splits)
qed


subsection \<open>Closed instances\<close>

text \<open>A sidecar whose Zarf library loads, deploys and verifies one package, and logs one line per call.\<close>

definition wit_record :: slog_Record where
  "wit_record = \<lparr>rec_Level = 0, rec_Message = ''working'', rec_Attrs = []\<rparr>"

definition wit_deployed :: deployedPackage where
  "wit_deployed =
     \<lparr>dp_Name = ''app'', dp_Version = ''1.0.0'', dp_Generation = 1, dp_CLIVersion = ''v0.50.0'',
      dp_DeployedComponents = [], dp_NamespaceOverride = [], dp_Data = 0\<rparr>"

definition wit_sidecar :: sidecar where
  "wit_sidecar =
     \<lparr>sc_os = ref_os, sc_version = ''1'', sc_cachePath = ''/tmp/cache'', sc_GOARCH = ''amd64'',
      sc_baseConfig = \<lparr>lc_Level = 0, lc_Format = ''json'', lc_Color = False\<rparr>,
      sc_ParseLevel = (\<lambda>_. Inr 0), sc_loggerNewErr = (\<lambda>_. None),
      sc_statusText = (\<lambda>c msg. ''rpc error: '' @ msg), sc_WithDetailsErr = (\<lambda>_ _. None),
      sc_loadPkg = (\<lambda>_ _ _. Inr wit_layout), sc_filter = (\<lambda>_ pl. Inr (ly_Components pl)),
      sc_deployPkg = (\<lambda>_ _ _. Inr []), sc_verifyImgs = (\<lambda>_ _ _. None), sc_removePkg = (\<lambda>_ _ _. None),
      sc_clusterNewErr = (\<lambda>_. None), sc_getDeployed = (\<lambda>_ _. Inr wit_deployed), sc_listDeployed = (\<lambda>_. Inr []),
      sc_listNodes = (\<lambda>_. Inr [''arm64'']), sc_listNamespacesErr = (\<lambda>_. None), sc_canceled = (\<lambda>_. False),
      sc_logs = (\<lambda>_. [wit_record])\<rparr>"

definition wit_request :: DeployRequest where
  "wit_request =
     \<lparr>rq_Source = ''oci://r/p:1.0.0'', rq_Components = [], rq_SetVariables = Map.empty,
      rq_AdoptExistingResources = False, rq_Timeout = None, rq_Retries = 0, rq_NamespaceOverride = [],
      rq_Shasum = [], rq_SkipSignatureValidation = False, rq_Architecture = [], rq_OciConcurrency = 0,
      rq_PublicKeyPath = [], rq_LogLevel = [], rq_LogFormat = [], rq_NoColor = False, rq_PlainHttp = False,
      rq_InsecureSkipTlsVerify = False, rq_SkipVersionCheck = False, rq_YoloMode = False,
      rq_RegistryCredentialJson = ''{}'', rq_HelmDebugEnabled = False, rq_Kubeconfig = ''apiVersion: v1'',
      rq_InitOptions = None\<rparr>"

lemma wit_files: "file_system (sc_os wit_sidecar)"
  by (simp add: wit_sidecar_def ref_files.file_system_axioms)

lemma wit_run:
  "case sidecar_Deploy wit_sidecar None wit_request os0 of
     (Inl e, st) \<Rightarrow> False
   | (Inr resp, st) \<Rightarrow> list_ex is_SDeploy (ss_hist st) \<and> length (rs_DeployLogs resp) = 5"
  by code_simp

theorem handlers_restore_process_witness:
  "same_process os0 (ss_os (snd (sidecar_Deploy wit_sidecar None wit_request os0)))"
  using handlers_restore_process [OF wit_files os0_ok] by blast



end
