(* ===== verification/Grpc_Client.thy ===== *)
theory Grpc_Client
  imports Sidecar_Properties Reference_Env
begin

section \<open>The operator's side of the protocol: \<^verbatim>\<open>pkg/zarf/grpc/client.go\<close>\<close>

text \<open>
  The client turns options into request messages and answers into results. The connection with the
  service behind it is a parameter, a function from requests to answers; so is what
  \<^verbatim>\<open>status.FromError\<close> finds in an error. Numbers that the protocol holds in 32 bits are truncated the
  way Go's conversion does it.
\<close>

record client =
  cl_Deploy :: "DeployRequest \<Rightarrow> goerr + DeployResponse"
  cl_GetDeployedPackage :: "GetDeployedPackageRequest \<Rightarrow> goerr + PackageInfo option"
  cl_ListDeployedPackages :: "goerr + PackageInfo option list"
  cl_Remove :: "RemoveRequest \<Rightarrow> goerr + unit"
  cl_GetPackageMetadata :: "string \<Rightarrow> goerr + PackageMetadata"
  cl_Health :: "goerr + HealthResponse"
  cl_Details :: "goerr \<Rightarrow> deploy_error_detail list option"

definition HealthCheck :: "client \<Rightarrow> goerr option" where
  "HealthCheck c =
     (case cl_Health c of
        Inl err \<Rightarrow> Some err
      | Inr resp \<Rightarrow>
          if \<not> hr_Healthy resp then Some (ErrorString (''sidecar unhealthy: '' @ hr_Message resp)) else None)"

text \<open>\<^verbatim>\<open>NewClient\<close>: \<open>dial\<close> is the outcome of \<^verbatim>\<open>grpc.NewClient\<close>.\<close>

definition NewClient :: "goerr + client \<Rightarrow> goerr + client" where
  "NewClient dial =
     (case dial of
        Inl err \<Rightarrow> Inl (fmt_wrap ''failed to connect to zarf sidecar'' err)
      | Inr c \<Rightarrow>
          (case HealthCheck c of
             Some err \<Rightarrow> Inl (fmt_wrap ''sidecar health check failed'' err)
           | None \<Rightarrow> Inr c))"

definition initOptionsToProto :: "ZarfInitOptions option \<Rightarrow> ZarfInitOptions option" where
  "initOptionsToProto opts =
     (case opts of
        None \<Rightarrow> None
      | Some o' \<Rightarrow>
          Some \<lparr>zi_RegistryAddress = zi_RegistryAddress o', zi_RegistryNodePort = zi_RegistryNodePort o',
                zi_RegistrySecret = zi_RegistrySecret o', zi_RegistryPushUsername = zi_RegistryPushUsername o',
                zi_RegistryPushPassword = zi_RegistryPushPassword o',
                zi_RegistryPullUsername = zi_RegistryPullUsername o',
                zi_RegistryPullPassword = zi_RegistryPullPassword o'\<rparr>)"

definition deployRequest :: "DeployOptions \<Rightarrow> DeployRequest" where
  "deployRequest opts =
     \<lparr>rq_Source = do_Source opts, rq_Components = do_Components opts, rq_SetVariables = do_SetVariables opts,
      rq_AdoptExistingResources = do_AdoptExistingResources opts, rq_Timeout = Some (do_Timeout opts),
      rq_Retries = wrap32 (do_Retries opts), rq_NamespaceOverride = do_NamespaceOverride opts,
      rq_Shasum = do_Shasum opts, rq_SkipSignatureValidation = do_SkipSignatureValidation opts,
      rq_Architecture = do_Architecture opts, rq_OciConcurrency = wrap32 (do_OCIConcurrency opts),
      rq_PublicKeyPath = do_PublicKeyPath opts, rq_LogLevel = do_LogLevel opts, rq_LogFormat = do_LogFormat opts,
      rq_NoColor = do_NoColor opts, rq_PlainHttp = do_PlainHTTP opts,
      rq_InsecureSkipTlsVerify = do_InsecureSkipTLSVerify opts, rq_SkipVersionCheck = do_SkipVersionCheck opts,
      rq_YoloMode = do_YoloMode opts, rq_RegistryCredentialJson = do_RegistryCredentialJSON opts,
      rq_HelmDebugEnabled = do_HelmDebugEnabled opts, rq_Kubeconfig = do_Kubeconfig opts,
      rq_InitOptions = initOptionsToProto (do_InitOptions opts)\<rparr>"

definition convertCharts :: "InstalledChart list \<Rightarrow> InstalledChart list" where
  "convertCharts charts =
     map (\<lambda>c. \<lparr>ic_Namespace = ic_Namespace c, ic_ChartName = ic_ChartName c, ic_Status = ic_Status c\<rparr>) charts"

definition convertComponents :: "DeployedComponent list \<Rightarrow> DeployedComponent list" where
  "convertComponents comps =
     map (\<lambda>c. \<lparr>dc_Name = dc_Name c, dc_Status = dc_Status c, dc_InstalledCharts = convertCharts (dc_InstalledCharts c),
               dc_ObservedGeneration = dc_ObservedGeneration c\<rparr>) comps"

definition convertPackageInfo :: "PackageInfo option \<Rightarrow> PackageInfo option" where
  "convertPackageInfo pkg =
     (case pkg of
        None \<Rightarrow> None
      | Some p \<Rightarrow>
          Some \<lparr>pi_Name = pi_Name p, pi_Version = pi_Version p, pi_Generation = pi_Generation p,
                pi_CLIVersion = pi_CLIVersion p, pi_DeployedComponents = convertComponents (pi_DeployedComponents p),
                pi_NamespaceOverride = pi_NamespaceOverride p\<rparr>)"

text \<open>The loop over the details of a status: the last deploy detail wins.\<close>

fun applyDetails :: "deploy_error_detail list \<Rightarrow> goerr \<Rightarrow> goerr" where
  "applyDetails [] e = e"
| "applyDetails (d # ds) e =
     applyDetails ds (DeployErr (de_Err e) (det_FailedComponent d) (det_FailedChart d) (det_DeployLogs d))"

definition client_Deploy :: "client \<Rightarrow> DeployOptions \<Rightarrow> DeployResult option \<times> goerr option" where
  "client_Deploy c opts =
     (case cl_Deploy c (deployRequest opts) of
        Inl err \<Rightarrow>
          (let deployErr = DeployErr (Some (fmt_wrap ''deploy failed'' err)) [] [] [] in
           (None, Some (case cl_Details c err of None \<Rightarrow> deployErr | Some ds \<Rightarrow> applyDetails ds deployErr)))
      | Inr resp \<Rightarrow>
          (Some \<lparr>dr_PackageName = rs_PackageName resp, dr_Version = rs_Version resp,
                 dr_Generation = rs_Generation resp,
                 dr_DeployedComponents = convertComponents (rs_DeployedComponents resp),
                 dr_DeployLogs = rs_DeployLogs resp\<rparr>, None))"

definition client_GetDeployedPackage ::
  "client \<Rightarrow> GetDeployedPackageOptions \<Rightarrow> PackageInfo option \<times> goerr option" where
  "client_GetDeployedPackage c opts =
     (case cl_GetDeployedPackage c \<lparr>gq_PackageName = gd_PackageName opts, gq_Kubeconfig = gd_Kubeconfig opts\<rparr> of
        Inl err \<Rightarrow> (None, Some (fmt_wrap ''get deployed package failed'' err))
      | Inr pkg \<Rightarrow> (convertPackageInfo pkg, None))"

text \<open>\<^verbatim>\<open>ListDeployedPackages\<close> dereferences every entry: a missing one is a nil dereference, \<^verbatim>\<open>None\<close>.\<close>

fun derefAll :: "PackageInfo option list \<Rightarrow> PackageInfo list option" where
  "derefAll [] = Some []"
| "derefAll (x # xs) =
     (case convertPackageInfo x of None \<Rightarrow> None | Some p \<Rightarrow> map_option (\<lambda>ps. p # ps) (derefAll xs))"

definition client_ListDeployedPackages :: "client \<Rightarrow> (goerr + PackageInfo list) option" where
  "client_ListDeployedPackages c =
     (case cl_ListDeployedPackages c of
        Inl err \<Rightarrow> Some (Inl (fmt_wrap ''list deployed packages failed'' err))
      | Inr pkgs \<Rightarrow> map_option Inr (derefAll pkgs))"

definition removeRequest :: "RemoveOptions \<Rightarrow> RemoveRequest" where
  "removeRequest opts =
     \<lparr>rm_PackageName = ro_PackageName opts, rm_Components = ro_Components opts, rm_Timeout = Some (ro_Timeout opts),
      rm_NamespaceOverride = ro_NamespaceOverride opts, rm_SkipVersionCheck = ro_SkipVersionCheck opts,
      rm_Kubeconfig = ro_Kubeconfig opts\<rparr>"

definition client_Remove :: "client \<Rightarrow> RemoveOptions \<Rightarrow> goerr option" where
  "client_Remove c opts =
     (case cl_Remove c (removeRequest opts) of
        Inl err \<Rightarrow> Some (fmt_wrap ''remove failed'' err)
      | Inr _ \<Rightarrow> None)"

definition client_GetPackageMetadata :: "client \<Rightarrow> string \<Rightarrow> goerr + PackageMetadata" where
  "client_GetPackageMetadata c source =
     (case cl_GetPackageMetadata c source of
        Inl err \<Rightarrow> Inl (fmt_wrap ''get package metadata failed'' err)
      | Inr md \<Rightarrow>
          Inr \<lparr>pm_Name = pm_Name md, pm_Version = pm_Version md, pm_Description = pm_Description md,
               pm_Components = pm_Components md, pm_Architecture = pm_Architecture md\<rparr>)"

subsection \<open>The client and the sidecar together\<close>

text \<open>
  A client connected to sidecar \<open>S\<close>: \<open>acq\<close> is what the operation slot answered and \<open>proc\<close> the state of
  the sidecar's process when the request arrives.
\<close>

definition connected ::
  "sidecar \<Rightarrow> (code \<times> string) option \<Rightarrow> osstate \<Rightarrow> (goerr \<Rightarrow> deploy_error_detail list option) \<Rightarrow> client" where
  "connected S acq proc details =
     \<lparr>cl_Deploy = (\<lambda>req. fst (sidecar_Deploy S acq req proc)),
      cl_GetDeployedPackage = (\<lambda>req. fst (sidecar_GetDeployedPackage S req proc)),
      cl_ListDeployedPackages = fst (sidecar_ListDeployedPackages S proc),
      cl_Remove = (\<lambda>req. fst (sidecar_Remove S acq req proc)),
      cl_GetPackageMetadata = (\<lambda>source. fst (sidecar_GetPackageMetadata S source proc)),
      cl_Health = Inr (fst (sidecar_Health S proc)), cl_Details = details\<rparr>"

text \<open>
  What gRPC documents: the text of a status error ends in its message, after a prefix in ASCII; the
  details of a status error can be read back; and the code of an error is the one of the status
  error it is or wraps.
\<close>

definition ascii :: "string \<Rightarrow> bool" where
  "ascii s \<longleftrightarrow> (\<forall>c \<in> set s. of_char c < (128 :: nat))"

locale grpc_status =
  fixes stext :: "code \<Rightarrow> string \<Rightarrow> string" and details :: "goerr \<Rightarrow> deploy_error_detail list option"
    and status_code :: "goerr \<Rightarrow> code"
  assumes text_message: "\<exists>p. stext c msg = p @ msg \<and> ascii p"
    and details_status: "details (StatusError c t ds) = Some ds"
    and code_status: "status_code (StatusError c t ds) = c"
    and code_wrap: "status_code (WrapError t e) = status_code e"
    and code_deploy: "status_code (DeployErr (Some e) fc fch logs) = status_code e"
begin

lemma code_of_status_error: "stext = sc_statusText S \<Longrightarrow> status_code (status_error S c msg) = c"
  by (simp add: status_error_def code_status)

lemma code_fmt_wrap: "status_code (fmt_wrap t e) = status_code e"
  by (simp add: fmt_wrap_def code_wrap)

end

subsection \<open>Lower case and searching\<close>

lemma ToLower_ascii_Cons: "of_char c < (128 :: nat) \<Longrightarrow> strings_ToLower (c # s) = lower_byte c # strings_ToLower s"
proof -
  assume "of_char c < (128 :: nat)"
  then have "c \<noteq> CHR 0xC4" "c \<noteq> CHR 0xE2" by auto
  then show ?thesis by (cases s rule: strings_ToLower.cases) auto
qed

lemma ToLower_ascii_append: "ascii p \<Longrightarrow> strings_ToLower (p @ s) = map lower_byte p @ strings_ToLower s"
  by (induction p) (simp_all add: ascii_def ToLower_ascii_Cons)

lemma Contains_ToLower_append:
  "ascii p \<Longrightarrow> strings_Contains (strings_ToLower s) sub \<Longrightarrow> strings_Contains (strings_ToLower (p @ s)) sub"
  by (simp add: ToLower_ascii_append Contains_sublist sublist_appendI sublist_append)

lemma ascii_append: "ascii (a @ b) \<longleftrightarrow> ascii a \<and> ascii b"
  by (auto simp: ascii_def)

subsection \<open>Results come back unchanged\<close>

lemma chartMessage_id [simp]: "map chartMessage xs = xs"
  by (induction xs) (simp_all add: chartMessage_def)

lemma convertCharts_id [simp]: "convertCharts xs = xs"
  by (induction xs) (simp_all add: convertCharts_def)

lemma convert_component: "int32_range (dc_ObservedGeneration c) \<Longrightarrow> convertComponents [componentMessage c] = [c]"
  by (simp add: convertComponents_def componentMessage_def wrap32_id)

lemma convert_components:
  assumes "\<forall>c \<in> set cs. int32_range (dc_ObservedGeneration c)"
  shows "convertComponents (map componentMessage cs) = cs"
  using assms
proof (induction cs)
  case (Cons c cs)
  then show ?case using convert_component [of c] by (simp add: convertComponents_def)
qed (simp add: convertComponents_def)

lemma GetDeployed_source:
  assumes "fst (sidecar_GetDeployedPackage S req proc) = Inr x"
  shows "\<exists>h p. sc_getDeployed S h (gq_PackageName req) = Inr p \<and> x = packageMessage (Some p)"
  using assms
  by (auto simp: sidecar_GetDeployedPackage_def withKubeconfig_def deployed_package_def Let_def case_prod_beta
      split: sum.splits option.splits if_splits)

text \<open>
  Property C30. The record of a deployed package survives the way from the cluster through the sidecar and
  the protocol to the operator: as long as its generations fit 32 bits, the operator gets the record
  that Zarf read, field by field.
\<close>

theorem deployed_package_round_trip:
  assumes "client_GetDeployedPackage (connected S acq proc details) opts = (info, None)"
  shows "\<exists>h p. sc_getDeployed S h (gd_PackageName opts) = Inr p \<and>
    (int32_range (dp_Generation p) \<and> (\<forall>c \<in> set (dp_DeployedComponents p). int32_range (dc_ObservedGeneration c)) \<longrightarrow>
     info = Some \<lparr>pi_Name = dp_Name p, pi_Version = dp_Version p, pi_Generation = dp_Generation p,
       pi_CLIVersion = dp_CLIVersion p, pi_DeployedComponents = dp_DeployedComponents p,
       pi_NamespaceOverride = dp_NamespaceOverride p\<rparr>)"
proof -
  from assms obtain x where x: "fst (sidecar_GetDeployedPackage S
      \<lparr>gq_PackageName = gd_PackageName opts, gq_Kubeconfig = gd_Kubeconfig opts\<rparr> proc) = Inr x" "info = convertPackageInfo x"
    by (auto simp: client_GetDeployedPackage_def connected_def split: sum.splits)
  from GetDeployed_source [OF x(1)] obtain h p where p: "sc_getDeployed S h (gd_PackageName opts) = Inr p"
      "x = packageMessage (Some p)" by auto
  have "info = Some \<lparr>pi_Name = dp_Name p, pi_Version = dp_Version p, pi_Generation = dp_Generation p,
       pi_CLIVersion = dp_CLIVersion p, pi_DeployedComponents = dp_DeployedComponents p,
       pi_NamespaceOverride = dp_NamespaceOverride p\<rparr>"
    if "int32_range (dp_Generation p)" "\<forall>c \<in> set (dp_DeployedComponents p). int32_range (dc_ObservedGeneration c)"
    using that x(2) p(2) by (simp add: convertPackageInfo_def packageMessage_def convert_components wrap32_id)
  with p(1) show ?thesis by blast
qed

subsection \<open>Options reach Zarf\<close>

lemma initOptionsToProto_id: "initOptionsToProto o' = o'"
  by (simp add: initOptionsToProto_def split: option.split)


subsection \<open>Errors reach the operator\<close>

lemma applyDetails_Err: "de_Err (applyDetails ds (DeployErr e a b c)) = e \<and> is_DeployErr (applyDetails ds (DeployErr e a b c))"
  by (induction ds arbitrary: a b c) (simp_all add: is_DeployErr_def)

lemma client_error:
  assumes "cl_Deploy c (deployRequest opts) = Inl err"
  shows "\<exists>fc fch logs. client_Deploy c opts = (None, Some (DeployErr (Some (fmt_wrap ''deploy failed'' err)) fc fch logs))"
proof -
  obtain d where d: "client_Deploy c opts = (None, Some d)" "de_Err d = Some (fmt_wrap ''deploy failed'' err)" "is_DeployErr d"
    using assms applyDetails_Err by (auto simp: client_Deploy_def Let_def is_DeployErr_def split: option.splits)
  then show ?thesis by (cases d) (auto simp: is_DeployErr_def)
qed

lemma client_error_details:
  assumes "cl_Deploy c (deployRequest opts) = Inl err" and "cl_Details c err = Some [d]"
  shows "client_Deploy c opts = (None, Some (DeployErr (Some (fmt_wrap ''deploy failed'' err))
    (det_FailedComponent d) (det_FailedChart d) (det_DeployLogs d)))"
  using assms by (simp add: client_Deploy_def Let_def)

lemma detailed_error_status: "\<exists>ds. detailed_error S c m d = StatusError c (sc_statusText S c m) ds"
  by (cases "sc_WithDetailsErr S c d") (auto simp: detailed_error_def status_error_def)

lemma helm_lock_wrapped:
  assumes "ascii t" and "ascii p" and "ascii q"
    and "strings_Contains (strings_ToLower m) ''another operation''" and "strings_Contains (strings_ToLower m) ''in progress''"
  shows "IsHelmOperationInProgress (DeployErr (Some (fmt_wrap t (StatusError c (p @ q @ m) ds))) fc fch l)"
proof -
  have "ascii (t @ '': '' @ p @ q)" using assms(1-3) by (auto simp: ascii_def)
  from Contains_ToLower_append [OF this assms(4)] Contains_ToLower_append [OF this assms(5)]
  show ?thesis by (simp only: IsHelmOperationInProgress.simps fmt_wrap_def err_Error.simps Let_def append_assoc)
qed

lemma deployVerified_failed:
  assumes "deployVerified S req pl st = (r, st')"
    and "sc_deployPkg S (ss_hist st @ [(SDeploy pl (deployOptions req), ss_os st)]) pl (deployOptions req) = Inl zerr"
    and "\<not> sc_canceled S (ss_hist st @ [(SDeploy pl (deployOptions req), ss_os st)])"
  shows "\<exists>logs. r = Inl (detailed_error S (classifyDeployError (Some zerr)) (''deployment failed: '' @ err_Error zerr)
    \<lparr>det_FailedComponent = fst (parseDeployError (err_Error zerr)), det_FailedChart = snd (parseDeployError (err_Error zerr)),
     det_ErrorMessage = err_Error zerr, det_DeployLogs = logs\<rparr>)"
  using assms by (auto simp: deployVerified_def Let_def)

lemma deployVerified_first:
  assumes "deployVerified S req pl st0 = (r, st1)" and "no_deploy (ss_hist st0)" and "prefix (ss_hist st1) hist"
  shows "first_deploy (ss_hist st0) pl (deployOptions req) (ss_os st0) hist"
proof -
  have "prefix (ss_hist st0 @ [(SDeploy pl (deployOptions req), ss_os st0)]) (ss_hist st1)"
    using assms(1) by (auto simp: deployVerified_def Let_def prefix_def split: sum.splits option.splits if_splits)
  with assms(2,3) show ?thesis by (auto simp: first_deploy_def intro: prefix_order.trans)
qed

lemma Deploy_failed:
  assumes "sidecar_Deploy S acq req proc = (r, st)" and "first_deploy h pl po s (ss_hist st)"
    and "sc_deployPkg S (h @ [(SDeploy pl po, s)]) pl po = Inl zerr" and "\<not> sc_canceled S (h @ [(SDeploy pl po, s)])"
  shows "\<exists>logs. r = Inl (detailed_error S (classifyDeployError (Some zerr)) (''deployment failed: '' @ err_Error zerr)
    \<lparr>det_FailedComponent = fst (parseDeployError (err_Error zerr)), det_FailedChart = snd (parseDeployError (err_Error zerr)),
     det_ErrorMessage = err_Error zerr, det_DeployLogs = logs\<rparr>)"
proof -
  have "\<not> no_deploy (ss_hist st)"
    using assms(2) by (auto simp: first_deploy_def no_deploy_def prefix_def)
  with Deploy_source [OF assms(1)] obtain req' pl' st0 st1 where
    d: "deployVerified S req' pl' st0 = (r, st1)" "no_deploy (ss_hist st0)" "prefix (ss_hist st1) (ss_hist st)"
    by (auto simp: source_ok_def verified_step_def)
  from first_deploy_unique [OF assms(2) deployVerified_first [OF d]]
  have "h = ss_hist st0" "pl = pl'" "po = deployOptions req'" "s = ss_os st0" by auto
  with deployVerified_failed [OF d(1)] assms(3,4) show ?thesis by blast
qed

text \<open>
  Property C31. Helm's lock is recognised across the process boundary: when Zarf's deployment fails with
  an error that says that another Helm operation is in progress, the operator's client returns an
  error that the controller takes for that situation, with the code FailedPrecondition, and with the
  failed component and chart when the details could be attached.
\<close>

theorem helm_lock_recognised:
  assumes "grpc_status (sc_statusText S) details status_code"
    and "first_deploy h pl po s (ss_hist (snd (sidecar_Deploy S acq (deployRequest opts) proc)))"
    and "sc_deployPkg S (h @ [(SDeploy pl po, s)]) pl po = Inl zerr" and "\<not> sc_canceled S (h @ [(SDeploy pl po, s)])"
    and "strings_Contains (strings_ToLower (err_Error zerr)) ''another operation''"
    and "strings_Contains (strings_ToLower (err_Error zerr)) ''in progress''"
  shows "\<exists>err. client_Deploy (connected S acq proc details) opts = (None, Some err) \<and> IsHelmOperationInProgress err \<and>
    status_code err = codes_FailedPrecondition \<and>
    ((\<forall>c d. sc_WithDetailsErr S c d = None) \<longrightarrow>
       (de_FailedComponent err, de_FailedChart err) = parseDeployError (err_Error zerr))"
proof -
  let ?c = "connected S acq proc details" and ?m = "''deployment failed: '' @ err_Error zerr"
  obtain logs where r: "fst (sidecar_Deploy S acq (deployRequest opts) proc) =
      Inl (detailed_error S (classifyDeployError (Some zerr)) ?m
        \<lparr>det_FailedComponent = fst (parseDeployError (err_Error zerr)), det_FailedChart = snd (parseDeployError (err_Error zerr)),
         det_ErrorMessage = err_Error zerr, det_DeployLogs = logs\<rparr>)" (is "_ = Inl (detailed_error S ?k ?m ?d)")
    using Deploy_failed [OF surjective_pairing assms(2-4)] by auto
  have k: "?k = codes_FailedPrecondition" using assms(5,6) by (simp add: classifyDeployError_def Let_def)
  let ?e = "detailed_error S codes_FailedPrecondition ?m ?d"
  obtain ds where e: "?e = StatusError codes_FailedPrecondition (sc_statusText S codes_FailedPrecondition ?m) ds"
    using detailed_error_status by blast
  obtain p where p: "sc_statusText S codes_FailedPrecondition ?m = p @ ?m" "ascii p"
    using grpc_status.text_message [OF assms(1)] by blast
  have a: "ascii ''deploy failed''" "ascii ''deployment failed: ''" by (simp_all add: ascii_def)
  have helm: "IsHelmOperationInProgress (DeployErr (Some (fmt_wrap ''deploy failed'' ?e)) fc fch l)" for fc fch l
    unfolding e p(1) by (rule helm_lock_wrapped [OF a(1) p(2) a(2) assms(5,6)])
  have code: "status_code (DeployErr (Some (fmt_wrap ''deploy failed'' ?e)) fc fch l) = codes_FailedPrecondition" for fc fch l
    unfolding e grpc_status.code_deploy [OF assms(1)] grpc_status.code_fmt_wrap [OF assms(1)]
      grpc_status.code_status [OF assms(1)] ..
  have cl: "cl_Deploy ?c (deployRequest opts) = Inl ?e" using r k by (simp add: connected_def)
  show ?thesis
  proof (cases "\<forall>c d. sc_WithDetailsErr S c d = None")
    case True
    then have "cl_Details ?c ?e = Some [?d]"
      by (simp add: connected_def detailed_error_def grpc_status.details_status [OF assms(1)])
    from client_error_details [OF cl this] helm code show ?thesis by auto
  next
    case False
    from client_error [OF cl] helm code False show ?thesis by auto
  qed
qed

subsection \<open>Removing\<close>

text \<open>What \<open>removeBody\<close> can answer; the errors of \<open>withOp\<close> and \<open>withKubeconfig\<close> join them.\<close>

definition remove_outcome :: "sidecar \<Rightarrow> string \<Rightarrow> goerr + unit \<Rightarrow> bool" where
  "remove_outcome S name r \<longleftrightarrow>
     (\<exists>c msg. r = Inl (status_error S c msg) \<and> c \<noteq> codes_NotFound) \<or>
     (\<exists>h err msg. sc_getDeployed S h name = Inl err \<and> strings_Contains (strings_ToLower (err_Error err)) ''not found'' \<and>
        r = Inl (status_error S codes_NotFound msg)) \<or>
     (\<exists>h h' p opts. sc_getDeployed S h name = Inr p \<and> sc_removePkg S h' (dp_Data p) opts = None \<and> r = Inr ())"

lemma remove_outcome_error: "c \<noteq> codes_NotFound \<Longrightarrow> remove_outcome S name (Inl (status_error S c msg))"
  by (auto simp: remove_outcome_def)

lemma remove_outcome_notfound:
  "sc_getDeployed S h name = Inl err \<Longrightarrow> strings_Contains (strings_ToLower (err_Error err)) ''not found'' \<Longrightarrow>
   remove_outcome S name (Inl (status_error S codes_NotFound msg))"
  by (auto simp: remove_outcome_def)

lemma deployed_package_source:
  assumes "deployed_package S name msg st = (r, st')"
  shows "case r of Inl e \<Rightarrow> remove_outcome S name (Inl e) | Inr p \<Rightarrow> \<exists>h. sc_getDeployed S h name = Inr p"
  using assms
  by (auto simp: deployed_package_def Let_def split: option.splits sum.splits if_splits
      intro: remove_outcome_error remove_outcome_notfound)

lemma removeBody_outcome: "remove_outcome S (rm_PackageName req) (fst (removeBody S req st))"
proof -
  obtain r st1 where d: "deployed_package S (rm_PackageName req) ''failed to get deployed package'' st = (r, st1)" by fastforce
  show ?thesis
  proof (cases r)
    case (Inl e)
    with deployed_package_source [OF d] d show ?thesis by (simp add: removeBody_def)
  next
    case (Inr p)
    with deployed_package_source [OF d] obtain h where h: "sc_getDeployed S h (rm_PackageName req) = Inr p" by auto
    define opts where "opts = \<lparr>pr_Timeout = (case rm_Timeout req of Some d \<Rightarrow> if d > 0 then d else 15 * minute | None \<Rightarrow> 15 * minute),
      pr_NamespaceOverride = rm_NamespaceOverride req, pr_SkipVersionCheck = rm_SkipVersionCheck req\<rparr>"
    define st2 where "st2 = scall S (SRemove (dp_Data p) opts) st1"
    have b: "removeBody S req st = (case sc_removePkg S (ss_hist st2) (dp_Data p) opts of
        Some err \<Rightarrow> if sc_canceled S (ss_hist st2) then (Inl (status_error S codes_Canceled ''remove cancelled''), st2)
          else (Inl (status_error S codes_Internal (''removal failed: '' @ err_Error err)), st2)
      | None \<Rightarrow> (Inr (), st2))"
      by (simp only: d Inr removeBody_def Let_def opts_def st2_def prod.case sum.case)
    show ?thesis
    proof (cases "sc_removePkg S (ss_hist st2) (dp_Data p) opts")
      case None
      with b h show ?thesis by (auto simp: remove_outcome_def)
    next
      case (Some err)
      with b show ?thesis by (simp add: remove_outcome_error)
    qed
  qed
qed

lemma Remove_outcome:
  "acq = None \<Longrightarrow> remove_outcome S (rm_PackageName req) (fst (sidecar_Remove S acq req proc))"
  using removeBody_outcome [of S req]
  by (auto simp: sidecar_Remove_def withOp_def withKubeconfig_def case_prod_beta intro: remove_outcome_error
      split: sum.split prod.split)


subsection \<open>Closed instances\<close>

definition wit_details :: "goerr \<Rightarrow> deploy_error_detail list option" where
  "wit_details e = (case e of StatusError _ _ ds \<Rightarrow> Some ds | _ \<Rightarrow> None)"

interpretation wit_grpc: grpc_status "sc_statusText wit_sidecar" wit_details ref_status_Code
  by unfold_locales (auto simp: wit_sidecar_def wit_details_def ascii_def)

definition wit_opts :: DeployOptions where
  "wit_opts =
     \<lparr>do_Source = ''oci://r/p:1.0.0'', do_Components = [], do_SetVariables = Map.empty,
      do_AdoptExistingResources = False, do_Timeout = 0, do_Retries = 7, do_NamespaceOverride = ''apps'',
      do_Shasum = [], do_SkipSignatureValidation = False, do_Architecture = [], do_OCIConcurrency = 0,
      do_PublicKeyPath = [], do_LogLevel = [], do_LogFormat = [], do_NoColor = False, do_PlainHTTP = False,
      do_InsecureSkipTLSVerify = False, do_SkipVersionCheck = False, do_YoloMode = False,
      do_RegistryCredentialJSON = [], do_HelmDebugEnabled = False, do_Kubeconfig = [], do_InitOptions = None\<rparr>"

text \<open>The same sidecar, with a Helm release that another operation holds.\<close>

definition wit_lock_error :: goerr where
  "wit_lock_error = ErrorString
     (''unable to deploy component '' @ [CHR 0x22] @ ''web'' @ [CHR 0x22] @
      '': unable to install chart nginx: another operation (install/upgrade/rollback) is in progress'')"

definition wit_locked :: sidecar where
  "wit_locked = wit_sidecar\<lparr>sc_deployPkg := (\<lambda>_ _ _. Inl wit_lock_error)\<rparr>"

theorem deployed_package_round_trip_witness:
  "\<exists>h. sc_getDeployed wit_sidecar h ''app'' = Inr wit_deployed \<and>
     fst (client_GetDeployedPackage (connected wit_sidecar None os0 wit_details)
       \<lparr>gd_PackageName = ''app'', gd_Kubeconfig = ''apiVersion: v1''\<rparr>) =
     Some \<lparr>pi_Name = ''app'', pi_Version = ''1.0.0'', pi_Generation = 1, pi_CLIVersion = ''v0.50.0'',
       pi_DeployedComponents = [], pi_NamespaceOverride = []\<rparr>"
proof -
  let ?o = "\<lparr>gd_PackageName = ''app'', gd_Kubeconfig = ''apiVersion: v1''\<rparr>"
  have "snd (client_GetDeployedPackage (connected wit_sidecar None os0 wit_details) ?o) = None" by code_simp
  then have "client_GetDeployedPackage (connected wit_sidecar None os0 wit_details) ?o =
      (fst (client_GetDeployedPackage (connected wit_sidecar None os0 wit_details) ?o), None)"
    by (metis prod.collapse)
  from deployed_package_round_trip [OF this] show ?thesis
    by (auto simp: wit_sidecar_def wit_deployed_def int32_range_def)
qed


lemma first_deploy_exists: "list_ex is_SDeploy hist \<Longrightarrow> \<exists>h pl po s. first_deploy h pl po s hist"
proof -
  assume "list_ex is_SDeploy hist"
  then obtain x where "x \<in> set hist" "is_SDeploy x" by (auto simp: list_ex_iff)
  then obtain h y ys where y: "hist = h @ y # ys" "is_SDeploy y" "\<forall>z \<in> set h. \<not> is_SDeploy z"
    using split_list_first_propE [of hist is_SDeploy] by metis
  moreover from y(2) obtain pl po s where "y = (SDeploy pl po, s)" by (cases y rule: is_SDeploy.cases) auto
  ultimately have "first_deploy h pl po s hist" by (simp add: first_deploy_def no_deploy_def list_all_iff)
  then show ?thesis by blast
qed

theorem helm_lock_recognised_witness:
  "\<exists>err. client_Deploy (connected wit_locked None os0 wit_details) wit_opts = (None, Some err) \<and>
     IsHelmOperationInProgress err \<and> ref_status_Code err = codes_FailedPrecondition"
proof -
  have "list_ex is_SDeploy (ss_hist (snd (sidecar_Deploy wit_locked None (deployRequest wit_opts) os0)))" by code_simp
  then obtain h pl po s where f: "first_deploy h pl po s (ss_hist (snd (sidecar_Deploy wit_locked None (deployRequest wit_opts) os0)))"
    using first_deploy_exists by blast
  have d: "sc_deployPkg wit_locked (h @ [(SDeploy pl po, s)]) pl po = Inl wit_lock_error"
    and c: "\<not> sc_canceled wit_locked (h @ [(SDeploy pl po, s)])"
    by (simp_all add: wit_locked_def wit_sidecar_def)
  have t: "strings_Contains (strings_ToLower (err_Error wit_lock_error)) ''another operation''"
      "strings_Contains (strings_ToLower (err_Error wit_lock_error)) ''in progress''" by code_simp+
  have "sc_statusText wit_locked = sc_statusText wit_sidecar" by (simp add: wit_locked_def)
  then have "grpc_status (sc_statusText wit_locked) wit_details ref_status_Code" by (simp add: wit_grpc.grpc_status_axioms)
  from helm_lock_recognised [OF this f d c t] show ?thesis by blast
qed


end
