(* ===== verification/Connection_Monitor.thy ===== *)
theory Connection_Monitor
  imports Grpc_Client
begin

section \<open>The connection to the sidecar: \<^verbatim>\<open>sidecarConnectionMonitor\<close> of \<^verbatim>\<open>cmd/main.go\<close>\<close>

text \<open>
  The monitor keeps one gRPC client, checks it every ten seconds, replaces it when it is unhealthy, and
  hands it to the reconciler (\<^verbatim>\<open>SetZarfClient\<close>). Connections are numbered; \<open>conn\<close> says how each behaves
  at the moment of a call, \<open>dial\<close> is what \<^verbatim>\<open>grpc.NewClient\<close> gives, an error or a new number. The state has the
  monitor's client, the reconciler's, and the connections that are open; a client that fails its first
  health check is closed by \<^verbatim>\<open>NewClient\<close> itself.
\<close>

record monitor =
  mn_client :: "nat option"
  mn_reconciler :: "nat option"
  mn_open :: "nat list"

definition newSidecarConnectionMonitor :: monitor where
  "newSidecarConnectionMonitor = \<lparr>mn_client = None, mn_reconciler = None, mn_open = []\<rparr>"

definition NeedLeaderElection :: bool where
  "NeedLeaderElection = False"

definition closeClient :: "monitor \<Rightarrow> monitor" where
  "closeClient m =
     (case mn_client m of
        None \<Rightarrow> m
      | Some c \<Rightarrow> m\<lparr>mn_client := None, mn_open := removeAll c (mn_open m)\<rparr>)"

definition SetZarfClient :: "nat option \<Rightarrow> monitor \<Rightarrow> monitor" where
  "SetZarfClient c m = m\<lparr>mn_reconciler := c\<rparr>"

definition connect :: "(nat \<Rightarrow> client) \<Rightarrow> goerr + nat \<Rightarrow> monitor \<Rightarrow> monitor" where
  "connect conn dial m =
     (case NewClient (case dial of Inl e \<Rightarrow> Inl e | Inr i \<Rightarrow> Inr (conn i)) of
        Inl err \<Rightarrow> m
      | Inr _ \<Rightarrow>
          (case dial of
             Inl e \<Rightarrow> m
           | Inr i \<Rightarrow> SetZarfClient (Some i) (m\<lparr>mn_client := Some i, mn_open := i # mn_open m\<rparr>)))"

definition ensureConnection :: "(nat \<Rightarrow> client) \<Rightarrow> goerr + nat \<Rightarrow> monitor \<Rightarrow> monitor" where
  "ensureConnection conn dial m =
     (case mn_client m of
        Some c \<Rightarrow>
          (case HealthCheck (conn c) of
             None \<Rightarrow> m
           | Some err \<Rightarrow> connect conn dial (SetZarfClient None (closeClient m)))
      | None \<Rightarrow> connect conn dial m)"

definition ReadyzCheck :: "(nat \<Rightarrow> client) \<Rightarrow> monitor \<Rightarrow> goerr option" where
  "ReadyzCheck conn m =
     (case mn_client m of
        None \<Rightarrow> Some (ErrorString ''zarf sidecar client not connected'')
      | Some c \<Rightarrow>
          (case HealthCheck (conn c) of
             Some err \<Rightarrow> Some (fmt_wrap ''zarf sidecar not ready'' err)
           | None \<Rightarrow> None))"

subsection \<open>The loop of \<^verbatim>\<open>Start\<close>\<close>

text \<open>
  A tick finds the connections in any condition and any outcome of dialling; a new connection has a
  number that was not used before. The loop ends when its context does, with a last \<^verbatim>\<open>closeClient\<close>.
\<close>

datatype mphase = Looping | Stopped

inductive monitor_run :: "mphase \<Rightarrow> monitor \<Rightarrow> bool" where
  start: "monitor_run Looping newSidecarConnectionMonitor"
| tick: "monitor_run Looping m \<Longrightarrow> (\<And>i. dial = Inr i \<Longrightarrow> i \<notin> set (mn_open m)) \<Longrightarrow>
    monitor_run Looping (ensureConnection conn dial m)"
| stop: "monitor_run Looping m \<Longrightarrow> monitor_run Stopped (closeClient m)"

definition monitor_inv :: "monitor \<Rightarrow> bool" where
  "monitor_inv m \<longleftrightarrow> mn_reconciler m = mn_client m \<and> mn_open m = (case mn_client m of None \<Rightarrow> [] | Some c \<Rightarrow> [c])"

lemma connect_inv: "monitor_inv m \<Longrightarrow> mn_client m = None \<Longrightarrow> monitor_inv (connect conn dial m)"
  by (auto simp: monitor_inv_def connect_def SetZarfClient_def split: sum.splits)

lemma ensureConnection_inv: "monitor_inv m \<Longrightarrow> monitor_inv (ensureConnection conn dial m)"
proof -
  assume inv: "monitor_inv m"
  have "monitor_inv (SetZarfClient None (closeClient m))" "mn_client (SetZarfClient None (closeClient m)) = None"
    using inv by (auto simp: monitor_inv_def closeClient_def SetZarfClient_def split: option.splits)
  then show ?thesis using inv connect_inv by (auto simp: ensureConnection_def split: option.splits)
qed

lemma monitor_run_inv: "monitor_run ph m \<Longrightarrow> (ph = Looping \<longrightarrow> monitor_inv m) \<and> (ph = Stopped \<longrightarrow> mn_open m = [] \<and> mn_client m = None)"
proof (induction rule: monitor_run.induct)
  case start
  show ?case by (simp add: monitor_inv_def newSidecarConnectionMonitor_def)
next
  case (stop m)
  then show ?case by (auto simp: monitor_inv_def closeClient_def split: option.splits)
qed (simp add: ensureConnection_inv)

lemma healthy_connection:
  "HealthCheck (conn c) = None \<longleftrightarrow> (\<exists>resp. cl_Health (conn c) = Inr resp \<and> hr_Healthy resp)"
  by (auto simp: HealthCheck_def split: sum.splits)



end
