(* ===== verification/Webhook.thy ===== *)
theory Webhook
  imports Decision
begin

section \<open>Admission: \<^verbatim>\<open>api/v1alpha1/zarfpackage_webhook.go\<close>\<close>

text \<open>
  The defaulting and the validating webhook. A handler receives an arbitrary object; one that is not
  a ZarfPackage carries the name of its Go type, which the error message prints. A field error keeps
  its kind, path, value and detail.
\<close>

datatype runtime_Object = PackageObject ZarfPackage | OtherObject string

datatype bad_value = BadString string | BadInt int | BadDependency DependsOnReference

datatype field_Error =
    field_Required string string
  | field_Invalid string bad_value string
  | field_Forbidden string string
  | field_NotSupported string string "string list"

datatype admission_Error = TypeError string | NewInvalid string "field_Error list"

definition minimumUpgradePolicyInterval :: int where "minimumUpgradePolicyInterval = minute"

subsection \<open>Defaults\<close>

definition default_spec :: "ZarfPackageSpec \<Rightarrow> ZarfPackageSpec" where
  "default_spec s0 =
     (let s1 = (if sp_Retries s0 = 0 then s0\<lparr>sp_Retries := 3\<rparr> else s0);
          s2 = (if sp_Timeout s1 = [] then s1\<lparr>sp_Timeout := ''15m''\<rparr> else s1);
          s3 = (if sp_SyncPolicy s2 = SyncPolicyUnset then s2\<lparr>sp_SyncPolicy := SyncPolicyIgnore\<rparr> else s2);
          s4 = (if sp_OciConcurrency s3 = 0 then s3\<lparr>sp_OciConcurrency := 6\<rparr> else s3)
      in case sp_UpgradePolicy s4 of
           None \<Rightarrow> s4
         | Some pol \<Rightarrow>
           if up_Enabled pol \<and> up_Strategy pol = []
           then s4\<lparr>sp_UpgradePolicy := Some (pol\<lparr>up_Strategy := UpgradeStrategySemVer\<rparr>)\<rparr>
           else s4)"

definition Default :: "runtime_Object \<Rightarrow> admission_Error + ZarfPackage" where
  "Default obj =
     (case obj of
        OtherObject T \<Rightarrow> Inl (TypeError (''expected a ZarfPackage object but got '' @ T))
      | PackageObject pkg \<Rightarrow> Inr (pkg\<lparr>zp_Spec := default_spec (zp_Spec pkg)\<rparr>))"

subsection \<open>Validation\<close>

definition index_path :: "string \<Rightarrow> nat \<Rightarrow> string" where
  "index_path path i = path @ ''['' @ fmt_d (int i) @ '']''"

fun validateComponents :: "nat \<Rightarrow> string list \<Rightarrow> field_Error list" where
  "validateComponents i [] = []"
| "validateComponents i (cmp # cmps) =
     (if cmp = [] then [field_Invalid (index_path ''spec.components'' i) (BadString cmp)
                          ''component name must not be empty''] else []) @
     validateComponents (Suc i) cmps"

fun validateDependsOn :: "ZarfPackage \<Rightarrow> nat \<Rightarrow> DependsOnReference list \<Rightarrow> field_Error list" where
  "validateDependsOn pkg i [] = []"
| "validateDependsOn pkg i (d # ds) =
     (if strings_TrimSpace (dep_Name d) = []
      then [field_Invalid (index_path ''spec.dependsOn'' i @ ''.name'') (BadString (dep_Name d))
              ''dependency name must not be empty'']
      else let depNamespace = (if dep_Namespace d = [] then zp_Namespace pkg else dep_Namespace d) in
        if dep_Name d = zp_Name pkg \<and> depNamespace = zp_Namespace pkg
        then [field_Invalid (index_path ''spec.dependsOn'' i) (BadDependency d)
                ''package cannot depend on itself'']
        else []) @
     validateDependsOn pkg (Suc i) ds"

definition parseUpgradePolicyOCISource :: "string \<Rightarrow> goerr + string" where
  "parseUpgradePolicyOCISource source =
     (if \<not> strings_HasPrefix source ''oci://'' then Inl (ErrorString ''upgradePolicy requires an OCI source'')
      else let trimmed = strings_TrimPrefix source ''oci://'' in
      if strings_Contains trimmed ''@''
      then Inl (ErrorString ''upgradePolicy requires a tag source, not a digest source'')
      else let lastSlash = strings_LastIndex trimmed (CHR ''/'');
               lastColon = strings_LastIndex trimmed (CHR '':'') in
      if lastColon \<le> lastSlash \<or> lastColon = int (length trimmed) - 1
      then Inl (ErrorString ''upgradePolicy requires spec.source to include an explicit tag'')
      else Inr (drop (nat (lastColon + 1)) trimmed))"

definition validateInterval :: "string \<Rightarrow> field_Error list" where
  "validateInterval s =
     (if s = [] then []
      else (case time_ParseDuration s of
              None \<Rightarrow> [field_Invalid ''spec.upgradePolicy.interval'' (BadString s) ''invalid duration format'']
            | Some interval \<Rightarrow>
                if interval < minimumUpgradePolicyInterval
                then [field_Invalid ''spec.upgradePolicy.interval'' (BadString s)
                        ''interval must be at least 1 minute'']
                else []))"

text \<open>The checks on the tag of the source, in order, each one the last.\<close>

definition validateUpgradeTag :: "lib \<Rightarrow> string \<Rightarrow> field_Error list" where
  "validateUpgradeTag L source =
     (let invalid = (\<lambda>detail. [field_Invalid ''spec.source'' (BadString source) detail]);
          notSemver = ''upgradePolicy requires spec.source to use a semantic version tag'' in
      case parseUpgradePolicyOCISource source of
        Inl e \<Rightarrow> invalid (err_Error e)
      | Inr tag \<Rightarrow>
        let semverTag = strings_TrimPrefix tag ''v'' in
        if tag \<noteq> semverTag \<and> strings_HasPrefix semverTag ''v'' then invalid notSemver
        else if strings_Contains tag ''+''
        then invalid ''upgradePolicy requires spec.source to use an OCI-compatible semantic version tag without build metadata''
        else (case semver_StrictNewVersion L semverTag of
                Inl _ \<Rightarrow> invalid notSemver
              | Inr _ \<Rightarrow> []))"

definition validateUpgradePolicy :: "lib \<Rightarrow> ZarfPackage \<Rightarrow> field_Error list" where
  "validateUpgradePolicy L pkg =
     (case sp_UpgradePolicy (zp_Spec pkg) of
        None \<Rightarrow> []
      | Some policy \<Rightarrow>
        let strategy = (if up_Strategy policy = [] then UpgradeStrategySemVer else up_Strategy policy) in
        (if strategy \<noteq> UpgradeStrategySemVer
         then [field_NotSupported ''spec.upgradePolicy.strategy'' (up_Strategy policy) [UpgradeStrategySemVer]]
         else []) @
        validateInterval (up_Interval policy) @
        (if up_SemverConstraint policy \<noteq> [] \<and>
            (case semver_NewConstraint L (up_SemverConstraint policy) of Inl _ \<Rightarrow> True | Inr _ \<Rightarrow> False)
         then [field_Invalid ''spec.upgradePolicy.semverConstraint'' (BadString (up_SemverConstraint policy))
                 ''invalid semantic version constraint'']
         else []) @
        (if up_Enabled policy then validateUpgradeTag L (sp_Source (zp_Spec pkg)) else []))"

definition validateZarfPackageSpec :: "lib \<Rightarrow> ZarfPackage \<Rightarrow> field_Error list" where
  "validateZarfPackageSpec L pkg =
     (let s = zp_Spec pkg in
      (if sp_Source s = [] then [field_Required ''spec.source'' ''source is required''] else []) @
      validateComponents 0 (sp_Components s) @
      validateDependsOn pkg 0 (sp_DependsOn s) @
      (if sp_Retries s < 0
       then [field_Invalid ''spec.retries'' (BadInt (sp_Retries s)) ''retries must be >= 0''] else []) @
      (if sp_Timeout s \<noteq> [] \<and> time_ParseDuration (sp_Timeout s) = None
       then [field_Invalid ''spec.timeout'' (BadString (sp_Timeout s)) ''invalid duration format''] else []) @
      validateUpgradePolicy L pkg)"

definition ValidateCreate :: "lib \<Rightarrow> runtime_Object \<Rightarrow> admission_Error option" where
  "ValidateCreate L obj =
     (case obj of
        OtherObject T \<Rightarrow> Some (TypeError (''expected a ZarfPackage object but got '' @ T))
      | PackageObject pkg \<Rightarrow>
        let allErrs = validateZarfPackageSpec L pkg in
        if allErrs \<noteq> [] then Some (NewInvalid (zp_Name pkg) allErrs) else None)"

definition ValidateUpdate :: "lib \<Rightarrow> runtime_Object \<Rightarrow> runtime_Object \<Rightarrow> admission_Error option" where
  "ValidateUpdate L oldObj newObj =
     (case oldObj of
        OtherObject T \<Rightarrow> Some (TypeError (''expected old object to be ZarfPackage but got '' @ T))
      | PackageObject oldPkg \<Rightarrow>
        (case newObj of
           OtherObject T \<Rightarrow> Some (TypeError (''expected new object to be ZarfPackage but got '' @ T))
         | PackageObject newPkg \<Rightarrow>
           let allErrs = validateZarfPackageSpec L newPkg @
                 (if st_Phase (zp_Status oldPkg) = PhaseDeploying \<and>
                     sp_Source (zp_Spec oldPkg) \<noteq> sp_Source (zp_Spec newPkg)
                  then [field_Forbidden ''spec.source'' ''cannot change source while deployment is in progress'']
                  else [])
           in if allErrs \<noteq> [] then Some (NewInvalid (zp_Name newPkg) allErrs) else None))"

definition ValidateDelete :: "runtime_Object \<Rightarrow> admission_Error option" where
  "ValidateDelete obj = None"

end
