(* ===== verification/Webhook_Properties.thy ===== *)
theory Webhook_Properties
  imports Webhook Reference_Run
begin

section \<open>What the webhook admits\<close>

text \<open>
  A declarative reading of the validation: which packages are valid, without error lists and without
  the order of the checks. The webhook accepts exactly those. The later lemmas say what the controller
  can rely on for an admitted package.
\<close>

subsection \<open>Valid packages\<close>

text \<open>A source that automatic upgrades can follow: an OCI reference with an explicit semantic version tag.\<close>

definition upgradable_source :: "lib \<Rightarrow> string \<Rightarrow> bool" where
  "upgradable_source L source \<longleftrightarrow>
     (\<exists>ref repo tag v. source = ''oci://'' @ ref \<and> explicit_tag ref repo tag \<and> CHR ''@'' \<notin> set ref \<and>
        \<not> prefix ''vv'' tag \<and> CHR ''+'' \<notin> set tag \<and> semver_StrictNewVersion L (strings_TrimPrefix tag ''v'') = Inr v)"

definition valid_policy :: "lib \<Rightarrow> string \<Rightarrow> UpgradePolicy \<Rightarrow> bool" where
  "valid_policy L source pol \<longleftrightarrow>
     up_Strategy pol \<in> {[], UpgradeStrategySemVer} \<and>
     (up_Interval pol = [] \<or> (\<exists>d. time_ParseDuration (up_Interval pol) = Some d \<and> minute \<le> d)) \<and>
     (up_SemverConstraint pol = [] \<or> (\<exists>chk. semver_NewConstraint L (up_SemverConstraint pol) = Inr chk)) \<and>
     (up_Enabled pol \<longrightarrow> upgradable_source L source)"

definition valid_package :: "lib \<Rightarrow> ZarfPackage \<Rightarrow> bool" where
  "valid_package L p \<longleftrightarrow>
     (let s = zp_Spec p in
      sp_Source s \<noteq> [] \<and> [] \<notin> set (sp_Components s) \<and>
      (\<forall>d \<in> set (sp_DependsOn s). strings_TrimSpace (dep_Name d) \<noteq> [] \<and>
         \<not> (dep_Name d = zp_Name p \<and> (dep_Namespace d = [] \<or> dep_Namespace d = zp_Namespace p))) \<and>
      0 \<le> sp_Retries s \<and>
      (sp_Timeout s = [] \<or> time_ParseDuration (sp_Timeout s) \<noteq> None) \<and>
      (\<forall>pol. sp_UpgradePolicy s = Some pol \<longrightarrow> valid_policy L (sp_Source s) pol))"

subsection \<open>Each check decides its condition\<close>

lemma validateComponents_ok: "validateComponents i cs = [] \<longleftrightarrow> [] \<notin> set cs"
  by (induction i cs rule: validateComponents.induct) auto

lemma validateDependsOn_ok:
  "validateDependsOn p i ds = [] \<longleftrightarrow>
     (\<forall>d \<in> set ds. strings_TrimSpace (dep_Name d) \<noteq> [] \<and>
        \<not> (dep_Name d = zp_Name p \<and> (dep_Namespace d = [] \<or> dep_Namespace d = zp_Namespace p)))"
  by (induction p i ds rule: validateDependsOn.induct) (auto simp: Let_def)

lemma validateInterval_ok:
  "validateInterval s = [] \<longleftrightarrow> s = [] \<or> (\<exists>d. time_ParseDuration s = Some d \<and> minute \<le> d)"
  by (auto simp: validateInterval_def minimumUpgradePolicyInterval_def split: option.splits)

lemma parseUpgrade_tag:
  assumes "explicit_tag ref repo tag" and "CHR ''@'' \<notin> set ref"
  shows "parseUpgradePolicyOCISource (''oci://'' @ ref) = Inr tag"
proof -
  note l = LastIndex_explicit_tag [OF assms(1)]
  have d: "drop (nat (int (length repo) + 1)) ref = tag"
    using assms(1) by (simp add: explicit_tag_def nat_add_distrib)
  have "strings_TrimPrefix (''oci://'' @ ref) ''oci://'' = ref" "strings_HasPrefix (''oci://'' @ ref) ''oci://''"
    by (rule TrimPrefix_append HasPrefix_append)+
  then show ?thesis
    unfolding parseUpgradePolicyOCISource_def Let_def using l d assms(2) by (simp add: Contains_single)
qed

lemma parseUpgrade_Inr:
  assumes "parseUpgradePolicyOCISource source = Inr tag"
  obtains ref repo where "source = ''oci://'' @ ref" "explicit_tag ref repo tag" "CHR ''@'' \<notin> set ref"
proof -
  define ref where "ref = strings_TrimPrefix source ''oci://''"
  from assms have "strings_HasPrefix source ''oci://''"
    by (auto simp: parseUpgradePolicyOCISource_def split: if_splits)
  then have s1: "source = ''oci://'' @ ref" unfolding ref_def by (rule HasPrefix_split)
  from assms have s: "CHR ''@'' \<notin> set ref"
      "\<not> strings_LastIndex ref (CHR '':'') \<le> strings_LastIndex ref (CHR ''/'')"
      "strings_LastIndex ref (CHR '':'') \<noteq> int (length ref) - 1"
    unfolding ref_def
    by (auto simp: parseUpgradePolicyOCISource_def Let_def Contains_single split: if_splits)
  from explicit_tag_exists [OF s(2,3)] obtain repo tag' where t: "explicit_tag ref repo tag'" by blast
  from parseUpgrade_tag [OF t s(1)] assms have "tag' = tag" unfolding s1 by simp
  with s1 s(1) t that show thesis by blast
qed

lemma double_v: "tag \<noteq> strings_TrimPrefix tag ''v'' \<and> strings_HasPrefix (strings_TrimPrefix tag ''v'') ''v'' \<longleftrightarrow> prefix ''vv'' tag"
  by (cases tag; cases "tl tag") (auto simp: strings_TrimPrefix_def HasPrefix_prefix)

lemma validateUpgradeTag_ok: "validateUpgradeTag L source = [] \<longleftrightarrow> upgradable_source L source"
proof (cases "parseUpgradePolicyOCISource source")
  case (Inl e)
  have "\<not> upgradable_source L source"
    using Inl parseUpgrade_tag by (fastforce simp: upgradable_source_def)
  with Inl show ?thesis by (simp add: validateUpgradeTag_def)
next
  case (Inr tag)
  obtain ref repo where r: "source = ''oci://'' @ ref" "explicit_tag ref repo tag" "CHR ''@'' \<notin> set ref"
    using parseUpgrade_Inr [OF Inr] .
  have "tag' = tag" if "explicit_tag ref repo' tag'" for repo' tag'
    using parseUpgrade_tag [OF that r(3)] Inr r(1) by simp
  then have "upgradable_source L source \<longleftrightarrow> \<not> prefix ''vv'' tag \<and> CHR ''+'' \<notin> set tag \<and>
      (\<exists>v. semver_StrictNewVersion L (strings_TrimPrefix tag ''v'') = Inr v)"
    using r unfolding upgradable_source_def by blast
  then show ?thesis
    unfolding validateUpgradeTag_def Inr Let_def sum.case double_v Contains_single
    by (auto split: sum.splits)
qed

lemma validateUpgradePolicy_ok:
  "validateUpgradePolicy L p = [] \<longleftrightarrow>
     (\<forall>pol. sp_UpgradePolicy (zp_Spec p) = Some pol \<longrightarrow> valid_policy L (sp_Source (zp_Spec p)) pol)"
  by (auto simp: validateUpgradePolicy_def Let_def valid_policy_def validateInterval_ok validateUpgradeTag_ok
      split: option.splits sum.splits if_splits)

lemma validate_ok: "validateZarfPackageSpec L p = [] \<longleftrightarrow> valid_package L p"
  by (auto simp: validateZarfPackageSpec_def valid_package_def Let_def validateComponents_ok validateDependsOn_ok
      validateUpgradePolicy_ok)

text \<open>
  Property C34. The validating webhook accepts exactly the valid packages: on creation those with a source,
  named components and dependencies none of which is the package itself, a sensible retry count and
  timeout, and an upgrade policy it can follow; on update the same, and the source must not change while
  a deployment is in progress.
\<close>

theorem webhook_accepts_exactly_valid:
  "(ValidateCreate L (PackageObject p) = None \<longleftrightarrow> valid_package L p) \<and>
   (ValidateUpdate L (PackageObject old) (PackageObject p) = None \<longleftrightarrow>
      valid_package L p \<and>
      (st_Phase (zp_Status old) = PhaseDeploying \<longrightarrow> sp_Source (zp_Spec p) = sp_Source (zp_Spec old)))"
  by (auto simp: ValidateCreate_def ValidateUpdate_def Let_def validate_ok)

theorem webhook_accepts_exactly_valid_witness:
  "valid_package ref_lib ref_pkg \<and>
   ValidateUpdate ref_lib (PackageObject (ref_pkg\<lparr>zp_Status := zero_status\<lparr>st_Phase := PhaseDeploying\<rparr>\<rparr>))
     (PackageObject (ref_pkg\<lparr>zp_Spec := ref_spec\<lparr>sp_Source := ''oci://other/app:2.0.0''\<rparr>\<rparr>)) \<noteq> None"
proof -
  have "ValidateCreate ref_lib (PackageObject ref_pkg) = None" by code_simp
  then show ?thesis
    using webhook_accepts_exactly_valid [of ref_lib ref_pkg]
      webhook_accepts_exactly_valid [of ref_lib "ref_pkg\<lparr>zp_Spec := ref_spec\<lparr>sp_Source := ''oci://other/app:2.0.0''\<rparr>\<rparr>"
        "ref_pkg\<lparr>zp_Status := zero_status\<lparr>st_Phase := PhaseDeploying\<rparr>\<rparr>"]
    by (simp add: ref_pkg_def ref_spec_def)
qed

subsection \<open>Defaults\<close>

definition default_policy :: "UpgradePolicy \<Rightarrow> UpgradePolicy" where
  "default_policy pol = (if up_Enabled pol \<and> up_Strategy pol = [] then pol\<lparr>up_Strategy := UpgradeStrategySemVer\<rparr> else pol)"

lemma default_policy_strategy: "up_Enabled (default_policy pol) \<Longrightarrow> up_Strategy (default_policy pol) \<noteq> []"
  by (simp add: default_policy_def UpgradeStrategySemVer_def split: if_splits)

lemma default_spec_fields:
  "sp_Retries (default_spec s) = (if sp_Retries s = 0 then 3 else sp_Retries s)"
  "sp_Timeout (default_spec s) = (if sp_Timeout s = [] then ''15m'' else sp_Timeout s)"
  "sp_OciConcurrency (default_spec s) = (if sp_OciConcurrency s = 0 then 6 else sp_OciConcurrency s)"
  "sp_SyncPolicy (default_spec s) = (if sp_SyncPolicy s = SyncPolicyUnset then SyncPolicyIgnore else sp_SyncPolicy s)"
  "sp_UpgradePolicy (default_spec s) = map_option default_policy (sp_UpgradePolicy s)"
  "sp_Source (default_spec s) = sp_Source s" "sp_Components (default_spec s) = sp_Components s"
  "sp_DependsOn (default_spec s) = sp_DependsOn s"
  by (simp_all add: default_spec_def default_policy_def Let_def split: option.split)

lemma default_spec_frame:
  "default_spec s = s\<lparr>sp_Retries := sp_Retries (default_spec s), sp_Timeout := sp_Timeout (default_spec s),
     sp_OciConcurrency := sp_OciConcurrency (default_spec s), sp_SyncPolicy := sp_SyncPolicy (default_spec s),
     sp_UpgradePolicy := sp_UpgradePolicy (default_spec s)\<rparr>"
  by (rule ZarfPackageSpec.equality) (simp_all add: default_spec_def Let_def split: option.split)

lemma default_spec_fixed:
  assumes "sp_Retries s \<noteq> 0" and "sp_Timeout s \<noteq> []" and "sp_OciConcurrency s \<noteq> 0" and "sp_SyncPolicy s \<noteq> SyncPolicyUnset"
    and "\<And>pol. sp_UpgradePolicy s = Some pol \<Longrightarrow> up_Enabled pol \<Longrightarrow> up_Strategy pol \<noteq> []"
  shows "default_spec s = s"
proof (cases "sp_UpgradePolicy s")
  case None
  with assms(1-4) show ?thesis by (simp add: default_spec_def Let_def)
next
  case (Some pol)
  with assms(5) [OF Some] have "\<not> (up_Enabled pol \<and> up_Strategy pol = [])" by blast
  with assms(1-4) Some show ?thesis by (auto simp: default_spec_def Let_def)
qed

lemma default_spec_idem: "default_spec (default_spec s) = default_spec s"
  by (rule default_spec_fixed)
    (auto simp: default_spec_fields default_policy_strategy split: if_splits)

lemma valid_policy_default:
  "(\<forall>pol. map_option default_policy x = Some pol \<longrightarrow> valid_policy L src pol) \<longleftrightarrow>
   (\<forall>pol. x = Some pol \<longrightarrow> valid_policy L src pol)"
  by (cases x) (auto simp: valid_policy_def default_policy_def)

lemma valid_package_default:
  "valid_package L (p\<lparr>zp_Spec := default_spec (zp_Spec p)\<rparr>) \<longleftrightarrow> valid_package L p"
  unfolding valid_package_def Let_def
  by (simp add: default_spec_fields valid_policy_default ParseDuration_15m del: map_option_eq_Some)

text \<open>
  Property C35. Defaulting succeeds and is idempotent; it fills an unset retry count, timeout, concurrency,
  sync policy and the strategy of an enabled upgrade policy, keeps everything that the user wrote, and
  changes nothing about whether the package is accepted.
\<close>

theorem defaulting_safe:
  "\<exists>q. Default (PackageObject p) = Inr q \<and> Default (PackageObject q) = Inr q \<and>
     sp_Retries (zp_Spec q) = (if sp_Retries (zp_Spec p) = 0 then 3 else sp_Retries (zp_Spec p)) \<and>
     sp_Timeout (zp_Spec q) = (if sp_Timeout (zp_Spec p) = [] then ''15m'' else sp_Timeout (zp_Spec p)) \<and>
     sp_OciConcurrency (zp_Spec q) = (if sp_OciConcurrency (zp_Spec p) = 0 then 6 else sp_OciConcurrency (zp_Spec p)) \<and>
     sp_SyncPolicy (zp_Spec q) =
       (if sp_SyncPolicy (zp_Spec p) = SyncPolicyUnset then SyncPolicyIgnore else sp_SyncPolicy (zp_Spec p)) \<and>
     sp_UpgradePolicy (zp_Spec q) = map_option default_policy (sp_UpgradePolicy (zp_Spec p)) \<and>
     q = p\<lparr>zp_Spec := (zp_Spec p)\<lparr>sp_Retries := sp_Retries (zp_Spec q), sp_Timeout := sp_Timeout (zp_Spec q),
       sp_OciConcurrency := sp_OciConcurrency (zp_Spec q), sp_SyncPolicy := sp_SyncPolicy (zp_Spec q),
       sp_UpgradePolicy := sp_UpgradePolicy (zp_Spec q)\<rparr>\<rparr> \<and>
     (ValidateCreate L (PackageObject q) = None \<longleftrightarrow> ValidateCreate L (PackageObject p) = None)"
proof -
  let ?q = "p\<lparr>zp_Spec := default_spec (zp_Spec p)\<rparr>"
  have d: "Default (PackageObject p) = Inr ?q" "Default (PackageObject ?q) = Inr ?q"
    by (simp_all add: Default_def default_spec_idem)
  have v: "ValidateCreate L (PackageObject ?q) = None \<longleftrightarrow> ValidateCreate L (PackageObject p) = None"
    by (simp add: ValidateCreate_def Let_def validate_ok valid_package_default)
  have f: "?q = p\<lparr>zp_Spec := (zp_Spec p)\<lparr>sp_Retries := sp_Retries (zp_Spec ?q), sp_Timeout := sp_Timeout (zp_Spec ?q),
       sp_OciConcurrency := sp_OciConcurrency (zp_Spec ?q), sp_SyncPolicy := sp_SyncPolicy (zp_Spec ?q),
       sp_UpgradePolicy := sp_UpgradePolicy (zp_Spec ?q)\<rparr>\<rparr>"
    using default_spec_frame [of "zp_Spec p"] by simp
  show ?thesis
    by (rule exI [of _ ?q], intro conjI) (rule d v f | simp add: default_spec_fields)+
qed



end
