(* ===== verification/Watches.thy ===== *)
theory Watches
  imports Webhook_Properties Reconcile
begin

section \<open>What wakes the controller: \<^verbatim>\<open>SetupWithManager\<close> and its mapping functions\<close>

text \<open>
  The field indexes, the event predicates and the functions that map a changed Secret or a changed
  dependency to reconcile requests. The cache behind \<^verbatim>\<open>r.List\<close> is a parameter: given a namespace (or
  none), an index and a value it lists packages or fails.
\<close>

subsection \<open>Indexes\<close>

datatype index_key = registrySecretRefKey | clusterSecretRefKey | initCredentialsSecretRefKey | dependsOnRefKey

definition dependencyRefIndexValue :: "string \<Rightarrow> string \<Rightarrow> string" where
  "dependencyRefIndexValue namespace name = namespace @ ''/'' @ name"

fun dependsOnRefs :: "ZarfPackage \<Rightarrow> DependsOnReference list \<Rightarrow> string list" where
  "dependsOnRefs p [] = []"
| "dependsOnRefs p (d # ds) =
     (if dep_Name d = [] then dependsOnRefs p ds
      else let depNamespace = (if dep_Namespace d = [] then zp_Namespace p else dep_Namespace d) in
        dependencyRefIndexValue depNamespace (dep_Name d) # dependsOnRefs p ds)"

text \<open>The functions that \<^verbatim>\<open>IndexField\<close> registers.\<close>

fun indexField :: "index_key \<Rightarrow> ZarfPackage \<Rightarrow> string list" where
  "indexField registrySecretRefKey p =
     (if sp_RegistryCredentialSecretRef (zp_Spec p) = [] then [] else [sp_RegistryCredentialSecretRef (zp_Spec p)])"
| "indexField clusterSecretRefKey p =
     (if sp_ClusterSecretRef (zp_Spec p) = [] then [] else [sp_ClusterSecretRef (zp_Spec p)])"
| "indexField initCredentialsSecretRefKey p =
     (case sp_InitOptions (zp_Spec p) of
        None \<Rightarrow> []
      | Some i \<Rightarrow>
          (case io_RegistryInfo i of
             None \<Rightarrow> []
           | Some ri \<Rightarrow> if rg_CredentialsSecretRef ri = [] then [] else [rg_CredentialsSecretRef ri]))"
| "indexField dependsOnRefKey p = dependsOnRefs p (sp_DependsOn (zp_Spec p))"

subsection \<open>Predicates\<close>

datatype watch_event = CreateEvent ZarfPackage | DeleteEvent ZarfPackage | GenericEvent ZarfPackage | UpdateEvent ZarfPackage ZarfPackage

definition annotation_value :: "ZarfPackage \<Rightarrow> string \<Rightarrow> string" where
  "annotation_value p k = (case zp_Annotations p k of None \<Rightarrow> [] | Some v \<Rightarrow> v)"

fun annotationPredicate :: "watch_event \<Rightarrow> bool" where
  "annotationPredicate (UpdateEvent old new) =
     (if zp_Generation old \<noteq> zp_Generation new then True
      else annotation_value old AnnotationRedeploy \<noteq> annotation_value new AnnotationRedeploy)"
| "annotationPredicate _ = True"

fun dependencyPhasePredicate :: "watch_event \<Rightarrow> bool" where
  "dependencyPhasePredicate (CreateEvent _) = False"
| "dependencyPhasePredicate (DeleteEvent _) = True"
| "dependencyPhasePredicate (GenericEvent _) = False"
| "dependencyPhasePredicate (UpdateEvent old new) = (st_Phase (zp_Status old) \<noteq> st_Phase (zp_Status new))"

text \<open>Clearing the redeploy annotation is a change that the predicate lets through.\<close>

lemma clearing_annotation_requeues:
  assumes "zp_Annotations old AnnotationRedeploy = Some v" and "v \<noteq> []" and "zp_Annotations new AnnotationRedeploy = None"
  shows "annotationPredicate (UpdateEvent old new)"
  using assms by (simp add: annotation_value_def)

subsection \<open>Requests\<close>

type_synonym request = "string \<times> string"

type_synonym package_list = "string option \<Rightarrow> index_key \<Rightarrow> string \<Rightarrow> goerr + ZarfPackage list"

definition ObjectKey :: "ZarfPackage \<Rightarrow> request" where
  "ObjectKey p = (zp_Namespace p, zp_Name p)"

definition maxConcurrentReconciles :: "reconciler \<Rightarrow> int" where
  "maxConcurrentReconciles r = (if r_MaxConcurrentReconciles r \<le> 0 then 1 else r_MaxConcurrentReconciles r)"

fun addRequests :: "ZarfPackage list \<Rightarrow> request list \<Rightarrow> request list" where
  "addRequests [] requests = requests"
| "addRequests (p # ps) requests =
     (if ObjectKey p \<in> set requests then addRequests ps requests else addRequests ps (requests @ [ObjectKey p]))"

text \<open>The loop over the three Secret indexes; a failed list is logged and skipped.\<close>

fun secretLoop :: "package_list \<Rightarrow> string \<Rightarrow> string \<Rightarrow> index_key list \<Rightarrow> request list \<Rightarrow> request list" where
  "secretLoop lst namespace name [] requests = requests"
| "secretLoop lst namespace name (key # keys) requests =
     (case lst (Some namespace) key name of
        Inl err \<Rightarrow> secretLoop lst namespace name keys requests
      | Inr items \<Rightarrow> secretLoop lst namespace name keys (addRequests items requests))"

definition requestsForReferencingSecret :: "package_list \<Rightarrow> string \<Rightarrow> string \<Rightarrow> request list" where
  "requestsForReferencingSecret lst namespace name =
     secretLoop lst namespace name [registrySecretRefKey, clusterSecretRefKey, initCredentialsSecretRefKey] []"

definition requestsForDependents :: "package_list \<Rightarrow> ZarfPackage \<Rightarrow> request list" where
  "requestsForDependents lst dependency =
     (case lst None dependsOnRefKey (dependencyRefIndexValue (zp_Namespace dependency) (zp_Name dependency)) of
        Inl err \<Rightarrow> []
      | Inr items \<Rightarrow>
          map ObjectKey (filter (\<lambda>p. \<not> (zp_Name p = zp_Name dependency \<and> zp_Namespace p = zp_Namespace dependency)) items))"

text \<open>
  All requests that an update of a package leads to. \<^verbatim>\<open>EnqueueRequestsFromMapFunc\<close> maps the old and the new
  object of an update and drops repetitions; both have the same key, so one mapping is all.
\<close>

definition requestsForUpdate :: "package_list \<Rightarrow> ZarfPackage \<Rightarrow> ZarfPackage \<Rightarrow> request list" where
  "requestsForUpdate lst old new =
     (if annotationPredicate (UpdateEvent old new) then [ObjectKey new] else []) @
     (if dependencyPhasePredicate (UpdateEvent old new) then requestsForDependents lst new else [])"

subsection \<open>The indexed cache\<close>

text \<open>
  What the cache promises: it lists exactly the packages of the cluster that lie in the namespace and
  whose index function returns the value.
\<close>

locale indexed_cache =
  fixes cluster :: "ZarfPackage set" and lst :: package_list
  assumes list_matching: "lst ns key v = Inr items \<Longrightarrow>
    set items = {p \<in> cluster. (\<forall>n. ns = Some n \<longrightarrow> zp_Namespace p = n) \<and> v \<in> set (indexField key p)}"
begin

lemma addRequests_set: "set (addRequests ps rs) = set rs \<union> ObjectKey ` set ps"
  by (induction ps rs rule: addRequests.induct) auto

lemma addRequests_distinct: "distinct rs \<Longrightarrow> distinct (addRequests ps rs)"
  by (induction ps rs rule: addRequests.induct) auto

lemma secretLoop_distinct: "distinct rs \<Longrightarrow> distinct (secretLoop lst ns name keys rs)"
  by (induction keys arbitrary: rs) (auto simp: addRequests_distinct split: sum.splits)

lemma secretLoop_set:
  assumes "\<And>key. key \<in> set keys \<Longrightarrow> \<exists>items. lst (Some ns) key name = Inr items"
  shows "set (secretLoop lst ns name keys rs) = set rs \<union>
    ObjectKey ` {p \<in> cluster. zp_Namespace p = ns \<and> (\<exists>key \<in> set keys. name \<in> set (indexField key p))}"
  using assms
proof (induction keys arbitrary: rs)
  case (Cons key keys)
  from Cons.prems [of key] obtain items where i: "lst (Some ns) key name = Inr items" by auto
  from list_matching [OF i] have "set items = {p \<in> cluster. zp_Namespace p = ns \<and> name \<in> set (indexField key p)}" by auto
  with Cons i show ?case by (auto simp: addRequests_set)
qed simp

lemma dependents_set:
  assumes "lst None dependsOnRefKey (dependencyRefIndexValue (zp_Namespace d) (zp_Name d)) = Inr items"
  shows "set (requestsForDependents lst d) = ObjectKey ` {p \<in> cluster. ObjectKey p \<noteq> ObjectKey d \<and>
    dependencyRefIndexValue (zp_Namespace d) (zp_Name d) \<in> set (dependsOnRefs p (sp_DependsOn (zp_Spec p)))}"
  using assms list_matching [OF assms] by (auto simp: requestsForDependents_def ObjectKey_def)

end

definition cache_of :: "ZarfPackage list \<Rightarrow> package_list" where
  "cache_of ps ns key v =
     Inr (filter (\<lambda>p. (case ns of None \<Rightarrow> True | Some n \<Rightarrow> zp_Namespace p = n) \<and> v \<in> set (indexField key p)) ps)"

interpretation list_cache: indexed_cache "set ps" "cache_of ps" for ps
  by unfold_locales (auto simp: cache_of_def split: option.splits)

subsection \<open>Dependents and referencing packages\<close>

lemma dependsOnRefs_set:
  "set (dependsOnRefs p ds) = {dependencyRefIndexValue (dep_namespace p d) (dep_Name d) | d. d \<in> set ds \<and> dep_Name d \<noteq> []}"
  by (induction p ds rule: dependsOnRefs.induct) (auto simp: Let_def dep_namespace_def)

text \<open>Names of the cluster contain no slash, so a reference determines namespace and name.\<close>

lemma dependencyRef_inj:
  assumes "dependencyRefIndexValue ns n = dependencyRefIndexValue ns' n'" and "CHR ''/'' \<notin> set ns" and "CHR ''/'' \<notin> set ns'"
  shows "ns = ns' \<and> n = n'"
proof -
  have t: "takeWhile (\<lambda>c. c \<noteq> CHR ''/'') (m @ ''/'' @ k) = m" if "CHR ''/'' \<notin> set m" for m k
    using that by (induction m) auto
  from assms(1) have "ns @ ''/'' @ n = ns' @ ''/'' @ n'" by (simp only: dependencyRefIndexValue_def)
  with t [OF assms(2), of n] t [OF assms(3), of n'] have "ns = ns'" by simp
  with assms(1) show ?thesis by (simp add: dependencyRefIndexValue_def)
qed

lemma TrimSpace_nonblank: "strings_TrimSpace s \<noteq> [] \<Longrightarrow> s \<noteq> []"
  by auto

text \<open>
  Property C37. A dependency that changes its phase wakes every package that waits for it: after an update
  in which the phase of a package changed, each other package of the cluster whose reconcile reads that
  package as a dependency is requested; and, names being free of slashes, no package is requested
  through it that does not name it as a dependency.
\<close>

theorem dependents_are_woken:
  assumes "indexed_cache cluster lst" and "st_Phase (zp_Status old) \<noteq> st_Phase (zp_Status new)"
    and "\<exists>items. lst None dependsOnRefKey (dependencyRefIndexValue (zp_Namespace new) (zp_Name new)) = Inr items"
  shows "(\<forall>p \<in> cluster. \<forall>d \<in> set (sp_DependsOn (zp_Spec p)).
      strings_TrimSpace (dep_Name d) \<noteq> [] \<and> (dep_namespace p d, dep_Name d) = ObjectKey new \<and> ObjectKey p \<noteq> ObjectKey new
        \<longrightarrow> ObjectKey p \<in> set (requestsForUpdate lst old new)) \<and>
    (\<forall>q \<in> set (requestsForDependents lst new). CHR ''/'' \<notin> set (zp_Namespace new) \<longrightarrow>
      (\<exists>p \<in> cluster. q = ObjectKey p \<and> (\<exists>d \<in> set (sp_DependsOn (zp_Spec p)).
         CHR ''/'' \<in> set (dep_namespace p d) \<or> (dep_namespace p d, dep_Name d) = ObjectKey new)))"
proof -
  from assms(3) obtain items where
    i: "lst None dependsOnRefKey (dependencyRefIndexValue (zp_Namespace new) (zp_Name new)) = Inr items" by blast
  note s = indexed_cache.dependents_set [OF assms(1) i, unfolded dependsOnRefs_set]
  have up: "set (requestsForDependents lst new) \<subseteq> set (requestsForUpdate lst old new)"
    using assms(2) by (simp add: requestsForUpdate_def)
  have "ObjectKey p \<in> set (requestsForDependents lst new)"
    if "p \<in> cluster" "d \<in> set (sp_DependsOn (zp_Spec p))" "strings_TrimSpace (dep_Name d) \<noteq> []"
      "(dep_namespace p d, dep_Name d) = ObjectKey new" "ObjectKey p \<noteq> ObjectKey new" for p d
    using that TrimSpace_nonblank [OF that(3)] unfolding s by (force simp: ObjectKey_def)
  moreover have "\<exists>p \<in> cluster. q = ObjectKey p \<and> (\<exists>d \<in> set (sp_DependsOn (zp_Spec p)).
      CHR ''/'' \<in> set (dep_namespace p d) \<or> (dep_namespace p d, dep_Name d) = ObjectKey new)"
    if q: "q \<in> set (requestsForDependents lst new)" and ns: "CHR ''/'' \<notin> set (zp_Namespace new)" for q
  proof -
    from q obtain p d where "p \<in> cluster" "q = ObjectKey p" "d \<in> set (sp_DependsOn (zp_Spec p))"
        "dependencyRefIndexValue (zp_Namespace new) (zp_Name new) = dependencyRefIndexValue (dep_namespace p d) (dep_Name d)"
      unfolding s by blast
    moreover from dependencyRef_inj [OF this(4) ns]
    have "CHR ''/'' \<in> set (dep_namespace p d) \<or> (dep_namespace p d, dep_Name d) = ObjectKey new"
      by (auto simp: ObjectKey_def)
    ultimately show ?thesis by blast
  qed
  ultimately show ?thesis using up by blast
qed

text \<open>
  Property C38. A changed Secret wakes exactly the packages that use it: when the cache answers, the
  requests are, without repetition, the packages of the Secret's namespace that name it as their
  registry credentials, their cluster kubeconfig or their init credentials.
\<close>

theorem secret_wakes_its_users:
  assumes "indexed_cache cluster lst" and "\<And>key. \<exists>items. lst (Some ns) key name = Inr items" and "name \<noteq> []"
  shows "distinct (requestsForReferencingSecret lst ns name) \<and>
    set (requestsForReferencingSecret lst ns name) = ObjectKey ` {p \<in> cluster. zp_Namespace p = ns \<and>
      (sp_RegistryCredentialSecretRef (zp_Spec p) = name \<or> sp_ClusterSecretRef (zp_Spec p) = name \<or>
       (\<exists>i ri. sp_InitOptions (zp_Spec p) = Some i \<and> io_RegistryInfo i = Some ri \<and> rg_CredentialsSecretRef ri = name))}"
proof -
  have k: "(\<exists>key \<in> set [registrySecretRefKey, clusterSecretRefKey, initCredentialsSecretRefKey]. name \<in> set (indexField key p)) \<longleftrightarrow>
      (sp_RegistryCredentialSecretRef (zp_Spec p) = name \<or> sp_ClusterSecretRef (zp_Spec p) = name \<or>
       (\<exists>i ri. sp_InitOptions (zp_Spec p) = Some i \<and> io_RegistryInfo i = Some ri \<and> rg_CredentialsSecretRef ri = name))" for p
    using assms(3) by (cases "sp_InitOptions (zp_Spec p)"; cases "io_RegistryInfo (the (sp_InitOptions (zp_Spec p)))") auto
  have "set (requestsForReferencingSecret lst ns name) = set [] \<union> ObjectKey ` {p \<in> cluster. zp_Namespace p = ns \<and>
      (\<exists>key \<in> set [registrySecretRefKey, clusterSecretRefKey, initCredentialsSecretRefKey]. name \<in> set (indexField key p))}"
    unfolding requestsForReferencingSecret_def by (rule indexed_cache.secretLoop_set [OF assms(1,2)])
  moreover have "distinct (requestsForReferencingSecret lst ns name)"
    unfolding requestsForReferencingSecret_def by (rule indexed_cache.secretLoop_distinct [OF assms(1)]) simp
  ultimately show ?thesis unfolding k by simp
qed

subsection \<open>Closed instances\<close>

definition wit_dependent :: ZarfPackage where
  "wit_dependent = ref_pkg\<lparr>zp_Name := ''web'', zp_Spec := ref_spec\<lparr>sp_ClusterSecretRef := ''kc'',
     sp_DependsOn := [\<lparr>dep_Name = ''app'', dep_Namespace = []\<rparr>]\<rparr>\<rparr>"

theorem dependents_are_woken_witness:
  "(''ns'', ''web'') \<in> set (requestsForUpdate (cache_of [ref_pkg, wit_dependent])
     (ref_pkg\<lparr>zp_Status := zero_status\<lparr>st_Phase := PhaseDeploying\<rparr>\<rparr>)
     (ref_pkg\<lparr>zp_Status := zero_status\<lparr>st_Phase := PhaseDeployed\<rparr>\<rparr>))"
proof -
  let ?old = "ref_pkg\<lparr>zp_Status := zero_status\<lparr>st_Phase := PhaseDeploying\<rparr>\<rparr>"
  let ?new = "ref_pkg\<lparr>zp_Status := zero_status\<lparr>st_Phase := PhaseDeployed\<rparr>\<rparr>"
  have "strings_TrimSpace ''app'' \<noteq> []" by code_simp
  moreover have "\<exists>items. cache_of [ref_pkg, wit_dependent] None dependsOnRefKey v = Inr items" for v
    by (simp add: cache_of_def)
  moreover have "wit_dependent \<in> set [ref_pkg, wit_dependent]" by simp
  moreover have "\<lparr>dep_Name = ''app'', dep_Namespace = []\<rparr> \<in> set (sp_DependsOn (zp_Spec wit_dependent))"
    by (simp add: wit_dependent_def)
  moreover have "st_Phase (zp_Status ?old) \<noteq> st_Phase (zp_Status ?new)" by simp
  moreover have "ObjectKey wit_dependent = (''ns'', ''web'')" "ObjectKey ?new = (''ns'', ''app'')"
      "dep_namespace wit_dependent \<lparr>dep_Name = ''app'', dep_Namespace = []\<rparr> = ''ns''"
    by (simp_all add: wit_dependent_def ref_pkg_def ObjectKey_def dep_namespace_def)
  ultimately show ?thesis
    using dependents_are_woken [OF list_cache.indexed_cache_axioms [of "[ref_pkg, wit_dependent]"], of ?old ?new] by fastforce
qed

theorem secret_wakes_its_users_witness:
  "(''ns'', ''web'') \<in> set (requestsForReferencingSecret (cache_of [ref_pkg, wit_dependent]) ''ns'' ''kc'')"
proof -
  have "\<exists>items. cache_of [ref_pkg, wit_dependent] (Some ''ns'') key ''kc'' = Inr items" for key
    by (simp add: cache_of_def)
  moreover have "wit_dependent \<in> {p \<in> set [ref_pkg, wit_dependent]. zp_Namespace p = ''ns'' \<and> (sp_RegistryCredentialSecretRef (zp_Spec p) = ''kc'' \<or>
      sp_ClusterSecretRef (zp_Spec p) = ''kc'' \<or> (\<exists>i ri. sp_InitOptions (zp_Spec p) = Some i \<and> io_RegistryInfo i = Some ri \<and>
        rg_CredentialsSecretRef ri = ''kc''))}"
    by (simp add: wit_dependent_def ref_pkg_def)
  moreover have "ObjectKey wit_dependent = (''ns'', ''web'')" by (simp add: wit_dependent_def ref_pkg_def ObjectKey_def)
  ultimately show ?thesis
    using secret_wakes_its_users [OF list_cache.indexed_cache_axioms [of "[ref_pkg, wit_dependent]"], of "''ns''" "''kc''"]
    by (metis (no_types, lifting) image_eqI list.distinct(1))
qed

end
