(* ===== verification/Go_Flag.thy ===== *)
theory Go_Flag
  imports Go_Duration
begin

section \<open>Command lines: the package \<^verbatim>\<open>flag\<close>\<close>

text \<open>
  What the two programs use of Go's standard library to read their command line: the number and boolean
  readers of \<^verbatim>\<open>strconv\<close>, a flag set, and \<^verbatim>\<open>flag.Parse\<close> with its syntax (one or two dashes, \<^verbatim>\<open>-name value\<close> or
  \<^verbatim>\<open>-name=value\<close>, a boolean flag alone, the terminator \<^verbatim>\<open>--\<close>) and its errors. A flag set is an association
  list of names and current values; a flag that another package registers is \<open>ExternFlag\<close>: whether it is
  boolean, which texts it accepts, and the text it has. The theory ends with the round trip: a command line
  written from values parses back to them.
\<close>

subsection \<open>\<^verbatim>\<open>strconv\<close>\<close>

definition strconv_ParseBool :: "string \<Rightarrow> bool option" where
  "strconv_ParseBool s =
     (if s \<in> {''1'', ''t'', ''T'', ''true'', ''TRUE'', ''True''} then Some True
      else if s \<in> {''0'', ''f'', ''F'', ''false'', ''FALSE'', ''False''} then Some False
      else None)"

text \<open>The value of a digit in any base up to 36.\<close>

definition digit36 :: "char \<Rightarrow> nat option" where
  "digit36 c =
     (let n = of_char (lower_byte c) :: nat in
      if 48 \<le> n \<and> n \<le> 57 then Some (n - 48)
      else if 97 \<le> n \<and> n \<le> 122 then Some (n - 87)
      else None)"

text \<open>The loop of \<^verbatim>\<open>ParseUint\<close> with base 0, which skips underscores; the result is unbounded here and
  compared with the range by the caller.\<close>

fun uint_digits :: "nat \<Rightarrow> nat \<Rightarrow> string \<Rightarrow> nat option" where
  "uint_digits base n [] = Some n"
| "uint_digits base n (c # s) =
     (if c = CHR ''_'' then uint_digits base n s
      else (case digit36 c of
              None \<Rightarrow> None
            | Some d \<Rightarrow> if base \<le> d then None else uint_digits base (n * base + d) s))"

definition base_prefix :: "string \<Rightarrow> nat \<times> string" where
  "base_prefix s =
     (case s of
        z # b # d # t \<Rightarrow>
          if z \<noteq> CHR ''0'' then (10, s)
          else if lower_byte b = CHR ''b'' then (2, d # t)
          else if lower_byte b = CHR ''o'' then (8, d # t)
          else if lower_byte b = CHR ''x'' then (16, d # t)
          else (8, b # d # t)
      | z # t \<Rightarrow> if z = CHR ''0'' then (8, t) else (10, s)
      | [] \<Rightarrow> (10, []))"

text \<open>\<^verbatim>\<open>underscoreOK\<close>: the last character seen is a digit (or base prefix), an underscore, another, or
  none yet.\<close>

datatype saw = SawNothing | SawDigit | SawUnderscore | SawOther

fun underscore_loop :: "bool \<Rightarrow> saw \<Rightarrow> string \<Rightarrow> bool" where
  "underscore_loop hex w [] = (w \<noteq> SawUnderscore)"
| "underscore_loop hex w (c # s) =
     (let l = of_char (lower_byte c) :: nat in
      if is_digit c \<or> hex \<and> 97 \<le> l \<and> l \<le> 102 then underscore_loop hex SawDigit s
      else if c = CHR ''_'' then w = SawDigit \<and> underscore_loop hex SawUnderscore s
      else w \<noteq> SawUnderscore \<and> underscore_loop hex SawOther s)"

definition underscoreOK :: "string \<Rightarrow> bool" where
  "underscoreOK s =
     (case s of
        z # b # t \<Rightarrow>
          if z = CHR ''0'' \<and> lower_byte b \<in> {CHR ''b'', CHR ''o'', CHR ''x''}
          then underscore_loop (lower_byte b = CHR ''x'') SawDigit t
          else underscore_loop False SawNothing s
      | _ \<Rightarrow> underscore_loop False SawNothing s)"

definition strconv_ParseUint0 :: "string \<Rightarrow> nat option" where
  "strconv_ParseUint0 s =
     (if s = [] then None
      else let (base, t) = base_prefix s in
        (case uint_digits base 0 t of
           None \<Rightarrow> None
         | Some n \<Rightarrow> if CHR ''_'' \<in> set t \<and> \<not> underscoreOK s then None else Some n))"

text \<open>\<^verbatim>\<open>ParseInt(s, 0, 64)\<close>; \<^const>\<open>None\<close> is a syntax or a range error.\<close>

definition strconv_ParseInt0 :: "string \<Rightarrow> int option" where
  "strconv_ParseInt0 s =
     (let neg = (case s of c # _ \<Rightarrow> c = CHR ''-'' | [] \<Rightarrow> False);
          u = (case s of c # t \<Rightarrow> if c = CHR ''-'' \<or> c = CHR ''+'' then t else s | [] \<Rightarrow> s)
      in (case strconv_ParseUint0 u of
            None \<Rightarrow> None
          | Some n \<Rightarrow>
              if neg then (if 2 ^ 63 < n then None else Some (- int n))
              else if 2 ^ 63 \<le> n then None else Some (int n)))"

lemma ParseInt0_range: "strconv_ParseInt0 s = Some i \<Longrightarrow> int64_range i"
  by (auto simp: strconv_ParseInt0_def Let_def int64_range_def split: option.splits if_splits)

subsection \<open>Flag sets\<close>

datatype flag_value =
    StringFlag string
  | BoolFlag bool
  | IntFlag int
  | DurationFlag int
  | ExternFlag bool "string \<Rightarrow> bool" string

fun IsBoolFlag :: "flag_value \<Rightarrow> bool" where
  "IsBoolFlag (BoolFlag _) = True"
| "IsBoolFlag (ExternFlag b _ _) = b"
| "IsBoolFlag _ = False"

fun flag_Set :: "flag_value \<Rightarrow> string \<Rightarrow> flag_value option" where
  "flag_Set (StringFlag _) s = Some (StringFlag s)"
| "flag_Set (BoolFlag _) s = map_option BoolFlag (strconv_ParseBool s)"
| "flag_Set (IntFlag _) s = map_option IntFlag (strconv_ParseInt0 s)"
| "flag_Set (DurationFlag _) s = map_option DurationFlag (time_ParseDuration s)"
| "flag_Set (ExternFlag b ok _) s = (if ok s then Some (ExternFlag b ok s) else None)"

type_synonym flagset = "(string \<times> flag_value) list"

fun flag_update :: "string \<Rightarrow> flag_value \<Rightarrow> flagset \<Rightarrow> flagset" where
  "flag_update k v [] = []"
| "flag_update k v ((k', v') # fs) = (if k = k' then (k, v) # fs else (k', v') # flag_update k v fs)"

datatype flag_error = ErrHelp | BadFlagSyntax string | FlagNotDefined string | FlagNeedsArgument string | InvalidFlagValue string string

text \<open>A name up to its first equals sign after the first character, and the value behind it if any.\<close>

definition split_flag :: "string \<Rightarrow> string \<times> string option" where
  "split_flag s =
     (case s of
        [] \<Rightarrow> ([], None)
      | c # t \<Rightarrow>
          (case dropWhile (\<lambda>x. x \<noteq> CHR ''='') t of
             [] \<Rightarrow> (s, None)
           | e # v \<Rightarrow> (c # takeWhile (\<lambda>x. x \<noteq> CHR ''='') t, Some v)))"

text \<open>\<^verbatim>\<open>parseOne\<close> on the name and value of an argument, with the arguments behind it: what is left of them and
  the flags, or the error. \<open>set_flag\<close> is the part that finds and sets the flag.\<close>

definition set_flag :: "flagset \<Rightarrow> string \<Rightarrow> string option \<Rightarrow> string list \<Rightarrow> flag_error + (flagset \<times> string list)" where
  "set_flag fs name value args =
     (case map_of fs name of
        None \<Rightarrow>
          if name = ''help'' \<or> name = ''h'' then Inl ErrHelp
          else Inl (FlagNotDefined name)
      | Some v \<Rightarrow>
          if IsBoolFlag v
          then (case flag_Set v (case value of None \<Rightarrow> ''true'' | Some t \<Rightarrow> t) of
                  None \<Rightarrow> Inl (InvalidFlagValue name (case value of None \<Rightarrow> ''true'' | Some t \<Rightarrow> t))
                | Some v' \<Rightarrow> Inr (flag_update name v' fs, args))
          else (case (case value of
                        Some t \<Rightarrow> Some (t, args)
                      | None \<Rightarrow> (case args of [] \<Rightarrow> None | a # as \<Rightarrow> Some (a, as))) of
                  None \<Rightarrow> Inl (FlagNeedsArgument name)
                | Some (t, as) \<Rightarrow>
                    (case flag_Set v t of
                       None \<Rightarrow> Inl (InvalidFlagValue name t)
                     | Some v' \<Rightarrow> Inr (flag_update name v' fs, as))))"

definition dashed :: "string \<Rightarrow> string option" where
  "dashed s =
     (case s of
        a # b # t \<Rightarrow>
          if a \<noteq> CHR ''-'' then None else if b = CHR ''-'' then Some t else Some (b # t)
      | _ \<Rightarrow> None)"

lemma set_flag_shorter: "set_flag fs name value args = Inr (fs', args') \<Longrightarrow> length args' \<le> length args"
  by (auto simp: set_flag_def split: option.splits if_splits list.splits)

text \<open>\<^verbatim>\<open>FlagSet.Parse\<close>: the flags, and the arguments that are not flags.\<close>

function flag_Parse :: "flagset \<Rightarrow> string list \<Rightarrow> flag_error + (flagset \<times> string list)" where
  "flag_Parse fs [] = Inr (fs, [])"
| "flag_Parse fs (s # args) =
     (case dashed s of
        None \<Rightarrow> Inr (fs, s # args)
      | Some name \<Rightarrow>
          if s = ''--'' then Inr (fs, args)
          else if name = [] \<or> hd name = CHR ''-'' \<or> hd name = CHR ''='' then Inl (BadFlagSyntax s)
          else (case set_flag fs (fst (split_flag name)) (snd (split_flag name)) args of
                  Inl err \<Rightarrow> Inl err
                | Inr (fs', args') \<Rightarrow> flag_Parse fs' args'))"
  by pat_completeness auto
termination
  by (relation "measure (\<lambda>(fs, args). length args)") (auto dest!: set_flag_shorter)

declare flag_Parse.simps (2) [simp del]

text \<open>The exit status of \<^verbatim>\<open>flag.Parse\<close> with \<^verbatim>\<open>ExitOnError\<close>.\<close>

definition flag_exit :: "flag_error \<Rightarrow> int" where
  "flag_exit e = (if e = ErrHelp then 0 else 2)"

subsection \<open>Round trip\<close>

lemma digit36_digit: "is_digit c \<Longrightarrow> digit36 c = Some (digit_val c)"
  by (auto simp: digit36_def is_digit_def digit_val_def lower_byte_def Let_def)

lemma uint_digits_append:
  "uint_digits b n (s @ t) = (case uint_digits b n s of None \<Rightarrow> None | Some m \<Rightarrow> uint_digits b m t)"
  by (induction b n s rule: uint_digits.induct) (auto split: option.splits)

lemma digit_val_bound: "is_digit c \<Longrightarrow> digit_val c < 10"
  by (auto simp: is_digit_def digit_val_def)

lemma digit_not_underscore: "is_digit c \<Longrightarrow> c \<noteq> CHR ''_''"
  by (auto simp: is_digit_def)

lemma uint_digits_nat_dec: "uint_digits 10 0 (nat_dec n) = Some n"
proof (induction n rule: nat_dec.induct)
  case (1 n)
  have one: "uint_digits 10 m [char_of (48 + d)] = Some (m * 10 + d)" if "d < 10" for m d
    using digit_char [OF that] digit36_digit digit_not_underscore that by fastforce
  show ?case
  proof (cases "n < 10")
    case True
    then show ?thesis using one [of n 0] by (simp add: nat_dec.simps [of n])
  next
    case False
    with 1 one [of "n mod 10" "n div 10"] show ?thesis
      by (simp add: nat_dec.simps [of n] uint_digits_append del: uint_digits.simps)
  qed
qed

lemma nat_dec_head: "0 < n \<Longrightarrow> hd (nat_dec n) \<noteq> CHR ''0''"
proof (induction n rule: nat_dec.induct)
  case (1 n)
  show ?case
  proof (cases "n < 10")
    case True
    have "digit_val (CHR ''0'') = 0" by (simp add: digit_val_def)
    with 1 True digit_char [of n] show ?thesis by (auto simp: nat_dec.simps [of n])
  next
    case False
    with 1 nat_dec_nonempty show ?thesis by (simp add: nat_dec.simps [of n])
  qed
qed

lemma base_prefix_decimal: "s \<noteq> [] \<Longrightarrow> hd s \<noteq> CHR ''0'' \<Longrightarrow> base_prefix s = (10, s)"
  by (auto simp: base_prefix_def split: list.splits)

lemma ParseUint0_nat_dec: "strconv_ParseUint0 (nat_dec n) = Some n"
proof (cases "n = 0")
  case True
  have "nat_dec 0 = ''0''" by code_simp
  with True show ?thesis by (simp add: strconv_ParseUint0_def base_prefix_def)
next
  case False
  have "CHR ''_'' \<notin> set (nat_dec n)" using nat_dec_digits digit_not_underscore by blast
  with False show ?thesis
    by (simp add: strconv_ParseUint0_def base_prefix_decimal nat_dec_head nat_dec_nonempty uint_digits_nat_dec)
qed

lemma ParseInt0_fmt_d: "int64_range i \<Longrightarrow> strconv_ParseInt0 (fmt_d i) = Some i"
proof -
  assume r: "int64_range i"
  show ?thesis
  proof (cases "i < 0")
    case True
    with r show ?thesis by (auto simp: strconv_ParseInt0_def fmt_d_def ParseUint0_nat_dec int64_range_def)
  next
    case False
    obtain d ds where d: "nat_dec (nat i) = d # ds" using nat_dec_nonempty [of "nat i"] by (cases "nat_dec (nat i)") auto
    then have "is_digit d" using nat_dec_digits [of d "nat i"] by simp
    then have "d \<noteq> CHR ''-''" "d \<noteq> CHR ''+''" by (auto simp: is_digit_def)
    with False r d ParseUint0_nat_dec [of "nat i"] show ?thesis
      by (auto simp: strconv_ParseInt0_def fmt_d_def int64_range_def)
  qed
qed

text \<open>An argument that says what a flag of the programs' own has as its value.\<close>

fun flag_text :: "flag_value \<Rightarrow> string" where
  "flag_text (StringFlag s) = s"
| "flag_text (BoolFlag b) = (if b then ''true'' else ''false'')"
| "flag_text (IntFlag i) = fmt_d i"
| "flag_text (DurationFlag d) = fmt_d d @ ''ns''"
| "flag_text (ExternFlag _ _ s) = s"

fun flag_ok :: "flag_value \<Rightarrow> bool" where
  "flag_ok (IntFlag i) = int64_range i"
| "flag_ok (DurationFlag d) = (0 \<le> d \<and> int64_range d)"
| "flag_ok (ExternFlag _ ok s) = ok s"
| "flag_ok _ = True"

fun same_kind :: "flag_value \<Rightarrow> flag_value \<Rightarrow> bool" where
  "same_kind (StringFlag _) (StringFlag _) = True"
| "same_kind (BoolFlag _) (BoolFlag _) = True"
| "same_kind (IntFlag _) (IntFlag _) = True"
| "same_kind (DurationFlag _) (DurationFlag _) = True"
| "same_kind (ExternFlag b ok _) (ExternFlag b' ok' _) = (b = b' \<and> ok = ok')"
| "same_kind _ _ = False"

definition name_ok :: "string \<Rightarrow> bool" where
  "name_ok k \<longleftrightarrow> k \<noteq> [] \<and> CHR ''='' \<notin> set k \<and> hd k \<noteq> CHR ''-''"

definition flag_arg :: "string \<times> flag_value \<Rightarrow> string" where
  "flag_arg = (\<lambda>(k, v). ''--'' @ k @ ''='' @ flag_text v)"

lemma ParseDuration_ns: "0 \<le> d \<Longrightarrow> int64_range d \<Longrightarrow> time_ParseDuration (fmt_d d @ ''ns'') = Some d"
  using ParseDuration_number_unit [of "''ns''" 1 "nat d"]
  by (auto simp: fmt_d_def unitMap_def is_unit_char_def is_digit_def int64_range_def)

lemma flag_Set_text: "same_kind old v \<Longrightarrow> flag_ok v \<Longrightarrow> flag_Set old (flag_text v) = Some v"
  by (cases old; cases v) (simp_all add: strconv_ParseBool_def ParseInt0_fmt_d ParseDuration_ns)

lemma split_flag_arg: "name_ok k \<Longrightarrow> split_flag (k @ CHR ''='' # t) = (k, Some t)"
proof -
  assume "name_ok k"
  then obtain c ks where k: "k = c # ks" and eq: "CHR ''='' \<notin> set ks"
    by (cases k) (auto simp: name_ok_def)
  have "dropWhile (\<lambda>x. x \<noteq> CHR ''='') (ks @ CHR ''='' # t) = CHR ''='' # t"
    "takeWhile (\<lambda>x. x \<noteq> CHR ''='') (ks @ CHR ''='' # t) = ks"
    using eq by (induction ks) auto
  then show ?thesis by (simp add: split_flag_def k)
qed

lemma parse_flag_arg:
  assumes "name_ok k" "map_of fs k = Some old" "same_kind old v" "flag_ok v"
  shows "flag_Parse fs (flag_arg (k, v) # args) = flag_Parse (flag_update k v fs) args"
proof -
  have k: "k \<noteq> []" "hd k \<noteq> CHR ''-''" "hd k \<noteq> CHR ''=''"
    using assms(1) by (auto simp: name_ok_def) (metis hd_in_set)
  have "set_flag fs k (Some (flag_text v)) args = Inr (flag_update k v fs, args)"
    using assms flag_Set_text by (auto simp: set_flag_def)
  then show ?thesis
    using k split_flag_arg [OF assms(1), of "flag_text v"]
    by (simp add: flag_Parse.simps flag_arg_def dashed_def)
qed

lemma flag_update_prefix:
  "k \<notin> fst ` set front \<Longrightarrow> flag_update k v (front @ (k, old) # fs) = front @ (k, v) # fs"
  by (induction "front") auto

lemma parse_flag_args:
  assumes "list_all2 (\<lambda>(k, old) (k', v). k = k' \<and> same_kind old v) olds news"
    and "list_all (\<lambda>(k, v). name_ok k \<and> flag_ok v) news" and "distinct (map fst (front @ news))"
  shows "flag_Parse (front @ olds @ rest) (map flag_arg news) = Inr (front @ news @ rest, [])"
  using assms
proof (induction olds news arbitrary: front rule: list_all2_induct)
  case Nil
  show ?case by simp
next
  case (Cons ent olds n news)
  obtain k old v where ent: "ent = (k, old)" "n = (k, v)" and kind: "same_kind old v"
    using Cons.hyps(1) by (cases ent, cases n) auto
  have fresh: "k \<notin> fst ` set front" using Cons.prems(2) ent by auto
  then have "map_of (front @ (k, old) # olds @ rest) k = Some old"
    by (simp add: map_add_def map_of_eq_None_iff [THEN iffD2])
  with Cons.prems(1) ent kind have "flag_Parse (front @ (ent # olds) @ rest) (map flag_arg (n # news)) =
      flag_Parse (flag_update k v (front @ (k, old) # olds @ rest)) (map flag_arg news)"
    using parse_flag_arg [of k "front @ (k, old) # olds @ rest" old v "map flag_arg news"] by simp
  also have "\<dots> = flag_Parse ((front @ [n]) @ olds @ rest) (map flag_arg news)"
    using flag_update_prefix [OF fresh] ent by simp
  also have "\<dots> = Inr ((front @ [n]) @ news @ rest, [])"
    using Cons.prems by (intro Cons.IH) (auto simp: ent)
  finally show ?case by simp
qed

subsection \<open>Parsing keeps the types\<close>

text \<open>Whatever the arguments are, each flag keeps its name and its kind, and its number is in the range of its
  type.\<close>

fun flag_range :: "flag_value \<Rightarrow> bool" where
  "flag_range (IntFlag i) = int64_range i"
| "flag_range (DurationFlag d) = int64_range d"
| "flag_range (ExternFlag _ ok s) = True"
| "flag_range _ = True"

definition same_type :: "string \<times> flag_value \<Rightarrow> string \<times> flag_value \<Rightarrow> bool" where
  "same_type = (\<lambda>(k, v) (k', v'). k = k' \<and> same_kind v v' \<and> (flag_range v \<longrightarrow> flag_range v'))"

lemma same_kind_refl: "same_kind v v"
  by (cases v) simp_all

lemma same_kind_trans: "same_kind u v \<Longrightarrow> same_kind v w \<Longrightarrow> same_kind u w"
  by (cases u; cases v; cases w) simp_all

lemma flag_Set_type: "flag_Set v s = Some v' \<Longrightarrow> same_kind v v' \<and> flag_range v'"
  by (cases v) (auto simp: ParseInt0_range ParseDuration_range split: if_splits)

lemma flag_update_type:
  "map_of fs k = Some v \<Longrightarrow> same_kind v v' \<Longrightarrow> flag_range v' \<Longrightarrow> list_all2 same_type fs (flag_update k v' fs)"
  by (induction fs) (auto simp: same_type_def same_kind_refl intro!: list_all2_refl split: if_splits)

lemma set_flag_type: "set_flag fs name value args = Inr (fs', args') \<Longrightarrow> list_all2 same_type fs fs'"
  by (auto simp: set_flag_def split: option.splits if_splits dest!: flag_Set_type intro: flag_update_type)

lemma flag_Parse_type: "flag_Parse fs args = Inr (fs', rest) \<Longrightarrow> list_all2 same_type fs fs'"
proof (induction fs args rule: flag_Parse.induct)
  case (1 fs)
  then show ?case by (auto simp: same_type_def same_kind_refl intro!: list_all2_refl)
next
  case (2 fs s args)
  have refl: "list_all2 same_type fs fs" by (auto simp: same_type_def same_kind_refl intro!: list_all2_refl)
  have trans: "list_all2 same_type fs fs'" if "list_all2 same_type fs g" "list_all2 same_type g fs'" for g
    using that by (rule list_all2_trans [rotated]) (auto simp: same_type_def intro: same_kind_trans)
  from 2 refl show ?case
    by (auto simp: flag_Parse.simps (2) split: option.splits if_splits sum.splits prod.splits
        intro: trans [OF set_flag_type])
qed

end
