(* ===== verification/Go_Library.thy ===== *)
theory Go_Library
  imports Go_Strings
begin

section \<open>Slices with shared arrays, and file paths\<close>

text \<open>
  Two parts of Go that process start-up depends on. A slice is a window on an array; \<^verbatim>\<open>append\<close> writes into the
  array when there is room behind the window and copies it when there is none, so two slices that came from
  the same one can share cells. The arrays are an explicit store (a cell that was never written is \<^const>\<open>None\<close>,
  the nil value), and how much room a copy gets is a parameter \<open>grow\<close>: the language only promises enough.
  The locale \<open>go_append\<close> says what follows from that promise; it is interpreted on the growth rule of
  the Go compiler's runtime. The second part is \<^verbatim>\<open>filepath.Clean\<close> and \<^verbatim>\<open>filepath.Join\<close> on Unix.
\<close>

subsection \<open>Slices\<close>

record slice =
  sl_array :: nat
  sl_len :: nat
  sl_cap :: nat

type_synonym 'a arrays = "'a option list list"

definition nil_slice :: slice where
  "nil_slice = \<lparr>sl_array = 0, sl_len = 0, sl_cap = 0\<rparr>"

definition slice_content :: "'a arrays \<Rightarrow> slice \<Rightarrow> 'a option list" where
  "slice_content A s = (if sl_len s = 0 then [] else take (sl_len s) (A ! sl_array s))"

definition slice_append :: "(nat \<Rightarrow> nat \<Rightarrow> nat) \<Rightarrow> 'a arrays \<Rightarrow> slice \<Rightarrow> 'a \<Rightarrow> 'a arrays \<times> slice" where
  "slice_append grow A s x =
     (let need = Suc (sl_len s) in
      if need \<le> sl_cap s
      then (A[sl_array s := (A ! sl_array s)[sl_len s := Some x]], s\<lparr>sl_len := need\<rparr>)
      else let cap = grow (sl_cap s) need in
        (A @ [slice_content A s @ Some x # replicate (cap - need) None],
         \<lparr>sl_array = length A, sl_len = need, sl_cap = cap\<rparr>))"

definition slice_ok :: "'a arrays \<Rightarrow> slice \<Rightarrow> bool" where
  "slice_ok A s \<longleftrightarrow> sl_len s \<le> sl_cap s \<and>
     (sl_cap s \<noteq> 0 \<longrightarrow> sl_array s < length A \<and> length (A ! sl_array s) = sl_cap s)"

text \<open>The capacity that the runtime computes (\<^verbatim>\<open>nextslicecap\<close>), before it is rounded up to a size class of
  the allocator; for up to two pointers the size classes are exact.\<close>

function grow_loop :: "nat \<Rightarrow> nat \<Rightarrow> nat" where
  "grow_loop newcap need = (if need \<le> newcap then newcap else grow_loop (newcap + (newcap + 3 * 256) div 4) need)"
  by pat_completeness auto
termination
  by (relation "measure (\<lambda>(newcap, need). need - newcap)") auto

declare grow_loop.simps [simp del]

definition nextslicecap :: "nat \<Rightarrow> nat \<Rightarrow> nat" where
  "nextslicecap oldCap need =
     (if 2 * oldCap < need then need
      else if oldCap < 256 then 2 * oldCap
      else grow_loop oldCap need)"

locale go_append =
  fixes grow :: "nat \<Rightarrow> nat \<Rightarrow> nat"
  assumes grow_enough: "need \<le> grow old need"
begin

lemma append_content:
  assumes "slice_ok A s" and "slice_append grow A s x = (A', s')"
  shows "slice_content A' s' = slice_content A s @ [Some x]" and "slice_ok A' s'"
proof -
  have "sl_len s < sl_cap s \<or> sl_len s = sl_cap s" using assms(1) by (auto simp: slice_ok_def)
  then show "slice_content A' s' = slice_content A s @ [Some x]" "slice_ok A' s'"
    using assms grow_enough [of "Suc (sl_len s)" "sl_cap s"]
    by (auto simp: slice_append_def slice_ok_def slice_content_def Let_def take_Suc_conv_app_nth)
qed

lemma append_keeps:
  assumes "slice_ok A s" and "slice_ok A t" and "slice_append grow A s x = (A', s')"
    and "sl_len s = sl_cap s \<or> sl_array t \<noteq> sl_array s \<or> sl_len t \<le> sl_len s"
  shows "slice_content A' t = slice_content A t" and "slice_ok A' t"
  using assms
  by (auto simp: slice_append_def slice_ok_def slice_content_def Let_def nth_append nth_list_update
      split: if_splits)

lemma append_overwrites:
  assumes "slice_ok A s" and "slice_append grow A s x = (A', s')"
    and "sl_len s < sl_cap s" and "sl_array t = sl_array s" and "sl_len s < sl_len t"
  shows "slice_content A' t = (slice_content A t)[sl_len s := Some x]"
  using assms by (auto simp: slice_append_def slice_ok_def slice_content_def Let_def take_update_swap)

lemma content_length: "slice_ok A s \<Longrightarrow> length (slice_content A s) = sl_len s"
  by (auto simp: slice_content_def slice_ok_def)

text \<open>Two appends to the same slice: each result has its own element, unless there was room behind the
  slice; then they share the cell and both have the second element.\<close>

lemma shared_appends:
  assumes ok: "slice_ok A s" and x: "slice_append grow A s x = (A1, s1)" and y: "slice_append grow A1 s y = (A2, s2)"
  shows "slice_content A2 s2 = slice_content A s @ [Some y]"
    and "slice_content A2 s1 = slice_content A s @ [Some (if sl_len s < sl_cap s then y else x)]"
proof -
  have s: "slice_content A1 s = slice_content A s" "slice_ok A1 s" using append_keeps [OF ok ok x] by simp_all
  have s1: "slice_content A1 s1 = slice_content A s @ [Some x]" "slice_ok A1 s1" using append_content [OF ok x] by simp_all
  show "slice_content A2 s2 = slice_content A s @ [Some y]" using append_content [OF s(2) y] s by simp
  show "slice_content A2 s1 = slice_content A s @ [Some (if sl_len s < sl_cap s then y else x)]"
  proof (cases "sl_len s < sl_cap s")
    case True
    with x have "sl_array s1 = sl_array s" "sl_len s < sl_len s1" by (auto simp: slice_append_def Let_def)
    then show ?thesis using append_overwrites [OF s(2) y True] s1 True content_length [OF ok]
      by (simp add: list_update_append)
  next
    case False
    with ok have "sl_len s = sl_cap s" by (simp add: slice_ok_def)
    then show ?thesis using append_keeps [OF s(2) s1(2) y] s1 by simp
  qed
qed

text \<open>What an append to an empty slice gives: a new array, with the room that \<open>grow\<close> chose.\<close>

lemma append_nil:
  "slice_append grow A nil_slice x =
     (A @ [Some x # replicate (grow 0 1 - 1) None], \<lparr>sl_array = length A, sl_len = 1, sl_cap = grow 0 1\<rparr>)"
  by (simp add: slice_append_def nil_slice_def slice_content_def Let_def)

end

lemma slice_ok_nil [simp]: "slice_ok A nil_slice"
  by (simp add: slice_ok_def nil_slice_def)

lemma slice_content_nil [simp]: "slice_content A nil_slice = []"
  by (simp add: slice_content_def nil_slice_def)

lemma grow_loop_enough: "need \<le> grow_loop newcap need"
  by (induction newcap need rule: grow_loop.induct) (simp add: grow_loop.simps)

interpretation gc: go_append nextslicecap
  by unfold_locales (auto simp: nextslicecap_def intro: grow_loop_enough)

subsection \<open>Paths\<close>

fun split_path :: "string \<Rightarrow> string list" where
  "split_path [] = [[]]"
| "split_path (c # s) =
     (if c = CHR ''/'' then [] # split_path s
      else (case split_path s of [] \<Rightarrow> [[c]] | w # ws \<Rightarrow> (c # w) # ws))"

text \<open>One element of the path; the elements so far are kept with the last one first.\<close>

definition clean_step :: "bool \<Rightarrow> string list \<Rightarrow> string \<Rightarrow> string list" where
  "clean_step rooted out w =
     (if w = [] \<or> w = ''.'' then out
      else if w = ''..'' then
        (case out of
           [] \<Rightarrow> if rooted then [] else [''..'']
         | v # vs \<Rightarrow> if v = ''..'' then ''..'' # out else vs)
      else w # out)"

definition filepath_Clean :: "string \<Rightarrow> string" where
  "filepath_Clean p =
     (if p = [] then ''.''
      else let rooted = hd p = CHR ''/'';
               out = (if rooted then ''/'' else []) @ strings_Join (rev (foldl (clean_step rooted) [] (split_path p))) ''/''
           in if out = [] then ''.'' else out)"

definition filepath_Join2 :: "string \<Rightarrow> string \<Rightarrow> string" where
  "filepath_Join2 dir name =
     (if dir \<noteq> [] then filepath_Clean (dir @ ''/'' @ name)
      else if name \<noteq> [] then filepath_Clean name
      else [])"

lemma filepath_Join2_examples:
  "filepath_Join2 ''/certs/'' ''tls.crt'' = ''/certs/tls.crt''"
  "filepath_Join2 ''a/../..//b'' ''./tls.key'' = ''../b/tls.key''"
  "filepath_Join2 ''/..'' [] = ''/''"
  by code_simp+

end
