(* ===== verification/Operator_Main.thy ===== *)
theory Operator_Main
  imports Connection_Monitor Watches Go_Flag Go_Library
begin

section \<open>Start-up of the operator: \<^verbatim>\<open>main\<close> of \<^verbatim>\<open>cmd/main.go\<close>\<close>

text \<open>
  The flags with their defaults, tracing, the TLS options of the two servers, the options of the manager, and
  the ordered registrations before the manager runs. Every call into controller-runtime, the certificate
  watcher and the trace exporter is an entry of \<open>su_calls\<close>; the parameter \<open>lib_err\<close> says with which error, if
  any, such a call returns (every call occurs at most once). A fatal error is exit status 1 with the calls
  made so far. The TLS options are slices over an explicit store, because the code appends to two slices that
  start as the same one; \<open>grow\<close> is the growth rule of \<^verbatim>\<open>append\<close> (see \<open>Go_Library\<close>). The flags that zap and
  controller-runtime register are the parameter \<open>extern\<close>.
\<close>

subsection \<open>Flags\<close>

record operator_flags =
  metricsAddr :: string
  probeAddr :: string
  enableLeaderElection :: bool
  secureMetrics :: bool
  webhookCertPath :: string
  webhookCertName :: string
  webhookCertKey :: string
  metricsCertPath :: string
  metricsCertName :: string
  metricsCertKey :: string
  enableHTTP2 :: bool
  enableWebhooks :: bool
  zarfSidecarAddr :: string
  requeueInterval :: int
  concurrent :: int
  otlpEndpoint :: string

definition operator_defaults :: operator_flags where
  "operator_defaults =
     \<lparr>metricsAddr = ''0'', probeAddr = '':8081'', enableLeaderElection = False, secureMetrics = True,
      webhookCertPath = [], webhookCertName = ''tls.crt'', webhookCertKey = ''tls.key'',
      metricsCertPath = [], metricsCertName = ''tls.crt'', metricsCertKey = ''tls.key'',
      enableHTTP2 = False, enableWebhooks = False, zarfSidecarAddr = ''localhost:50051'',
      requeueInterval = 5 * minute, concurrent = 5, otlpEndpoint = []\<rparr>"

text \<open>The flag that each variable is bound to.\<close>

definition operator_flagset :: "operator_flags \<Rightarrow> flagset" where
  "operator_flagset f =
     [(''metrics-bind-address'', StringFlag (metricsAddr f)),
      (''health-probe-bind-address'', StringFlag (probeAddr f)),
      (''leader-elect'', BoolFlag (enableLeaderElection f)),
      (''metrics-secure'', BoolFlag (secureMetrics f)),
      (''webhook-cert-path'', StringFlag (webhookCertPath f)),
      (''webhook-cert-name'', StringFlag (webhookCertName f)),
      (''webhook-cert-key'', StringFlag (webhookCertKey f)),
      (''metrics-cert-path'', StringFlag (metricsCertPath f)),
      (''metrics-cert-name'', StringFlag (metricsCertName f)),
      (''metrics-cert-key'', StringFlag (metricsCertKey f)),
      (''enable-http2'', BoolFlag (enableHTTP2 f)),
      (''enable-webhooks'', BoolFlag (enableWebhooks f)),
      (''zarf-sidecar-address'', StringFlag (zarfSidecarAddr f)),
      (''requeue-interval'', DurationFlag (requeueInterval f)),
      (''concurrent'', IntFlag (concurrent f)),
      (''otlp-endpoint'', StringFlag (otlpEndpoint f))]"

definition string_var :: "flagset \<Rightarrow> string \<Rightarrow> string" where
  "string_var fs k = (case map_of fs k of Some (StringFlag s) \<Rightarrow> s | _ \<Rightarrow> [])"

definition bool_var :: "flagset \<Rightarrow> string \<Rightarrow> bool" where
  "bool_var fs k = (case map_of fs k of Some (BoolFlag b) \<Rightarrow> b | _ \<Rightarrow> False)"

definition int_var :: "flagset \<Rightarrow> string \<Rightarrow> int" where
  "int_var fs k = (case map_of fs k of Some (IntFlag i) \<Rightarrow> i | Some (DurationFlag d) \<Rightarrow> d | _ \<Rightarrow> 0)"

text \<open>The variables after parsing.\<close>

definition operator_vars :: "flagset \<Rightarrow> operator_flags" where
  "operator_vars fs =
     \<lparr>metricsAddr = string_var fs ''metrics-bind-address'',
      probeAddr = string_var fs ''health-probe-bind-address'',
      enableLeaderElection = bool_var fs ''leader-elect'',
      secureMetrics = bool_var fs ''metrics-secure'',
      webhookCertPath = string_var fs ''webhook-cert-path'',
      webhookCertName = string_var fs ''webhook-cert-name'',
      webhookCertKey = string_var fs ''webhook-cert-key'',
      metricsCertPath = string_var fs ''metrics-cert-path'',
      metricsCertName = string_var fs ''metrics-cert-name'',
      metricsCertKey = string_var fs ''metrics-cert-key'',
      enableHTTP2 = bool_var fs ''enable-http2'',
      enableWebhooks = bool_var fs ''enable-webhooks'',
      zarfSidecarAddr = string_var fs ''zarf-sidecar-address'',
      requeueInterval = int_var fs ''requeue-interval'',
      concurrent = int_var fs ''concurrent'',
      otlpEndpoint = string_var fs ''otlp-endpoint''\<rparr>"

subsection \<open>Library calls\<close>

text \<open>A certificate watcher is named by the variable that holds it and its two files; a TLS option is one of
  the closures of the code.\<close>

datatype certWatcher = webhookCertWatcher string string | metricsCertWatcher string string

datatype tls_option = disableHTTP2 | getCertificate certWatcher

record metrics_options =
  ms_BindAddress :: string
  ms_SecureServing :: bool
  ms_FilterProvider :: bool
  ms_TLSOpts :: slice

record mgr_options =
  mg_Metrics :: metrics_options
  mg_HealthProbeBindAddress :: string
  mg_LeaderElection :: bool
  mg_LeaderElectionID :: string
  mg_LeaderElectionReleaseOnCancel :: bool
  mg_WebhookServer :: "slice option"

datatype main_runnable = RunMonitor string | RunWatcher certWatcher

datatype main_call =
    NewExporter string
  | SetTracerProvider string
  | NewCertWatcher certWatcher
  | NewWebhookServer slice
  | GetConfigOrDie
  | NewManager mgr_options
  | IndexField index_key
  | CompleteController int
  | MgrAdd main_runnable
  | CompleteWebhook
  | AddHealthzCheck string
  | AddReadyzCheck string
  | MgrStart
  | TracerShutdown

type_synonym lib_err = "main_call \<Rightarrow> goerr option"

record startup =
  su_calls :: "main_call list"
  su_arrays :: "tls_option arrays"

definition startup0 :: startup where
  "startup0 = \<lparr>su_calls = [], su_arrays = []\<rparr>"

definition called :: "main_call \<Rightarrow> startup \<Rightarrow> startup" where
  "called c st = st\<lparr>su_calls := su_calls st @ [c]\<rparr>"

text \<open>A call whose error ends the process, and how the program goes on otherwise.\<close>

definition must :: "lib_err \<Rightarrow> main_call \<Rightarrow> startup \<Rightarrow> (startup \<Rightarrow> int \<times> startup) \<Rightarrow> int \<times> startup" where
  "must lib c st k = (case lib c of Some err \<Rightarrow> (1, called c st) | None \<Rightarrow> k (called c st))"

subsection \<open>Tracing\<close>

definition initTracerProvider :: "lib_err \<Rightarrow> string \<Rightarrow> string \<Rightarrow> startup \<Rightarrow> goerr option \<times> startup" where
  "initTracerProvider lib endpoint serviceName st =
     (case lib (NewExporter endpoint) of
        Some err \<Rightarrow> (Some err, called (NewExporter endpoint) st)
      | None \<Rightarrow> (None, called (SetTracerProvider serviceName) (called (NewExporter endpoint) st)))"

text \<open>The first result says whether the shutdown of the provider was deferred.\<close>

definition startTracing :: "lib_err \<Rightarrow> operator_flags \<Rightarrow> startup \<Rightarrow> bool \<times> startup" where
  "startTracing lib f st =
     (if otlpEndpoint f \<noteq> [] then
        (case initTracerProvider lib (otlpEndpoint f) ''zarf-operator-manager'' st of
           (Some err, st') \<Rightarrow> (False, st')
         | (None, st') \<Rightarrow> (True, st'))
      else (False, st))"

subsection \<open>TLS options, webhook server, metrics server\<close>

definition append_opt :: "(nat \<Rightarrow> nat \<Rightarrow> nat) \<Rightarrow> slice \<Rightarrow> tls_option \<Rightarrow> startup \<Rightarrow> slice \<times> startup" where
  "append_opt grow s x st =
     (let (A, s') = slice_append grow (su_arrays st) s x in (s', st\<lparr>su_arrays := A\<rparr>))"

definition tlsOptsOf :: "(nat \<Rightarrow> nat \<Rightarrow> nat) \<Rightarrow> operator_flags \<Rightarrow> startup \<Rightarrow> slice \<times> startup" where
  "tlsOptsOf grow f st = (if \<not> enableHTTP2 f then append_opt grow nil_slice disableHTTP2 st else (nil_slice, st))"

definition webhookWatcherOf :: "operator_flags \<Rightarrow> certWatcher" where
  "webhookWatcherOf f =
     webhookCertWatcher (filepath_Join2 (webhookCertPath f) (webhookCertName f))
                        (filepath_Join2 (webhookCertPath f) (webhookCertKey f))"

definition metricsWatcherOf :: "operator_flags \<Rightarrow> certWatcher" where
  "metricsWatcherOf f =
     metricsCertWatcher (filepath_Join2 (metricsCertPath f) (metricsCertName f))
                        (filepath_Join2 (metricsCertPath f) (metricsCertKey f))"

text \<open>\<^const>\<open>Inl\<close> is the exit on an error of \<^verbatim>\<open>certwatcher.New\<close>; otherwise the watcher and the options of the server,
  both nil without webhooks.\<close>

definition webhookServerOf ::
  "(nat \<Rightarrow> nat \<Rightarrow> nat) \<Rightarrow> lib_err \<Rightarrow> operator_flags \<Rightarrow> slice \<Rightarrow> startup \<Rightarrow>
   startup + (certWatcher option \<times> slice option \<times> startup)" where
  "webhookServerOf grow lib f tlsOpts st =
     (let webhookTLSOpts = tlsOpts in
      if enableWebhooks f then
        if 0 < length (webhookCertPath f) then
          let w = webhookWatcherOf f; st1 = called (NewCertWatcher w) st in
          (case lib (NewCertWatcher w) of
             Some err \<Rightarrow> Inl st1
           | None \<Rightarrow>
               let (webhookTLSOpts, st2) = append_opt grow webhookTLSOpts (getCertificate w) st1
               in Inr (Some w, Some webhookTLSOpts, called (NewWebhookServer webhookTLSOpts) st2))
        else Inr (None, Some webhookTLSOpts, called (NewWebhookServer webhookTLSOpts) st)
      else Inr (None, None, st))"

definition metricsServerOptions :: 
  "(nat \<Rightarrow> nat \<Rightarrow> nat) \<Rightarrow> lib_err \<Rightarrow> operator_flags \<Rightarrow> slice \<Rightarrow> startup \<Rightarrow>
   startup + (certWatcher option \<times> metrics_options \<times> startup)" where
  "metricsServerOptions grow lib f tlsOpts st =
     (let opts = \<lparr>ms_BindAddress = metricsAddr f, ms_SecureServing = secureMetrics f, ms_FilterProvider = False,
                  ms_TLSOpts = tlsOpts\<rparr>;
          opts = (if secureMetrics f then opts\<lparr>ms_FilterProvider := True\<rparr> else opts)
      in if 0 < length (metricsCertPath f) then
           let w = metricsWatcherOf f; st1 = called (NewCertWatcher w) st in
           (case lib (NewCertWatcher w) of
              Some err \<Rightarrow> Inl st1
            | None \<Rightarrow>
                let (s, st2) = append_opt grow (ms_TLSOpts opts) (getCertificate w) st1
                in Inr (Some w, opts\<lparr>ms_TLSOpts := s\<rparr>, st2))
         else Inr (None, opts, st))"

definition mgrOptions :: "operator_flags \<Rightarrow> metrics_options \<Rightarrow> slice option \<Rightarrow> mgr_options" where
  "mgrOptions f metrics webhookServer =
     (let opts = \<lparr>mg_Metrics = metrics, mg_HealthProbeBindAddress = probeAddr f,
                  mg_LeaderElection = enableLeaderElection f, mg_LeaderElectionID = ''6e470701.zarf.dev'',
                  mg_LeaderElectionReleaseOnCancel = True, mg_WebhookServer = None\<rparr>
      in if enableWebhooks f then opts\<lparr>mg_WebhookServer := webhookServer\<rparr> else opts)"

subsection \<open>The controller\<close>

definition operator_reconciler :: "operator_flags \<Rightarrow> reconciler" where
  "operator_reconciler f =
     \<lparr>r_RequeueInterval = requeueInterval f, r_MaxConcurrentReconciles = concurrent f, r_recorder = False,
      r_ZarfClient = False, r_OCITagResolver = None, r_helmReleaseExistsFn = None,
      r_helmReleaseStatusFn = None, r_fixStuckHelmReleaseFn = None\<rparr>"

fun indexFields :: "lib_err \<Rightarrow> index_key list \<Rightarrow> startup \<Rightarrow> goerr option \<times> startup" where
  "indexFields lib [] st = (None, st)"
| "indexFields lib (k # ks) st =
     (case lib (IndexField k) of
        Some err \<Rightarrow> (Some err, called (IndexField k) st)
      | None \<Rightarrow> indexFields lib ks (called (IndexField k) st))"

definition SetupWithManager :: "lib_err \<Rightarrow> reconciler \<Rightarrow> startup \<Rightarrow> goerr option \<times> reconciler \<times> startup" where
  "SetupWithManager lib r st =
     (let r = r\<lparr>r_recorder := True\<rparr> in
      case indexFields lib [registrySecretRefKey, clusterSecretRefKey, initCredentialsSecretRefKey, dependsOnRefKey] st of
        (Some err, st') \<Rightarrow> (Some err, r, st')
      | (None, st') \<Rightarrow>
          let c = CompleteController (maxConcurrentReconciles r) in (lib c, r, called c st'))"

subsection \<open>\<^verbatim>\<open>main\<close>\<close>

text \<open>From the manager on: registrations, each of which may end the process, and the run. When it returns
  without an error, so does \<^verbatim>\<open>main\<close>, and the deferred shutdown of the trace provider runs;
  \<^verbatim>\<open>os.Exit\<close> skips it.\<close>

definition runManager :: "lib_err \<Rightarrow> operator_flags \<Rightarrow> bool \<Rightarrow> certWatcher option \<Rightarrow> certWatcher option \<Rightarrow> startup \<Rightarrow> int \<times> startup" where
  "runManager lib f traced mw ww st =
     (case SetupWithManager lib (operator_reconciler f) st of
        (Some err, r, st1) \<Rightarrow> (1, st1)
      | (None, r, st1) \<Rightarrow>
          must lib (MgrAdd (RunMonitor (zarfSidecarAddr f))) st1 (\<lambda>st2.
          (if enableWebhooks f then must lib CompleteWebhook st2 else (\<lambda>k. k st2)) (\<lambda>st3.
          (case mw of Some w \<Rightarrow> must lib (MgrAdd (RunWatcher w)) st3 | None \<Rightarrow> (\<lambda>k. k st3)) (\<lambda>st4.
          (case ww of Some w \<Rightarrow> must lib (MgrAdd (RunWatcher w)) st4 | None \<Rightarrow> (\<lambda>k. k st4)) (\<lambda>st5.
          must lib (AddHealthzCheck ''healthz'') st5 (\<lambda>st6.
          must lib (AddReadyzCheck ''readyz'') st6 (\<lambda>st7.
          must lib MgrStart st7 (\<lambda>st8. (0, if traced then called TracerShutdown st8 else st8)))))))))"

definition operator_main :: "(nat \<Rightarrow> nat \<Rightarrow> nat) \<Rightarrow> lib_err \<Rightarrow> operator_flags \<Rightarrow> int \<times> startup" where
  "operator_main grow lib f =
     (let (traced, st1) = startTracing lib f startup0;
          (tlsOpts, st2) = tlsOptsOf grow f st1
      in case webhookServerOf grow lib f tlsOpts st2 of
           Inl st \<Rightarrow> (1, st)
         | Inr (ww, webhookServer, st3) \<Rightarrow>
             (case metricsServerOptions grow lib f tlsOpts st3 of
                Inl st \<Rightarrow> (1, st)
              | Inr (mw, metrics, st4) \<Rightarrow>
                  must lib GetConfigOrDie st4 (\<lambda>st5.
                  must lib (NewManager (mgrOptions f metrics webhookServer)) st5 (\<lambda>st6.
                  runManager lib f traced mw ww st6))))"

text \<open>The process: a bad command line ends it before anything else happens.\<close>

definition operator_process :: "(nat \<Rightarrow> nat \<Rightarrow> nat) \<Rightarrow> lib_err \<Rightarrow> flagset \<Rightarrow> string list \<Rightarrow> int \<times> startup" where
  "operator_process grow lib extern args =
     (case flag_Parse (operator_flagset operator_defaults @ extern) args of
        Inl err \<Rightarrow> (flag_exit err, startup0)
      | Inr (fs, rest) \<Rightarrow> operator_main grow lib (operator_vars fs))"

subsection \<open>The command line\<close>

lemma operator_vars_flagset: "operator_vars (operator_flagset f @ extern) = f"
  by (simp add: operator_vars_def operator_flagset_def string_var_def bool_var_def int_var_def)

lemma operator_flag_names: "map fst (operator_flagset f) = map fst (operator_flagset g)"
  by (simp add: operator_flagset_def)

lemma operator_flag_names_ok:
  "distinct (map fst (operator_flagset f)) \<and> list_all name_ok (map fst (operator_flagset f))"
proof -
  have "distinct (map fst (operator_flagset operator_defaults)) \<and>
      list_all name_ok (map fst (operator_flagset operator_defaults))"
    by code_simp
  then show ?thesis using operator_flag_names [of f operator_defaults] by simp
qed

text \<open>A command line written from settings configures exactly these settings, whatever other packages have
  registered.\<close>

lemma operator_flags_round_trip:
  assumes "0 \<le> requeueInterval f" "int64_range (requeueInterval f)" "int64_range (concurrent f)"
  shows "operator_process grow lib extern (map flag_arg (operator_flagset f)) = operator_main grow lib f"
proof -
  have kinds: "list_all2 (\<lambda>(k, old) (k', v). k = k' \<and> same_kind old v) (operator_flagset operator_defaults) (operator_flagset f)"
    by (simp add: operator_flagset_def)
  have "list_all (\<lambda>(k, v). flag_ok v) (operator_flagset f)"
    using assms by (simp add: operator_flagset_def)
  then have ok: "list_all (\<lambda>(k, v). name_ok k \<and> flag_ok v) (operator_flagset f)"
    using operator_flag_names_ok [of f] by (auto simp: list_all_iff)
  have "flag_Parse (operator_flagset operator_defaults @ extern) (map flag_arg (operator_flagset f)) =
      Inr (operator_flagset f @ extern, [])"
    using parse_flag_args [OF kinds ok, of "[]" extern] operator_flag_names_ok [of f] by simp
  then show ?thesis by (simp add: operator_process_def operator_vars_flagset)
qed

lemma same_kind_iff:
  "same_kind (StringFlag s) v \<longleftrightarrow> (\<exists>t. v = StringFlag t)" "same_kind (BoolFlag b) v \<longleftrightarrow> (\<exists>c. v = BoolFlag c)"
  "same_kind (IntFlag i) v \<longleftrightarrow> (\<exists>j. v = IntFlag j)" "same_kind (DurationFlag d) v \<longleftrightarrow> (\<exists>e. v = DurationFlag e)"
  by (cases v; simp)+

lemma flagset_of_vars:
  "list_all2 same_type (operator_flagset f) fs \<Longrightarrow> fs = operator_flagset (operator_vars fs)"
  unfolding operator_flagset_def [of f] list_all2_Cons1 list_all2_Nil
  by (auto simp: same_type_def same_kind_iff) (simp_all add: operator_flagset_def operator_vars_def string_var_def bool_var_def int_var_def)


subsection \<open>The order of start-up\<close>

text \<open>The calls that only return a value cannot fail.\<close>

fun fatal :: "lib_err \<Rightarrow> main_call \<Rightarrow> bool" where
  "fatal lib (NewWebhookServer _) = False"
| "fatal lib c = (lib c \<noteq> None)"

text \<open>Following a plan: its calls up to the first fatal one, or all of them and then \<open>fin\<close>.\<close>

fun follow :: "lib_err \<Rightarrow> main_call list \<Rightarrow> main_call list \<Rightarrow> int \<times> main_call list" where
  "follow lib [] fin = (0, fin)"
| "follow lib (c # cs) fin =
     (if fatal lib c then (1, [c]) else (fst (follow lib cs fin), c # snd (follow lib cs fin)))"

definition report :: "main_call list \<Rightarrow> int \<times> main_call list \<Rightarrow> int \<times> main_call list" where
  "report before r = (fst r, before @ snd r)"

definition calls_of :: "int \<times> startup \<Rightarrow> int \<times> main_call list" where
  "calls_of r = (fst r, su_calls (snd r))"

definition certWatcherPlan :: "bool \<Rightarrow> certWatcher \<Rightarrow> main_call list" where
  "certWatcherPlan b w = (if b then [NewCertWatcher w] else [])"

definition registrationPlan :: "operator_flags \<Rightarrow> certWatcher option \<Rightarrow> certWatcher option \<Rightarrow> main_call list" where
  "registrationPlan f mw ww =
     map IndexField [registrySecretRefKey, clusterSecretRefKey, initCredentialsSecretRefKey, dependsOnRefKey] @
     [CompleteController (max 1 (concurrent f)), MgrAdd (RunMonitor (zarfSidecarAddr f))] @
     (if enableWebhooks f then [CompleteWebhook] else []) @
     (case mw of None \<Rightarrow> [] | Some w \<Rightarrow> [MgrAdd (RunWatcher w)]) @
     (case ww of None \<Rightarrow> [] | Some w \<Rightarrow> [MgrAdd (RunWatcher w)]) @
     [AddHealthzCheck ''healthz'', AddReadyzCheck ''readyz'', MgrStart]"

text \<open>The whole plan, given the options of the webhook server and of the manager.\<close>

definition startupPlan :: "operator_flags \<Rightarrow> slice \<Rightarrow> mgr_options \<Rightarrow> main_call list" where
  "startupPlan f ws mo =
     (if enableWebhooks f
      then certWatcherPlan (webhookCertPath f \<noteq> []) (webhookWatcherOf f) @ [NewWebhookServer ws]
      else []) @
     certWatcherPlan (metricsCertPath f \<noteq> []) (metricsWatcherOf f) @
     [GetConfigOrDie, NewManager mo] @
     registrationPlan f
       (if metricsCertPath f = [] then None else Some (metricsWatcherOf f))
       (if enableWebhooks f \<and> webhookCertPath f \<noteq> [] then Some (webhookWatcherOf f) else None)"

definition tracingCalls :: "lib_err \<Rightarrow> operator_flags \<Rightarrow> main_call list" where
  "tracingCalls lib f =
     (if otlpEndpoint f = [] then []
      else NewExporter (otlpEndpoint f) #
        (if lib (NewExporter (otlpEndpoint f)) = None then [SetTracerProvider ''zarf-operator-manager''] else []))"

definition tracing :: "lib_err \<Rightarrow> operator_flags \<Rightarrow> bool" where
  "tracing lib f \<longleftrightarrow> otlpEndpoint f \<noteq> [] \<and> lib (NewExporter (otlpEndpoint f)) = None"

lemma su_calls_called [simp]: "su_calls (called c st) = su_calls st @ [c]" "su_arrays (called c st) = su_arrays st"
  by (simp_all add: called_def)

lemma must_follow:
  assumes "\<And>st. calls_of (k st) = report (su_calls st) (follow lib cs fin)" and "fatal lib c = (lib c \<noteq> None)"
  shows "calls_of (must lib c st k) = report (su_calls st) (follow lib (c # cs) fin)"
  using assms by (auto simp: must_def calls_of_def report_def split: option.splits)

lemma if_must_follow:
  assumes "\<And>st. calls_of (k st) = report (su_calls st) (follow lib cs fin)" and "fatal lib c = (lib c \<noteq> None)"
  shows "calls_of ((if b then must lib c st else (\<lambda>k. k st)) k) =
    report (su_calls st) (follow lib ((if b then [c] else []) @ cs) fin)"
  using assms must_follow [OF assms] by simp

lemma case_must_follow:
  assumes "\<And>st. calls_of (k st) = report (su_calls st) (follow lib cs fin)"
  shows "calls_of ((case w of Some w \<Rightarrow> must lib (MgrAdd (RunWatcher w)) st | None \<Rightarrow> (\<lambda>k. k st)) k) =
    report (su_calls st) (follow lib ((case w of None \<Rightarrow> [] | Some w \<Rightarrow> [MgrAdd (RunWatcher w)]) @ cs) fin)"
  using assms must_follow [OF assms] by (simp split: option.split)

lemma indexFields_follow:
  assumes "indexFields lib ks st = (e, st')"
  shows "(e = None \<longrightarrow> su_calls st' = su_calls st @ map IndexField ks \<and>
           follow lib (map IndexField ks @ cs) fin = report (map IndexField ks) (follow lib cs fin)) \<and>
         (e \<noteq> None \<longrightarrow> (1, su_calls st') = report (su_calls st) (follow lib (map IndexField ks @ cs) fin))"
  using assms by (induction ks arbitrary: st) (auto simp: report_def split: option.splits)

lemma runManager_follow:
  "calls_of (runManager lib f traced mw ww st) =
     report (su_calls st) (follow lib (registrationPlan f mw ww) (if traced then [TracerShutdown] else []))"
proof -
  define fin where "fin = (if traced then [TracerShutdown] else [])"
  define keys where "keys = [registrySecretRefKey, clusterSecretRefKey, initCredentialsSecretRefKey, dependsOnRefKey]"
  define r where "r = (operator_reconciler f)\<lparr>r_recorder := True\<rparr>"
  define c where "c = CompleteController (max 1 (concurrent f))"
  define rest where "rest = [MgrAdd (RunMonitor (zarfSidecarAddr f))] @
     (if enableWebhooks f then [CompleteWebhook] else []) @
     (case mw of None \<Rightarrow> [] | Some w \<Rightarrow> [MgrAdd (RunWatcher w)]) @
     (case ww of None \<Rightarrow> [] | Some w \<Rightarrow> [MgrAdd (RunWatcher w)]) @
     [AddHealthzCheck ''healthz'', AddReadyzCheck ''readyz'', MgrStart]"
  define go where "go = (\<lambda>st1. must lib (MgrAdd (RunMonitor (zarfSidecarAddr f))) st1 (\<lambda>st2.
          (if enableWebhooks f then must lib CompleteWebhook st2 else (\<lambda>k. k st2)) (\<lambda>st3.
          (case mw of Some w \<Rightarrow> must lib (MgrAdd (RunWatcher w)) st3 | None \<Rightarrow> (\<lambda>k. k st3)) (\<lambda>st4.
          (case ww of Some w \<Rightarrow> must lib (MgrAdd (RunWatcher w)) st4 | None \<Rightarrow> (\<lambda>k. k st4)) (\<lambda>st5.
          must lib (AddHealthzCheck ''healthz'') st5 (\<lambda>st6.
          must lib (AddReadyzCheck ''readyz'') st6 (\<lambda>st7.
          must lib MgrStart st7 (\<lambda>st8. (0, if traced then called TracerShutdown st8 else st8)))))))))"
  have go: "calls_of (go st1) = report (su_calls st1) (follow lib rest fin)" for st1
    unfolding go_def rest_def append_Cons append_Nil
    by (intro must_follow if_must_follow case_must_follow) (simp_all add: calls_of_def report_def fin_def)
  have complete: "maxConcurrentReconciles r = max 1 (concurrent f)"
    by (simp add: r_def operator_reconciler_def maxConcurrentReconciles_def)
  have run: "runManager lib f traced mw ww st =
      (case indexFields lib keys st of
         (Some err, st') \<Rightarrow> (1, st')
       | (None, st') \<Rightarrow> if lib c = None then go (called c st') else (1, called c st'))"
    unfolding runManager_def SetupWithManager_def go_def c_def
    by (simp add: Let_def keys_def complete flip: r_def split: prod.split option.split)
  have plan: "registrationPlan f mw ww = map IndexField keys @ c # rest"
    by (simp add: registrationPlan_def keys_def c_def rest_def)
  obtain e st' where e: "indexFields lib keys st = (e, st')" by (cases "indexFields lib keys st")
  have "fatal lib c = (lib c \<noteq> None)" by (simp add: c_def)
  then show ?thesis
    using indexFields_follow [OF e, of "c # rest" fin] go [of "called c st'"]
    unfolding run plan fin_def [symmetric]
    by (auto simp: e calls_of_def report_def split: option.splits)
qed

lemma follow_cases:
  assumes "follow lib cs fin = (code, calls)"
  shows "(code = 0 \<and> (\<forall>c\<in>set cs. \<not> fatal lib c) \<and> calls = cs @ fin) \<or>
    (\<exists>earlier c later. code = 1 \<and> cs = earlier @ c # later \<and> fatal lib c \<and>
       (\<forall>d\<in>set earlier. \<not> fatal lib d) \<and> calls = earlier @ [c])"
  using assms
proof (induction cs arbitrary: calls)
  case (Cons c cs)
  show ?case
  proof (cases "fatal lib c")
    case True
    with Cons.prems show ?thesis by (intro disjI2 exI [of _ "[]"]) auto
  next
    case False
    with Cons.prems obtain calls' where f: "follow lib cs fin = (code, calls')" and calls: "calls = c # calls'"
      by (cases "follow lib cs fin") auto
    from Cons.IH [OF f] show ?thesis
    proof (elim disjE exE conjE)
      fix earlier d later
      assume "code = 1" "cs = earlier @ d # later" "fatal lib d" "\<forall>d\<in>set earlier. \<not> fatal lib d" "calls' = earlier @ [d]"
      with False calls show ?thesis by (intro disjI2 exI [of _ "c # earlier"] exI [of _ d] exI [of _ later]) simp
    qed (use False calls in simp)
  qed
qed simp

lemma startTracing_calls:
  "startTracing lib f startup0 = (tracing lib f, \<lparr>su_calls = tracingCalls lib f, su_arrays = []\<rparr>)"
  by (auto simp: startTracing_def initTracerProvider_def tracing_def tracingCalls_def startup0_def called_def
      split: option.splits)

lemma follow_append: "list_all (\<lambda>c. \<not> fatal lib c) xs \<Longrightarrow> follow lib (xs @ cs) fin = report xs (follow lib cs fin)"
  by (induction xs) (auto simp: report_def)

lemma report_report: "report xs (report ys r) = report (xs @ ys) r"
  by (simp add: report_def)

text \<open>The parts of the plan that the two servers contribute.\<close>

definition webhookPlan :: "operator_flags \<Rightarrow> slice \<Rightarrow> main_call list" where
  "webhookPlan f ws =
     (if enableWebhooks f
      then certWatcherPlan (webhookCertPath f \<noteq> []) (webhookWatcherOf f) @ [NewWebhookServer ws] else [])"

lemma webhookServerOf_follow:
  "(\<exists>st'. webhookServerOf grow lib f t st = Inl st' \<and>
     (\<forall>ws cs fin. (1, su_calls st') = report (su_calls st) (follow lib (webhookPlan f ws @ cs) fin))) \<or>
   (\<exists>ws st'. webhookServerOf grow lib f t st =
       Inr (if enableWebhooks f \<and> webhookCertPath f \<noteq> [] then Some (webhookWatcherOf f) else None,
            if enableWebhooks f then Some ws else None, st') \<and>
     su_calls st' = su_calls st @ webhookPlan f ws \<and> list_all (\<lambda>c. \<not> fatal lib c) (webhookPlan f ws))"
  by (auto simp: webhookServerOf_def webhookPlan_def certWatcherPlan_def append_opt_def Let_def case_prod_beta report_def
      split: option.split)

lemma metricsServerOptions_follow:
  "(\<exists>st'. metricsServerOptions grow lib f t st = Inl st' \<and>
     (\<forall>cs fin. (1, su_calls st') =
        report (su_calls st) (follow lib (certWatcherPlan (metricsCertPath f \<noteq> []) (metricsWatcherOf f) @ cs) fin))) \<or>
   (\<exists>m st'. metricsServerOptions grow lib f t st =
       Inr (if metricsCertPath f = [] then None else Some (metricsWatcherOf f), m, st') \<and>
     su_calls st' = su_calls st @ certWatcherPlan (metricsCertPath f \<noteq> []) (metricsWatcherOf f) \<and>
     list_all (\<lambda>c. \<not> fatal lib c) (certWatcherPlan (metricsCertPath f \<noteq> []) (metricsWatcherOf f)) \<and>
     ms_BindAddress m = metricsAddr f \<and> ms_SecureServing m = secureMetrics f \<and> ms_FilterProvider m = secureMetrics f)"
  by (auto simp: metricsServerOptions_def certWatcherPlan_def append_opt_def Let_def case_prod_beta report_def
      split: option.split)

lemma manager_follow:
  "calls_of (must lib GetConfigOrDie st (\<lambda>st5. must lib (NewManager mo) st5 (\<lambda>st6. runManager lib f traced mw ww st6))) =
     report (su_calls st) (follow lib (GetConfigOrDie # NewManager mo # registrationPlan f mw ww)
       (if traced then [TracerShutdown] else []))"
  by (intro must_follow runManager_follow) simp_all

definition metrics_for :: "operator_flags \<Rightarrow> metrics_options \<Rightarrow> bool" where
  "metrics_for f m \<longleftrightarrow>
     ms_BindAddress m = metricsAddr f \<and> ms_SecureServing m = secureMetrics f \<and> ms_FilterProvider m = secureMetrics f"

text \<open>The part of \<^verbatim>\<open>main\<close> before the manager: either a certificate watcher fails, or the options are built.\<close>

lemma operator_main_follow:
  "\<exists>ws m. metrics_for f m \<and>
     calls_of (operator_main grow lib f) =
       report (tracingCalls lib f)
         (follow lib (startupPlan f ws (mgrOptions f m (if enableWebhooks f then Some ws else None)))
           (if tracing lib f then [TracerShutdown] else []))"
proof -
  let ?fin = "if tracing lib f then [TracerShutdown] else []"
  let ?mp = "certWatcherPlan (metricsCertPath f \<noteq> []) (metricsWatcherOf f)"
  let ?mw = "if metricsCertPath f = [] then None else Some (metricsWatcherOf f)"
  let ?ww = "if enableWebhooks f \<and> webhookCertPath f \<noteq> [] then Some (webhookWatcherOf f) else None"
  let ?m0 = "\<lparr>ms_BindAddress = metricsAddr f, ms_SecureServing = secureMetrics f, ms_FilterProvider = secureMetrics f, ms_TLSOpts = nil_slice\<rparr>"
  obtain t st2 where t: "tlsOptsOf grow f \<lparr>su_calls = tracingCalls lib f, su_arrays = []\<rparr> = (t, st2)"
    by (cases "tlsOptsOf grow f \<lparr>su_calls = tracingCalls lib f, su_arrays = []\<rparr>")
  then have c2: "su_calls st2 = tracingCalls lib f"
    by (auto simp: tlsOptsOf_def append_opt_def case_prod_beta split: if_splits)
  have m0: "metrics_for f ?m0" by (simp add: metrics_for_def)
  note main = operator_main_def startTracing_calls t
  note plan = startupPlan_def webhookPlan_def [symmetric]
  from webhookServerOf_follow [of grow lib f t st2] show ?thesis
  proof (elim disjE exE conjE)
    fix st' assume w: "webhookServerOf grow lib f t st2 = Inl st'"
      and fol: "\<forall>ws cs fin. (1, su_calls st') = report (su_calls st2) (follow lib (webhookPlan f ws @ cs) fin)"
    have "calls_of (operator_main grow lib f) = (1, su_calls st')" by (simp add: main w calls_of_def)
    then show ?thesis using m0 fol unfolding plan c2 by auto
  next
    fix ws st3 assume w: "webhookServerOf grow lib f t st2 = Inr (?ww, if enableWebhooks f then Some ws else None, st3)"
      and c3: "su_calls st3 = su_calls st2 @ webhookPlan f ws" and ok: "list_all (\<lambda>c. \<not> fatal lib c) (webhookPlan f ws)"
    from metricsServerOptions_follow [of grow lib f t st3] show ?thesis
    proof (elim disjE exE conjE)
      fix st' assume m: "metricsServerOptions grow lib f t st3 = Inl st'"
        and fol: "\<forall>cs fin. (1, su_calls st') = report (su_calls st3) (follow lib (?mp @ cs) fin)"
      have "calls_of (operator_main grow lib f) = (1, su_calls st')" by (simp add: main w m calls_of_def)
      then show ?thesis using m0 fol follow_append [OF ok] unfolding plan
        by (intro exI [of _ ws] exI [of _ ?m0]) (simp add: c2 c3 report_report)
    next
      fix m st4 assume m: "metricsServerOptions grow lib f t st3 = Inr (?mw, m, st4)"
        and c4: "su_calls st4 = su_calls st3 @ ?mp" and ok': "list_all (\<lambda>c. \<not> fatal lib c) ?mp"
        and fields: "ms_BindAddress m = metricsAddr f" "ms_SecureServing m = secureMetrics f" "ms_FilterProvider m = secureMetrics f"
      let ?mo = "mgrOptions f m (if enableWebhooks f then Some ws else None)"
      have "operator_main grow lib f = must lib GetConfigOrDie st4 (\<lambda>st5. must lib (NewManager ?mo) st5 (\<lambda>st6.
          runManager lib f (tracing lib f) ?mw ?ww st6))"
        by (simp add: main w m)
      then have "calls_of (operator_main grow lib f) =
          report (su_calls st4) (follow lib (GetConfigOrDie # NewManager ?mo # registrationPlan f ?mw ?ww) ?fin)"
        by (simp only: manager_follow)
      then show ?thesis using fields follow_append [OF ok] follow_append [OF ok'] unfolding plan
        by (intro exI [of _ ws] exI [of _ m]) (simp add: c2 c3 c4 report_report metrics_for_def)
    qed
  qed
qed

text \<open>
  Property C16. The operator starts in order and stops at the first failure: its calls follow the plan that the
  flags determine (certificates and webhook server, metrics server, manager with these options, field
  indexes, controller, connection monitor, webhook, watchers, health and readiness checks, run). Either all
  succeed, the manager has run to its end and the process returns 0 with tracing shut down; or the process
  exits with 1 right after the first call that failed and makes no further call. A failing trace exporter
  is no reason to stop.
\<close>

theorem operator_starts_in_order:
  "\<exists>ws m code st. operator_main grow lib f = (code, st) \<and> metrics_for f m \<and>
     (let plan = startupPlan f ws (mgrOptions f m (if enableWebhooks f then Some ws else None)) in
      code = 0 \<and> (\<forall>c\<in>set plan. \<not> fatal lib c) \<and>
        su_calls st = tracingCalls lib f @ plan @ (if tracing lib f then [TracerShutdown] else []) \<or>
      (\<exists>earlier c later. code = 1 \<and> plan = earlier @ c # later \<and> fatal lib c \<and>
        (\<forall>d\<in>set earlier. \<not> fatal lib d) \<and> su_calls st = tracingCalls lib f @ earlier @ [c]))"
proof -
  let ?fin = "if tracing lib f then [TracerShutdown] else []"
  obtain ws m where m: "metrics_for f m" and run: "calls_of (operator_main grow lib f) =
      report (tracingCalls lib f) (follow lib (startupPlan f ws (mgrOptions f m (if enableWebhooks f then Some ws else None))) ?fin)"
    using operator_main_follow by blast
  obtain code st where main: "operator_main grow lib f = (code, st)" by (cases "operator_main grow lib f")
  obtain calls where fol: "follow lib (startupPlan f ws (mgrOptions f m (if enableWebhooks f then Some ws else None))) ?fin = (code, calls)"
    and calls: "su_calls st = tracingCalls lib f @ calls"
    using run main by (cases "follow lib (startupPlan f ws (mgrOptions f m (if enableWebhooks f then Some ws else None))) ?fin")
      (auto simp: calls_of_def report_def)
  show ?thesis
    using m main calls follow_cases [OF fol] unfolding Let_def
    by (intro exI [of _ ws] exI [of _ m] exI [of _ code] exI [of _ st]) blast
qed

text \<open>A run of the manager with the default flags in which \<^verbatim>\<open>SetupWithManager\<close> cannot complete.\<close>

definition wit_lib :: lib_err where
  "wit_lib c = (if c = CompleteController 5 then Some (ErrorString ''no kind match'') else None)"

theorem operator_starts_in_order_witness:
  "\<exists>st. operator_main nextslicecap wit_lib operator_defaults = (1, st) \<and>
     CompleteController 5 \<in> set (su_calls st) \<and> MgrStart \<notin> set (su_calls st)"
proof -
  have p: "CompleteController 5 \<in> set (startupPlan operator_defaults ws mo)" for ws mo
    by (simp add: startupPlan_def registrationPlan_def operator_defaults_def)
  have c: "fatal wit_lib c \<longleftrightarrow> c = CompleteController 5" for c by (cases c) (auto simp: wit_lib_def)
  have t: "tracingCalls wit_lib operator_defaults = []" by (simp add: tracingCalls_def operator_defaults_def)
  have once: "MgrStart \<notin> set earlier" if "startupPlan operator_defaults ws mo = earlier @ CompleteController 5 # later"
    for ws mo earlier later
  proof -
    have "distinct (startupPlan operator_defaults ws mo)" "last (startupPlan operator_defaults ws mo) = MgrStart"
      by (simp_all add: startupPlan_def registrationPlan_def operator_defaults_def certWatcherPlan_def)
    with that show ?thesis by (cases later rule: rev_cases) auto
  qed
  from operator_starts_in_order [of nextslicecap wit_lib operator_defaults] p once show ?thesis
    unfolding Let_def c t by fastforce
qed

subsection \<open>The certificates of the two servers\<close>

text \<open>What a server does with its options when it starts: it applies them to its TLS configuration in order;
  \<^const>\<open>None\<close> is the panic of calling a nil function.\<close>

record tls_config =
  tc_NextProtos :: "string list"
  tc_GetCertificate :: "certWatcher option"

fun apply_option :: "tls_option option \<Rightarrow> tls_config \<Rightarrow> tls_config option" where
  "apply_option (Some disableHTTP2) c = Some (c\<lparr>tc_NextProtos := [''http/1.1'']\<rparr>)"
| "apply_option (Some (getCertificate w)) c = Some (c\<lparr>tc_GetCertificate := Some w\<rparr>)"
| "apply_option None c = None"

fun apply_options :: "tls_option option list \<Rightarrow> tls_config \<Rightarrow> tls_config option" where
  "apply_options [] c = Some c"
| "apply_options (x # xs) c = (case apply_option x c of None \<Rightarrow> None | Some c' \<Rightarrow> apply_options xs c')"

definition server_tls :: "startup \<Rightarrow> slice \<Rightarrow> tls_config \<Rightarrow> tls_config option" where
  "server_tls st s base = apply_options (slice_content (su_arrays st) s) base"

text \<open>What a server should be configured with: HTTP/2 only on request, and the certificate of its own
  flags, if any.\<close>

definition intended_tls :: "operator_flags \<Rightarrow> string \<Rightarrow> certWatcher \<Rightarrow> tls_config \<Rightarrow> tls_config" where
  "intended_tls f path w base =
     base\<lparr>tc_NextProtos := if enableHTTP2 f then tc_NextProtos base else [''http/1.1''],
          tc_GetCertificate := if path = [] then tc_GetCertificate base else Some w\<rparr>"

lemma must_arrays:
  "(\<And>st. su_arrays (snd (k st)) = su_arrays st) \<Longrightarrow> su_arrays (snd (must lib c st k)) = su_arrays st"
  by (simp add: must_def split: option.split)

lemma if_must_arrays:
  "(\<And>st. su_arrays (snd (k st)) = su_arrays st) \<Longrightarrow>
   su_arrays (snd ((if b then must lib c st else (\<lambda>k. k st)) k)) = su_arrays st"
  by (simp add: must_arrays)

lemma case_must_arrays:
  "(\<And>st. su_arrays (snd (k st)) = su_arrays st) \<Longrightarrow>
   su_arrays (snd ((case w of Some w \<Rightarrow> must lib (g w) st | None \<Rightarrow> (\<lambda>k. k st)) k)) = su_arrays st"
  by (simp add: must_arrays split: option.split)

lemma indexFields_arrays: "indexFields lib ks st = (e, st') \<Longrightarrow> su_arrays st' = su_arrays st"
  by (induction ks arbitrary: st) (auto split: option.splits)

lemma runManager_arrays: "su_arrays (snd (runManager lib f traced mw ww st)) = su_arrays st"
proof -
  obtain e r st1 where s: "SetupWithManager lib (operator_reconciler f) st = (e, r, st1)"
    by (cases "SetupWithManager lib (operator_reconciler f) st")
  then have st1: "su_arrays st1 = su_arrays st"
    by (auto simp: SetupWithManager_def Let_def dest: indexFields_arrays split: prod.splits option.splits)
  show ?thesis
  proof (cases e)
    case None
    show ?thesis
      unfolding runManager_def s None option.case prod.case st1 [symmetric]
      by (intro must_arrays if_must_arrays case_must_arrays) simp
  qed (simp add: runManager_def s st1)
qed

lemma follow_calls: "set (snd (follow lib cs fin)) \<subseteq> set cs \<union> set fin"
  by (induction cs) auto

lemma webhookServerOf_no_manager:
  "webhookServerOf grow lib f t st = Inl st' \<Longrightarrow> NewManager mo \<in> set (su_calls st') \<Longrightarrow> NewManager mo \<in> set (su_calls st)"
  "webhookServerOf grow lib f t st = Inr (ww, srv, st') \<Longrightarrow> NewManager mo \<in> set (su_calls st') \<Longrightarrow> NewManager mo \<in> set (su_calls st)"
  by (auto simp: webhookServerOf_def append_opt_def Let_def case_prod_beta split: if_splits option.splits)

lemma metricsServerOptions_no_manager:
  "metricsServerOptions grow lib f t st = Inl st' \<Longrightarrow> NewManager mo \<in> set (su_calls st') \<Longrightarrow> NewManager mo \<in> set (su_calls st)"
  "metricsServerOptions grow lib f t st = Inr (mw, m, st') \<Longrightarrow> NewManager mo \<in> set (su_calls st') \<Longrightarrow> NewManager mo \<in> set (su_calls st)"
  by (auto simp: metricsServerOptions_def append_opt_def Let_def case_prod_beta split: if_splits option.splits)

text \<open>When a manager is created, the options were built as follows.\<close>

lemma operator_main_servers:
  assumes main: "operator_main grow lib f = (code, st)" and mo: "NewManager mo \<in> set (su_calls st)"
  shows "\<exists>t st2 ww srv st3 mw m st4.
    tlsOptsOf grow f \<lparr>su_calls = tracingCalls lib f, su_arrays = []\<rparr> = (t, st2) \<and>
    webhookServerOf grow lib f t st2 = Inr (ww, srv, st3) \<and>
    metricsServerOptions grow lib f t st3 = Inr (mw, m, st4) \<and>
    mo = mgrOptions f m srv \<and> su_arrays st = su_arrays st4"
proof -
  obtain t st2 where t: "tlsOptsOf grow f \<lparr>su_calls = tracingCalls lib f, su_arrays = []\<rparr> = (t, st2)"
    by (cases "tlsOptsOf grow f \<lparr>su_calls = tracingCalls lib f, su_arrays = []\<rparr>")
  then have c2: "NewManager mo \<notin> set (su_calls st2)"
    by (auto simp: tlsOptsOf_def append_opt_def case_prod_beta tracingCalls_def split: if_splits)
  note unf = operator_main_def startTracing_calls t
  show ?thesis
  proof (cases "webhookServerOf grow lib f t st2")
    case (Inl st')
    with main mo c2 show ?thesis by (auto simp: unf dest: webhookServerOf_no_manager)
  next
    case (Inr x)
    obtain ww srv st3 where x: "x = (ww, srv, st3)" by (cases x)
    then have c3: "NewManager mo \<notin> set (su_calls st3)" using Inr c2 webhookServerOf_no_manager(2) by blast
    show ?thesis
    proof (cases "metricsServerOptions grow lib f t st3")
      case (Inl st')
      with main mo Inr x c3 show ?thesis by (auto simp: unf dest: metricsServerOptions_no_manager)
    next
      case m: (Inr y)
      obtain mw m st4 where y: "y = (mw, m, st4)" by (cases y)
      let ?mo = "mgrOptions f m srv" and ?fin = "if tracing lib f then [TracerShutdown] else []"
      have run: "operator_main grow lib f = must lib GetConfigOrDie st4 (\<lambda>st5. must lib (NewManager ?mo) st5 (\<lambda>st6.
          runManager lib f (tracing lib f) mw ww st6))"
        by (simp add: unf Inr x m y)
      then have "calls_of (code, st) =
          report (su_calls st4) (follow lib (GetConfigOrDie # NewManager ?mo # registrationPlan f mw ww) ?fin)"
        using main manager_follow by metis
      then have "set (su_calls st) \<subseteq> set (su_calls st4) \<union> set (GetConfigOrDie # NewManager ?mo # registrationPlan f mw ww) \<union> set ?fin"
        using follow_calls [of lib "GetConfigOrDie # NewManager ?mo # registrationPlan f mw ww" ?fin]
        unfolding calls_of_def report_def by (simp only: prod.inject fst_conv snd_conv set_append) blast
      then have "mo = ?mo" using mo metricsServerOptions_no_manager(2) [of grow lib f t st3] c3 m y
        by (auto simp: registrationPlan_def split: if_splits option.splits)
      moreover have "su_arrays st = su_arrays st4"
        using run main must_arrays runManager_arrays by (metis (no_types, lifting) snd_conv)
      ultimately show ?thesis using t Inr x m y by blast
    qed
  qed
qed

definition http_options :: "operator_flags \<Rightarrow> tls_option option list" where
  "http_options f = (if enableHTTP2 f then [] else [Some disableHTTP2])"

lemma apply_http_options:
  "apply_options (http_options f) base = Some (intended_tls f [] w base)"
  "apply_options (http_options f @ [Some (getCertificate w)]) base = Some (intended_tls f (c # cs) w base)"
  by (simp_all add: http_options_def intended_tls_def)

lemma intended_tls_inj: "intended_tls f (c # cs) w base = intended_tls f (c # cs) w' base \<longleftrightarrow> w = w'"
  by (auto simp: intended_tls_def dest: arg_cong [where f = tc_GetCertificate])

lemma watchers_differ [simp]: "metricsWatcherOf f \<noteq> webhookWatcherOf g"
  by (simp add: metricsWatcherOf_def webhookWatcherOf_def)

context go_append
begin

lemma tlsOptsOf_content:
  assumes "tlsOptsOf grow f st = (t, st2)"
  shows "slice_content (su_arrays st2) t = http_options f" and "slice_ok (su_arrays st2) t"
    and "sl_len t < sl_cap t \<longleftrightarrow> \<not> enableHTTP2 f \<and> 1 < grow 0 1"
proof -
  have "slice_content (su_arrays st2) t = http_options f \<and> slice_ok (su_arrays st2) t \<and>
      (sl_len t < sl_cap t \<longleftrightarrow> \<not> enableHTTP2 f \<and> 1 < grow 0 1)"
  proof (cases "enableHTTP2 f")
    case True
    with assms show ?thesis by (auto simp: tlsOptsOf_def http_options_def) (simp add: nil_slice_def)
  next
    case False
    with assms have "slice_append grow (su_arrays st) nil_slice disableHTTP2 = (su_arrays st2, t)"
      by (auto simp: tlsOptsOf_def append_opt_def case_prod_beta)
    with append_content [OF slice_ok_nil this] False show ?thesis
      by (auto simp: append_nil http_options_def)
  qed
  then show "slice_content (su_arrays st2) t = http_options f" "slice_ok (su_arrays st2) t"
    "sl_len t < sl_cap t \<longleftrightarrow> \<not> enableHTTP2 f \<and> 1 < grow 0 1" by blast+
qed

lemma server_contents:
  assumes t: "tlsOptsOf grow f st = (t, st2)" and w: "webhookServerOf grow lib f t st2 = Inr (ww, srv, st3)"
    and m: "metricsServerOptions grow lib f t st3 = Inr (mw, m, st4)"
  shows "slice_content (su_arrays st4) (ms_TLSOpts m) =
      http_options f @ (if metricsCertPath f = [] then [] else [Some (getCertificate (metricsWatcherOf f))])"
    and "srv = Some s \<Longrightarrow> slice_content (su_arrays st4) s =
      http_options f @ (if webhookCertPath f = [] then []
        else [Some (getCertificate (if metricsCertPath f \<noteq> [] \<and> \<not> enableHTTP2 f \<and> 1 < grow 0 1
                                    then metricsWatcherOf f else webhookWatcherOf f))])"
proof -
  note c = tlsOptsOf_content [OF t]
  have keep: "slice_content A t = http_options f \<and> slice_ok A t"
    if "slice_append grow (su_arrays st2) t x = (A, s')" for A s' x
    using append_keeps [OF c(2) c(2) that] c(1) by simp
  have srv: "srv = None \<and> su_arrays st3 = su_arrays st2 \<or>
      srv = Some t \<and> webhookCertPath f = [] \<and> su_arrays st3 = su_arrays st2 \<or>
      webhookCertPath f \<noteq> [] \<and> (\<exists>s. srv = Some s \<and>
        slice_append grow (su_arrays st2) t (getCertificate (webhookWatcherOf f)) = (su_arrays st3, s))"
    using w by (auto simp: webhookServerOf_def append_opt_def Let_def case_prod_beta split: if_splits option.splits)
  have met: "metricsCertPath f = [] \<and> ms_TLSOpts m = t \<and> su_arrays st4 = su_arrays st3 \<or>
      metricsCertPath f \<noteq> [] \<and>
        slice_append grow (su_arrays st3) t (getCertificate (metricsWatcherOf f)) = (su_arrays st4, ms_TLSOpts m)"
    using m by (auto simp: metricsServerOptions_def append_opt_def Let_def case_prod_beta split: if_splits option.splits)
  have t3: "slice_content (su_arrays st3) t = http_options f" "slice_ok (su_arrays st3) t"
    using srv keep c(1,2) by auto
  show "slice_content (su_arrays st4) (ms_TLSOpts m) =
      http_options f @ (if metricsCertPath f = [] then [] else [Some (getCertificate (metricsWatcherOf f))])"
    using met t3 append_content(1) [OF t3(2)] by auto
  assume s: "srv = Some s"
  show "slice_content (su_arrays st4) s =
      http_options f @ (if webhookCertPath f = [] then []
        else [Some (getCertificate (if metricsCertPath f \<noteq> [] \<and> \<not> enableHTTP2 f \<and> 1 < grow 0 1
                                    then metricsWatcherOf f else webhookWatcherOf f))])"
    using srv
  proof (elim disjE conjE exE)
    assume "srv = Some t" "webhookCertPath f = []" "su_arrays st3 = su_arrays st2"
    with s met t3 append_keeps(1) [OF t3(2) t3(2)] show ?thesis by auto
  next
    fix s' assume w': "webhookCertPath f \<noteq> []" "srv = Some s'"
      "slice_append grow (su_arrays st2) t (getCertificate (webhookWatcherOf f)) = (su_arrays st3, s')"
    with s met c append_content(1) [OF c(2) w'(3)] shared_appends(2) [OF c(2) w'(3)] show ?thesis by auto
  qed (use s in simp)
qed

end

text \<open>
  Property C14. Each server gets the TLS configuration that the flags ask for: without \<^verbatim>\<open>enable-http2\<close> only
  HTTP/1.1, and the certificate of its own flags when they name one. For the metrics server this holds
  always. The options of the webhook server are appended to the same slice as the metrics server's, so for
  it the claim depends on how much room \<^verbatim>\<open>append\<close> leaves: it holds exactly when HTTP/2 is on, one of the
  certificates is not configured, or a new one-element slice is full, as it is with Go's runtime. The webhook
  server exists exactly when webhooks are enabled.
\<close>

theorem servers_get_their_tls:
  assumes "\<And>old need. need \<le> grow old need"
    and "operator_main grow lib f = (code, st)" and "NewManager mo \<in> set (su_calls st)"
  shows "server_tls st (ms_TLSOpts (mg_Metrics mo)) base = Some (intended_tls f (metricsCertPath f) (metricsWatcherOf f) base) \<and>
    (mg_WebhookServer mo \<noteq> None) = enableWebhooks f \<and>
    (\<forall>s. mg_WebhookServer mo = Some s \<longrightarrow>
      (server_tls st s base = Some (intended_tls f (webhookCertPath f) (webhookWatcherOf f) base)) =
      (enableHTTP2 f \<or> webhookCertPath f = [] \<or> metricsCertPath f = [] \<or> grow 0 1 = 1))"
proof -
  have g: "go_append grow" using assms(1) by unfold_locales
  obtain t st2 ww srv st3 mw m st4 where
      t: "tlsOptsOf grow f \<lparr>su_calls = tracingCalls lib f, su_arrays = []\<rparr> = (t, st2)"
    and w: "webhookServerOf grow lib f t st2 = Inr (ww, srv, st3)"
    and m: "metricsServerOptions grow lib f t st3 = Inr (mw, m, st4)"
    and mo: "mo = mgrOptions f m srv" and st: "su_arrays st = su_arrays st4"
    using operator_main_servers [OF assms(2,3)] by blast
  note contents = go_append.server_contents [OF g t w m]
  have metrics: "server_tls st (ms_TLSOpts (mg_Metrics mo)) base = Some (intended_tls f (metricsCertPath f) (metricsWatcherOf f) base)"
    using contents(1) by (cases "metricsCertPath f") (simp_all add: server_tls_def mo st mgrOptions_def Let_def apply_http_options)
  have exists: "(mg_WebhookServer mo \<noteq> None) = enableWebhooks f"
    using w by (auto simp: mo mgrOptions_def webhookServerOf_def Let_def case_prod_beta split: if_splits option.splits)
  have one: "1 < grow 0 1 \<longleftrightarrow> grow 0 1 \<noteq> 1" using assms(1) [of 1 0] by auto
  have "(server_tls st s base = Some (intended_tls f (webhookCertPath f) (webhookWatcherOf f) base)) =
      (enableHTTP2 f \<or> webhookCertPath f = [] \<or> metricsCertPath f = [] \<or> grow 0 1 = 1)"
    if "mg_WebhookServer mo = Some s" for s
  proof -
    have "srv = Some s" using that by (simp add: mo mgrOptions_def Let_def split: if_splits)
    note c = contents(2) [OF this]
    show ?thesis
    proof (cases "webhookCertPath f")
      case Nil
      with c show ?thesis by (simp add: server_tls_def st apply_http_options(1))
    next
      case (Cons a as)
      with c one show ?thesis by (auto simp: server_tls_def st apply_http_options(2) [of _ _ _ a as] intended_tls_inj)
    qed
  qed
  with metrics exists show ?thesis by blast
qed

text \<open>Both certificates configured, with the growth rule of Go's runtime.\<close>

definition wit_tls_flags :: operator_flags where
  "wit_tls_flags = operator_defaults\<lparr>enableWebhooks := True, webhookCertPath := ''/webhook'', metricsCertPath := ''/metrics''\<rparr>"

theorem servers_get_their_tls_witness:
  "\<exists>mo s. NewManager mo \<in> set (su_calls (snd (operator_main nextslicecap (\<lambda>_. None) wit_tls_flags))) \<and>
     mg_WebhookServer mo = Some s \<and>
     server_tls (snd (operator_main nextslicecap (\<lambda>_. None) wit_tls_flags)) s \<lparr>tc_NextProtos = [''h2''], tc_GetCertificate = None\<rparr> =
       Some \<lparr>tc_NextProtos = [''http/1.1''],
             tc_GetCertificate = Some (webhookCertWatcher ''/webhook/tls.crt'' ''/webhook/tls.key'')\<rparr>"
proof -
  let ?run = "operator_main nextslicecap (\<lambda>_. None) wit_tls_flags"
  let ?base = "\<lparr>tc_NextProtos = [''h2''], tc_GetCertificate = None\<rparr>"
  obtain ws m where run: "calls_of ?run = report (tracingCalls (\<lambda>_. None) wit_tls_flags)
      (follow (\<lambda>_. None) (startupPlan wit_tls_flags ws (mgrOptions wit_tls_flags m (if enableWebhooks wit_tls_flags then Some ws else None)))
        (if tracing (\<lambda>_. None) wit_tls_flags then [TracerShutdown] else []))"
    using operator_main_follow by blast
  let ?mo = "mgrOptions wit_tls_flags m (if enableWebhooks wit_tls_flags then Some ws else None)"
  have nofail: "\<not> fatal (\<lambda>_. None) c" for c by (cases c) simp_all
  have "su_calls (snd ?run) = snd (calls_of ?run)" by (simp add: calls_of_def)
  then have mo: "NewManager ?mo \<in> set (su_calls (snd ?run))"
    unfolding run using follow_append [of "\<lambda>_. None" "startupPlan wit_tls_flags ws ?mo" "[]"] nofail
    by (simp add: report_def list_all_iff startupPlan_def)
  have server: "mg_WebhookServer ?mo = Some ws"
    by (simp add: mgrOptions_def wit_tls_flags_def)
  have tls: "intended_tls wit_tls_flags (webhookCertPath wit_tls_flags) (webhookWatcherOf wit_tls_flags) ?base =
      \<lparr>tc_NextProtos = [''http/1.1''], tc_GetCertificate = Some (webhookCertWatcher ''/webhook/tls.crt'' ''/webhook/tls.key'')\<rparr>"
    by code_simp
  have grow: "nextslicecap 0 1 = 1" by (simp add: nextslicecap_def)
  have main: "?run = (fst ?run, snd ?run)" by simp
  have "server_tls (snd ?run) ws ?base =
      Some (intended_tls wit_tls_flags (webhookCertPath wit_tls_flags) (webhookWatcherOf wit_tls_flags) ?base)"
    using servers_get_their_tls [OF gc.grow_enough main mo, of ?base] server grow by simp
  with mo server tls show ?thesis by metis
qed

end
