(* ===== verification/Sidecar_Main.thy ===== *)
theory Sidecar_Main
  imports Sidecar Go_Flag
begin

section \<open>The life of the sidecar process: \<^verbatim>\<open>cmd/sidecar/main.go\<close>\<close>

text \<open>
  Start-up: flags, log level, logger, listener, then the server. From there on four threads share the process:
  \<^verbatim>\<open>main\<close> inside \<^verbatim>\<open>grpcServer.Serve\<close>, the goroutine that waits for a signal, the metrics server, and the goroutine
  that shuts down when the context is cancelled. The model has one event per step that one of them takes and
  the executable function \<open>sm_step\<close>: \<^const>\<open>None\<close> means that the event cannot happen in that state. The gRPC server is
  a library; of it the model has what it documents: after \<^verbatim>\<open>GracefulStop\<close> no request is accepted, the call
  returns when the pending requests are finished, and \<^verbatim>\<open>Serve\<close> returns nil after a graceful stop and an error
  otherwise. Whether \<^verbatim>\<open>Serve\<close> also waits until the graceful stop is done is the parameter \<open>waits\<close>.
\<close>

subsection \<open>Start-up\<close>

record sidecar_flags =
  sf_port :: int
  sf_logLevel :: string
  sf_logFormat :: string
  sf_noColor :: bool

definition sidecar_defaults :: sidecar_flags where
  "sidecar_defaults = \<lparr>sf_port = 50051, sf_logLevel = ''info'', sf_logFormat = ''console'', sf_noColor = False\<rparr>"

definition sidecar_flagset :: "sidecar_flags \<Rightarrow> flagset" where
  "sidecar_flagset f =
     [(''port'', IntFlag (sf_port f)), (''log-level'', StringFlag (sf_logLevel f)),
      (''log-format'', StringFlag (sf_logFormat f)), (''no-color'', BoolFlag (sf_noColor f))]"

definition sidecar_vars :: "flagset \<Rightarrow> sidecar_flags" where
  "sidecar_vars fs =
     \<lparr>sf_port = (case map_of fs ''port'' of Some (IntFlag i) \<Rightarrow> i | _ \<Rightarrow> 0),
      sf_logLevel = (case map_of fs ''log-level'' of Some (StringFlag s) \<Rightarrow> s | _ \<Rightarrow> []),
      sf_logFormat = (case map_of fs ''log-format'' of Some (StringFlag s) \<Rightarrow> s | _ \<Rightarrow> []),
      sf_noColor = (case map_of fs ''no-color'' of Some (BoolFlag b) \<Rightarrow> b | _ \<Rightarrow> False)\<rparr>"

text \<open>What \<^verbatim>\<open>main\<close> serves: the address, the Zarf service, what it registered on the server, and the health
  status that it announced.\<close>

datatype grpc_service = ZarfService | HealthService | ReflectionService

record sidecar_server =
  ss_address :: string
  ss_zarf :: sidecar
  ss_services :: "grpc_service list"
  ss_health :: "(string \<times> bool) list"

definition startSidecar ::
  "(string \<rightharpoonup> string) \<Rightarrow> imgapi \<Rightarrow> sidecar \<Rightarrow> string \<Rightarrow> (string \<Rightarrow> goerr option) \<Rightarrow> sidecar_flags \<Rightarrow> int + sidecar_server" where
  "startSidecar environ V S Version listen f =
     (case sc_ParseLevel S (sf_logLevel f) of
        Inl err \<Rightarrow> Inl 1
      | Inr level \<Rightarrow>
          (let baseConfig = \<lparr>lc_Level = level, lc_Format = sf_logFormat f, lc_Color = \<not> sf_noColor f\<rparr> in
           case sc_loggerNewErr S baseConfig of
             Some err \<Rightarrow> Inl 1
           | None \<Rightarrow>
               (let addr = '':'' @ fmt_d (sf_port f) in
                case listen addr of
                  Some err \<Rightarrow> Inl 1
                | None \<Rightarrow>
                    Inr \<lparr>ss_address = addr,
                         ss_zarf = NewZarfServer environ V (S\<lparr>sc_baseConfig := baseConfig, sc_version := Version\<rparr>),
                         ss_services = [ZarfService, HealthService, ReflectionService],
                         ss_health = [(''zarf.v1.ZarfService'', True)]\<rparr>)))"

definition sidecar_process ::
  "(string \<rightharpoonup> string) \<Rightarrow> imgapi \<Rightarrow> sidecar \<Rightarrow> string \<Rightarrow> (string \<Rightarrow> goerr option) \<Rightarrow> string list \<Rightarrow> int + sidecar_server" where
  "sidecar_process environ V S Version listen args =
     (case flag_Parse (sidecar_flagset sidecar_defaults) args of
        Inl err \<Rightarrow> Inl (flag_exit err)
      | Inr (fs, rest) \<Rightarrow> startSidecar environ V S Version listen (sidecar_vars fs))"

subsection \<open>Threads\<close>

datatype main_thread = InServe | MainExited int

datatype metrics_thread = MetricsStarting | MetricsServing | MetricsReturned

datatype shutdown_thread = WaitingDone | MetricsCloseCalled | GracefulStopping | GracefulStopped

record sidecar_state =
  sm_main :: main_thread
  sm_sigCh :: bool
  sm_sigWaiting :: bool
  sm_cancelled :: bool
  sm_metrics :: metrics_thread
  sm_shutdown :: shutdown_thread
  sm_pending :: nat

definition sidecar_state0 :: sidecar_state where
  "sidecar_state0 =
     \<lparr>sm_main = InServe, sm_sigCh = False, sm_sigWaiting = True, sm_cancelled = False,
      sm_metrics = MetricsStarting, sm_shutdown = WaitingDone, sm_pending = 0\<rparr>"

datatype sidecar_event =
    SignalDelivered
  | SignalReceived
  | MetricsListening
  | MetricsFailed
  | MetricsServerClosed
  | ContextDone
  | GracefulStopCalled
  | GracefulStopReturned
  | RequestAccepted
  | RequestFinished
  | ServeFailed
  | ServeReturned

text \<open>The server was told to stop.\<close>

definition sm_stopping :: "sidecar_state \<Rightarrow> bool" where
  "sm_stopping s \<longleftrightarrow> sm_shutdown s \<in> {GracefulStopping, GracefulStopped}"

text \<open>
  The signal channel has room for one signal; a signal that finds it full is dropped and changes nothing. The
  metrics server returns \<^verbatim>\<open>ErrServerClosed\<close> once it was closed, before or after it started to listen. When
  \<^verbatim>\<open>main\<close> has returned or exited, nothing happens any more.
\<close>

fun sm_enabled :: "bool \<Rightarrow> sidecar_event \<Rightarrow> sidecar_state \<Rightarrow> bool" where
  "sm_enabled waits SignalDelivered s = (\<not> sm_sigCh s)"
| "sm_enabled waits SignalReceived s = (sm_sigCh s \<and> sm_sigWaiting s)"
| "sm_enabled waits MetricsListening s = (sm_metrics s = MetricsStarting \<and> sm_shutdown s = WaitingDone)"
| "sm_enabled waits MetricsFailed s = (sm_metrics s \<noteq> MetricsReturned)"
| "sm_enabled waits MetricsServerClosed s = (sm_metrics s \<noteq> MetricsReturned \<and> sm_shutdown s \<noteq> WaitingDone)"
| "sm_enabled waits ContextDone s = (sm_cancelled s \<and> sm_shutdown s = WaitingDone)"
| "sm_enabled waits GracefulStopCalled s = (sm_shutdown s = MetricsCloseCalled)"
| "sm_enabled waits GracefulStopReturned s = (sm_shutdown s = GracefulStopping \<and> sm_pending s = 0)"
| "sm_enabled waits RequestAccepted s = (\<not> sm_stopping s)"
| "sm_enabled waits RequestFinished s = (0 < sm_pending s)"
| "sm_enabled waits ServeFailed s = (\<not> sm_stopping s)"
| "sm_enabled waits ServeReturned s = (sm_stopping s \<and> (waits \<longrightarrow> sm_shutdown s = GracefulStopped))"

fun sm_effect :: "sidecar_event \<Rightarrow> sidecar_state \<Rightarrow> sidecar_state" where
  "sm_effect SignalDelivered s = s\<lparr>sm_sigCh := True\<rparr>"
| "sm_effect SignalReceived s = s\<lparr>sm_sigCh := False, sm_sigWaiting := False, sm_cancelled := True\<rparr>"
| "sm_effect MetricsListening s = s\<lparr>sm_metrics := MetricsServing\<rparr>"
| "sm_effect MetricsFailed s = s\<lparr>sm_metrics := MetricsReturned\<rparr>"
| "sm_effect MetricsServerClosed s = s\<lparr>sm_metrics := MetricsReturned\<rparr>"
| "sm_effect ContextDone s = s\<lparr>sm_shutdown := MetricsCloseCalled\<rparr>"
| "sm_effect GracefulStopCalled s = s\<lparr>sm_shutdown := GracefulStopping\<rparr>"
| "sm_effect GracefulStopReturned s = s\<lparr>sm_shutdown := GracefulStopped\<rparr>"
| "sm_effect RequestAccepted s = s\<lparr>sm_pending := sm_pending s + 1\<rparr>"
| "sm_effect RequestFinished s = s\<lparr>sm_pending := sm_pending s - 1\<rparr>"
| "sm_effect ServeFailed s = s\<lparr>sm_main := MainExited 1\<rparr>"
| "sm_effect ServeReturned s = s\<lparr>sm_main := MainExited 0\<rparr>"

definition sm_step :: "bool \<Rightarrow> sidecar_event \<Rightarrow> sidecar_state \<Rightarrow> sidecar_state option" where
  "sm_step waits e s = (if sm_main s = InServe \<and> sm_enabled waits e s then Some (sm_effect e s) else None)"

fun sm_run :: "bool \<Rightarrow> sidecar_event list \<Rightarrow> sidecar_state \<Rightarrow> sidecar_state option" where
  "sm_run waits [] s = Some s"
| "sm_run waits (e # es) s = (case sm_step waits e s of None \<Rightarrow> None | Some s' \<Rightarrow> sm_run waits es s')"

inductive sm_reachable :: "bool \<Rightarrow> sidecar_state \<Rightarrow> bool" for waits where
  sm_start: "sm_reachable waits sidecar_state0"
| sm_next: "sm_reachable waits s \<Longrightarrow> sm_step waits e s = Some s' \<Longrightarrow> sm_reachable waits s'"

subsection \<open>Invariant and measure\<close>

text \<open>The context is cancelled only by the goroutine that received a signal, and only then does the shutdown begin;
  the process ends with 0 only after the server was told to stop.\<close>

definition sm_inv :: "bool \<Rightarrow> sidecar_state \<Rightarrow> bool" where
  "sm_inv waits s \<longleftrightarrow>
     sm_cancelled s = (\<not> sm_sigWaiting s) \<and> (sm_shutdown s \<noteq> WaitingDone \<longrightarrow> sm_cancelled s) \<and>
     (sm_shutdown s = GracefulStopped \<longrightarrow> sm_pending s = 0) \<and>
     (case sm_main s of
        InServe \<Rightarrow> True
      | MainExited c \<Rightarrow> c = 0 \<and> sm_stopping s \<and> (waits \<longrightarrow> sm_shutdown s = GracefulStopped) \<or>
                        c = 1 \<and> \<not> sm_stopping s)"

lemma sm_step_inv: "sm_inv waits s \<Longrightarrow> sm_step waits e s = Some s' \<Longrightarrow> sm_inv waits s'"
  by (cases e) (auto simp: sm_step_def sm_inv_def sm_stopping_def split: if_splits main_thread.splits)

lemma sm_reachable_inv: "sm_reachable waits s \<Longrightarrow> sm_inv waits s"
  by (induction rule: sm_reachable.induct)
    (simp add: sm_inv_def sidecar_state0_def, blast intro: sm_step_inv)

lemma sm_run_reachable: "sm_reachable waits s \<Longrightarrow> sm_run waits es s = Some s' \<Longrightarrow> sm_reachable waits s'"
  by (induction es arbitrary: s) (auto split: option.splits intro: sm_next)

fun metrics_rank :: "metrics_thread \<Rightarrow> nat" where
  "metrics_rank MetricsStarting = 2"
| "metrics_rank MetricsServing = 1"
| "metrics_rank MetricsReturned = 0"

fun shutdown_rank :: "shutdown_thread \<Rightarrow> nat" where
  "shutdown_rank WaitingDone = 3"
| "shutdown_rank MetricsCloseCalled = 2"
| "shutdown_rank GracefulStopping = 1"
| "shutdown_rank GracefulStopped = 0"

definition sm_measure :: "sidecar_state \<Rightarrow> nat" where
  "sm_measure s =
     sm_pending s + metrics_rank (sm_metrics s) + shutdown_rank (sm_shutdown s) +
     (if sm_sigCh s then 0 else 1) + (if sm_sigWaiting s then 2 else 0) + (if sm_main s = InServe then 1 else 0)"

lemma metrics_rank_pos: "m \<noteq> MetricsReturned \<Longrightarrow> 0 < metrics_rank m"
  by (cases m) auto

text \<open>Every step but the arrival of a request decreases the measure; a stopping server stays one and gets no
  request.\<close>

lemma sm_step_measure: "sm_step waits e s = Some s' \<Longrightarrow> e \<noteq> RequestAccepted \<Longrightarrow> sm_measure s' < sm_measure s"
  by (cases e) (auto simp: sm_step_def sm_measure_def metrics_rank_pos split: if_splits)

lemma sm_step_stopping: "sm_step waits e s = Some s' \<Longrightarrow> sm_stopping s \<Longrightarrow> sm_stopping s' \<and> e \<noteq> RequestAccepted"
  by (cases e) (auto simp: sm_step_def sm_stopping_def split: if_splits)

lemma sm_run_length: "sm_run waits es s = Some s' \<Longrightarrow> sm_stopping s \<Longrightarrow> length es + sm_measure s' \<le> sm_measure s \<and> sm_stopping s'"
proof (induction es arbitrary: s)
  case (Cons e es)
  then obtain s1 where s1: "sm_step waits e s = Some s1" and run: "sm_run waits es s1 = Some s'"
    by (auto split: option.splits)
  have "sm_measure s1 < sm_measure s" "sm_stopping s1"
    using sm_step_measure [OF s1] sm_step_stopping [OF s1 Cons.prems(2)] by auto
  with Cons.IH [OF run] show ?case by simp
qed simp

lemma sm_step_exited: "sm_main s \<noteq> InServe \<Longrightarrow> sm_step waits e s = None"
  by (simp add: sm_step_def)

text \<open>A process that has not exited is never stuck once the server is told to stop.\<close>

lemma sm_stopping_progress: "sm_stopping s \<Longrightarrow> sm_main s = InServe \<Longrightarrow> \<exists>e. sm_step waits e s \<noteq> None"
proof (cases "sm_shutdown s = GracefulStopped")
  case True
  assume "sm_main s = InServe"
  with True have "sm_step waits ServeReturned s \<noteq> None" by (simp add: sm_step_def sm_stopping_def)
  then show ?thesis by blast
next
  case False
  assume "sm_stopping s" "sm_main s = InServe"
  with False have "sm_step waits (if sm_pending s = 0 then GracefulStopReturned else RequestFinished) s \<noteq> None"
    by (auto simp: sm_step_def sm_stopping_def)
  then show ?thesis by blast
qed


definition wit_shutdown :: "sidecar_event list" where
  "wit_shutdown = [MetricsListening, RequestAccepted, SignalDelivered, SignalReceived, ContextDone, GracefulStopCalled]"


subsection \<open>Start-up and the command line\<close>

text \<open>The sidecar serves on the port of the command line with the log settings of the command line, or exits.\<close>

lemma sidecar_flags_round_trip:
  assumes "int64_range (sf_port f)"
  shows "sidecar_process environ V S Version listen (map flag_arg (sidecar_flagset f)) =
    startSidecar environ V S Version listen f"
proof -
  have kinds: "list_all2 (\<lambda>(k, old) (k', v). k = k' \<and> same_kind old v) (sidecar_flagset sidecar_defaults) (sidecar_flagset f)"
    by (simp add: sidecar_flagset_def)
  have ok: "list_all (\<lambda>(k, v). name_ok k \<and> flag_ok v) (sidecar_flagset f)"
    using assms by (simp add: sidecar_flagset_def name_ok_def)
  have "distinct (map fst ([] @ sidecar_flagset f))" by (simp add: sidecar_flagset_def)
  from parse_flag_args [OF kinds ok this, of "[]"]
  have "sidecar_process environ V S Version listen (map flag_arg (sidecar_flagset f)) =
      startSidecar environ V S Version listen (sidecar_vars (sidecar_flagset f))"
    by (simp add: sidecar_process_def)
  also have "sidecar_vars (sidecar_flagset f) = f" by (simp add: sidecar_vars_def sidecar_flagset_def)
  finally show ?thesis .
qed

lemma startSidecar_serves:
  "startSidecar environ V S Version listen f = Inr srv \<Longrightarrow>
   listen (ss_address srv) = None \<and> ss_address srv = '':'' @ fmt_d (sf_port f) \<and>
   lc_Format (sc_baseConfig (ss_zarf srv)) = sf_logFormat f \<and>
   sc_ParseLevel S (sf_logLevel f) = Inr (lc_Level (sc_baseConfig (ss_zarf srv)))"
  by (auto simp: startSidecar_def Let_def NewZarfServer_def split: sum.splits option.splits)

end
