(* ===== verification/End_To_End.thy ===== *)
theory End_To_End
  imports Deploy_Properties Grpc_Client
begin

section \<open>Controller, client and sidecar together\<close>

text \<open>
  What happens across the two processes: a deployment that the sidecar's operation slot turns away
  comes back through the protocol and the client to the controller's retry policy. The controller's
  Zarf client is the gRPC client connected to the modelled sidecar; \<open>acq\<close> is the answer that the slot
  protocol gave.
\<close>

text \<open>
  The messages of a busy slot are not mistaken for Helm's lock, which would make the controller roll
  releases back. gRPC writes a status error as its code and its description.
\<close>

lemma busy_not_helm:
  assumes "msg \<in> busy_messages"
  shows "\<not> IsHelmOperationInProgress (DeployErr (Some (fmt_wrap ''deploy failed''
    (StatusError c (''rpc error: code = ResourceExhausted desc = '' @ msg) ds))) fc fch logs)"
proof -
  have "\<not> (let m = strings_ToLower (''deploy failed: rpc error: code = ResourceExhausted desc = '' @ x)
      in strings_Contains m ''another operation'' \<and> strings_Contains m ''in progress'')"
    if "x = ''a remove operation is in progress'' \<or> x = ''timed out waiting for previous operation to cancel'' \<or>
      x = ''another operation started while cancelling previous''" for x
    using that by (elim disjE) (simp only:, code_simp)+
  from this [of msg] assms show ?thesis
    unfolding busy_messages_def by (simp add: fmt_wrap_def Let_def)
qed

lemma turned_away:
  assumes "strings_TrimSpace (do_Source opts) \<noteq> []"
  shows "fst (sidecar_Deploy S (Some (c, msg)) (deployRequest opts) proc) = Inl (status_error S c msg)"
    and "ss_hist (snd (sidecar_Deploy S (Some (c, msg)) (deployRequest opts) proc)) = []"
    and "ss_os (snd (sidecar_Deploy S (Some (c, msg)) (deployRequest opts) proc)) = proc"
  using assms by (simp_all add: sidecar_Deploy_def withOp_def Let_def deployRequest_def)

text \<open>An error that is not Helm's lock is passed on after a single call.\<close>

lemma deployPackage_plain_error:
  assumes "env_Deploy E (rs_trace st) opts (wrap64 (timeout + minute)) = (None, Some err)"
    and "errors_AsDeployError err = Some d" and "\<not> IsHelmOperationInProgress d"
  shows "deployPackage E r opts timeout st = ((None, Some err), emit (ADeploy opts (wrap64 (timeout + minute))) st)"
  using assms by (simp add: deployPackage_def call_Deploy_def Let_def retryDeployAfterHelmRecovery_def)

text \<open>
  Property C6. A busy sidecar costs nothing but time. Whenever the slot protocol, in any interleaving,
  turns a deploy request away as busy, the sidecar makes no call to Zarf or the cluster and keeps its
  process as it is; the controller calls once, does not mistake the answer for Helm's lock, counts no
  failure, keeps the phase, and comes back after the short interval.
\<close>

theorem busy_sidecar_is_retried:
  assumes "cond_env E" and "grpc_status (sc_statusText S) details (status_Code (libs E))"
    and "\<And>m. sc_statusText S codes_ResourceExhausted m = ''rpc error: code = ResourceExhausted desc = '' @ m"
    and "op_reachable ks slot" and "op_pc slot i = Rejected codes_ResourceExhausted msg"
    and "env_Deploy E (rs_trace st) opts (wrap64 (timeout + minute)) =
      client_Deploy (connected S (Some (codes_ResourceExhausted, msg)) proc details) opts"
    and "strings_TrimSpace (do_Source opts) \<noteq> []"
  shows "\<exists>err st1 st2. deployPackage E r opts timeout st = ((None, Some err), st1) \<and>
      deploy_count (new_actions st st1) = 1 \<and>
      afterDeploy E r source (None, Some err) st1 = ((Result_after sidecarBusyRequeue, None), st2) \<and>
      st_FailureCount (rs_status st2) = st_FailureCount (rs_status st) \<and>
      st_Phase (rs_status st2) = st_Phase (rs_status st) \<and>
      (let after = snd (sidecar_Deploy S (Some (codes_ResourceExhausted, msg)) (deployRequest opts) proc)
       in ss_hist after = [] \<and> ss_os after = proc)"
proof -
  let ?c = "connected S (Some (codes_ResourceExhausted, msg)) proc details"
  let ?e = "StatusError codes_ResourceExhausted (''rpc error: code = ResourceExhausted desc = '' @ msg) []"
  have e: "status_error S codes_ResourceExhausted msg = ?e" by (simp only: status_error_def assms(3))
  have "cl_Deploy ?c (deployRequest opts) = Inl ?e" using turned_away(1) [OF assms(7)] e by (simp add: connected_def)
  from client_error [OF this] obtain fc fch logs where
    cl: "client_Deploy ?c opts = (None, Some (DeployErr (Some (fmt_wrap ''deploy failed'' ?e)) fc fch logs))" by blast
  let ?err = "DeployErr (Some (fmt_wrap ''deploy failed'' ?e)) fc fch logs"
  let ?st1 = "emit (ADeploy opts (wrap64 (timeout + minute))) st"
  have "msg \<in> busy_messages" using rejected_busy [OF assms(4)] assms(5) by blast
  then have dp: "deployPackage E r opts timeout st = ((None, Some ?err), ?st1)"
    using deployPackage_plain_error [OF assms(6) [unfolded cl]] busy_not_helm by simp
  have code: "status_Code (libs E) ?err = codes_ResourceExhausted"
    unfolding grpc_status.code_deploy [OF assms(2)] grpc_status.code_fmt_wrap [OF assms(2)]
      grpc_status.code_status [OF assms(2)] ..
  obtain out st2 where af: "afterDeploy E r source (None, Some ?err) ?st1 = (out, st2)" by fastforce
  have "out = (Result_after sidecarBusyRequeue, None)" "st_FailureCount (rs_status st2) = st_FailureCount (rs_status st)"
      "st_Phase (rs_status st2) = st_Phase (rs_status st)"
    using cond_env.afterDeploy_accounting [OF assms(1) af] code by (auto simp: Let_def prod_eq_iff emit_def)
  moreover have "deploy_count (new_actions st ?st1) = 1" by (simp add: new_actions_def deploy_count_def emit_def)
  ultimately show ?thesis using dp af turned_away(2,3) [OF assms(7)] by (auto simp: Let_def)
qed

subsection \<open>A closed instance\<close>

text \<open>A remove of request 0 holds the slot when the deploy of request 1 arrives.\<close>

definition wit_slot :: opstate where
  "wit_slot = acquireOp 1 opDeploy (acquireOp 0 opRemove (op_init (\<lambda>i. if i = 0 then opRemove else opDeploy)))"

definition wit_busy :: sidecar where
  "wit_busy = wit_sidecar\<lparr>sc_statusText := (\<lambda>c m. ''rpc error: code = ResourceExhausted desc = '' @ m)\<rparr>"

definition wit_busy_env :: env where
  "wit_busy_env = (ref_env ref_pkg)\<lparr>env_Deploy := (\<lambda>_ opts _. client_Deploy
     (connected wit_busy (Some (codes_ResourceExhausted, ''a remove operation is in progress'')) os0 wit_details) opts)\<rparr>"

lemma wit_slot_reachable: "op_reachable (\<lambda>i. if i = 0 then opRemove else opDeploy) wit_slot"
  unfolding wit_slot_def
proof (rule op_reachable.step)
  show "op_reachable (\<lambda>i. if i = 0 then opRemove else opDeploy) (acquireOp 0 opRemove (op_init (\<lambda>i. if i = 0 then opRemove else opDeploy)))"
    by (rule op_reachable.step [OF op_reachable.init]) (rule op_step.acquire, simp add: op_init_def)
  show "op_step (acquireOp 0 opRemove (op_init (\<lambda>i. if i = 0 then opRemove else opDeploy)))
      (acquireOp 1 opDeploy (acquireOp 0 opRemove (op_init (\<lambda>i. if i = 0 then opRemove else opDeploy))))"
    by (rule op_step.acquire) (simp add: op_init_def slot_steps)
qed

theorem busy_sidecar_is_retried_witness:
  "\<exists>err st1 st2. deployPackage wit_busy_env wit_reconciler wit_opts 0 wit_state = ((None, Some err), st1) \<and>
     afterDeploy wit_busy_env wit_reconciler (do_Source wit_opts) (None, Some err) st1 =
       ((Result_after sidecarBusyRequeue, None), st2)"
proof -
  let ?msg = "''a remove operation is in progress''"
  have E: "cond_env wit_busy_env"
    by (rule cond_env.intro) (simp add: wit_busy_env_def ref_cond.condition_api_axioms)
  have code: "status_Code (libs wit_busy_env) = ref_status_Code" by (simp add: wit_busy_env_def ref_defs)
  have G: "grpc_status (sc_statusText wit_busy) wit_details (status_Code (libs wit_busy_env))"
    unfolding code by unfold_locales (auto simp: wit_busy_def wit_details_def ascii_def)
  have T: "sc_statusText wit_busy codes_ResourceExhausted m = ''rpc error: code = ResourceExhausted desc = '' @ m" for m
    by (simp add: wit_busy_def)
  have P: "op_pc wit_slot 1 = Rejected codes_ResourceExhausted ?msg"
    by (simp add: wit_slot_def op_init_def slot_steps)
  have D: "env_Deploy wit_busy_env (rs_trace wit_state) wit_opts (wrap64 (0 + minute)) =
      client_Deploy (connected wit_busy (Some (codes_ResourceExhausted, ?msg)) os0 wit_details) wit_opts"
    by (simp add: wit_busy_env_def)
  have S: "strings_TrimSpace (do_Source wit_opts) \<noteq> []" by code_simp
  from busy_sidecar_is_retried [OF E G T wit_slot_reachable P D S] show ?thesis by blast
qed

end
