(* ===== verification/Interceptors.thy ===== *)
theory Interceptors
  imports Go_Errors
begin

section \<open>The sidecar's interceptors: \<^verbatim>\<open>cmd/sidecar/interceptors\<close>\<close>

text \<open>
  Every request to the sidecar passes the logging and the metrics interceptor
  (\<^verbatim>\<open>grpc.ChainUnaryInterceptor\<close> in \<^verbatim>\<open>cmd/sidecar/main.go\<close>). A handler is a function from the state to an
  answer and a new state; what the handlers themselves work on is the type variable \<open>'p\<close>. The counter
  \<^verbatim>\<open>grpc_server_requests_total\<close> has the labels method and code, the histogram
  \<^verbatim>\<open>grpc_server_request_duration_seconds\<close> the label method. Parameters are the clock and what
  \<^verbatim>\<open>status.FromError\<close> finds in an error; no error is the code OK with an empty message.
\<close>

record 'p served =
  sv_proc :: 'p
  sv_requests :: "string \<times> code \<Rightarrow> nat"
  sv_durations :: "string \<Rightarrow> int list"
  sv_log :: "(string \<times> int \<times> code \<times> string) list"

type_synonym ('p, 'a) handler = "'p served \<Rightarrow> (goerr + 'a) \<times> 'p served"

definition status_of :: "(goerr \<Rightarrow> code \<times> string) \<Rightarrow> goerr + 'a \<Rightarrow> code \<times> string" where
  "status_of fromError r = (case r of Inl err \<Rightarrow> fromError err | Inr _ \<Rightarrow> (codes_OK, []))"

definition UnaryLogging ::
  "('p served \<Rightarrow> int) \<Rightarrow> (goerr \<Rightarrow> code \<times> string) \<Rightarrow> string \<Rightarrow> ('p, 'a) handler \<Rightarrow> ('p, 'a) handler" where
  "UnaryLogging clock fromError method handler st =
     (let start = clock st;
          (r, st') = handler st;
          duration = clock st' - start;
          (c, msg) = status_of fromError r
      in (r, st'\<lparr>sv_log := sv_log st' @ [(method, duration, c, msg)]\<rparr>))"

definition UnaryMetrics ::
  "('p served \<Rightarrow> int) \<Rightarrow> (goerr \<Rightarrow> code \<times> string) \<Rightarrow> string \<Rightarrow> ('p, 'a) handler \<Rightarrow> ('p, 'a) handler" where
  "UnaryMetrics clock fromError method handler st =
     (let start = clock st;
          (r, st') = handler st;
          (c, msg) = status_of fromError r;
          st1 = st'\<lparr>sv_requests := (sv_requests st')((method, c) := sv_requests st' (method, c) + 1)\<rparr>
      in (r, st1\<lparr>sv_durations := (sv_durations st1)(method := sv_durations st1 method @ [clock st1 - start])\<rparr>))"

text \<open>The chain of \<^verbatim>\<open>main\<close>: logging outside, metrics inside.\<close>

definition chained ::
  "('p served \<Rightarrow> int) \<Rightarrow> (goerr \<Rightarrow> code \<times> string) \<Rightarrow> string \<Rightarrow> ('p, 'a) handler \<Rightarrow> ('p, 'a) handler" where
  "chained clock fromError method handler =
     UnaryLogging clock fromError method (UnaryMetrics clock fromError method handler)"

text \<open>
  A handler of the service works on the process alone (\<open>plain\<close>). A series of requests, each a method and
  its handler, with and without interceptors around it.
\<close>

definition plain :: "('p \<Rightarrow> (goerr + 'a) \<times> 'p) \<Rightarrow> ('p, 'a) handler" where
  "plain f st = (let (r, p) = f (sv_proc st) in (r, st\<lparr>sv_proc := p\<rparr>))"

fun answers :: "(string \<times> ('p \<Rightarrow> (goerr + 'a) \<times> 'p)) list \<Rightarrow> 'p \<Rightarrow> (goerr + 'a) list \<times> 'p" where
  "answers [] p = ([], p)"
| "answers ((m, f) # reqs) p = (let (r, p1) = f p; (rs, p2) = answers reqs p1 in (r # rs, p2))"

fun serve ::
  "(string \<Rightarrow> ('p, 'a) handler \<Rightarrow> ('p, 'a) handler) \<Rightarrow> (string \<times> ('p \<Rightarrow> (goerr + 'a) \<times> 'p)) list \<Rightarrow>
   'p served \<Rightarrow> (goerr + 'a) list \<times> 'p served" where
  "serve wrap [] st = ([], st)"
| "serve wrap ((m, f) # reqs) st =
     (let (r, st1) = wrap m (plain f) st; (rs, st2) = serve wrap reqs st1 in (r # rs, st2))"

subsection \<open>Interceptors are transparent\<close>

text \<open>
  What an interceptor promises: the answer is the handler's, and the handlers' own state is what the
  handler left.
\<close>

locale interceptor =
  fixes wrap :: "string \<Rightarrow> ('p, 'a) handler \<Rightarrow> ('p, 'a) handler"
  assumes same_answer: "fst (wrap m h st) = fst (h st)"
    and same_process: "sv_proc (snd (wrap m h st)) = sv_proc (snd (h st))"
begin

lemma serve_transparent:
  "fst (serve wrap reqs st) = fst (answers reqs (sv_proc st)) \<and>
   sv_proc (snd (serve wrap reqs st)) = snd (answers reqs (sv_proc st))"
proof (induction reqs arbitrary: st)
  case (Cons x reqs)
  obtain m f where x: "x = (m, f)" by fastforce
  have "fst (wrap m (plain f) st) = fst (f (sv_proc st))" "sv_proc (snd (wrap m (plain f) st)) = snd (f (sv_proc st))"
    by (simp_all add: same_answer same_process plain_def case_prod_beta)
  with Cons.IH [of "snd (wrap m (plain f) st)"] show ?case by (simp add: x case_prod_beta)
qed simp

end

interpretation logging: interceptor "UnaryLogging clock fromError" for clock fromError
  by unfold_locales (simp_all add: UnaryLogging_def Let_def case_prod_beta)

interpretation metrics: interceptor "UnaryMetrics clock fromError" for clock fromError
  by unfold_locales (simp_all add: UnaryMetrics_def Let_def case_prod_beta)

interpretation chain: interceptor "chained clock fromError" for clock fromError
  by unfold_locales (simp_all add: chained_def logging.same_answer logging.same_process
      metrics.same_answer metrics.same_process)

subsection \<open>Every request is counted\<close>

text \<open>How many requests of method \<open>m\<close> were answered with code \<open>c\<close>.\<close>

fun answered_with :: "(goerr \<Rightarrow> code \<times> string) \<Rightarrow> string \<Rightarrow> code \<Rightarrow> string list \<Rightarrow> (goerr + 'a) list \<Rightarrow> nat" where
  "answered_with fe m c (m' # ms) (r # rs) =
     (if m' = m \<and> fst (status_of fe r) = c then 1 else 0) + answered_with fe m c ms rs"
| "answered_with fe m c _ _ = 0"

lemma chained_counts:
  "sv_requests (snd (chained clock fe m' (plain f) st)) (m, c) = sv_requests st (m, c) +
     (if m' = m \<and> fst (status_of fe (fst (f (sv_proc st)))) = c then 1 else 0)"
  "sv_log (snd (chained clock fe m' (plain f) st)) \<noteq> [] \<and>
   length (sv_log (snd (chained clock fe m' (plain f) st))) = length (sv_log st) + 1"
  by (auto simp: chained_def UnaryLogging_def UnaryMetrics_def plain_def Let_def case_prod_beta)

lemma serve_counts:
  "sv_requests (snd (serve (chained clock fe) reqs st)) (m, c) =
     sv_requests st (m, c) + answered_with fe m c (map fst reqs) (fst (answers reqs (sv_proc st))) \<and>
   length (sv_log (snd (serve (chained clock fe) reqs st))) = length (sv_log st) + length reqs"
proof (induction reqs arbitrary: st)
  case (Cons x reqs)
  obtain m' f where x: "x = (m', f)" by fastforce
  let ?st1 = "snd (chained clock fe m' (plain f) st)"
  have "sv_proc ?st1 = snd (f (sv_proc st))" by (simp add: chain.same_process plain_def case_prod_beta)
  with Cons.IH [of ?st1] chained_counts [of clock fe m' f st] show ?case
    by (simp add: x case_prod_beta)
qed simp

text \<open>
  Property C33. The interceptors are transparent and count every request once: whatever requests the
  sidecar serves, in order, every answer and the state of the process are what the handlers alone give;
  the counter of each method and code grew by exactly the number of requests of that method that were
  answered with that code; and each request left one line in the log.
\<close>

theorem requests_pass_and_are_counted:
  "let served = serve (chained clock fromError) reqs st; plainly = answers reqs (sv_proc st) in
   fst served = fst plainly \<and> sv_proc (snd served) = snd plainly \<and>
   (\<forall>m c. sv_requests (snd served) (m, c) =
      sv_requests st (m, c) + answered_with fromError m c (map fst reqs) (fst plainly)) \<and>
   length (sv_log (snd served)) = length (sv_log st) + length reqs"
  using chain.serve_transparent [of clock fromError reqs st] serve_counts [of clock fromError reqs st]
  by (simp add: Let_def)

end
