(* ===== verification/Fake_Client.thy ===== *)
theory Fake_Client
  imports Zarf_Interface
begin

section \<open>The in-memory client: \<^verbatim>\<open>pkg/zarf/fake/fake.go\<close>\<close>

text \<open>
  The client that the controller's tests use: a record of deployed packages and one function per
  operation, which the \<^verbatim>\<open>With\<close> methods replace. The default functions of \<^verbatim>\<open>New\<close> read the record at the
  time of the call, so they take it as an argument. Go leaves the order in which a map is iterated
  open; \<open>order\<close> is the order that an iteration takes.
\<close>

type_synonym package_store = "string \<rightharpoonup> PackageInfo"

record fake =
  fk_DeployFn :: "DeployOptions \<Rightarrow> DeployResult option \<times> goerr option"
  fk_RemoveFn :: "RemoveOptions \<Rightarrow> goerr option"
  fk_GetDeployedPackageFn :: "package_store \<Rightarrow> GetDeployedPackageOptions \<Rightarrow> PackageInfo option \<times> goerr option"
  fk_ListDeployedPackagesFn :: "package_store \<Rightarrow> PackageInfo list \<times> goerr option"
  fk_GetPackageMetadataFn :: "string \<Rightarrow> PackageMetadata option \<times> goerr option"
  fk_deployedPackages :: package_store

definition New :: "(package_store \<Rightarrow> string list) \<Rightarrow> fake" where
  "New order =
     \<lparr>fk_DeployFn = (\<lambda>_. (Some \<lparr>dr_PackageName = ''test-package'', dr_Version = ''0.1.0'', dr_Generation = 1,
        dr_DeployedComponents = [], dr_DeployLogs = []\<rparr>, None)),
      fk_RemoveFn = (\<lambda>_. None),
      fk_GetDeployedPackageFn = (\<lambda>store opts. (store (gd_PackageName opts), None)),
      fk_ListDeployedPackagesFn = (\<lambda>store. (List.map_filter store (order store), None)),
      fk_GetPackageMetadataFn = (\<lambda>_. (Some \<lparr>pm_Name = ''test-package'', pm_Version = ''0.1.0'', pm_Description = [],
        pm_Components = [], pm_Architecture = []\<rparr>, None)),
      fk_deployedPackages = Map.empty\<rparr>"

definition WithDeploy :: "DeployResult option \<Rightarrow> goerr option \<Rightarrow> fake \<Rightarrow> fake" where
  "WithDeploy result err c = c\<lparr>fk_DeployFn := (\<lambda>_. (result, err))\<rparr>"

definition WithDeployFunc :: "(DeployOptions \<Rightarrow> DeployResult option \<times> goerr option) \<Rightarrow> fake \<Rightarrow> fake" where
  "WithDeployFunc fn c = c\<lparr>fk_DeployFn := fn\<rparr>"

definition WithRemove :: "goerr option \<Rightarrow> fake \<Rightarrow> fake" where
  "WithRemove err c = c\<lparr>fk_RemoveFn := (\<lambda>_. err)\<rparr>"

definition WithGetDeployedPackage :: "PackageInfo option \<Rightarrow> goerr option \<Rightarrow> fake \<Rightarrow> fake" where
  "WithGetDeployedPackage pkg err c = c\<lparr>fk_GetDeployedPackageFn := (\<lambda>_ _. (pkg, err))\<rparr>"

definition WithPackageMetadata :: "PackageMetadata option \<Rightarrow> goerr option \<Rightarrow> fake \<Rightarrow> fake" where
  "WithPackageMetadata meta err c = c\<lparr>fk_GetPackageMetadataFn := (\<lambda>_. (meta, err))\<rparr>"

definition AddDeployedPackage :: "PackageInfo \<Rightarrow> fake \<Rightarrow> fake" where
  "AddDeployedPackage pkg c = c\<lparr>fk_deployedPackages := (fk_deployedPackages c)(pi_Name pkg \<mapsto> pkg)\<rparr>"

definition Reset :: "fake \<Rightarrow> fake" where
  "Reset c = c\<lparr>fk_deployedPackages := Map.empty\<rparr>"

definition fake_Deploy :: "fake \<Rightarrow> DeployOptions \<Rightarrow> DeployResult option \<times> goerr option" where
  "fake_Deploy c opts = fk_DeployFn c opts"

definition fake_Remove :: "fake \<Rightarrow> RemoveOptions \<Rightarrow> goerr option" where
  "fake_Remove c opts = fk_RemoveFn c opts"

definition fake_GetDeployedPackage :: "fake \<Rightarrow> GetDeployedPackageOptions \<Rightarrow> PackageInfo option \<times> goerr option" where
  "fake_GetDeployedPackage c opts = fk_GetDeployedPackageFn c (fk_deployedPackages c) opts"

definition fake_ListDeployedPackages :: "fake \<Rightarrow> PackageInfo list \<times> goerr option" where
  "fake_ListDeployedPackages c = fk_ListDeployedPackagesFn c (fk_deployedPackages c)"

definition fake_GetPackageMetadata :: "fake \<Rightarrow> string \<Rightarrow> PackageMetadata option \<times> goerr option" where
  "fake_GetPackageMetadata c source = fk_GetPackageMetadataFn c source"

definition fake_Close :: "fake \<Rightarrow> goerr option" where
  "fake_Close c = None"

subsection \<open>The record of packages\<close>

text \<open>
  What a test relies on, whatever functions it replaced besides: after any series of additions and
  resets the client finds under a name the package that was added last under it, if it was added after
  the last reset.
\<close>

locale package_record =
  fixes start :: 'c and add :: "PackageInfo \<Rightarrow> 'c \<Rightarrow> 'c" and reset :: "'c \<Rightarrow> 'c" and find :: "'c \<Rightarrow> string \<Rightarrow> PackageInfo option"
    and keeps :: "'c \<Rightarrow> bool"
  assumes keeps_start: "keeps start" and keeps_add: "keeps c \<Longrightarrow> keeps (add p c)" and keeps_reset: "keeps c \<Longrightarrow> keeps (reset c)"
    and find_start: "find start n = None"
    and find_add: "keeps c \<Longrightarrow> find (add p c) n = (if n = pi_Name p then Some p else find c n)"
    and find_reset: "keeps c \<Longrightarrow> find (reset c) n = None"
begin

text \<open>A series of operations: an addition, or a reset.\<close>

fun after :: "PackageInfo option list \<Rightarrow> 'c" where
  "after [] = start"
| "after (Some p # ops) = add p (after ops)"
| "after (None # ops) = reset (after ops)"

lemma keeps_after: "keeps (after ops)"
  by (induction ops rule: after.induct) (simp_all add: keeps_start keeps_add keeps_reset)

lemma find_after:
  "find (after ops) n = List.find (\<lambda>p. pi_Name p = n) (map the (takeWhile (\<lambda>x. x \<noteq> None) ops))"
  by (induction ops rule: after.induct) (auto simp: find_start find_add find_reset keeps_after)

end

interpretation fake_record: package_record "New order" AddDeployedPackage Reset
  "\<lambda>c n. fst (fake_GetDeployedPackage c \<lparr>gd_PackageName = n, gd_Kubeconfig = []\<rparr>)"
  "\<lambda>c. fk_GetDeployedPackageFn c = (\<lambda>store opts. (store (gd_PackageName opts), None))" for order
  by unfold_locales (auto simp: New_def AddDeployedPackage_def Reset_def fake_GetDeployedPackage_def)

lemma fake_lists_its_packages:
  assumes "set (order (fk_deployedPackages c)) = dom (fk_deployedPackages c)"
    and "fk_ListDeployedPackagesFn c = fk_ListDeployedPackagesFn (New order)"
  shows "set (fst (fake_ListDeployedPackages c)) = ran (fk_deployedPackages c)"
  using assms by (force simp: fake_ListDeployedPackages_def New_def List.map_filter_def ran_def dom_def)

end
