(* ===== verification/Spec2Isabelle.thy ===== *)
theory Spec2Isabelle
  imports Retry_Loop Status_Properties Operator_Main Sidecar_Main End_To_End Interceptors Fake_Client
begin

text \<open>
  This development verifies the Zarf operator: a Kubernetes controller that deploys Zarf packages, and
  the sidecar process that runs the Zarf library for it. File names are relative to \<^verbatim>\<open>src/\<close>.

  \<^bold>\<open>The program.\<close> Users create \<^verbatim>\<open>ZarfPackage\<close> objects (\<^verbatim>\<open>api/v1alpha1\<close>). An admission webhook defaults and
  validates them. The controller (\<^verbatim>\<open>internal/controller\<close>) is woken by changes of packages, of their
  dependencies and of the Secrets they use; a reconcile reads the object, handles deletion, suspension
  and dependencies, decides whether to deploy, resolves credentials, calls Zarf through a client
  interface (\<^verbatim>\<open>pkg/zarf\<close>) and records the outcome in the status. The client (\<^verbatim>\<open>pkg/zarf/grpc\<close>) talks to the
  sidecar (\<^verbatim>\<open>cmd/sidecar\<close>), which runs one operation at a time, points the process at the request's cluster
  and registry, loads, deploys and verifies the package, and returns the captured logs. The two \<^verbatim>\<open>main\<close>
  functions read their flags, build the servers and register everything in order; a monitor in
  \<^verbatim>\<open>cmd/main.go\<close> keeps the connection, and the sidecar stops gracefully on a signal.

  \<^bold>\<open>How it is modelled.\<close> Every operation is a function from a state to a result and a new state, with one
  branch per branch of the code. The controller's state (\<open>rstate\<close>) is the object in memory, the copy
  against which the status is patched, and the trace of all actions on the outside world, in order:
  events, metrics, reads, patches, calls to Zarf, to Helm and to registries. Whatever answers from outside is
  a field of the record \<open>env\<close> and may depend on the whole trace, so a theorem holds for every behaviour
  of the cluster, of Zarf and of Helm. The sidecar's state (\<open>sstate\<close>) is its process (environment variables,
  files, mutex), the history of its calls and the capture buffer; its services are the record \<open>sidecar\<close>.
  Third-party functions are fields of the record \<open>lib\<close>. Integers are unbounded with Go's wrap-around
  written out where it can occur (\<open>wrap32\<close>, \<open>wrap64\<close>), strings are byte lists, errors are the
  datatype \<open>goerr\<close>, durations are nanoseconds. Loops are recursions on the data they run over; all functions
  are total, none needs fuel. Concurrency is a step relation over all interleavings (\<open>op_step\<close>,
  \<open>kube_step\<close>, \<open>monitor_run\<close>, \<open>sm_step\<close>). Start-up threads the list of its library calls and, because two
  slices share an array there, an explicit store of arrays (\<open>startup\<close>).

  \<^bold>\<open>Theories.\<close>
  \<^item> \<open>Prelude\<close>, \<open>Go_Strings\<close>, \<open>Go_Duration\<close>, \<open>Go_Errors\<close>, \<open>Go_Json\<close>, \<open>Go_Regexp\<close>, \<open>Go_Net\<close>, \<open>Sha256\<close>,
    \<open>Go_Flag\<close>, \<open>Go_Library\<close>: what the code uses of
    Go and its standard library (string functions, command lines, slices with \<^verbatim>\<open>append\<close>, file paths, \<^verbatim>\<open>time.ParseDuration\<close>, errors and wrapping, JSON text,
    regular expressions by derivatives, host and address parsing, SHA-256), as executable functions.
  \<^item> \<open>Zarf_Interface\<close>: \<^verbatim>\<open>pkg/zarf/interface.go\<close>. \<open>Api_Types\<close>: \<^verbatim>\<open>zarfpackage_types.go\<close> with \<^verbatim>\<open>DeploymentHash\<close>.
    \<open>Environment\<close>: the parameters and the locales with their documented laws (\<open>condition_api\<close>,
    \<open>finalizer_api\<close>, \<open>semver_order\<close>); \<open>Reference_Env\<close> and \<open>Reference_Run\<close>: a concrete environment in which
    the closed instances of the properties are evaluated.
  \<^item> \<open>Status_Ops\<close>, \<open>Secrets\<close>, \<open>Oci_Upgrade\<close>, \<open>Decision\<close>, \<open>Deploy\<close>, \<open>Reconcile\<close>: the functions of
    \<^verbatim>\<open>zarfpackage_controller.go\<close>, \<^verbatim>\<open>kubeconfig.go\<close>, \<^verbatim>\<open>zarf_state.go\<close> and \<^verbatim>\<open>oci_upgrade.go\<close> in the order of the code, each
    group with frame lemmas (what it emits, what it leaves alone) and its effect on the view of the status.
    \<open>Watches\<close>: the indexes, predicates and mapping functions of \<^verbatim>\<open>SetupWithManager\<close>. \<open>Webhook\<close>: \<^verbatim>\<open>zarfpackage_webhook.go\<close>.
  \<^item> \<open>Sidecar_Types\<close>, \<open>Log_Capture\<close>, \<open>Op_Slot\<close>, \<open>Sidecar_Os\<close>, \<open>Image_Verification\<close>, \<open>Sidecar\<close>: the files of
    \<^verbatim>\<open>cmd/sidecar/server\<close>. \<open>Interceptors\<close>: \<^verbatim>\<open>cmd/sidecar/interceptors\<close>. \<open>Grpc_Client\<close>: \<^verbatim>\<open>pkg/zarf/grpc/client.go\<close>.
    \<open>Operator_Main\<close> and \<open>Connection_Monitor\<close>: \<^verbatim>\<open>main\<close> and the monitor of \<^verbatim>\<open>cmd/main.go\<close>, with the registrations of
    \<^verbatim>\<open>SetupWithManager\<close>. \<open>Sidecar_Main\<close>: \<^verbatim>\<open>cmd/sidecar/main.go\<close>. \<open>Fake_Client\<close>: \<^verbatim>\<open>pkg/zarf/fake/fake.go\<close>.
  \<^item> \<open>Safety\<close>, \<open>Liveness\<close>, \<open>Retry_Loop\<close>, \<open>Status_Properties\<close>, \<open>Upgrade_Properties\<close>, \<open>Deploy_Properties\<close>, \<open>Webhook_Properties\<close>,
    \<open>Sidecar_Properties\<close>, \<open>End_To_End\<close> and this theory: the proofs.

  \<^bold>\<open>What is shown.\<close>
  \<^item> Reconcile loop (here): every status ever written is consistent; a deployment is only attempted for a
    live, unsuspended package after all dependencies were read as Deployed; the finalizer goes only
    after the package is gone; a due package is deployed; suspended and terminal packages are left alone;
    a deployment that keeps failing is retried up to the limit, with at most two calls to Zarf per failure,
    and then never again.
  \<^item> Deploy handler: how each kind of error is counted and when it is retried, at most two calls to Zarf
    per attempt, a success is not repeated; when to deploy at all; sources never go back to an older version,
    the newest eligible tag is selected, stale upgrades are pruned; backoff bounds; log summaries, variables
    and failure evidence.
  \<^item> Webhook: exactly the valid packages pass, defaulting is safe, polling is bounded. Watches: a
    dependency's change wakes its dependents, a Secret's change exactly its users.
  \<^item> Sidecar: one operation at a time in every interleaving and a slot that is never lost; the process is
    restored on every path; Zarf deploys where and how the request asked; parallel requests never see each
    other's cluster; success means deployed and verified; exactly the expected image references are
    checked; the capture buffer refines a bounded log; interceptors are transparent.
  \<^item> Start-up and shutdown: any command line is rejected or gives well-typed settings; the operator follows its
    plan and stops at the first failure; each server gets its own certificate, for the webhook server exactly as
    long as \<^verbatim>\<open>append\<close> does not leave room behind a one-element slice; the sidecar's shutdown terminates with
    status 0 in every interleaving and cuts no request off.
  \<^item> Both together: options and records survive the protocol, Helm's lock, NotFound and the busy answer
    keep their meaning from the sidecar to the controller's retry policy.
  Interfaces are locales with the client's lemmas inside, interpreted on the model's definitions or,
    for the parameters, on the reference environment.

  \<^bold>\<open>Bounds and simplifications.\<close> Time is what the parameters \<open>env_now\<close> and \<open>clock\<close> return; context
  deadlines appear as the durations passed on, and their expiry as an error a call may return.
  The backoff's float64 arithmetic is exact on powers of two and is modelled by integers. Each reconcile runs
  without interference in memory; what other writers do to the cluster is in the environment's answers.
  Messages in logs are left out, except those that the capture buffer and the interceptors record.

  \<^bold>\<open>Not modelled.\<close> The work queue and its rate limiter (\<^verbatim>\<open>buildRateLimiter\<close>), Prometheus registration,
  generated code (\<^verbatim>\<open>zz_generated.deepcopy.go\<close>, \<^verbatim>\<open>zarf.pb.go\<close> apart from its message structs,
  \<^verbatim>\<open>zarf_grpc.pb.go\<close>, \<^verbatim>\<open>groupversion_info.go\<close>), \<^verbatim>\<open>logConfiguredRegistryHosts\<close>, which only logs, and the test utilities.
  They call libraries or are mechanical, and hold no decision of their own. Zarf, Helm, Kubernetes, gRPC
  and registries are parameters; of the gRPC server the shutdown uses that a graceful stop accepts no new
  request and returns when the pending ones are finished.
\<close>

section \<open>The reconcile loop\<close>

subsection \<open>The operator over time\<close>

text \<open>
  A run of the operator: any number of reconciles of any objects, with any configuration (the Zarf
  client may come and go). The trace is the whole history.
\<close>

inductive reachable :: "env \<Rightarrow> trace \<Rightarrow> bool" for E where
  start: "reachable E []"
| reconcile: "reachable E tr \<Longrightarrow> Reconcile E r ns name tr = (out, tr') \<Longrightarrow> reachable E tr'"

lemma reachable_written_ok:
  assumes "status_server E" and "reachable E tr"
  shows "written_ok E tr"
  using assms(2)
proof induction
  case start
  show ?case by (simp add: written_ok_def written_def)
next
  case (reconcile tr r ns name out tr')
  then show ?case using status_server.Reconcile_written_ok [OF assms(1)] by blast
qed

text \<open>
  Property C1. Every status that the operator ever sends to the API server is consistent: a package
  in phase Deployed is Ready, a Ready package is Deployed (or its removal has just begun), and a
  Stalled one is Failed (or being removed).
\<close>

theorem every_written_status_consistent:
  assumes "status_server E" and "reachable E tr" and "APatchStatus base obj \<in> set tr"
  shows "consistent (view (libs E) (zp_Status obj))"
  using reachable_written_ok [OF assms(1,2)] assms(3) by (auto simp: written_ok_def written_def)

lemma wit_offline_run:
  "map kind (snd (Reconcile (ref_env ref_pkg) wit_offline ''ns'' ''app'' [])) =
     [KGetPackage, KMetric, KPatchStatus, KMetric, KMetric, KMetric, KMetric, KMetric]"
  by code_simp

theorem every_written_status_consistent_witness:
  "\<exists>tr base obj. reachable (ref_env ref_pkg) tr \<and> APatchStatus base obj \<in> set tr \<and>
     consistent (view ref_lib (zp_Status obj))"
proof -
  let ?tr = "snd (Reconcile (ref_env ref_pkg) wit_offline ''ns'' ''app'' [])"
  have r: "reachable (ref_env ref_pkg) ?tr"
    by (rule reachable.reconcile [OF reachable.start]) (rule surjective_pairing)
  have "KPatchStatus \<in> kind ` set ?tr"
    using arg_cong [OF wit_offline_run, of set] by (simp only: set_map) simp
  then obtain a where a: "a \<in> set ?tr" "kind a = KPatchStatus" by force
  from a(2) obtain base obj where "a = APatchStatus base obj" by (cases a) simp_all
  with a r every_written_status_consistent [OF ref_server.status_server_axioms r] show ?thesis
    by fastforce
qed

text \<open>A package with a dependency, in an environment where the dependency is Deployed.\<close>

definition wit_pkg :: ZarfPackage where
  "wit_pkg = ref_pkg\<lparr>zp_Spec := ref_spec\<lparr>sp_DependsOn := [\<lparr>dep_Name = ''base'', dep_Namespace = []\<rparr>]\<rparr>\<rparr>"

definition wit_env :: env where
  "wit_env = (ref_env wit_pkg)\<lparr>env_GetPackage := (\<lambda>tr ns name.
     if name = ''base'' then Inr (ref_pkg\<lparr>zp_Status := zero_status\<lparr>st_Phase := PhaseDeployed\<rparr>\<rparr>)
     else env_GetPackage (ref_env wit_pkg) tr ns name)\<rparr>"

lemma wit_facts:
  "env_GetPackage wit_env [] ''ns'' ''app'' = Inr wit_pkg"
  "active wit_env wit_reconciler wit_pkg" "strings_TrimSpace (st_PackageName (zp_Status wit_pkg)) = []"
  "st_Phase (zp_Status wit_pkg) \<noteq> PhaseFailed" "patch_keeps_spec wit_env" "no_secrets (zp_Spec wit_pkg)"
  by (simp_all add: wit_env_def wit_pkg_def wit_reconciler_def ref_defs zero_status_def active_def
      ref_ContainsFinalizer_def ZarfPackageFinalizer_def patch_keeps_spec_def no_secrets_def)

lemma wit_dependencies_up: "dependencies_up wit_env wit_pkg"
proof -
  have "strings_TrimSpace ''base'' \<noteq> []" by code_simp
  then show ?thesis
    by (simp add: dependencies_up_def wit_env_def wit_pkg_def ref_defs zero_status_def dep_namespace_def)
qed

text \<open>
  Property C2. A reconcile calls the Zarf client's Deploy only for a package that is not being deleted,
  not suspended and owned by the controller's finalizer, with a client connected, and only after every
  dependency was read, by this operator and before the call, in phase Deployed.
\<close>

theorem deploy_only_after_dependencies:
  assumes "Reconcile E r ns name tr = (out, tr1 @ ADeploy opts t # tr2)" and "length tr \<le> length tr1"
  shows "\<exists>p. env_GetPackage E tr ns name = Inr p \<and> active E r p \<and> deps_deployed E p tr1"
proof -
  have "\<exists>p. env_GetPackage E tr ns name = Inr p \<and>
      (kind (ADeploy opts t) = KDeploy \<longrightarrow> active E r p \<and> deps_deployed E p tr1)"
    using assms by (rule Reconcile_position) (auto dest!: reconcileBody_guarded simp: fetched_def)
  then show ?thesis by simp
qed

theorem deploy_only_after_dependencies_witness:
  "\<exists>out tr1 opts t tr2. Reconcile wit_env wit_reconciler ''ns'' ''app'' [] = (out, tr1 @ ADeploy opts t # tr2) \<and>
     (\<exists>p. env_GetPackage wit_env [] ''ns'' ''app'' = Inr p \<and> active wit_env wit_reconciler p \<and>
        deps_deployed wit_env p tr1)"
proof -
  obtain out tr' where R: "Reconcile wit_env wit_reconciler ''ns'' ''app'' [] = (out, tr')" by fastforce
  obtain source where "deploys source [] tr'"
    using Reconcile_new [OF R wit_facts wit_dependencies_up] by blast
  then obtain tr1 opts t tr2 where "tr' = tr1 @ ADeploy opts t # tr2" by (auto simp: deploys_def)
  with R deploy_only_after_dependencies [of wit_env wit_reconciler "''ns''" "''app''" "[]" out tr1 opts t tr2]
  show ?thesis by auto
qed



text \<open>
  Property C3. The finalizer leaves an object only in a reconcile of an object under deletion, and only
  when nothing was ever deployed, or no client is connected, or a Remove of that package returned
  success or NotFound before, in the operator's history.
\<close>

theorem finalizer_removed_only_after_package:
  assumes "finalizer_api (controllerutil_ContainsFinalizer (libs E)) (controllerutil_AddFinalizer (libs E))
      (controllerutil_RemoveFinalizer (libs E))"
    and "Reconcile E r ns name tr = (out, tr1 @ APatch base obj # tr2)" and "length tr \<le> length tr1"
    and "ZarfPackageFinalizer \<in> set (zp_Finalizers base)" and "ZarfPackageFinalizer \<notin> set (zp_Finalizers obj)"
  shows "\<exists>p. env_GetPackage E tr ns name = Inr p \<and> zp_DeletionTimestamp p \<noteq> None \<and> removal_done E r base tr1"
proof -
  have "\<exists>p. env_GetPackage E tr ns name = Inr p \<and>
      (\<forall>b. drops_finalizer (APatch base obj) b \<longrightarrow> zp_DeletionTimestamp p \<noteq> None \<and> removal_done E r b tr1)"
    using assms(2,3) by (rule Reconcile_position)
      (auto dest!: reconcileBody_finalizer [OF assms(1)] simp: fetched_def)
  with assms(4,5) show ?thesis by (auto simp: drops_finalizer_def)
qed

definition wit_deleted :: ZarfPackage where
  "wit_deleted = ref_pkg\<lparr>zp_DeletionTimestamp := Some 5\<rparr>"

fun drops :: "action \<Rightarrow> bool" where
  "drops (APatch base obj) \<longleftrightarrow>
     ZarfPackageFinalizer \<in> set (zp_Finalizers base) \<and> ZarfPackageFinalizer \<notin> set (zp_Finalizers obj)"
| "drops _ \<longleftrightarrow> False"

lemma wit_deleted_run: "list_ex drops (snd (Reconcile (ref_env wit_deleted) wit_reconciler ''ns'' ''app'' []))"
  by code_simp

theorem finalizer_removed_only_after_package_witness:
  "\<exists>out tr1 base obj tr2.
     Reconcile (ref_env wit_deleted) wit_reconciler ''ns'' ''app'' [] = (out, tr1 @ APatch base obj # tr2) \<and>
     ZarfPackageFinalizer \<in> set (zp_Finalizers base) \<and> ZarfPackageFinalizer \<notin> set (zp_Finalizers obj) \<and>
     removal_done (ref_env wit_deleted) wit_reconciler base tr1"
proof -
  let ?E = "ref_env wit_deleted"
  obtain out tr' where R: "Reconcile ?E wit_reconciler ''ns'' ''app'' [] = (out, tr')" by fastforce
  with wit_deleted_run obtain a where "a \<in> set tr'" "drops a" by (auto simp: list_ex_iff)
  moreover from this(2) obtain base obj where a: "a = APatch base obj"
      "ZarfPackageFinalizer \<in> set (zp_Finalizers base)" "ZarfPackageFinalizer \<notin> set (zp_Finalizers obj)"
    by (cases a rule: drops.cases) auto
  ultimately obtain tr1 tr2 where t: "tr' = tr1 @ APatch base obj # tr2" by (meson split_list)
  have "finalizer_api (controllerutil_ContainsFinalizer (libs ?E)) (controllerutil_AddFinalizer (libs ?E))
      (controllerutil_RemoveFinalizer (libs ?E))" by (simp add: ref_fin.finalizer_api_axioms)
  from finalizer_removed_only_after_package [OF this R [unfolded t] _ a(2,3)] a R t show ?thesis by auto
qed

text \<open>
  Property C12. A suspended package that is not being deleted is left alone: its reconcile calls neither
  the Zarf client nor Helm nor the registry and reads no Secret; it only patches the object's metadata
  or status and records events and metrics.
\<close>

theorem suspended_is_inert:
  assumes "Reconcile E r ns name tr = (out, tr')" and "env_GetPackage E tr ns name = Inr p"
    and "sp_Suspend (zp_Spec p)" and "zp_DeletionTimestamp p = None"
  shows "new_kinds tr tr' \<subseteq> {KGetPackage, KPatchStatus, KMetric, KPatch, KEvent}"
  using Reconcile_new_kinds [OF assms(1,2), of "{KPatch, KEvent, KMetric}"] suspended_body_emits assms(3,4)
  by (auto simp: fetched_def)

theorem suspended_is_inert_witness:
  "new_kinds [] (snd (Reconcile (ref_env (ref_pkg\<lparr>zp_Spec := ref_spec\<lparr>sp_Suspend := True\<rparr>\<rparr>)) wit_reconciler ''ns'' ''app'' []))
     \<subseteq> {KGetPackage, KPatchStatus, KMetric, KPatch, KEvent}"
  by (rule suspended_is_inert [OF surjective_pairing, where p = "ref_pkg\<lparr>zp_Spec := ref_spec\<lparr>sp_Suspend := True\<rparr>\<rparr>"])
    (simp_all add: ref_defs zero_status_def)

text \<open>
  A package that exceeded its retries and carries no redeploy annotation is terminal: its
  reconcile calls nothing but the API server, leaves the phase and the Ready condition in place, and
  asks to be looked at again after the requeue interval.
\<close>

theorem terminal_is_inert:
  assumes "cond_env E" and "active E r p" and "isMaxRetriesTerminal (libs E) p"
    and "zp_Annotations p AnnotationRedeploy = None"
  shows "\<exists>st'. reconcileBody E r (fetched p tr) = ((Result_after (r_RequeueInterval r), None), st') \<and>
    emits {KMetric} (fetched p tr) st' \<and> isMaxRetriesTerminal (libs E) (rs_pkg st')"
proof -
  let ?st = "fetched p tr"
  have p: "rs_pkg ?st = p" by (simp add: fetched_def)
  have "reconcileBody E r ?st = ((Result_after (r_RequeueInterval r), None), activated E ?st)"
    using cond_env.terminal_body [OF assms(1), of r ?st] assms(2-4) p by simp
  moreover have "emits {KMetric} ?st (activated E ?st)" by (rule emits_of_runs [OF activated_run])
  ultimately show ?thesis using cond_env.terminal_activated [OF assms(1), of ?st] assms(3) p by simp
qed

definition wit_terminal :: ZarfPackage where
  "wit_terminal = ref_pkg\<lparr>zp_Status := zero_status\<lparr>st_Phase := PhaseFailed, st_Conditions :=
     [\<lparr>cond_Type = ConditionTypeReady, cond_Status = ConditionFalse, cond_Reason = ReasonMaxRetriesExceeded,
       cond_Message = [], cond_ObservedGeneration = 1\<rparr>]\<rparr>\<rparr>"

theorem terminal_is_inert_witness:
  "\<exists>st'. reconcileBody (ref_env ref_pkg) wit_reconciler (fetched wit_terminal []) =
       ((Result_after (r_RequeueInterval wit_reconciler), None), st') \<and>
     emits {KMetric} (fetched wit_terminal []) st' \<and> isMaxRetriesTerminal (libs (ref_env ref_pkg)) (rs_pkg st')"
  by (rule terminal_is_inert [OF ref_conditions.cond_env_axioms])
    (simp_all add: active_def isMaxRetriesTerminal_def wit_terminal_def wit_reconciler_def ref_defs zero_status_def
      ref_ContainsFinalizer_def ref_FindStatusCondition_def ZarfPackageFinalizer_def)

end
